(* ===== verification/Prelude.thy ===== *)
theory Prelude
  imports Main "HOL-Library.State_Monad" "HOL-Library.Monad_Syntax" "HOL-Library.AList"
begin

text \<open>
  The shared vocabulary of the development.

  \<^item> Go's \<^verbatim>\<open>error\<close> values (\<open>err\<close>): \<^verbatim>\<open>errors.New\<close> in a package variable is
    \<open>Sentinel\<close>, \<^verbatim>\<open>errors.New\<close> or \<^verbatim>\<open>fmt.Errorf\<close> without \<^verbatim>\<open>%w\<close> is \<open>Plain\<close>,
    \<^verbatim>\<open>fmt.Errorf("...: %w", err)\<close> is \<open>Wrap\<close>, what the PostgreSQL driver reports is
    \<open>Driver\<close>, and \<open>Panic\<close> is a run-time panic that unwinds the caller.
  \<^item> A database connection (\<open>conn\<close>): the tables, the clock of the database server
    (\<^verbatim>\<open>CURRENT_TIMESTAMP\<close>), the clock of the process (\<^verbatim>\<open>time.Now()\<close>), and a schedule of
    faults: every statement first consumes one entry of the schedule, and a \<open>True\<close> entry makes
    it fail with a driver error before it touches a table.  A theorem about a connection therefore
    speaks about every way in which statements can fail.
  \<^item> SQL statements over tables that are lists of rows (\<open>update_where\<close>, \<open>delete_where\<close>,
    \<open>first_by\<close>), and transactions (\<open>transaction\<close>) that put the tables back unless they commit.
  \<^item> A contract logic for stateful code (locale \<open>io_contract\<close>): a reflexive and transitive
    relation between the state before and after, carried through the constructs of the state monad.
  \<^item> The functions of Go's \<^verbatim>\<open>strings\<close> package that the sources call, on byte strings.  The case
    mapping and the white space are those of ASCII.

  Times are integers counting microseconds, the resolution of PostgreSQL's \<^verbatim>\<open>timestamptz\<close>.
\<close>

section \<open>Go errors\<close>

datatype driver_error = ConnFailure | UniqueViolation string | ForeignKeyViolation string
  | CheckViolation string | OutOfRange | InvalidRowCount | NoRows

datatype err = Sentinel string | Plain string | Wrap string err | Driver driver_error | Panic string

text \<open>\<^verbatim>\<open>errors.Is\<close> follows the chain of wrapped errors.\<close>

fun errors_is :: "err \<Rightarrow> err \<Rightarrow> bool" where
  "errors_is (Wrap m e) t = (Wrap m e = t \<or> errors_is e t)"
| "errors_is e t = (e = t)"

section \<open>Connections, statements and transactions\<close>

record 'd conn =
  tables :: 'd
  db_clock :: int
  app_clock :: int
  faults :: "bool list"

abbreviation return :: "'a \<Rightarrow> ('s, 'a) state" where
  "return \<equiv> State_Monad.return"

definition seconds :: "int \<Rightarrow> int" where
  "seconds n = n * 1000000"

definition next_fault :: "('d conn, bool) state" where
  "next_fault = State (\<lambda>c. case faults c of [] \<Rightarrow> (False, c) | b # bs \<Rightarrow> (b, c\<lparr>faults := bs\<rparr>))"

text \<open>
  \<open>stmt f\<close> runs one SQL statement: \<open>f\<close> gets the server's clock and the tables and returns the
  result (or the constraint it violated) and the tables.  A statement that reports an error has
  changed nothing.
\<close>

definition stmt :: "(int \<Rightarrow> 'd \<Rightarrow> (driver_error + 'a) \<times> 'd) \<Rightarrow> ('d conn, err + 'a) state" where
  "stmt f = do {
     bad \<leftarrow> next_fault;
     if bad then return (Inl (Driver ConnFailure))
     else State (\<lambda>c. case f (db_clock c) (tables c) of
            (Inl e, _) \<Rightarrow> (Inl (Driver e), c)
          | (Inr x, d) \<Rightarrow> (Inr x, c\<lparr>tables := d\<rparr>))
   }"

definition query :: "(int \<Rightarrow> 'd \<Rightarrow> 'a) \<Rightarrow> ('d conn, err + 'a) state" where
  "query f = stmt (\<lambda>t d. (Inr (f t d), d))"

definition exec :: "(int \<Rightarrow> 'd \<Rightarrow> 'd) \<Rightarrow> ('d conn, err + unit) state" where
  "exec f = stmt (\<lambda>t d. (Inr (), f t d))"

definition now :: "('d conn, int) state" where
  "now = State (\<lambda>c. (app_clock c, c))"

text \<open>The body of a transaction ends by asking for a commit or by returning early, which rolls back.\<close>

datatype ('e, 'a) outcome = Commit 'a | Abort 'e

definition transaction ::
  "string \<Rightarrow> ('a \<Rightarrow> string) \<Rightarrow> ('d conn, (err, 'a) outcome) state \<Rightarrow> ('d conn, err + 'a) state" where
  "transaction begin_msg commit_msg body = do {
     b \<leftarrow> exec (\<lambda>_ d. d);
     case b of
       Inl e \<Rightarrow> return (Inl (Wrap begin_msg e))
     | Inr _ \<Rightarrow> do {
         before \<leftarrow> State (\<lambda>c. (tables c, c));
         r \<leftarrow> body;
         case r of
           Abort e \<Rightarrow> State (\<lambda>c. (Inl e, c\<lparr>tables := before\<rparr>))
         | Commit x \<Rightarrow> do {
             k \<leftarrow> exec (\<lambda>_ d. d);
             case k of
               Inl e \<Rightarrow> State (\<lambda>c. (Inl (Wrap (commit_msg x) e), c\<lparr>tables := before\<rparr>))
             | Inr _ \<Rightarrow> return (Inr x)
           }
       }
   }"

section \<open>Tables as lists of rows\<close>

definition update_where :: "('r \<Rightarrow> bool) \<Rightarrow> ('r \<Rightarrow> 'r) \<Rightarrow> 'r list \<Rightarrow> 'r list" where
  "update_where p f rows = map (\<lambda>r. if p r then f r else r) rows"

definition delete_where :: "('r \<Rightarrow> bool) \<Rightarrow> 'r list \<Rightarrow> 'r list" where
  "delete_where p rows = filter (\<lambda>r. \<not> p r) rows"

definition affected :: "('r \<Rightarrow> bool) \<Rightarrow> 'r list \<Rightarrow> nat" where
  "affected p rows = length (filter p rows)"

definition find_where :: "('r \<Rightarrow> bool) \<Rightarrow> 'r list \<Rightarrow> 'r option" where
  "find_where p rows = find p rows"

text \<open>
  \<^verbatim>\<open>ORDER BY k ASC LIMIT 1\<close>: a row with the least key.  SQL leaves the choice among rows with
  equal keys open; the model takes the earliest inserted one.
\<close>

fun first_by :: "('r \<Rightarrow> 'k::linorder) \<Rightarrow> 'r list \<Rightarrow> 'r option" where
  "first_by k [] = None"
| "first_by k (r # rs) =
     (case first_by k rs of None \<Rightarrow> Some r | Some s \<Rightarrow> if k s < k r then Some s else Some r)"

section \<open>Strings\<close>

definition is_space :: "char \<Rightarrow> bool" where
  "is_space c \<longleftrightarrow> c \<in> set [CHR 0x09, CHR 0x0A, CHR 0x0B, CHR 0x0C, CHR 0x0D, CHR 0x20]"

definition trim_left :: "(char \<Rightarrow> bool) \<Rightarrow> string \<Rightarrow> string" where
  "trim_left p s = dropWhile p s"

definition trim_right :: "(char \<Rightarrow> bool) \<Rightarrow> string \<Rightarrow> string" where
  "trim_right p s = rev (dropWhile p (rev s))"

definition TrimSpace :: "string \<Rightarrow> string" where
  "TrimSpace s = trim_right is_space (trim_left is_space s)"

definition byte_of :: "char \<Rightarrow> int" where
  "byte_of c = of_char c"

definition in_range :: "char \<Rightarrow> char \<Rightarrow> char \<Rightarrow> bool" where
  "in_range lo hi c \<longleftrightarrow> byte_of lo \<le> byte_of c \<and> byte_of c \<le> byte_of hi"

definition lower_char :: "char \<Rightarrow> char" where
  "lower_char c = (if in_range CHR ''A'' CHR ''Z'' c then char_of (byte_of c + 32) else c)"

definition ToLower :: "string \<Rightarrow> string" where
  "ToLower s = map lower_char s"

fun HasPrefix :: "string \<Rightarrow> string \<Rightarrow> bool" where
  "HasPrefix s [] = True"
| "HasPrefix [] (p # ps) = False"
| "HasPrefix (c # cs) (p # ps) = (c = p \<and> HasPrefix cs ps)"

definition HasSuffix :: "string \<Rightarrow> string \<Rightarrow> bool" where
  "HasSuffix s t = HasPrefix (rev s) (rev t)"

fun Contains :: "string \<Rightarrow> string \<Rightarrow> bool" where
  "Contains [] t = (t = [])"
| "Contains (c # cs) t = (HasPrefix (c # cs) t \<or> Contains cs t)"

text \<open>\<^verbatim>\<open>fmt.Sprintf("%d", n)\<close>.\<close>

function show_digits :: "int \<Rightarrow> string" where
  "show_digits n =
     (if n < 10 then [char_of (48 + n)] else show_digits (n div 10) @ [char_of (48 + n mod 10)])"
  by pat_completeness auto
termination
  by (relation "measure nat") auto

declare show_digits.simps [simp del]

definition show_int :: "int \<Rightarrow> string" where
  "show_int n = (if n < 0 then CHR ''-'' # show_digits (- n) else show_digits n)"

text \<open>\<^verbatim>\<open>fmt.Sprintf("%q", s)\<close> for text without characters that need an escape.\<close>

definition quoted :: "string \<Rightarrow> string" where
  "quoted s = [CHR 0x22] @ s @ [CHR 0x22]"

text \<open>\<^verbatim>\<open>filepath.Clean\<close> and \<^verbatim>\<open>filepath.IsAbs\<close> on Unix.\<close>

fun split_on :: "char \<Rightarrow> string \<Rightarrow> string list" where
  "split_on d [] = [[]]"
| "split_on d (c # cs) = (if c = d then [] # split_on d cs
     else case split_on d cs of [] \<Rightarrow> [[c]] | w # ws \<Rightarrow> (c # w) # ws)"

fun join_with :: "string \<Rightarrow> string list \<Rightarrow> string" where
  "join_with d [] = []"
| "join_with d [w] = w"
| "join_with d (w # ws) = w @ d @ join_with d ws"

fun clean_elems :: "bool \<Rightarrow> string list \<Rightarrow> string list \<Rightarrow> string list" where
  "clean_elems rooted out [] = rev out"
| "clean_elems rooted out (w # ws) =
     (if w = '''' \<or> w = ''.'' then clean_elems rooted out ws
      else if w = ''..'' then
        (case out of
           [] \<Rightarrow> clean_elems rooted (if rooted then [] else [w]) ws
         | u # rest \<Rightarrow> clean_elems rooted (if u = ''..'' then w # out else rest) ws)
      else clean_elems rooted (w # out) ws)"

definition IsAbs :: "string \<Rightarrow> bool" where
  "IsAbs p = HasPrefix p ''/''"

definition Clean :: "string \<Rightarrow> string" where
  "Clean p = (let rooted = IsAbs p;
     body = join_with ''/'' (clean_elems rooted [] (split_on CHR ''/'' p));
     out = (if rooted then CHR ''/'' # body else body)
   in if out = '''' then ''.'' else out)"

definition drop_last :: "nat \<Rightarrow> string \<Rightarrow> string" where
  "drop_last n s = take (length s - n) s"

section \<open>Maps and loops\<close>

text \<open>
  A Go map is the list of its entries, each key at most once.  \<open>get\<close> is \<^verbatim>\<open>m[k]\<close> with the zero
  value of the element type, \<open>put\<close> is \<^verbatim>\<open>m[k] = v\<close>.
\<close>

definition get :: "'v \<Rightarrow> ('k \<times> 'v) list \<Rightarrow> 'k \<Rightarrow> 'v" where
  "get zero m k = (case map_of m k of None \<Rightarrow> zero | Some v \<Rightarrow> v)"

definition has :: "('k \<times> 'v) list \<Rightarrow> 'k \<Rightarrow> bool" where
  "has m k \<longleftrightarrow> k \<in> set (map fst m)"

definition put :: "'k \<Rightarrow> 'v \<Rightarrow> ('k \<times> 'v) list \<Rightarrow> ('k \<times> 'v) list" where
  "put k v m = AList.update k v m"

text \<open>A \<^verbatim>\<open>for range\<close> loop whose body may return an error from the surrounding function.\<close>

fun for_each :: "('a \<Rightarrow> 's \<Rightarrow> 'e + 's) \<Rightarrow> 'a list \<Rightarrow> 's \<Rightarrow> 'e + 's" where
  "for_each f [] s = Inr s"
| "for_each f (x # xs) s = (case f x s of Inl e \<Rightarrow> Inl e | Inr t \<Rightarrow> for_each f xs t)"

text \<open>\<^verbatim>\<open>if err := f(); err != nil { return err }\<close> followed by the rest of the function.\<close>

definition and_then :: "'e + 'a \<Rightarrow> ('a \<Rightarrow> 'e + 'b) \<Rightarrow> 'e + 'b" where
  "and_then r f = (case r of Inl e \<Rightarrow> Inl e | Inr x \<Rightarrow> f x)"

definition reject_if :: "bool \<Rightarrow> 'e \<Rightarrow> 'e + unit" where
  "reject_if b e = (if b then Inl e else Inr ())"

lemma and_then_Inr [simp]: "and_then r f = Inr y \<longleftrightarrow> (\<exists>x. r = Inr x \<and> f x = Inr y)"
  by (cases r) (auto simp: and_then_def)

lemma reject_if_Inr [simp]: "reject_if b e = Inr x \<longleftrightarrow> \<not> b"
  by (simp add: reject_if_def)

lemma for_each_unit: "for_each f xs () = Inr () \<longleftrightarrow> (\<forall>x \<in> set xs. f x () = Inr ())"
  by (induction xs) (auto split: sum.splits)

lemma put_keys: "distinct (map fst m) \<Longrightarrow> distinct (map fst (put k v m))"
  unfolding put_def by (rule distinct_update)

lemma set_put: "distinct (map fst m) \<Longrightarrow> set (put k v m) = insert (k, v) {p \<in> set m. fst p \<noteq> k}"
  unfolding put_def by (induction m) (auto simp: image_iff)

lemma map_of_put [simp]: "map_of (put k v m) = (map_of m)(k \<mapsto> v)"
  by (simp add: put_def update_conv')

lemma get_put [simp]: "get z (put k v m) j = (if j = k then v else get z m j)"
  by (simp add: get_def put_def update_conv')

lemma has_put [simp]: "has (put k v m) j \<longleftrightarrow> j = k \<or> has m j"
  by (auto simp: has_def put_def dom_update)

lemma get_mem: "distinct (map fst m) \<Longrightarrow> (k, v) \<in> set m \<Longrightarrow> get z m k = v"
  by (simp add: get_def)

lemma has_mem: "has m k \<longleftrightarrow> (\<exists>v. (k, v) \<in> set m)"
  by (force simp: has_def)

section \<open>64-bit integers\<close>

text \<open>Go's \<^verbatim>\<open>int64\<close> wraps around; a PostgreSQL \<^verbatim>\<open>bigint\<close> that leaves its range is an error.\<close>

definition int64_ok :: "int \<Rightarrow> bool" where
  "int64_ok x \<longleftrightarrow> - 9223372036854775808 \<le> x \<and> x \<le> 9223372036854775807"

definition wrap64 :: "int \<Rightarrow> int" where
  "wrap64 x = (x + 9223372036854775808) mod 18446744073709551616 - 9223372036854775808"

lemma wrap64_id [simp]: "int64_ok x \<Longrightarrow> wrap64 x = x"
  by (simp add: int64_ok_def wrap64_def)

lemma wrap64_ok [simp]: "int64_ok (wrap64 x)"
  unfolding int64_ok_def wrap64_def
  using pos_mod_bound [of 18446744073709551616 "x + 9223372036854775808"]
    pos_mod_sign [of 18446744073709551616 "x + 9223372036854775808"] by linarith

section \<open>Contracts of stateful code\<close>

named_theorems contract

text \<open>
  \<open>state_io_rel R m\<close> of the library says that every run of \<open>m\<close> relates the state before to the
  state after by \<open>R\<close>.  For a reflexive and transitive \<open>R\<close> the relation passes through the
  constructs of the monad, which is what the invariants and frame properties of the components
  are proved with.
\<close>

locale io_contract =
  fixes R :: "'s \<Rightarrow> 's \<Rightarrow> bool"
  assumes R_refl: "R s s"
    and R_trans: "R s t \<Longrightarrow> R t u \<Longrightarrow> R s u"
begin

lemma io_return: "state_io_rel R (return x)"
  by (rule state_io_relI) (auto intro: R_refl)

lemma io_bind:
  assumes "state_io_rel R m" and "\<And>x. state_io_rel R (f x)"
  shows "state_io_rel R (m \<bind> f)"
proof (rule state_io_relI)
  fix a s u
  assume "run_state (m \<bind> f) s = (a, u)"
  then obtain x t where "run_state m s = (x, t)" and "run_state (f x) t = (a, u)"
    by (auto split: prod.splits)
  with assms show "R s u"
    by (blast intro: R_trans dest: state_io_relD)
qed

lemma io_read: "state_io_rel R (State (\<lambda>s. (g s, s)))"
  by (rule state_io_relI) (auto intro: R_refl)

lemma io_if: "state_io_rel R m \<Longrightarrow> state_io_rel R n \<Longrightarrow> state_io_rel R (if b then m else n)"
  by simp

lemma io_sum:
  "(\<And>e. state_io_rel R (f e)) \<Longrightarrow> (\<And>x. state_io_rel R (g x)) \<Longrightarrow>
   state_io_rel R (case v of Inl e \<Rightarrow> f e | Inr x \<Rightarrow> g x)"
  by (cases v) auto

lemma io_option:
  "state_io_rel R f \<Longrightarrow> (\<And>x. state_io_rel R (g x)) \<Longrightarrow>
   state_io_rel R (case v of None \<Rightarrow> f | Some x \<Rightarrow> g x)"
  by (cases v) auto

lemma io_prod:
  "(\<And>x y. state_io_rel R (f x y)) \<Longrightarrow> state_io_rel R (case v of (x, y) \<Rightarrow> f x y)"
  by (cases v) auto

lemma io_let: "(\<And>x. state_io_rel R (f x)) \<Longrightarrow> state_io_rel R (let x = v in f x)"
  by simp

lemmas io_rules = io_return io_bind io_read io_if io_sum io_option io_prod io_let

end

text \<open>
  The contract of a connection: \<open>Q t d d'\<close> relates the tables before and after one step at server
  time \<open>t\<close>, and the clocks do not move during an operation.
\<close>

definition conn_rel :: "(int \<Rightarrow> 'd \<Rightarrow> 'd \<Rightarrow> bool) \<Rightarrow> 'd conn \<Rightarrow> 'd conn \<Rightarrow> bool" where
  "conn_rel Q c c' \<longleftrightarrow> Q (db_clock c) (tables c) (tables c')
     \<and> db_clock c' = db_clock c \<and> app_clock c' = app_clock c"

locale table_contract =
  fixes Q :: "int \<Rightarrow> 'd \<Rightarrow> 'd \<Rightarrow> bool"
  assumes Q_refl: "Q t d d"
    and Q_trans: "Q t d e \<Longrightarrow> Q t e f \<Longrightarrow> Q t d f"

sublocale table_contract \<subseteq> io_contract "conn_rel Q"
  by unfold_locales (auto simp: conn_rel_def intro: Q_refl Q_trans)

context table_contract
begin

lemma io_fault: "state_io_rel (conn_rel Q) next_fault"
  by (rule state_io_relI)
    (auto simp: next_fault_def conn_rel_def intro: Q_refl split: list.splits)

lemma io_stmt:
  assumes "\<And>t d x d'. f t d = (Inr x, d') \<Longrightarrow> Q t d d'"
  shows "state_io_rel (conn_rel Q) (stmt f)"
proof -
  have "state_io_rel (conn_rel Q) (State (\<lambda>c. case f (db_clock c) (tables c) of
            (Inl e, _) \<Rightarrow> (Inl (Driver e), c)
          | (Inr x, d) \<Rightarrow> (Inr x, c\<lparr>tables := d\<rparr>)))"
    by (rule state_io_relI)
      (auto simp: conn_rel_def intro: Q_refl assms split: prod.splits sum.splits)
  then show ?thesis
    unfolding stmt_def by (intro io_bind io_fault io_if io_return)
qed

lemma io_query: "state_io_rel (conn_rel Q) (query f)"
  unfolding query_def by (rule io_stmt) (auto intro: Q_refl)

lemma io_exec: "(\<And>t d. Q t d (f t d)) \<Longrightarrow> state_io_rel (conn_rel Q) (exec f)"
  unfolding exec_def by (rule io_stmt) auto

lemma io_now: "state_io_rel (conn_rel Q) now"
  unfolding now_def by (rule io_read)

lemma io_transaction:
  assumes "state_io_rel (conn_rel Q) body"
  shows "state_io_rel (conn_rel Q) (transaction bm cm body)"
proof (rule state_io_relI)
  fix a c c'
  assume run: "run_state (transaction bm cm body) c = (a, c')"
  obtain b c1 where b: "run_state (exec (\<lambda>_ d. d)) c = (b, c1)" by fastforce
  have 1: "conn_rel Q c c1"
    using io_exec [of "\<lambda>_ d. d"] b by (auto intro: Q_refl dest: state_io_relD)
  obtain r c2 where r: "run_state body c1 = (r, c2)" by fastforce
  have 2: "conn_rel Q c1 c2" using assms r by (rule state_io_relD)
  obtain k c3 where k: "run_state (exec (\<lambda>_ d. d)) c2 = (k, c3)" by fastforce
  have 3: "conn_rel Q c2 c3"
    using io_exec [of "\<lambda>_ d. d"] k by (auto intro: Q_refl dest: state_io_relD)
  from run b r k have
    "c' = c1 \<or> c' = c2\<lparr>tables := tables c1\<rparr> \<or> c' = c3\<lparr>tables := tables c1\<rparr> \<or> c' = c3"
    by (auto simp: transaction_def split: sum.splits outcome.splits)
  with 1 2 3 show "conn_rel Q c c'"
    by (auto simp: conn_rel_def intro: Q_refl Q_trans)
qed

lemmas conn_rules = io_rules io_query io_exec io_now io_transaction io_stmt

end

section \<open>What one call does\<close>

text \<open>The clocks and, when the call fails, the tables are as before.\<close>

definition same_clocks :: "'d conn \<Rightarrow> 'd conn \<Rightarrow> bool" where
  "same_clocks c c' \<longleftrightarrow> db_clock c' = db_clock c \<and> app_clock c' = app_clock c"

lemma same_clocks_refl [simp]: "same_clocks c c"
  by (simp add: same_clocks_def)

lemma same_clocks_trans: "same_clocks c d \<Longrightarrow> same_clocks d e \<Longrightarrow> same_clocks c e"
  by (simp add: same_clocks_def)

lemma same_clocks_simps:
  "same_clocks c c' \<Longrightarrow> db_clock c' = db_clock c" "same_clocks c c' \<Longrightarrow> app_clock c' = app_clock c"
  by (simp_all add: same_clocks_def)

lemma run_next_fault:
  "run_state next_fault c = (b, c') \<Longrightarrow> tables c' = tables c \<and> same_clocks c c'"
  by (auto simp: next_fault_def same_clocks_def split: list.splits)

lemma stmt_Inl:
  assumes "run_state (stmt f) c = (Inl e, c')"
  shows "tables c' = tables c \<and> same_clocks c c'"
  using assms
  by (auto simp: stmt_def same_clocks_def dest!: run_next_fault split: prod.splits sum.splits if_splits)

lemma stmt_Inr:
  assumes "run_state (stmt f) c = (Inr x, c')"
  shows "f (db_clock c) (tables c) = (Inr x, tables c') \<and> same_clocks c c'"
  using assms
  by (auto simp: stmt_def same_clocks_def dest!: run_next_fault split: prod.splits sum.splits if_splits)

lemma exec_Inl: "run_state (exec f) c = (Inl e, c') \<Longrightarrow> tables c' = tables c \<and> same_clocks c c'"
  unfolding exec_def by (rule stmt_Inl)

lemma exec_Inr:
  "run_state (exec f) c = (Inr u, c') \<Longrightarrow> tables c' = f (db_clock c) (tables c) \<and> same_clocks c c'"
  unfolding exec_def by (drule stmt_Inr) auto

lemma query_Inl: "run_state (query f) c = (Inl e, c') \<Longrightarrow> tables c' = tables c \<and> same_clocks c c'"
  unfolding query_def by (rule stmt_Inl)

lemma query_Inr:
  "run_state (query f) c = (Inr x, c') \<Longrightarrow>
   x = f (db_clock c) (tables c) \<and> tables c' = tables c \<and> same_clocks c c'"
  unfolding query_def by (drule stmt_Inr) auto

lemma query_Inr_sym:
  "run_state (query f) c = (Inr x, c') \<Longrightarrow>
   f (db_clock c) (tables c) = x \<and> tables c' = tables c \<and> same_clocks c c'"
  by (drule query_Inr) simp

lemma run_now [simp]: "run_state now c = (app_clock c, c)"
  by (simp add: now_def)

lemmas call_dests = stmt_Inl stmt_Inr exec_Inl exec_Inr query_Inl query_Inr

text \<open>Without faults the schedule is empty and stays empty.\<close>

lemma run_stmt_ok:
  "faults c = [] \<Longrightarrow> run_state (stmt f) c = (case f (db_clock c) (tables c) of
     (Inl e, _) \<Rightarrow> (Inl (Driver e), c) | (Inr x, d) \<Rightarrow> (Inr x, c\<lparr>tables := d\<rparr>))"
  by (simp add: stmt_def next_fault_def)

lemma run_exec_ok:
  "faults c = [] \<Longrightarrow> run_state (exec f) c = (Inr (), c\<lparr>tables := f (db_clock c) (tables c)\<rparr>)"
  by (simp add: exec_def run_stmt_ok)

lemma run_query_ok:
  "faults c = [] \<Longrightarrow> run_state (query f) c = (Inr (f (db_clock c) (tables c)), c)"
  by (simp add: query_def run_stmt_ok)

lemmas run_ok = run_stmt_ok run_exec_ok run_query_ok

text \<open>A transaction that returns an error has changed no table.\<close>

lemma transaction_Inl:
  assumes "run_state (transaction bm cm body) c = (Inl e, c')"
  shows "tables c' = tables c"
  using assms
  by (auto simp: transaction_def dest!: exec_Inl exec_Inr split: prod.splits sum.splits outcome.splits)

lemma transaction_Inr:
  assumes "run_state (transaction bm cm body) c = (Inr x, c')"
  obtains d d' where "tables d = tables c" and "same_clocks c d"
    and "run_state body d = (Commit x, d')" and "tables c' = tables d'" and "same_clocks d' c'"
  using assms
  by (auto simp: transaction_def dest!: exec_Inl exec_Inr split: prod.splits sum.splits outcome.splits)

lemma run_transaction_ok:
  assumes "faults c = []" and "faults (snd (run_state body c)) = []"
  shows "run_state (transaction bm cm body) c = (case run_state body c of
     (Abort e, d) \<Rightarrow> (Inl e, d\<lparr>tables := tables c\<rparr>) | (Commit x, d) \<Rightarrow> (Inr x, d))"
  using assms
  by (auto simp: transaction_def run_ok split: prod.splits sum.splits outcome.splits)

section \<open>Facts about tables\<close>

lemma set_update_where:
  "r \<in> set (update_where p f rows) \<longleftrightarrow> (\<exists>q \<in> set rows. r = (if p q then f q else q))"
  by (auto simp: update_where_def)

lemma update_where_Nil [simp]: "update_where p f [] = []"
  by (simp add: update_where_def)

lemma update_where_Cons [simp]:
  "update_where p f (r # rs) = (if p r then f r else r) # update_where p f rs"
  by (simp add: update_where_def)

lemma length_update_where [simp]: "length (update_where p f rows) = length rows"
  by (simp add: update_where_def)

lemma nth_update_where [simp]:
  "i < length rows \<Longrightarrow> update_where p f rows ! i = (if p (rows ! i) then f (rows ! i) else rows ! i)"
  by (simp add: update_where_def)

lemma map_update_where:
  "(\<And>r. p r \<Longrightarrow> k (f r) = k r) \<Longrightarrow> map k (update_where p f rows) = map k rows"
  by (simp add: update_where_def)

lemma set_delete_where [simp]: "r \<in> set (delete_where p rows) \<longleftrightarrow> r \<in> set rows \<and> \<not> p r"
  by (simp add: delete_where_def)

lemma affected_0: "affected p rows = 0 \<longleftrightarrow> (\<forall>r \<in> set rows. \<not> p r)"
  by (simp add: affected_def filter_empty_conv)

lemma affected_0_update: "affected p rows = 0 \<Longrightarrow> update_where p f rows = rows"
  unfolding affected_0 update_where_def by (rule map_idI) auto

lemma find_where_SomeD: "find_where p rows = Some r \<Longrightarrow> r \<in> set rows \<and> p r"
  by (auto simp: find_where_def find_Some_iff)

lemma find_where_None: "find_where p rows = None \<longleftrightarrow> (\<forall>r \<in> set rows. \<not> p r)"
  by (auto simp: find_where_def find_None_iff)

lemma first_by_None [simp]: "first_by k rows = None \<longleftrightarrow> rows = []"
  by (cases rows) (auto split: option.splits)

lemma first_by_SomeD:
  "first_by k rows = Some r \<Longrightarrow> r \<in> set rows \<and> (\<forall>s \<in> set rows. k r \<le> k s)"
proof (induction rows arbitrary: r)
  case Nil
  then show ?case by simp
next
  case (Cons x rows)
  show ?case
  proof (cases "first_by k rows")
    case None
    with Cons.prems show ?thesis by simp
  next
    case (Some s)
    from Cons.IH [OF this] have "s \<in> set rows" "\<forall>t \<in> set rows. k s \<le> k t" by auto
    with Some Cons.prems show ?thesis
      by (force split: if_splits)
  qed
qed

text \<open>
  A column (or a combination of columns) with a \<^verbatim>\<open>UNIQUE\<close> constraint: no two rows agree on it.
  The lemmas are proved for any key and used for every table's primary key.
\<close>

locale unique_key =
  fixes key :: "'r \<Rightarrow> 'k"
    and writes :: "('r \<Rightarrow> 'r) \<Rightarrow> bool"
  assumes writes_key: "writes f \<Longrightarrow> key (f r) = key r"
begin

lemma unique_update: "writes f \<Longrightarrow> distinct (map key rows) \<Longrightarrow> distinct (map key (update_where p f rows))"
  by (simp add: map_update_where writes_key)

lemma unique_delete: "distinct (map key rows) \<Longrightarrow> distinct (map key (delete_where p rows))"
  by (simp add: delete_where_def distinct_map_filter)

lemma unique_insert:
  "distinct (map key rows) \<Longrightarrow> \<forall>q \<in> set rows. key q \<noteq> key r \<Longrightarrow> distinct (map key (rows @ [r]))"
  by auto

lemma unique_row:
  "distinct (map key rows) \<Longrightarrow> q \<in> set rows \<Longrightarrow> r \<in> set rows \<Longrightarrow> key q = key r \<Longrightarrow> q = r"
  by (auto simp: distinct_map inj_on_def)

lemma keys_update: "writes f \<Longrightarrow> map key (update_where p f rows) = map key rows"
  by (simp add: map_update_where writes_key)

end

section \<open>Facts about strings\<close>

lemma HasPrefix_iff: "HasPrefix s p \<longleftrightarrow> (\<exists>t. s = p @ t)"
  by (induction s p rule: HasPrefix.induct) auto

lemma HasSuffix_iff: "HasSuffix s p \<longleftrightarrow> (\<exists>t. s = t @ p)"
  unfolding HasSuffix_def HasPrefix_iff
  by (metis rev_append rev_rev_ident)

lemma Contains_iff: "Contains s t \<longleftrightarrow> (\<exists>a b. s = a @ t @ b)"
proof (induction s)
  case Nil
  then show ?case by auto
next
  case (Cons c cs)
  show ?case
  proof
    assume "Contains (c # cs) t"
    then consider "HasPrefix (c # cs) t" | "Contains cs t" by auto
    then show "\<exists>a b. c # cs = a @ t @ b"
    proof cases
      case 1
      then show ?thesis unfolding HasPrefix_iff by (metis append_Nil)
    next
      case 2
      then show ?thesis using Cons.IH by (metis append_Cons)
    qed
  next
    assume "\<exists>a b. c # cs = a @ t @ b"
    then obtain a b where ab: "c # cs = a @ t @ b" by blast
    show "Contains (c # cs) t"
    proof (cases a)
      case Nil
      with ab have "HasPrefix (c # cs) t" by (auto simp: HasPrefix_iff)
      then show ?thesis by simp
    next
      case (Cons x a')
      with ab Cons.IH show ?thesis by auto
    qed
  qed
qed

lemma lower_char_idem [simp]: "lower_char (lower_char c) = lower_char c"
proof -
  show ?thesis
  proof (cases "in_range CHR ''A'' CHR ''Z'' c")
    case True
    then have "65 \<le> byte_of c" "byte_of c \<le> 90" by (auto simp: in_range_def byte_of_def)
    then have "byte_of (char_of (byte_of c + 32)) = byte_of c + 32"
      by (simp add: byte_of_def)
    with True \<open>65 \<le> byte_of c\<close> show ?thesis
      by (simp add: lower_char_def in_range_def) (simp add: byte_of_def)
  next
    case False
    then show ?thesis by (simp add: lower_char_def)
  qed
qed

lemma ToLower_idem [simp]: "ToLower (ToLower s) = ToLower s"
  by (simp add: ToLower_def)

lemma ToLower_append: "ToLower (s @ t) = ToLower s @ ToLower t"
  by (simp add: ToLower_def)

end
