(* ===== verification/Float64.thy ===== *)
theory Float64
  imports Complex_Main "HOL-Library.Log_Nat"
begin

text \<open>
  Go's \<^verbatim>\<open>float64\<close>, as far as the sources compute with it: conversion from \<^verbatim>\<open>int64\<close>,
  addition, subtraction, multiplication, division, comparison and truncation back to \<^verbatim>\<open>int64\<close>.  A finite value is a
  rational number.  Every operation computes the exact result and rounds it to 53 significant bits,
  ties to even, as IEEE 754 prescribes.  The exponent is not bounded: no value that the sources
  compute from an \<^verbatim>\<open>int64\<close> leaves the normal range, and a product too large for a \<^verbatim>\<open>float64\<close>
  is also too large for the conversion to \<^verbatim>\<open>int64\<close> that follows it.  That conversion is
  implementation-defined in Go outside the range of \<^verbatim>\<open>int64\<close>; the model has what amd64 does.
\<close>

datatype float64 = Fin rat | PosInf | NegInf | NaN

text \<open>The exponent \<open>e\<close> with \<open>2 ^ e \<le> x < 2 ^ (e + 1)\<close>, for positive \<open>x\<close>.\<close>

definition bin_exp :: "rat \<Rightarrow> int" where
  "bin_exp x = (case quotient_of x of (p, q) \<Rightarrow>
     let e = bitlen p - bitlen q
     in if 2 powi e \<le> x then e else e - 1)"

definition round_even :: "rat \<Rightarrow> int" where
  "round_even y = (let n = \<lfloor>y\<rfloor>; r = y - of_int n in
     if r < 1 / 2 then n else if r > 1 / 2 then n + 1 else if even n then n else n + 1)"

definition rnd :: "rat \<Rightarrow> rat" where
  "rnd x = (let ulp = 2 powi (bin_exp \<bar>x\<bar> - 52)
     in if x = 0 then 0 else sgn x * of_int (round_even (\<bar>x\<bar> / ulp)) * ulp)"

definition f64_of_int :: "int \<Rightarrow> float64" where
  "f64_of_int n = Fin (rnd (of_int n))"

text \<open>A constant of the program text: the closest \<^verbatim>\<open>float64\<close> to an exact decimal.\<close>

definition f64_const :: "rat \<Rightarrow> float64" where
  "f64_const x = Fin (rnd x)"

fun f64_mul :: "float64 \<Rightarrow> float64 \<Rightarrow> float64" where
  "f64_mul (Fin x) (Fin y) = Fin (rnd (x * y))"
| "f64_mul NaN _ = NaN"
| "f64_mul _ NaN = NaN"
| "f64_mul (Fin x) PosInf = (if x = 0 then NaN else if x > 0 then PosInf else NegInf)"
| "f64_mul (Fin x) NegInf = (if x = 0 then NaN else if x > 0 then NegInf else PosInf)"
| "f64_mul PosInf (Fin y) = (if y = 0 then NaN else if y > 0 then PosInf else NegInf)"
| "f64_mul NegInf (Fin y) = (if y = 0 then NaN else if y > 0 then NegInf else PosInf)"
| "f64_mul PosInf PosInf = PosInf"
| "f64_mul NegInf NegInf = PosInf"
| "f64_mul _ _ = NegInf"

text \<open>Division of finite values by a finite non-zero value, the only one the sources perform.\<close>

fun f64_div :: "float64 \<Rightarrow> float64 \<Rightarrow> float64" where
  "f64_div (Fin x) (Fin y) = (if y \<noteq> 0 then Fin (rnd (x / y))
     else if x = 0 then NaN else if x > 0 then PosInf else NegInf)"
| "f64_div _ _ = NaN"

text \<open>Addition and subtraction; an opposite pair of infinities is not a number.\<close>

fun f64_add :: "float64 \<Rightarrow> float64 \<Rightarrow> float64" where
  "f64_add (Fin x) (Fin y) = Fin (rnd (x + y))"
| "f64_add NaN _ = NaN"
| "f64_add _ NaN = NaN"
| "f64_add PosInf NegInf = NaN"
| "f64_add NegInf PosInf = NaN"
| "f64_add PosInf _ = PosInf"
| "f64_add NegInf _ = NegInf"
| "f64_add _ PosInf = PosInf"
| "f64_add _ NegInf = NegInf"

fun f64_neg :: "float64 \<Rightarrow> float64" where
  "f64_neg (Fin x) = Fin (- x)"
| "f64_neg PosInf = NegInf"
| "f64_neg NegInf = PosInf"
| "f64_neg NaN = NaN"

definition f64_sub :: "float64 \<Rightarrow> float64 \<Rightarrow> float64" where
  "f64_sub x y = f64_add x (f64_neg y)"

fun f64_le :: "float64 \<Rightarrow> float64 \<Rightarrow> bool" where
  "f64_le (Fin x) (Fin y) = (x \<le> y)"
| "f64_le NaN _ = False"
| "f64_le _ NaN = False"
| "f64_le NegInf _ = True"
| "f64_le _ PosInf = True"
| "f64_le _ _ = False"

fun f64_eq :: "float64 \<Rightarrow> float64 \<Rightarrow> bool" where
  "f64_eq NaN _ = False"
| "f64_eq x y = (x = y)"

definition f64_lt :: "float64 \<Rightarrow> float64 \<Rightarrow> bool" where
  "f64_lt x y \<longleftrightarrow> f64_le x y \<and> \<not> f64_eq x y"

definition trunc_rat :: "rat \<Rightarrow> int" where
  "trunc_rat x = (if 0 \<le> x then \<lfloor>x\<rfloor> else \<lceil>x\<rceil>)"

definition int64_of_f64 :: "float64 \<Rightarrow> int" where
  "int64_of_f64 f = (case f of
     Fin x \<Rightarrow> (let n = trunc_rat x in if - (2 ^ 63) \<le> n \<and> n < 2 ^ 63 then n else - (2 ^ 63))
   | _ \<Rightarrow> - (2 ^ 63))"

section \<open>Accuracy of rounding\<close>

lemma bin_exp_bounds:
  assumes "0 < x"
  shows "2 powi bin_exp x \<le> x" and "x < 2 powi (bin_exp x + 1)"
proof -
  obtain p q where pq: "quotient_of x = (p, q)" by fastforce
  then have q: "0 < q" and x: "x = of_int p / of_int q"
    by (auto simp: quotient_of_denom_pos quotient_of_div)
  with assms have p: "0 < p" by (simp add: zero_less_divide_iff)
  define a where "a = floorlog 2 (nat p)"
  define b where "b = floorlog 2 (nat q)"
  have a1: "0 < a" and b1: "0 < b"
    using p q by (auto simp: a_def b_def floorlog_def)
  have up: "nat n < 2 ^ floorlog 2 (nat n)" and lo: "2 ^ (floorlog 2 (nat n) - 1) \<le> nat n"
    if "0 < n" for n :: int
    using floorlog_bounds [of "nat n" 2] that by auto
  have up': "(of_int n :: rat) < 2 ^ floorlog 2 (nat n)" if "0 < n" for n
    using up [OF that] that by (metis int_nat_eq less_le of_int_less_iff of_int_numeral of_int_power of_nat_less_iff of_nat_numeral of_nat_power order_less_imp_le)
  have lo': "2 ^ (floorlog 2 (nat n) - 1) \<le> (of_int n :: rat)" if "0 < n" for n
    using lo [OF that] that by (metis int_nat_eq of_int_le_iff of_int_numeral of_int_power of_nat_le_iff of_nat_numeral of_nat_power order_less_imp_le)
  have P: "2 powi (int a - 1) \<le> (of_int p :: rat)" "(of_int p :: rat) < 2 powi int a"
    using lo' [OF p] up' [OF p] a1 by (auto simp: a_def power_int_def nat_diff_distrib)
  have Q: "2 powi (int b - 1) \<le> (of_int q :: rat)" "(of_int q :: rat) < 2 powi int b"
    using lo' [OF q] up' [OF q] b1 by (auto simp: b_def power_int_def nat_diff_distrib)
  define e where "e = int a - int b"
  have "x < 2 powi (e + 1)"
  proof -
    have "(of_int p :: rat) < 2 powi int a" by (rule P(2))
    also have "(2 :: rat) powi int a = 2 powi (e + 1) * 2 powi (int b - 1)"
      by (subst power_int_add [symmetric]) (simp_all add: e_def)
    also have "\<dots> \<le> 2 powi (e + 1) * (of_int q :: rat)"
      using Q(1) by (intro mult_left_mono) auto
    finally show ?thesis using q by (simp add: x divide_less_eq)
  qed
  moreover have "2 powi (e - 1) \<le> x"
  proof -
    have "2 powi (e - 1) * (of_int q :: rat) \<le> 2 powi (e - 1) * 2 powi int b"
      using Q(2) by (intro mult_left_mono) auto
    also have "\<dots> = 2 powi (int a - 1)"
      by (subst power_int_add [symmetric]) (simp_all add: e_def)
    also have "\<dots> \<le> of_int p" by (rule P(1))
    finally show ?thesis using q by (simp add: x le_divide_eq)
  qed
  moreover have "bin_exp x = (if 2 powi e \<le> x then e else e - 1)"
    by (simp add: bin_exp_def pq e_def a_def b_def Let_def bitlen_def)
  ultimately show "2 powi bin_exp x \<le> x" and "x < 2 powi (bin_exp x + 1)"
    by auto
qed

lemma round_even_error: "\<bar>of_int (round_even y) - y\<bar> \<le> 1 / 2"
proof -
  have "of_int \<lfloor>y\<rfloor> \<le> y" "y < of_int \<lfloor>y\<rfloor> + 1" by linarith+
  then show ?thesis
    unfolding round_even_def Let_def by (auto simp: abs_le_iff field_simps)
qed

text \<open>Rounding moves a number by at most one part in \<open>2 ^ 53\<close>.\<close>

lemma rnd_error: "\<bar>rnd x - x\<bar> \<le> \<bar>x\<bar> / 2 ^ 53"
proof (cases "x = 0")
  case True
  then show ?thesis by (simp add: rnd_def)
next
  case False
  define u :: rat where "u = 2 powi (bin_exp \<bar>x\<bar> - 52)"
  have u: "0 < u" by (simp add: u_def)
  have "u * 2 ^ 52 = 2 powi bin_exp \<bar>x\<bar>"
    by (simp add: u_def power_int_diff)
  with bin_exp_bounds(1) [of "\<bar>x\<bar>"] False have ux: "u * 2 ^ 52 \<le> \<bar>x\<bar>" by simp
  have s: "sgn x * \<bar>x\<bar> = x" by (rule sgn_mult_abs)
  have "\<bar>rnd x - x\<bar> = \<bar>sgn x * (of_int (round_even (\<bar>x\<bar> / u)) * u - \<bar>x\<bar>)\<bar>"
    using False s by (simp add: rnd_def u_def [symmetric] Let_def algebra_simps)
  also have "\<dots> = \<bar>of_int (round_even (\<bar>x\<bar> / u)) * u - \<bar>x\<bar>\<bar>"
    using False by (simp add: abs_mult abs_sgn_eq_1)
  also have "\<dots> = \<bar>(of_int (round_even (\<bar>x\<bar> / u)) - \<bar>x\<bar> / u) * u\<bar>"
    using u by (simp add: left_diff_distrib)
  also have "\<dots> = \<bar>of_int (round_even (\<bar>x\<bar> / u)) - \<bar>x\<bar> / u\<bar> * u"
    using u by (simp add: abs_mult)
  also have "\<dots> \<le> 1 / 2 * u"
    using round_even_error u by (intro mult_right_mono) auto
  also have "\<dots> \<le> \<bar>x\<bar> / 2 ^ 53" using ux by simp
  finally show ?thesis .
qed

lemma rnd_0 [simp]: "rnd 0 = 0"
  by (simp add: rnd_def)

lemma rnd_upper: "0 \<le> x \<Longrightarrow> rnd x \<le> x * (1 + 1 / 2 ^ 53)"
  and rnd_lower: "0 \<le> x \<Longrightarrow> x * (1 - 1 / 2 ^ 53) \<le> rnd x"
proof -
  assume "0 \<le> x"
  then have "- (x / 2 ^ 53) \<le> rnd x - x" and "rnd x - x \<le> x / 2 ^ 53"
    using rnd_error [of x] by (auto simp only: abs_le_iff abs_of_nonneg)
  then show "rnd x \<le> x * (1 + 1 / 2 ^ 53)" and "x * (1 - 1 / 2 ^ 53) \<le> rnd x"
    by (simp_all add: algebra_simps)
qed

lemma rnd_nonneg: "0 \<le> x \<Longrightarrow> 0 \<le> rnd x"
  using rnd_lower [of x] by (rule order_trans [rotated]) simp_all

lemmas rnd_bounds = rnd_nonneg rnd_upper rnd_lower

text \<open>A number with at most 53 significant bits is not changed.\<close>

lemma round_even_int [simp]: "round_even (of_int n) = n"
  by (simp add: round_even_def)

lemma rnd_exact:
  assumes "\<bar>m\<bar> < 2 ^ 53"
  shows "rnd (of_int m * 2 powi k) = of_int m * 2 powi k"
proof (cases "m = 0")
  case False
  let ?x = "of_int m * 2 powi k :: rat"
  define e where "e = bin_exp \<bar>?x\<bar>"
  have x: "\<bar>?x\<bar> = of_int \<bar>m\<bar> * 2 powi k" "0 < \<bar>?x\<bar>" using False by (simp_all add: abs_mult)
  have "2 powi e \<le> \<bar>?x\<bar>" unfolding e_def using x(2) by (rule bin_exp_bounds(1))
  also have "(of_int \<bar>m\<bar> :: rat) < 2 ^ 53" using assms by (simp flip: of_int_less_iff [where 'a = rat])
  then have "\<bar>?x\<bar> < 2 powi 53 * 2 powi k" unfolding x(1) by (intro mult_strict_right_mono) simp_all
  also have "\<dots> = 2 powi (53 + k)" by (simp add: power_int_add)
  finally have "e < 53 + k" using power_int_increasing [of "53 + k" e "2 :: rat"] by (meson not_le one_le_numeral)
  then have k: "0 \<le> k - (e - 52)" by simp
  have "\<bar>?x\<bar> / 2 powi (e - 52) = of_int \<bar>m\<bar> * 2 powi (k - (e - 52))"
    unfolding x(1) by (simp add: power_int_diff)
  also have "\<dots> = of_int (\<bar>m\<bar> * 2 ^ nat (k - (e - 52)))"
    using k by (simp add: power_int_def)
  finally have "round_even (\<bar>?x\<bar> / 2 powi (e - 52)) = \<bar>m\<bar> * 2 ^ nat (k - (e - 52))"
    by (simp only: round_even_int)
  moreover have "(2 :: rat) ^ nat (k - (e - 52)) = 2 powi (k - (e - 52))"
    using k by (simp add: power_int_def)
  then have "(2 :: rat) ^ nat (k - (e - 52)) * 2 powi (e - 52) = 2 powi k"
    by (simp flip: power_int_add)
  then have "of_int (\<bar>m\<bar> * 2 ^ nat (k - (e - 52))) * 2 powi (e - 52) = \<bar>?x\<bar>"
    unfolding x(1) by (simp add: mult.assoc)
  ultimately show ?thesis
    using False by (simp add: rnd_def e_def [symmetric] Let_def mult.assoc sgn_mult_abs flip: e_def)
qed simp

lemma rnd_int: "\<bar>m\<bar> < 2 ^ 53 \<Longrightarrow> rnd (of_int m) = of_int m"
  using rnd_exact [of m 0] by simp

end
