(* ===== verification/Types.thy ===== *)
theory Types
  imports Prelude Float64
begin

text \<open>
  The data that the parts of the control plane exchange: \<^verbatim>\<open>src/pkg/admiral/tasks.go\<close>,
  \<^verbatim>\<open>src/pkg/admiral/queue.go\<close> and the structures of \<^verbatim>\<open>src/pkg/admiral/api.go\<close> that the modelled
  code reads.  A struct is a record, a field keeps its Go name behind a prefix for its struct, a
  pointer is an option, and a Go map is the list of its entries in the order in which one
  iteration visits them.  Go does not fix that order, so a theorem about a definition that iterates
  over a map is a theorem about every order.
\<close>

type_synonym strmap = "(string \<times> string) list"

section \<open>Task actions and command states\<close>

type_synonym TaskAction = string

abbreviation ActionProvisionApp :: TaskAction where "ActionProvisionApp \<equiv> ''provision_app''"
abbreviation ActionProvisionPolicyRejected :: TaskAction where
  "ActionProvisionPolicyRejected \<equiv> ''provision_policy_rejected''"
abbreviation ActionStartApp :: TaskAction where "ActionStartApp \<equiv> ''start_app''"
abbreviation ActionStopApp :: TaskAction where "ActionStopApp \<equiv> ''stop_app''"
abbreviation ActionPauseApp :: TaskAction where "ActionPauseApp \<equiv> ''pause_app''"
abbreviation ActionResumeApp :: TaskAction where "ActionResumeApp \<equiv> ''resume_app''"
abbreviation ActionResizeApp :: TaskAction where "ActionResizeApp \<equiv> ''resize_app''"
abbreviation ActionResizePolicyRejected :: TaskAction where
  "ActionResizePolicyRejected \<equiv> ''resize_policy_rejected''"
abbreviation ActionDeprovisionApp :: TaskAction where "ActionDeprovisionApp \<equiv> ''deprovision_app''"
abbreviation ActionBackupDatabase :: TaskAction where "ActionBackupDatabase \<equiv> ''backup_database''"
abbreviation ActionBackupVolumes :: TaskAction where "ActionBackupVolumes \<equiv> ''backup_volumes''"
abbreviation ActionInspectApp :: TaskAction where "ActionInspectApp \<equiv> ''inspect_app''"
abbreviation ActionDeleteBackup :: TaskAction where "ActionDeleteBackup \<equiv> ''delete_backup''"
abbreviation ActionTestStorage :: TaskAction where "ActionTestStorage \<equiv> ''test_backup_storage''"
abbreviation ActionRestoreBackup :: TaskAction where "ActionRestoreBackup \<equiv> ''restore_backup''"
abbreviation ActionPauseAppStorage :: TaskAction where
  "ActionPauseAppStorage \<equiv> ''pause_app_storage''"
abbreviation ActionReactivateApp :: TaskAction where "ActionReactivateApp \<equiv> ''reactivate_app''"

datatype FleetCommandStatus =
  CommandPending | CommandLeased | CommandRunning | CommandSucceeded | CommandFailed
  | CommandDeadLetter | CommandCancelled

section \<open>Application definitions\<close>

record YAMLSecret =
  sec_Generate :: string
  sec_Value :: string
  sec_Expose :: bool
  sec_Persist :: bool

record YAMLSetupNotice =
  note_Label :: string
  note_Value :: string

record YAMLSharedVolume =
  shv_Mount :: string
  shv_Services :: "string list"
  shv_UID :: int
  shv_GID :: int

record YAMLRegistry =
  reg_Server :: string
  reg_Username :: string
  reg_Password :: string

record YAMLServiceBackup =
  bak_Type :: string
  bak_Engine :: string
  bak_DatabaseEnv :: string
  bak_UsernameEnv :: string
  bak_PasswordEnv :: string

record YAMLHealthCheck =
  hc_Type :: string
  hc_Port :: int
  hc_Path :: string
  hc_ExpectedStatus :: int
  hc_Command :: "string list"
  hc_TimeoutSeconds :: int
  hc_IntervalSeconds :: int
  hc_FailureThreshold :: int

record YAMLService =
  svc_Image :: string
  svc_Port :: int
  svc_Public :: bool
  svc_Volume :: string
  svc_DependsOn :: "string list"
  svc_Requires :: "string list"
  svc_Command :: string
  svc_SetupCommand :: string
  svc_SetupTimeout :: int
  svc_NotifyOnSetup :: "YAMLSetupNotice list"
  svc_Env :: strmap
  svc_Secrets :: "(string \<times> YAMLSecret) list"
  svc_HealthCheck :: "YAMLHealthCheck option"
  svc_HealthCheckWaitSecs :: int
  svc_Backup :: "YAMLServiceBackup option"
  svc_Registry :: "YAMLRegistry option"
  svc_User :: string

record RetentionPolicy =
  ret_Count :: int
  ret_Days :: int

record BackupPolicy =
  bp_Enabled :: bool
  bp_Schedule :: string
  bp_Weekday :: string
  bp_Time :: string
  bp_Timezone :: string
  bp_Retention :: RetentionPolicy
  bp_ManualBackups :: bool
  bp_BackupDatabase :: bool
  bp_BackupVolumes :: bool
  bp_RestoreAllowed :: bool

record YAMLTier =
  tier_CPU :: float64
  tier_Memory :: string
  tier_Storage :: string
  tier_PriceMonthly :: float64
  tier_Free :: bool
  tier_Environment :: strmap
  tier_Backups :: "BackupPolicy option"

record AppDefinitionPayload =
  app_Name :: string
  app_DisplayName :: string
  app_Description :: string
  app_Environment :: strmap
  app_Services :: "(string \<times> YAMLService) list"
  app_SharedVolumes :: "(string \<times> YAMLSharedVolume) list"
  app_Secrets :: "(string \<times> YAMLSecret) list"
  app_Tiers :: "(string \<times> YAMLTier) list"

section \<open>Fleet tasks\<close>

record StorageConfig =
  sto_Backend :: string
  sto_Key :: string
  sto_BackupID :: string
  sto_Endpoint :: string
  sto_Region :: string
  sto_Bucket :: string
  sto_Prefix :: string
  sto_ForcePathStyle :: bool
  sto_AccessKeyEnv :: string
  sto_SecretKeyEnv :: string
  sto_SessionTokenEnv :: string

record AppInfo =
  ai_Name :: string
  ai_Version :: string

record TierInfo =
  ti_Name :: string
  ti_CPU :: float64
  ti_Memory :: string
  ti_Storage :: string
  ti_Environment :: strmap

record ServiceSharedVolumeMount =
  svm_Name :: string
  svm_Mount :: string
  svm_UID :: int
  svm_GID :: int

record RegistryConfig =
  rc_Server :: string
  rc_Username :: string
  rc_Password :: string

record ServiceInfo =
  si_Name :: string
  si_Image :: string
  si_Port :: int
  si_Volume :: string
  si_DependsOn :: "string list"
  si_Requires :: "string list"
  si_SharedVolumes :: "ServiceSharedVolumeMount list"
  si_Command :: string
  si_SetupCommand :: string
  si_SetupTimeout :: int
  si_NotifyOnSetup :: "YAMLSetupNotice list"
  si_Env :: strmap
  si_Secrets :: strmap
  si_HealthCheck :: "YAMLHealthCheck option"
  si_HealthCheckWaitSecs :: int
  si_Registry :: "RegistryConfig option"
  si_User :: string

record SharedVolumeInfo =
  sv_Name :: string
  sv_Mount :: string
  sv_Services :: "string list"
  sv_UID :: int
  sv_GID :: int

record BackupInfo =
  bi_Type :: string
  bi_Engine :: string
  bi_Service :: string
  bi_DatabaseType :: string
  bi_DatabaseEnv :: string
  bi_UsernameEnv :: string
  bi_PasswordEnv :: string

record RestoreInfo =
  ri_BackupID :: string
  ri_StorageBackend :: string
  ri_StorageKey :: string
  ri_BackupType :: string
  ri_DatabaseType :: string
  ri_Service :: string
  ri_ChecksumSHA256 :: string
  ri_VerifyChecksum :: bool
  ri_TrustedSourceIP :: string
  ri_TrustedSourceOrigin :: string
  ri_TrustedSourcePathPrefix :: string
  ri_TrustedSourceIPs :: "string list"

record FleetTask =
  ft_TaskID :: string
  ft_OperationID :: string
  ft_NodeID :: string
  ft_Action :: TaskAction
  ft_InstanceID :: string
  ft_App :: AppInfo
  ft_Tier :: TierInfo
  ft_Services :: "ServiceInfo list"
  ft_SharedVolumes :: "SharedVolumeInfo list"
  ft_Backup :: "BackupInfo option"
  ft_Restore :: "RestoreInfo option"
  ft_Storage :: "StorageConfig option"
  ft_SetupCompleted :: bool
  ft_VerifyImages :: bool
  ft_TaskSignature :: string
  ft_SignedAt :: int

record TaskResult =
  tr_TaskID :: string
  tr_OperationID :: string
  tr_NodeID :: string
  tr_Success :: bool
  tr_Error :: string
  tr_Logs :: string
  tr_Metadata :: string

text \<open>The zero value of a task: every string empty, every list, map and pointer \<^verbatim>\<open>nil\<close>.\<close>

definition zero_task :: FleetTask where
  "zero_task = \<lparr>ft_TaskID = '''', ft_OperationID = '''', ft_NodeID = '''', ft_Action = '''',
     ft_InstanceID = '''', ft_App = \<lparr>ai_Name = '''', ai_Version = ''''\<rparr>,
     ft_Tier = \<lparr>ti_Name = '''', ti_CPU = Fin 0, ti_Memory = '''', ti_Storage = '''',
       ti_Environment = []\<rparr>,
     ft_Services = [], ft_SharedVolumes = [], ft_Backup = None, ft_Restore = None,
     ft_Storage = None, ft_SetupCompleted = False, ft_VerifyImages = False,
     ft_TaskSignature = '''', ft_SignedAt = 0\<rparr>"

section \<open>Backup records and restore sources\<close>

record BackupRecord =
  br_ID :: string
  br_InstanceID :: string
  br_AppID :: string
  br_TierID :: string
  br_NodeID :: string
  br_BackupType :: string
  br_Service :: string
  br_DatabaseType :: string
  br_Status :: string
  br_StorageBackend :: string
  br_StorageKey :: string
  br_StorageURIAdmin :: string
  br_SizeBytes :: int
  br_ChecksumSHA256 :: string
  br_CreatedAt :: string
  br_CompletedAt :: string
  br_ExpiresAt :: string
  br_TriggeredBy :: string
  br_RetentionPolicySnapshotJSON :: string
  br_TierSnapshotJSON :: string
  br_ErrorMessage :: string
  br_VerifiedAt :: string

record BackupRestoreSource =
  brs_Type :: string
  brs_URI :: string
  brs_CredentialsRef :: string
  brs_Checksum :: string
  brs_SizeBytes :: int

end
