(* ===== verification/Queue.thy ===== *)
theory Queue
  imports Types "HOL-Library.Word" "HOL-Library.Product_Lexorder"
begin

text \<open>
  The durable task queue: \<^verbatim>\<open>src/internal/queue/queue.go\<close> over the table
  \<^verbatim>\<open>fleet_commands\<close> of \<^verbatim>\<open>src/internal/queuedb/migrations.go\<close>.  One definition per method of
  \<^verbatim>\<open>Publisher\<close>; each SQL statement is one \<open>stmt\<close>, \<open>query\<close> or \<open>exec\<close> in the order of the
  source.  The primitives that the package takes from Go's library (JSON, base64, AES-GCM, Ed25519,
  SHA-1) are the fields of \<open>codec\<close>; the random bytes a call reads are its \<open>entropy\<close>.
\<close>

unbundle bit_operations_syntax

type_synonym byte = "8 word"

section \<open>State\<close>

record fleet_command =
  fc_id :: string
  fc_operation_id :: string
  fc_operation_public_id :: string
  fc_task_public_id :: string
  fc_instance_id :: string
  fc_node_id :: string
  fc_command_type :: TaskAction
  fc_payload :: string
  fc_status :: FleetCommandStatus
  fc_priority :: int
  fc_available_at :: int
  fc_leased_until :: "int option"
  fc_leased_by :: "string option"
  fc_attempt_count :: int
  fc_max_attempts :: int
  fc_idempotency_key :: string
  fc_created_at :: int
  fc_started_at :: "int option"
  fc_completed_at :: "int option"
  fc_last_error :: "string option"
  fc_result :: "string option"
  fc_task_signature :: "string option"
  fc_signed_at :: "int option"

type_synonym queue = "fleet_command list"
type_synonym 'a queue_io = "(queue conn, err + 'a) state"

text \<open>
  \<open>json_task s t\<close> is \<^verbatim>\<open>json.Unmarshal\<close> into the variable \<open>t\<close>: the variable afterwards and
  whether the call succeeded.
\<close>

record codec =
  json_marshal :: "FleetTask \<Rightarrow> string option"
  json_task :: "string \<Rightarrow> FleetTask \<Rightarrow> FleetTask \<times> bool"
  json_ct_wrapper :: "string \<Rightarrow> string"
  json_ct :: "string \<Rightarrow> string option"
  ed25519_sign :: "string \<Rightarrow> string \<Rightarrow> byte list"
  gcm_seal :: "string \<Rightarrow> string \<Rightarrow> string \<Rightarrow> string"
  gcm_open :: "string \<Rightarrow> string \<Rightarrow> string \<Rightarrow> string option"
  base64_encode :: "string \<Rightarrow> string"
  base64_decode :: "string \<Rightarrow> string option"
  sha1 :: "string \<Rightarrow> byte list"

record entropy =
  ent_uuid :: "byte list option"
  ent_nonce :: "string option"

record Publisher =
  pub_privateKey :: "string option"
  pub_encryptionKey :: string

definition defaultPriority :: int where "defaultPriority = 100"
definition defaultMaxAttempts :: int where "defaultMaxAttempts = 5"
definition defaultLeaseSeconds :: int where "defaultLeaseSeconds = 300"

definition ErrNoCommandAvailable :: err where
  "ErrNoCommandAvailable = Sentinel ''no command available''"

definition ErrCommandNotOwned :: err where
  "ErrCommandNotOwned = Sentinel ''command is not owned by node''"

definition NewPublisher :: "string \<Rightarrow> string \<Rightarrow> Publisher" where
  "NewPublisher seed encryptionKey =
     \<lparr>pub_privateKey = (if length seed = 32 then Some seed else None),
      pub_encryptionKey = encryptionKey\<rparr>"

section \<open>Identifiers\<close>

definition hex_digit :: "nat \<Rightarrow> char" where
  "hex_digit n = (if n < 10 then char_of (48 + n) else char_of (87 + n))"

definition hex_byte :: "byte \<Rightarrow> string" where
  "hex_byte b = [hex_digit (unat (drop_bit 4 b)), hex_digit (unat (b AND 15))]"

definition hex_EncodeToString :: "byte list \<Rightarrow> string" where
  "hex_EncodeToString bs = concat (map hex_byte bs)"

definition slice :: "nat \<Rightarrow> nat \<Rightarrow> 'a list \<Rightarrow> 'a list" where
  "slice i j xs = take (j - i) (drop i xs)"

definition formatUUID :: "byte list \<Rightarrow> string" where
  "formatUUID b = (let raw = hex_EncodeToString b in
     slice 0 8 raw @ ''-'' @ slice 8 12 raw @ ''-'' @ slice 12 16 raw @ ''-'' @
     slice 16 20 raw @ ''-'' @ slice 20 32 raw)"

definition nameUUID :: "codec \<Rightarrow> string \<Rightarrow> string" where
  "nameUUID c seed = (let b = take 16 (sha1 c seed);
     b = b[6 := ((b ! 6) AND 0x0f) OR 0x50];
     b = b[8 := ((b ! 8) AND 0x3f) OR 0x80]
   in formatUUID b)"

definition randomHex :: "byte list option \<Rightarrow> err + string" where
  "randomHex r = (case r of
     None \<Rightarrow> Inl (Wrap ''read random bytes: '' (Plain ''entropy source failed''))
   | Some buf \<Rightarrow> Inr (hex_EncodeToString buf))"

definition newUUID :: "codec \<Rightarrow> entropy \<Rightarrow> (queue conn, err + string) state" where
  "newUUID c ent = (case randomHex (ent_uuid ent) of
     Inl e \<Rightarrow> return (Inl e)
   | Inr randomValue \<Rightarrow> do {
       t \<leftarrow> now;
       return (Inr (nameUUID c (show_int (t * 1000) @ ''-'' @ randomValue)))
     })"

section \<open>Publishing\<close>

definition signPayload :: "codec \<Rightarrow> Publisher \<Rightarrow> string \<Rightarrow> int \<Rightarrow> err + string" where
  "signPayload c p payload timestamp = (case pub_privateKey p of
     None \<Rightarrow> Inl (Panic ''ed25519: bad private key length: 0'')
   | Some key \<Rightarrow> Inr (hex_EncodeToString (ed25519_sign c key (payload @ show_int timestamp))))"

definition aes_key_ok :: "string \<Rightarrow> bool" where
  "aes_key_ok k \<longleftrightarrow> length k \<in> set [16, 24, 32]"

definition gcm_nonce_size :: nat where "gcm_nonce_size = 12"

definition sealPayload :: "codec \<Rightarrow> Publisher \<Rightarrow> string option \<Rightarrow> string \<Rightarrow> err + string" where
  "sealPayload c p nonce plaintext =
     (if pub_encryptionKey p = '''' then Inr plaintext
      else if \<not> aes_key_ok (pub_encryptionKey p)
      then Inl (Wrap ''create cipher: '' (Plain ''crypto/aes: invalid key size''))
      else case nonce of
        None \<Rightarrow> Inl (Wrap ''generate nonce: '' (Plain ''entropy source failed''))
      | Some n \<Rightarrow> Inr (json_ct_wrapper c
          (base64_encode c (n @ gcm_seal c (pub_encryptionKey p) n plaintext))))"

text \<open>
  The \<^verbatim>\<open>INSERT ... ON CONFLICT (idempotency_key) DO NOTHING\<close>: a row with the same idempotency key
  makes it a no-op, a clash on another unique column is an error.
\<close>

definition insert_command :: "fleet_command \<Rightarrow> queue \<Rightarrow> (driver_error + unit) \<times> queue" where
  "insert_command r q =
     (if \<exists>s \<in> set q. fc_idempotency_key s = fc_idempotency_key r then (Inr (), q)
      else if \<exists>s \<in> set q. fc_id s = fc_id r
      then (Inl (UniqueViolation ''fleet_commands_pkey''), q)
      else if \<exists>s \<in> set q. fc_task_public_id s = fc_task_public_id r
      then (Inl (UniqueViolation ''fleet_commands_task_public_id_key''), q)
      else (Inr (), q @ [r]))"

text \<open>The row that \<^verbatim>\<open>persistTask\<close> inserts; \<open>t\<close> is the default of \<^verbatim>\<open>created_at\<close>.\<close>

definition command_row ::
  "codec \<Rightarrow> FleetTask \<Rightarrow> string \<Rightarrow> string \<Rightarrow> FleetCommandStatus \<Rightarrow> int \<Rightarrow> string \<Rightarrow> string \<Rightarrow>
   string \<Rightarrow> int \<Rightarrow> int \<Rightarrow> int \<Rightarrow> fleet_command" where
  "command_row c task commandID storePayload status maxAttempts lastError result sig signedAt
     availableAt t =
     \<lparr>fc_id = commandID,
      fc_operation_id = nameUUID c (ft_OperationID task),
      fc_operation_public_id = ft_OperationID task,
      fc_task_public_id = ft_TaskID task,
      fc_instance_id = ft_InstanceID task,
      fc_node_id = ft_NodeID task,
      fc_command_type = ft_Action task,
      fc_payload = storePayload,
      fc_status = status,
      fc_priority = defaultPriority,
      fc_available_at = availableAt,
      fc_leased_until = None,
      fc_leased_by = None,
      fc_attempt_count = 0,
      fc_max_attempts = maxAttempts,
      fc_idempotency_key = ft_TaskID task,
      fc_created_at = t,
      fc_started_at = None,
      fc_completed_at = (if status = CommandFailed \<or> status = CommandSucceeded
                            \<or> status = CommandCancelled \<or> status = CommandDeadLetter
                         then Some availableAt else None),
      fc_last_error = (if TrimSpace lastError \<noteq> '''' then Some lastError else None),
      fc_result = (if result = '''' then None else Some result),
      fc_task_signature = (if sig \<noteq> '''' then Some sig else None),
      fc_signed_at = (if signedAt > 0 then Some signedAt else None)\<rparr>"

definition persistTask ::
  "codec \<Rightarrow> entropy \<Rightarrow> FleetTask \<Rightarrow> string \<Rightarrow> FleetCommandStatus \<Rightarrow> int \<Rightarrow> string \<Rightarrow> string \<Rightarrow>
   string \<Rightarrow> int \<Rightarrow> unit queue_io" where
  "persistTask c ent task storePayload status maxAttempts lastError result sig signedAt = do {
     u \<leftarrow> newUUID c ent;
     case u of
       Inl e \<Rightarrow> return (Inl (Wrap ''generate command ID: '' e))
     | Inr commandID \<Rightarrow> do {
         availableAt \<leftarrow> now;
         r \<leftarrow> stmt (\<lambda>t. insert_command (command_row c task commandID storePayload status
                maxAttempts lastError result sig signedAt availableAt t));
         case r of
           Inl e \<Rightarrow> return (Inl (Wrap ''insert fleet command: '' e))
         | Inr _ \<Rightarrow> return (Inr ())
       }
   }"

definition publish ::
  "codec \<Rightarrow> Publisher \<Rightarrow> entropy \<Rightarrow> FleetTask \<Rightarrow> FleetCommandStatus \<Rightarrow> int \<Rightarrow> string \<Rightarrow> string \<Rightarrow>
   unit queue_io" where
  "publish c p ent task status maxAttempts reason result = do {
     let task = task\<lparr>ft_TaskSignature := '''', ft_SignedAt := 0\<rparr>;
     case json_marshal c task of
       None \<Rightarrow> return (Inl (Wrap ''serialize task payload: '' (Plain ''json: unsupported value'')))
     | Some payload \<Rightarrow> do {
         t \<leftarrow> now;
         let signedAt = t div 1000000;
         case signPayload c p payload signedAt of
           Inl e \<Rightarrow> return (Inl e)
         | Inr sig \<Rightarrow>
             (let task = task\<lparr>ft_TaskSignature := sig, ft_SignedAt := signedAt\<rparr> in
              case sealPayload c p (ent_nonce ent) payload of
                Inl e \<Rightarrow> return (Inl (Wrap ''encrypt task payload: '' e))
              | Inr storePayload \<Rightarrow>
                  persistTask c ent task storePayload status maxAttempts reason result sig signedAt)
       }
   }"

definition PublishTask :: "codec \<Rightarrow> Publisher \<Rightarrow> entropy \<Rightarrow> FleetTask \<Rightarrow> unit queue_io" where
  "PublishTask c p ent task = publish c p ent task CommandPending defaultMaxAttempts '''' ''''"

definition PublishRejectedTask ::
  "codec \<Rightarrow> Publisher \<Rightarrow> entropy \<Rightarrow> FleetTask \<Rightarrow> string \<Rightarrow> string \<Rightarrow> unit queue_io" where
  "PublishRejectedTask c p ent task reason result =
     publish c p ent task CommandFailed 0 reason result"

section \<open>Claiming\<close>

definition openPayload :: "codec \<Rightarrow> Publisher \<Rightarrow> string \<Rightarrow> err + string" where
  "openPayload c p b64Ciphertext =
     (if pub_encryptionKey p = ''''
      then Inl (Plain ''task is encrypted but no encryption key configured'')
      else case base64_decode c b64Ciphertext of
        None \<Rightarrow> Inl (Wrap ''decode base64 ciphertext: '' (Plain ''illegal base64 data''))
      | Some ciphertext \<Rightarrow>
          if \<not> aes_key_ok (pub_encryptionKey p)
          then Inl (Wrap ''create cipher: '' (Plain ''crypto/aes: invalid key size''))
          else if length ciphertext < gcm_nonce_size then Inl (Plain ''ciphertext too short'')
          else case gcm_open c (pub_encryptionKey p) (take gcm_nonce_size ciphertext)
                      (drop gcm_nonce_size ciphertext) of
            None \<Rightarrow> Inl (Wrap ''decrypt payload: '' (Plain ''cipher: message authentication failed''))
          | Some plaintext \<Rightarrow> Inr plaintext)"

definition decode_command :: "codec \<Rightarrow> Publisher \<Rightarrow> string \<Rightarrow> err + FleetTask" where
  "decode_command c p payload = (case json_task c payload zero_task of (task, ok) \<Rightarrow>
     if \<not> ok \<or> ft_TaskID task = '''' then
       (let bad = Inl (Wrap ''decode command payload: '' (Plain ''no task in payload'')) in
        case json_ct c payload of
          None \<Rightarrow> bad
        | Some ct \<Rightarrow>
            if ct = '''' then bad
            else case openPayload c p ct of
              Inl derr \<Rightarrow> Inl (Wrap ''decrypt command payload: '' derr)
            | Inr plaintext \<Rightarrow> (case json_task c plaintext task of (task', ok') \<Rightarrow>
                if \<not> ok' then Inl (Wrap ''decode decrypted command payload: '' (Plain ''json''))
                else Inr task'))
     else Inr task)"

definition lease_expired :: "int \<Rightarrow> string \<Rightarrow> fleet_command \<Rightarrow> bool" where
  "lease_expired t nodeID r \<longleftrightarrow> fc_node_id r = nodeID
     \<and> (fc_status r = CommandLeased \<or> fc_status r = CommandRunning)
     \<and> (case fc_leased_until r of None \<Rightarrow> False | Some u \<Rightarrow> u < t)"

definition reset_expired :: "int \<Rightarrow> string \<Rightarrow> queue \<Rightarrow> queue" where
  "reset_expired t nodeID = update_where (lease_expired t nodeID)
     (\<lambda>r. r\<lparr>fc_status := (if fc_attempt_count r \<ge> fc_max_attempts r then CommandDeadLetter
                          else CommandPending),
           fc_leased_until := None, fc_leased_by := None\<rparr>)"

definition claimable :: "int \<Rightarrow> string \<Rightarrow> fleet_command \<Rightarrow> bool" where
  "claimable t nodeID r \<longleftrightarrow> fc_node_id r = nodeID \<and> fc_status r = CommandPending
     \<and> fc_attempt_count r < fc_max_attempts r \<and> fc_available_at r \<le> t"

definition next_command :: "int \<Rightarrow> string \<Rightarrow> queue \<Rightarrow> fleet_command option" where
  "next_command t nodeID q =
     first_by (\<lambda>r. (fc_priority r, fc_created_at r)) (filter (claimable t nodeID) q)"

definition lease :: "int \<Rightarrow> string \<Rightarrow> fleet_command \<Rightarrow> fleet_command" where
  "lease t consumerID r = r\<lparr>fc_status := CommandLeased, fc_leased_by := Some consumerID,
     fc_leased_until := Some (t + seconds defaultLeaseSeconds),
     fc_attempt_count := fc_attempt_count r + 1\<rparr>"

text \<open>The \<^verbatim>\<open>WITH next_command ... UPDATE ... RETURNING\<close> statement: the leased row, if there was one.\<close>

definition lease_next :: "int \<Rightarrow> string \<Rightarrow> string \<Rightarrow> queue \<Rightarrow> fleet_command option \<times> queue" where
  "lease_next t nodeID consumerID q = (case next_command t nodeID q of
     None \<Rightarrow> (None, q)
   | Some r \<Rightarrow> (Some (lease t consumerID r),
                update_where (\<lambda>s. fc_id s = fc_id r) (lease t consumerID) q))"

definition claim_body ::
  "codec \<Rightarrow> Publisher \<Rightarrow> string \<Rightarrow>
   (queue conn, (err, (FleetTask \<times> string \<times> int \<times> int) option) outcome) state" where
  "claim_body c p nodeID = do {
     r \<leftarrow> exec (\<lambda>t. reset_expired t nodeID);
     case r of
       Inl e \<Rightarrow> return (Abort (Wrap ''reset expired leases: '' e))
     | Inr _ \<Rightarrow> do {
         n \<leftarrow> now;
         let consumerID = nodeID @ ''-'' @ show_int (n * 1000);
         row \<leftarrow> stmt (\<lambda>t q. case lease_next t nodeID consumerID q of (x, q') \<Rightarrow> (Inr x, q'));
         case row of
           Inl e \<Rightarrow> return (Abort (Wrap ''scan claimed command: '' e))
         | Inr None \<Rightarrow> return (Commit None)
         | Inr (Some cmd) \<Rightarrow> (case decode_command c p (fc_payload cmd) of
             Inl e \<Rightarrow> return (Abort e)
           | Inr task \<Rightarrow>
               (let task = (case fc_task_signature cmd of
                              None \<Rightarrow> task | Some s \<Rightarrow> task\<lparr>ft_TaskSignature := s\<rparr>);
                    task = (case fc_signed_at cmd of
                              None \<Rightarrow> task | Some s \<Rightarrow> task\<lparr>ft_SignedAt := s\<rparr>)
                in return (Commit (Some
                     (task, fc_id cmd, fc_attempt_count cmd, fc_max_attempts cmd)))))
       }
   }"

definition ClaimTask ::
  "codec \<Rightarrow> Publisher \<Rightarrow> string \<Rightarrow> (FleetTask \<times> string \<times> int \<times> int) queue_io" where
  "ClaimTask c p nodeID = do {
     r \<leftarrow> transaction ''begin claim tx: ''
            (\<lambda>x. case x of None \<Rightarrow> ''commit empty claim tx: '' | Some _ \<Rightarrow> ''commit claim tx: '')
            (claim_body c p nodeID);
     case r of
       Inl e \<Rightarrow> return (Inl e)
     | Inr None \<Rightarrow> return (Inl ErrNoCommandAvailable)
     | Inr (Some x) \<Rightarrow> return (Inr x)
   }"

section \<open>Updates by the node that holds a command\<close>

definition is_active :: "FleetCommandStatus \<Rightarrow> bool" where
  "is_active s \<longleftrightarrow> s = CommandPending \<or> s = CommandLeased \<or> s = CommandRunning"

text \<open>An \<^verbatim>\<open>UPDATE\<close> whose \<^verbatim>\<open>RowsAffected\<close> the caller inspects.\<close>

definition update_counted ::
  "(fleet_command \<Rightarrow> bool) \<Rightarrow> (int \<Rightarrow> fleet_command \<Rightarrow> fleet_command) \<Rightarrow> nat queue_io" where
  "update_counted p f = stmt (\<lambda>t q. (Inr (affected p q), update_where p (f t) q))"

definition owned_update ::
  "string \<Rightarrow> (fleet_command \<Rightarrow> bool) \<Rightarrow> (int \<Rightarrow> fleet_command \<Rightarrow> fleet_command) \<Rightarrow> unit queue_io" where
  "owned_update msg p f = do {
     r \<leftarrow> update_counted p f;
     case r of
       Inl e \<Rightarrow> return (Inl (Wrap msg e))
     | Inr n \<Rightarrow> return (if n = 0 then Inl ErrCommandNotOwned else Inr ())
   }"

definition MarkRunningForNode :: "string \<Rightarrow> string \<Rightarrow> unit queue_io" where
  "MarkRunningForNode commandID nodeID = owned_update ''mark running: ''
     (\<lambda>r. fc_id r = commandID \<and> fc_node_id r = nodeID
        \<and> (fc_status r = CommandLeased \<or> fc_status r = CommandRunning))
     (\<lambda>t r. r\<lparr>fc_status := CommandRunning, fc_started_at := Some t\<rparr>)"

definition RenewLeaseForNode :: "string \<Rightarrow> string \<Rightarrow> unit queue_io" where
  "RenewLeaseForNode commandID nodeID = owned_update ''renew lease: ''
     (\<lambda>r. fc_id r = commandID \<and> fc_node_id r = nodeID \<and> fc_status r = CommandRunning)
     (\<lambda>t r. r\<lparr>fc_leased_until := Some (t + seconds defaultLeaseSeconds)\<rparr>)"

definition DiscardCommandForNode :: "string \<Rightarrow> string \<Rightarrow> string \<Rightarrow> unit queue_io" where
  "DiscardCommandForNode commandID nodeID reason = owned_update ''discard command: ''
     (\<lambda>r. fc_id r = commandID \<and> fc_node_id r = nodeID
        \<and> \<not> (fc_status r = CommandSucceeded \<or> fc_status r = CommandFailed))
     (\<lambda>t r. r\<lparr>fc_status := CommandFailed, fc_last_error := Some reason,
             fc_completed_at := Some t, fc_leased_until := None\<rparr>)"

definition plain_update ::
  "string \<Rightarrow> (fleet_command \<Rightarrow> bool) \<Rightarrow> (int \<Rightarrow> fleet_command \<Rightarrow> fleet_command) \<Rightarrow> unit queue_io" where
  "plain_update msg p f = do {
     r \<leftarrow> exec (\<lambda>t. update_where p (f t));
     case r of
       Inl e \<Rightarrow> return (Inl (Wrap msg e))
     | Inr _ \<Rightarrow> return (Inr ())
   }"

definition cancel_row :: "string \<Rightarrow> int \<Rightarrow> fleet_command \<Rightarrow> fleet_command" where
  "cancel_row reason t r = r\<lparr>fc_status := CommandCancelled, fc_last_error := Some reason,
     fc_completed_at := Some t, fc_leased_until := None, fc_leased_by := None\<rparr>"

definition CancelCommandForNode :: "string \<Rightarrow> string \<Rightarrow> string \<Rightarrow> unit queue_io" where
  "CancelCommandForNode commandID nodeID reason = plain_update ''cancel command: ''
     (\<lambda>r. fc_id r = commandID \<and> fc_node_id r = nodeID \<and> is_active (fc_status r))
     (cancel_row reason)"

definition CancelTaskForNode :: "string \<Rightarrow> string \<Rightarrow> string \<Rightarrow> unit queue_io" where
  "CancelTaskForNode taskPublicID nodeID reason = plain_update ''cancel task: ''
     (\<lambda>r. fc_task_public_id r = taskPublicID \<and> fc_node_id r = nodeID \<and> is_active (fc_status r))
     (cancel_row reason)"

definition AcknowledgeTaskForNode :: "string \<Rightarrow> string \<Rightarrow> unit queue_io" where
  "AcknowledgeTaskForNode taskPublicID nodeID = plain_update ''acknowledge task: ''
     (\<lambda>r. fc_task_public_id r = taskPublicID \<and> fc_node_id r = nodeID \<and> is_active (fc_status r))
     (\<lambda>t r. r\<lparr>fc_status := CommandSucceeded, fc_completed_at := Some t, fc_leased_until := None,
             fc_leased_by := None\<rparr>)"

section \<open>Removal of a node\<close>

definition CancelTasksForNode :: "string \<Rightarrow> string \<Rightarrow> unit queue_io" where
  "CancelTasksForNode nodeID marker =
     transaction ''begin node command cancellation: ''
       (\<lambda>_. ''commit node command cancellation: '') (do {
       r \<leftarrow> exec (\<lambda>t. update_where
              (\<lambda>r. fc_node_id r = nodeID \<and> is_active (fc_status r)) (cancel_row marker t));
       case r of
         Inl e \<Rightarrow> return (Abort (Wrap ''cancel node commands: '' e))
       | Inr _ \<Rightarrow> return (Commit ())
     })"

definition HasActiveTasksForNode :: "string \<Rightarrow> bool queue_io" where
  "HasActiveTasksForNode nodeID = do {
     r \<leftarrow> query (\<lambda>_ q. \<exists>r \<in> set q. fc_node_id r = nodeID \<and> is_active (fc_status r));
     case r of
       Inl e \<Rightarrow> return (Inl (Wrap ''check active node commands: '' e))
     | Inr b \<Rightarrow> return (Inr b)
   }"

definition RestoreCancelledTasksForNode :: "string \<Rightarrow> string \<Rightarrow> unit queue_io" where
  "RestoreCancelledTasksForNode nodeID marker = plain_update ''restore cancelled node commands: ''
     (\<lambda>r. fc_node_id r = nodeID \<and> fc_status r = CommandCancelled \<and> fc_last_error r = Some marker)
     (\<lambda>t r. r\<lparr>fc_status := CommandPending, fc_last_error := None, fc_completed_at := None,
             fc_available_at := t, fc_leased_until := None, fc_leased_by := None\<rparr>)"

definition FinalizeCancelledTasksForNode :: "string \<Rightarrow> string \<Rightarrow> unit queue_io" where
  "FinalizeCancelledTasksForNode nodeID marker = plain_update ''finalize cancelled node commands: ''
     (\<lambda>r. fc_node_id r = nodeID \<and> fc_status r = CommandCancelled \<and> fc_last_error r = Some marker)
     (\<lambda>t r. r\<lparr>fc_last_error := Some ''node removed''\<rparr>)"

definition DiscardTasksForNode :: "string \<Rightarrow> unit queue_io" where
  "DiscardTasksForNode nodeID = CancelTasksForNode nodeID ''node removed''"

section \<open>Completion\<close>

definition backoff :: "int \<Rightarrow> int" where
  "backoff attempt =
     (if attempt \<le> 1 then seconds 2 else if attempt = 2 then seconds 5
      else if attempt = 3 then seconds 10 else seconds 30)"

definition CompleteTask :: "string \<Rightarrow> bool \<Rightarrow> string \<Rightarrow> unit queue_io" where
  "CompleteTask taskPublicID success errorMsg = (let mine = (\<lambda>r. fc_task_public_id r = taskPublicID) in
     if success then
       exec (\<lambda>t. update_where mine
         (\<lambda>r. r\<lparr>fc_status := CommandSucceeded, fc_completed_at := Some t, fc_leased_until := None\<rparr>))
     else do {
       row \<leftarrow> query (\<lambda>_. find_where mine);
       case row of
         Inl e \<Rightarrow> return (Inl (Wrap ''query fleet_commands for retry: '' e))
       | Inr None \<Rightarrow> return (Inl (Wrap ''query fleet_commands for retry: '' (Driver NoRows)))
       | Inr (Some cmd) \<Rightarrow>
           if fc_attempt_count cmd \<ge> fc_max_attempts cmd then
             exec (\<lambda>t. update_where mine
               (\<lambda>r. r\<lparr>fc_status := CommandDeadLetter, fc_last_error := Some errorMsg,
                     fc_completed_at := Some t, fc_leased_until := None\<rparr>))
           else do {
             n \<leftarrow> now;
             exec (\<lambda>t. update_where mine
               (\<lambda>r. r\<lparr>fc_status := CommandPending, fc_last_error := Some errorMsg,
                     fc_available_at := n + backoff (fc_attempt_count cmd),
                     fc_leased_until := None, fc_leased_by := None\<rparr>))
           }
     })"

end
