(* ===== verification/Queue_Inv.thy ===== *)
theory Queue_Inv
  imports Queue
begin

text \<open>
  The invariant of the queue and its transition system.  \<open>queue_step\<close> has one rule per method of
  \<^verbatim>\<open>Publisher\<close> (with any arguments and any faults), plus the passing of time and the arrival of a
  new fault schedule; \<open>queue_reachable\<close> are the states that a queue that starts empty can get into.
  Every method is one atomic step: PostgreSQL serialises the single-statement methods by row
  locks, and \<^verbatim>\<open>claimTask\<close> runs in one transaction.
\<close>

section \<open>Invariant\<close>

definition holds_lease :: "fleet_command \<Rightarrow> bool" where
  "holds_lease r \<longleftrightarrow> fc_status r = CommandLeased \<or> fc_status r = CommandRunning"

definition command_ok :: "fleet_command \<Rightarrow> bool" where
  "command_ok r \<longleftrightarrow>
     0 \<le> fc_attempt_count r \<and> fc_attempt_count r \<le> fc_max_attempts r
     \<and> fc_idempotency_key r = fc_task_public_id r
     \<and> (holds_lease r \<longleftrightarrow> fc_leased_until r \<noteq> None)
     \<and> (holds_lease r \<longrightarrow> fc_leased_by r \<noteq> None)
     \<and> (fc_status r = CommandSucceeded \<or> fc_status r = CommandFailed \<or> fc_status r = CommandCancelled
        \<longrightarrow> fc_completed_at r \<noteq> None)"

definition queue_inv :: "queue \<Rightarrow> bool" where
  "queue_inv q \<longleftrightarrow> (\<forall>r \<in> set q. command_ok r) \<and> distinct (map fc_id q)
     \<and> distinct (map fc_task_public_id q)"

section \<open>Transitions\<close>

inductive queue_step :: "codec \<Rightarrow> Publisher \<Rightarrow> queue conn \<Rightarrow> queue conn \<Rightarrow> bool" for c p where
  step_publish: "queue_step c p s (snd (run_state (PublishTask c p ent task) s))"
| step_reject: "queue_step c p s (snd (run_state (PublishRejectedTask c p ent task reason result) s))"
| step_claim: "queue_step c p s (snd (run_state (ClaimTask c p node) s))"
| step_mark: "queue_step c p s (snd (run_state (MarkRunningForNode cid node) s))"
| step_renew: "queue_step c p s (snd (run_state (RenewLeaseForNode cid node) s))"
| step_discard: "queue_step c p s (snd (run_state (DiscardCommandForNode cid node reason) s))"
| step_cancel: "queue_step c p s (snd (run_state (CancelCommandForNode cid node reason) s))"
| step_cancel_task: "queue_step c p s (snd (run_state (CancelTaskForNode tid node reason) s))"
| step_ack: "queue_step c p s (snd (run_state (AcknowledgeTaskForNode tid node) s))"
| step_cancel_all: "queue_step c p s (snd (run_state (CancelTasksForNode node marker) s))"
| step_active: "queue_step c p s (snd (run_state (HasActiveTasksForNode node) s))"
| step_restore: "queue_step c p s (snd (run_state (RestoreCancelledTasksForNode node marker) s))"
| step_finalize: "queue_step c p s (snd (run_state (FinalizeCancelledTasksForNode node marker) s))"
| step_complete: "queue_step c p s (snd (run_state (CompleteTask tid success msg) s))"
| step_clock: "db_clock s \<le> t \<Longrightarrow> app_clock s \<le> u \<Longrightarrow>
    queue_step c p s (s\<lparr>db_clock := t, app_clock := u\<rparr>)"
| step_faults: "queue_step c p s (s\<lparr>faults := fs\<rparr>)"

inductive queue_reachable :: "codec \<Rightarrow> Publisher \<Rightarrow> queue conn \<Rightarrow> bool" for c p where
  reach_empty: "tables s = [] \<Longrightarrow> queue_reachable c p s"
| reach_step: "queue_reachable c p s \<Longrightarrow> queue_step c p s s' \<Longrightarrow> queue_reachable c p s'"

section \<open>Row updates that keep the invariant\<close>

interpretation cmd_id: unique_key fc_id "\<lambda>f. \<forall>r. fc_id (f r) = fc_id r"
  by unfold_locales simp

interpretation cmd_task: unique_key fc_task_public_id
  "\<lambda>f. \<forall>r. fc_task_public_id (f r) = fc_task_public_id r"
  by unfold_locales simp

lemma queue_inv_update:
  assumes "queue_inv q"
    and "\<And>r. p r \<Longrightarrow> command_ok r \<Longrightarrow> command_ok (f r)"
    and "\<And>r. fc_id (f r) = fc_id r" and "\<And>r. fc_task_public_id (f r) = fc_task_public_id r"
  shows "queue_inv (update_where p f q)"
  using assms
  by (auto simp: queue_inv_def set_update_where cmd_id.keys_update cmd_task.keys_update)

lemma queue_inv_unique_id:
  "queue_inv q \<Longrightarrow> r \<in> set q \<Longrightarrow> s \<in> set q \<Longrightarrow> fc_id r = fc_id s \<Longrightarrow> r = s"
  by (auto simp: queue_inv_def intro: cmd_id.unique_row)

lemma queue_inv_unique_task:
  "queue_inv q \<Longrightarrow> r \<in> set q \<Longrightarrow> s \<in> set q \<Longrightarrow> fc_task_public_id r = fc_task_public_id s \<Longrightarrow> r = s"
  by (auto simp: queue_inv_def intro: cmd_task.unique_row)

lemma queue_inv_ok: "queue_inv q \<Longrightarrow> r \<in> set q \<Longrightarrow> command_ok r"
  by (simp add: queue_inv_def)

lemma queue_inv_insert:
  assumes "queue_inv q" and "insert_command r q = (Inr u, q')" and "command_ok r"
  shows "queue_inv q'"
proof (cases "q' = q")
  case False
  with assms(2) have "q' = q @ [r]" "\<forall>s \<in> set q. fc_id s \<noteq> fc_id r"
    "\<forall>s \<in> set q. fc_task_public_id s \<noteq> fc_task_public_id r"
    by (auto simp: insert_command_def split: if_splits)
  with assms show ?thesis
    using cmd_id.unique_insert [of q r] cmd_task.unique_insert [of q r]
    by (simp add: queue_inv_def)
qed (use assms in simp)

lemma queue_inv_reset: "queue_inv q \<Longrightarrow> queue_inv (reset_expired t nodeID q)"
  unfolding reset_expired_def
  by (rule queue_inv_update) (auto simp: command_ok_def holds_lease_def)

lemma next_command_SomeD:
  assumes "next_command t nodeID q = Some r"
  shows "r \<in> set q \<and> claimable t nodeID r
     \<and> (\<forall>s \<in> set q. claimable t nodeID s \<longrightarrow>
          (fc_priority r, fc_created_at r) \<le> (fc_priority s, fc_created_at s))"
  using first_by_SomeD [OF assms [unfolded next_command_def]] by simp

lemma next_command_None:
  "next_command t nodeID q = None \<longleftrightarrow> (\<forall>r \<in> set q. \<not> claimable t nodeID r)"
  by (simp add: next_command_def filter_empty_conv)

lemma queue_inv_lease_next:
  assumes "queue_inv q" and "lease_next t nodeID consumerID q = (x, q')"
  shows "queue_inv q'"
proof (cases "next_command t nodeID q")
  case None
  with assms show ?thesis by (simp add: lease_next_def)
next
  case (Some r)
  then have r: "r \<in> set q" "claimable t nodeID r" by (auto dest: next_command_SomeD)
  have "command_ok (lease t consumerID s)" if "s \<in> set q" "fc_id s = fc_id r" for s
    using queue_inv_unique_id [OF assms(1) that(1) r(1) that(2)] r queue_inv_ok [OF assms(1) r(1)]
    by (auto simp: lease_def command_ok_def holds_lease_def claimable_def)
  then have "queue_inv (update_where (\<lambda>s. fc_id s = fc_id r) (lease t consumerID) q)"
    using assms(1)
    by (auto simp: queue_inv_def set_update_where map_update_where lease_def)
  with Some assms(2) show ?thesis by (simp add: lease_next_def)
qed

section \<open>Every method keeps the invariant\<close>

abbreviation keeps_inv :: "(queue conn, 'a) state \<Rightarrow> bool" where
  "keeps_inv \<equiv> state_io_rel (conn_rel (\<lambda>_ q q'. queue_inv q \<longrightarrow> queue_inv q'))"

interpretation qi: table_contract "\<lambda>_ q q'. queue_inv q \<longrightarrow> queue_inv q'"
  by unfold_locales auto

lemma keeps_plain_update:
  assumes "\<And>t r. p r \<Longrightarrow> command_ok r \<Longrightarrow> command_ok (f t r)"
    and "\<And>t r. fc_id (f t r) = fc_id r"
    and "\<And>t r. fc_task_public_id (f t r) = fc_task_public_id r"
  shows "keeps_inv (plain_update msg p f)"
  unfolding plain_update_def
  by (intro qi.conn_rules impI queue_inv_update) (use assms in auto)

lemma keeps_owned_update:
  assumes "\<And>t r. p r \<Longrightarrow> command_ok r \<Longrightarrow> command_ok (f t r)"
    and "\<And>t r. fc_id (f t r) = fc_id r"
    and "\<And>t r. fc_task_public_id (f t r) = fc_task_public_id r"
  shows "keeps_inv (owned_update msg p f)"
  unfolding owned_update_def update_counted_def
  by (intro qi.conn_rules) (use assms in \<open>auto intro: queue_inv_update\<close>)

lemma command_ok_cancel [simp]: "command_ok r \<Longrightarrow> command_ok (cancel_row reason t r)"
  by (auto simp: cancel_row_def command_ok_def holds_lease_def)

lemma cancel_row_keys [simp]:
  "fc_id (cancel_row reason t r) = fc_id r"
  "fc_task_public_id (cancel_row reason t r) = fc_task_public_id r"
  "fc_node_id (cancel_row reason t r) = fc_node_id r"
  by (simp_all add: cancel_row_def)

lemma keeps_newUUID: "keeps_inv (newUUID c ent)"
  unfolding newUUID_def by (intro qi.conn_rules)

lemma keeps_persistTask:
  assumes "status = CommandPending \<or> status = CommandFailed" and "0 \<le> maxAttempts"
  shows "keeps_inv (persistTask c ent task sp status maxAttempts lastError result sig signedAt)"
  unfolding persistTask_def
  by (intro qi.conn_rules keeps_newUUID impI, erule queue_inv_insert, assumption)
    (use assms in \<open>auto simp: command_ok_def holds_lease_def command_row_def\<close>)

lemma keeps_publish:
  assumes "status = CommandPending \<or> status = CommandFailed" and "0 \<le> maxAttempts"
  shows "keeps_inv (publish c p ent task status maxAttempts reason result)"
  unfolding publish_def by (intro qi.conn_rules keeps_persistTask assms)

lemma keeps_ClaimTask: "keeps_inv (ClaimTask c p nodeID)"
  unfolding ClaimTask_def claim_body_def
  by (intro qi.conn_rules)
    (auto intro: queue_inv_reset queue_inv_lease_next split: prod.splits)

lemma keeps_CompleteTask: "keeps_inv (CompleteTask tid success msg)"
  unfolding CompleteTask_def
  by (intro qi.conn_rules impI queue_inv_update) (auto simp: command_ok_def holds_lease_def)

lemma keeps_CancelTasks: "keeps_inv (CancelTasksForNode nodeID marker)"
  unfolding CancelTasksForNode_def
  by (intro qi.conn_rules impI queue_inv_update) auto

lemma keeps_owned:
  "keeps_inv (MarkRunningForNode cid node)"
  "keeps_inv (RenewLeaseForNode cid node)"
  "keeps_inv (DiscardCommandForNode cid node reason)"
  unfolding MarkRunningForNode_def RenewLeaseForNode_def DiscardCommandForNode_def
  by (rule keeps_owned_update; force simp: command_ok_def holds_lease_def)+

lemma keeps_plain:
  "keeps_inv (CancelCommandForNode cid node reason)"
  "keeps_inv (CancelTaskForNode tid node reason)"
  "keeps_inv (AcknowledgeTaskForNode tid node)"
  "keeps_inv (RestoreCancelledTasksForNode node marker)"
  "keeps_inv (FinalizeCancelledTasksForNode node marker)"
  unfolding CancelCommandForNode_def CancelTaskForNode_def AcknowledgeTaskForNode_def
    RestoreCancelledTasksForNode_def FinalizeCancelledTasksForNode_def
  by (rule keeps_plain_update; force simp: command_ok_def holds_lease_def cancel_row_def)+

lemma keeps_HasActive: "keeps_inv (HasActiveTasksForNode node)"
  unfolding HasActiveTasksForNode_def by (intro qi.conn_rules)

lemmas keeps_queue = keeps_publish keeps_ClaimTask keeps_CompleteTask keeps_CancelTasks
  keeps_owned keeps_plain keeps_HasActive

lemma keeps_invD: "keeps_inv m \<Longrightarrow> queue_inv (tables s) \<Longrightarrow> queue_inv (tables (snd (run_state m s)))"
  by (auto simp: state_io_rel_def conn_rel_def)

lemma queue_step_inv: "queue_step c p s s' \<Longrightarrow> queue_inv (tables s) \<Longrightarrow> queue_inv (tables s')"
  by (induction rule: queue_step.induct)
    (simp_all add: keeps_invD keeps_queue PublishTask_def PublishRejectedTask_def
      defaultMaxAttempts_def)

lemma queue_reachable_inv: "queue_reachable c p s \<Longrightarrow> queue_inv (tables s)"
proof (induction rule: queue_reachable.induct)
  case (reach_empty s)
  then show ?case by (simp add: queue_inv_def)
next
  case (reach_step s s')
  then show ?case by (blast intro: queue_step_inv)
qed

end
