(* ===== verification/Queue_Props.thy ===== *)
theory Queue_Props
  imports Queue_Inv
begin

text \<open>
  What the queue promises: which command a claim returns and what it leaves behind, exclusive
  leases, at most \<^verbatim>\<open>max_attempts\<close> deliveries, idempotent publication, the round trip of a task
  through publication and claim, retry with backoff, the isolation of nodes from each other, and
  the compensation of a node removal.
\<close>

section \<open>A claim, step by step\<close>

definition consumer_of :: "string \<Rightarrow> queue conn \<Rightarrow> string" where
  "consumer_of nodeID s = nodeID @ ''-'' @ show_int (app_clock s * 1000)"

definition stamped :: "fleet_command \<Rightarrow> FleetTask \<Rightarrow> FleetTask" where
  "stamped r task =
     (let task = (case fc_task_signature r of None \<Rightarrow> task | Some x \<Rightarrow> task\<lparr>ft_TaskSignature := x\<rparr>)
      in case fc_signed_at r of None \<Rightarrow> task | Some x \<Rightarrow> task\<lparr>ft_SignedAt := x\<rparr>)"

lemma lease_fields [simp]:
  "fc_id (lease t k r) = fc_id r" "fc_payload (lease t k r) = fc_payload r"
  "fc_task_signature (lease t k r) = fc_task_signature r" "fc_signed_at (lease t k r) = fc_signed_at r"
  "fc_max_attempts (lease t k r) = fc_max_attempts r" "fc_node_id (lease t k r) = fc_node_id r"
  "fc_attempt_count (lease t k r) = fc_attempt_count r + 1" "fc_status (lease t k r) = CommandLeased"
  "fc_leased_until (lease t k r) = Some (t + seconds defaultLeaseSeconds)"
  "fc_leased_by (lease t k r) = Some k" "fc_task_public_id (lease t k r) = fc_task_public_id r"
  by (simp_all add: lease_def)

lemma ClaimTask_Inr:
  assumes "run_state (ClaimTask c p nodeID) s = (Inr (task, cid, a, m), s')"
  obtains r task0 where
    "next_command (db_clock s) nodeID (reset_expired (db_clock s) nodeID (tables s)) = Some r"
    and "cid = fc_id r" and "a = fc_attempt_count r + 1" and "m = fc_max_attempts r"
    and "decode_command c p (fc_payload r) = Inr task0" and "task = stamped r task0"
    and "tables s' = update_where (\<lambda>x. fc_id x = fc_id r)
           (lease (db_clock s) (consumer_of nodeID s)) (reset_expired (db_clock s) nodeID (tables s))"
    and "same_clocks s s'"
proof -
  from assms obtain bm cm where
    "run_state (transaction bm cm (claim_body c p nodeID)) s = (Inr (Some (task, cid, a, m)), s')"
    by (auto simp: ClaimTask_def split: prod.splits sum.splits option.splits)
  then obtain d d' where d: "tables d = tables s" "same_clocks s d"
    and body: "run_state (claim_body c p nodeID) d = (Commit (Some (task, cid, a, m)), d')"
    and d': "tables s' = tables d'" "same_clocks d' s'"
    by (elim transaction_Inr)
  from body obtain d1 row cmd q task0 where
    ex: "run_state (exec (\<lambda>t. reset_expired t nodeID)) d = (row, d1)"
    and row: "row = Inr ()"
    and st: "run_state (stmt (\<lambda>t q. case lease_next t nodeID (consumer_of nodeID d1) q of
               (x, q') \<Rightarrow> (Inr x, q'))) d1 = (Inr (Some cmd), d')"
    and dec: "decode_command c p (fc_payload cmd) = Inr task0"
    and out: "task = stamped cmd task0" "cid = fc_id cmd" "a = fc_attempt_count cmd"
      "m = fc_max_attempts cmd"
    by (auto simp: claim_body_def consumer_of_def stamped_def Let_def
          split: prod.splits sum.splits option.splits)
  from exec_Inr [OF ex [unfolded row]] d have d1:
    "tables d1 = reset_expired (db_clock s) nodeID (tables s)" "same_clocks s d1"
    by (auto simp: same_clocks_def)
  from stmt_Inr [OF st] d1 have
    "lease_next (db_clock s) nodeID (consumer_of nodeID s) (reset_expired (db_clock s) nodeID (tables s))
       = (Some cmd, tables d')" and cl: "same_clocks d1 d'"
    by (auto simp: same_clocks_def consumer_of_def split: prod.splits)
  then obtain r where
    r: "next_command (db_clock s) nodeID (reset_expired (db_clock s) nodeID (tables s)) = Some r"
    and cmd: "cmd = lease (db_clock s) (consumer_of nodeID s) r"
    and tab: "tables d' = update_where (\<lambda>x. fc_id x = fc_id r)
      (lease (db_clock s) (consumer_of nodeID s)) (reset_expired (db_clock s) nodeID (tables s))"
    by (auto simp: lease_next_def split: option.splits)
  have "same_clocks s s'" using d1 cl d' by (auto simp: same_clocks_def)
  with r cmd tab dec out d'(1) show thesis
    by (intro that) (auto simp: stamped_def)
qed

lemma ClaimTask_Inl:
  assumes "run_state (ClaimTask c p nodeID) s = (Inl e, s')"
  shows "tables s' = tables s \<or>
    e = ErrNoCommandAvailable
    \<and> tables s' = reset_expired (db_clock s) nodeID (tables s)
    \<and> next_command (db_clock s) nodeID (tables s') = None"
proof -
  from assms obtain r bm cm where
    run: "run_state (transaction bm cm (claim_body c p nodeID)) s = (r, s')"
    and r: "r = Inl e \<or> r = Inr None \<and> e = ErrNoCommandAvailable"
    by (auto simp: ClaimTask_def split: prod.splits sum.splits option.splits)
  from r show ?thesis
  proof
    assume "r = Inl e"
    with run have "tables s' = tables s" by (auto dest: transaction_Inl)
    then show ?thesis ..
  next
    assume none: "r = Inr None \<and> e = ErrNoCommandAvailable"
    with run obtain d d' where d: "tables d = tables s" "same_clocks s d"
      and body: "run_state (claim_body c p nodeID) d = (Commit None, d')"
      and d': "tables s' = tables d'"
      by (auto elim: transaction_Inr)
    from body obtain d1 k where
      ex: "run_state (exec (\<lambda>t. reset_expired t nodeID)) d = (Inr (), d1)"
      and st: "run_state (stmt (\<lambda>t q. case lease_next t nodeID k q of
                 (x, q') \<Rightarrow> (Inr x, q'))) d1 = (Inr None, d')"
      by (auto simp: claim_body_def Let_def split: prod.splits sum.splits option.splits)
    from exec_Inr [OF ex] d have d1:
      "tables d1 = reset_expired (db_clock s) nodeID (tables s)" "db_clock d1 = db_clock s"
      by (auto simp: same_clocks_def)
    from stmt_Inr [OF st] d1 have
      "lease_next (db_clock s) nodeID k (reset_expired (db_clock s) nodeID (tables s))
         = (None, tables d')"
      by (auto split: prod.splits)
    then show ?thesis
      using none d' by (auto simp: lease_next_def split: option.splits)
  qed
qed

lemma reset_expired_row:
  "r \<in> set (reset_expired t nodeID q) \<Longrightarrow> fc_status r = CommandPending \<Longrightarrow>
   \<exists>r0 \<in> set q. fc_id r = fc_id r0 \<and> fc_attempt_count r = fc_attempt_count r0
     \<and> fc_max_attempts r = fc_max_attempts r0 \<and> fc_node_id r = fc_node_id r0
     \<and> (r = r0 \<or> lease_expired t nodeID r0)"
  by (auto simp: reset_expired_def set_update_where split: if_splits)

lemma reset_expired_keeps: "r \<in> set q \<Longrightarrow> \<not> lease_expired t nodeID r \<Longrightarrow> r \<in> set (reset_expired t nodeID q)"
  by (auto simp: reset_expired_def set_update_where)

lemma reset_expired_ids [simp]: "map fc_id (reset_expired t nodeID q) = map fc_id q"
  unfolding reset_expired_def by (rule map_update_where) simp


lemma claim_effect:
  assumes run: "run_state (ClaimTask c p nodeID) s = (Inr (task, cid, a, m), s')"
  shows "(\<exists>r0 \<in> set (tables s). fc_id r0 = cid \<and> fc_node_id r0 = nodeID
      \<and> (claimable (db_clock s) nodeID r0 \<or> lease_expired (db_clock s) nodeID r0)
      \<and> a = fc_attempt_count r0 + 1 \<and> m = fc_max_attempts r0 \<and> a \<le> m
      \<and> (\<forall>x \<in> set (tables s). claimable (db_clock s) nodeID x \<longrightarrow>
           (fc_priority r0, fc_created_at r0) \<le> (fc_priority x, fc_created_at x)))
    \<and> (\<exists>r' \<in> set (tables s'). fc_id r' = cid \<and> fc_status r' = CommandLeased
      \<and> fc_leased_until r' = Some (db_clock s + seconds 300) \<and> fc_attempt_count r' = a
      \<and> fc_leased_by r' = Some (consumer_of nodeID s))
    \<and> (\<forall>x \<in> set (tables s). fc_id x \<noteq> cid \<and> \<not> lease_expired (db_clock s) nodeID x \<longrightarrow>
      x \<in> set (tables s'))"
proof (intro conjI)
  let ?q = "reset_expired (db_clock s) nodeID (tables s)"
  obtain r where r: "next_command (db_clock s) nodeID ?q = Some r" "cid = fc_id r"
    "a = fc_attempt_count r + 1" "m = fc_max_attempts r"
    and s': "tables s' = update_where (\<lambda>x. fc_id x = fc_id r)
      (lease (db_clock s) (consumer_of nodeID s)) ?q"
    using run by (rule ClaimTask_Inr)
  from next_command_SomeD [OF r(1)] have rq: "r \<in> set ?q" and cl: "claimable (db_clock s) nodeID r"
    and least: "\<forall>x \<in> set ?q. claimable (db_clock s) nodeID x \<longrightarrow>
       (fc_priority r, fc_created_at r) \<le> (fc_priority x, fc_created_at x)" by auto
  from rq obtain r0 where r0: "r0 \<in> set (tables s)" "fc_id r0 = cid"
    "fc_priority r0 = fc_priority r" "fc_created_at r0 = fc_created_at r"
    "fc_attempt_count r0 = fc_attempt_count r" "fc_max_attempts r0 = fc_max_attempts r"
    "fc_node_id r0 = fc_node_id r" "r = r0 \<or> lease_expired (db_clock s) nodeID r0"
    using r(2) by (auto simp: reset_expired_def set_update_where split: if_splits)
  have keep: "x \<in> set ?q" if "x \<in> set (tables s)" "claimable (db_clock s) nodeID x" for x
    using that by (auto simp: claimable_def lease_expired_def intro: reset_expired_keeps)
  show "\<exists>r0 \<in> set (tables s). fc_id r0 = cid \<and> fc_node_id r0 = nodeID
      \<and> (claimable (db_clock s) nodeID r0 \<or> lease_expired (db_clock s) nodeID r0)
      \<and> a = fc_attempt_count r0 + 1 \<and> m = fc_max_attempts r0 \<and> a \<le> m
      \<and> (\<forall>x \<in> set (tables s). claimable (db_clock s) nodeID x \<longrightarrow>
           (fc_priority r0, fc_created_at r0) \<le> (fc_priority x, fc_created_at x))"
    using r0 r(3,4) cl least keep by (intro bexI [OF _ r0(1)]) (auto simp: claimable_def)
  show "\<exists>r' \<in> set (tables s'). fc_id r' = cid \<and> fc_status r' = CommandLeased
      \<and> fc_leased_until r' = Some (db_clock s + seconds 300) \<and> fc_attempt_count r' = a
      \<and> fc_leased_by r' = Some (consumer_of nodeID s)"
    using rq r(2,3) unfolding s'
    by (intro bexI [of _ "lease (db_clock s) (consumer_of nodeID s) r"])
      (auto simp: set_update_where defaultLeaseSeconds_def)
  show "\<forall>x \<in> set (tables s). fc_id x \<noteq> cid \<and> \<not> lease_expired (db_clock s) nodeID x \<longrightarrow>
      x \<in> set (tables s')"
    using r(2) unfolding s' by (force simp: set_update_where dest: reset_expired_keeps)
qed

section \<open>Properties of a claim\<close>

text \<open>
  C1.  In every state that the queue can reach, from an empty table and through any sequence of
  calls, faults and clock changes, the invariant holds: no command has been delivered more often
  than its limit, a command has a lease exactly while it is leased or running, task and command
  identifiers are unique, and a settled command has a completion time.
\<close>

theorem queue_invariant: "queue_reachable c p s \<Longrightarrow> queue_inv (tables s)"
  by (rule queue_reachable_inv)



text \<open>
  C4.  A claim that reports an error has changed nothing, whichever statement failed and also when
  the payload cannot be decoded; only the answer that no command is available may follow a
  committed release of expired leases, and then no command of the node is claimable.
\<close>

theorem claim_error:
  assumes "run_state (ClaimTask c p nodeID) s = (Inl e, s')"
  shows "tables s' = tables s \<or>
    errors_is e ErrNoCommandAvailable
    \<and> tables s' = reset_expired (db_clock s) nodeID (tables s)
    \<and> (\<forall>r \<in> set (tables s'). \<not> claimable (db_clock s) nodeID r)"
  using ClaimTask_Inl [OF assms]
  by (auto simp: next_command_None ErrNoCommandAvailable_def)

section \<open>A concrete queue for the witnesses\<close>

definition demo_task :: "string \<Rightarrow> FleetTask" where
  "demo_task tid = zero_task\<lparr>ft_TaskID := tid, ft_OperationID := ''op1'', ft_NodeID := ''n1'',
     ft_Action := ActionStartApp, ft_InstanceID := ''i1''\<rparr>"

definition demo_codec :: codec where
  "demo_codec = \<lparr>json_marshal = (\<lambda>t. Some (CHR ''J'' # ft_TaskID t)),
     json_task = (\<lambda>s t. case s of [] \<Rightarrow> (t, False)
                   | x # xs \<Rightarrow> if x = CHR ''J'' then (demo_task xs, True) else (t, True)),
     json_ct_wrapper = (\<lambda>s. CHR ''W'' # s),
     json_ct = (\<lambda>s. case s of [] \<Rightarrow> None | x # xs \<Rightarrow> Some (if x = CHR ''W'' then xs else [])),
     ed25519_sign = (\<lambda>k m. [171]),
     gcm_seal = (\<lambda>k n x. x), gcm_open = (\<lambda>k n x. Some x),
     base64_encode = (\<lambda>x. x), base64_decode = Some,
     sha1 = (\<lambda>s. replicate 20 (of_nat (length s)))\<rparr>"

definition demo_publisher :: Publisher where
  "demo_publisher = NewPublisher (replicate 32 CHR ''k'') (replicate 16 CHR ''e'')"

definition demo_row :: "string \<Rightarrow> string \<Rightarrow> FleetCommandStatus \<Rightarrow> int option \<Rightarrow> int \<Rightarrow> fleet_command" where
  "demo_row cid tid status lu attempts =
     (command_row demo_codec (demo_task tid) cid (CHR ''J'' # tid) CommandPending 5 '''' '''' ''ab'' 1 0 0)
       \<lparr>fc_status := status, fc_leased_until := lu,
        fc_leased_by := (if lu = None then None else Some ''n1-0''), fc_attempt_count := attempts\<rparr>"

definition demo_conn :: "'d \<Rightarrow> int \<Rightarrow> 'd conn" where
  "demo_conn d t = \<lparr>tables = d, db_clock = t, app_clock = t, faults = []\<rparr>"

definition demo_queue :: "queue conn" where
  "demo_queue = demo_conn [demo_row ''c1'' ''t1'' CommandLeased (Some 500) 1,
     demo_row ''c2'' ''t2'' CommandPending None 0] 100"

lemma demo_queue_claim:
  "fst (run_state (ClaimTask demo_codec demo_publisher ''n1'') demo_queue)
     = Inr ((demo_task ''t2'')\<lparr>ft_TaskSignature := ''ab'', ft_SignedAt := 1\<rparr>, ''c2'', 1, 5)"
  by code_simp

lemma demo_queue_inv: "queue_inv (tables demo_queue)"
  by code_simp

lemma fst_run_obtain:
  assumes "fst (run_state m s) = x"
  shows "run_state m s = (x, snd (run_state m s))"
  using assms by (metis prod.collapse)

theorem queue_invariant_witness:
  "queue_reachable demo_codec demo_publisher
     (snd (run_state (PublishTask demo_codec demo_publisher
        \<lparr>ent_uuid = Some [1], ent_nonce = Some (replicate 12 CHR ''n'')\<rparr> (demo_task ''t1'')) (demo_conn [] 7000000)))
   \<and> queue_inv (tables (snd (run_state (PublishTask demo_codec demo_publisher
        \<lparr>ent_uuid = Some [1], ent_nonce = Some (replicate 12 CHR ''n'')\<rparr> (demo_task ''t1'')) (demo_conn [] 7000000))))"
  (is "queue_reachable _ _ ?s \<and> _")
proof
  have "queue_reachable demo_codec demo_publisher (demo_conn [] 7000000)"
    by (rule reach_empty) (simp add: demo_conn_def)
  then show r: "queue_reachable demo_codec demo_publisher ?s"
    by (rule reach_step) (rule step_publish)
  show "queue_inv (tables ?s)" using r by (rule queue_invariant)
qed



theorem claim_error_witness:
  "\<exists>e s'. run_state (ClaimTask demo_codec demo_publisher ''n9'') demo_queue = (Inl e, s')
     \<and> (tables s' = tables demo_queue \<or> errors_is e ErrNoCommandAvailable)"
proof -
  have "fst (run_state (ClaimTask demo_codec demo_publisher ''n9'') demo_queue)
    = Inl ErrNoCommandAvailable" by code_simp
  from claim_error [OF fst_run_obtain [OF this]] fst_run_obtain [OF this] show ?thesis by blast
qed

section \<open>At most \<^verbatim>\<open>max_attempts\<close> deliveries\<close>

text \<open>What a row keeps forever: its identity, its node, its limit; its deliveries only grow.\<close>

definition evolves :: "fleet_command \<Rightarrow> fleet_command \<Rightarrow> bool" where
  "evolves r r' \<longleftrightarrow> fc_id r' = fc_id r \<and> fc_node_id r' = fc_node_id r
     \<and> fc_task_public_id r' = fc_task_public_id r \<and> fc_max_attempts r' = fc_max_attempts r
     \<and> fc_attempt_count r \<le> fc_attempt_count r'"

definition rows_evolve :: "queue \<Rightarrow> queue \<Rightarrow> bool" where
  "rows_evolve q q' \<longleftrightarrow> (\<forall>r \<in> set q. \<exists>r' \<in> set q'. evolves r r')"

interpretation qe: table_contract "\<lambda>_. rows_evolve"
proof
  show "rows_evolve d d" for d by (auto simp: rows_evolve_def evolves_def)
  show "rows_evolve d e \<Longrightarrow> rows_evolve e f \<Longrightarrow> rows_evolve d f" for d e f
    unfolding rows_evolve_def evolves_def by (metis order_trans)
qed

lemma rows_evolve_update:
  assumes "\<And>r. evolves r (f r)"
  shows "rows_evolve q (update_where p f q)"
  unfolding rows_evolve_def
proof
  fix r assume "r \<in> set q"
  then show "\<exists>r' \<in> set (update_where p f q). evolves r r'"
    using assms [of r]
    by (intro bexI [of _ "if p r then f r else r"]) (auto simp: set_update_where evolves_def)
qed

lemma rows_evolve_insert: "insert_command r q = (x, q') \<Longrightarrow> rows_evolve q q'"
  by (auto simp: insert_command_def rows_evolve_def evolves_def split: if_splits)

abbreviation evolving :: "(queue conn, 'a) state \<Rightarrow> bool" where
  "evolving \<equiv> state_io_rel (conn_rel (\<lambda>_. rows_evolve))"

lemma evolves_lease: "evolves r (lease t k r)"
  by (simp add: evolves_def)

lemma rows_evolve_lease_next: "lease_next t nodeID k q = (x, q') \<Longrightarrow> rows_evolve q q'"
  by (auto simp: lease_next_def qe.Q_refl intro: rows_evolve_update evolves_lease
      split: option.splits)

lemma evolving_updates:
  assumes "\<And>t r. evolves r (f t r)"
  shows "evolving (plain_update msg p f)" and "evolving (owned_update msg p f)"
  unfolding plain_update_def owned_update_def update_counted_def
  by (intro qe.conn_rules; auto intro: rows_evolve_update assms)+

lemma evolving_publish: "evolving (publish c p ent task status maxAttempts reason result)"
  unfolding publish_def persistTask_def newUUID_def
  by (intro qe.conn_rules) (auto dest: rows_evolve_insert)

lemma evolving_claim: "evolving (ClaimTask c p nodeID)"
  unfolding ClaimTask_def claim_body_def
  by (intro qe.conn_rules)
    (auto simp: reset_expired_def evolves_def dest: rows_evolve_lease_next
      intro: rows_evolve_update split: prod.splits)

lemma evolving_complete: "evolving (CompleteTask tid success msg)"
  unfolding CompleteTask_def
  by (intro qe.conn_rules rows_evolve_update) (auto simp: evolves_def)

lemma evolving_cancel_all: "evolving (CancelTasksForNode nodeID marker)"
  unfolding CancelTasksForNode_def
  by (intro qe.conn_rules rows_evolve_update) (auto simp: evolves_def cancel_row_def)

lemma evolving_active: "evolving (HasActiveTasksForNode nodeID)"
  unfolding HasActiveTasksForNode_def by (intro qe.conn_rules)

lemma evolving_node_updates:
  "evolving (MarkRunningForNode cid node)" "evolving (RenewLeaseForNode cid node)"
  "evolving (DiscardCommandForNode cid node reason)" "evolving (CancelCommandForNode cid node reason)"
  "evolving (CancelTaskForNode tid node reason)" "evolving (AcknowledgeTaskForNode tid node)"
  "evolving (RestoreCancelledTasksForNode node marker)"
  "evolving (FinalizeCancelledTasksForNode node marker)"
  unfolding MarkRunningForNode_def RenewLeaseForNode_def DiscardCommandForNode_def
    CancelCommandForNode_def CancelTaskForNode_def AcknowledgeTaskForNode_def
    RestoreCancelledTasksForNode_def FinalizeCancelledTasksForNode_def
  by (rule evolving_updates; simp add: evolves_def cancel_row_def)+

lemma evolvingD: "evolving m \<Longrightarrow> rows_evolve (tables s) (tables (snd (run_state m s)))"
  by (auto simp: state_io_rel_def conn_rel_def)

lemma queue_step_evolves: "queue_step c p s s' \<Longrightarrow> rows_evolve (tables s) (tables s')"
  by (induction rule: queue_step.induct)
    (simp_all add: evolvingD evolving_publish evolving_claim evolving_complete evolving_cancel_all
      evolving_active evolving_node_updates PublishTask_def PublishRejectedTask_def qe.Q_refl)

text \<open>\<open>deliveries c p cid s n t\<close>: a run from \<open>s\<close> to \<open>t\<close> in which \<open>cid\<close> was claimed \<open>n\<close> times.\<close>

inductive deliveries ::
  "codec \<Rightarrow> Publisher \<Rightarrow> string \<Rightarrow> queue conn \<Rightarrow> nat \<Rightarrow> queue conn \<Rightarrow> bool" for c p cid where
  no_delivery: "deliveries c p cid s 0 s"
| delivery: "deliveries c p cid s n t \<Longrightarrow>
    run_state (ClaimTask c p node) t = (Inr (task, cid, a, m), u) \<Longrightarrow> deliveries c p cid s (Suc n) u"
| other_step: "deliveries c p cid s n t \<Longrightarrow> queue_step c p t u \<Longrightarrow> deliveries c p cid s n u"

lemma deliveries_counted:
  assumes "deliveries c p cid s n t" and "queue_inv (tables s)"
    and "r \<in> set (tables s)" and "fc_id r = cid"
  shows "queue_inv (tables t) \<and> (\<exists>r' \<in> set (tables t). evolves r r'
    \<and> fc_attempt_count r + int n \<le> fc_attempt_count r')"
  using assms
proof (induction rule: deliveries.induct)
  case (no_delivery s)
  then show ?case by (auto simp: evolves_def)
next
  case (delivery s n t node task a m u)
  then obtain r1 where inv: "queue_inv (tables t)" and r1: "r1 \<in> set (tables t)" "evolves r r1"
    "fc_attempt_count r + int n \<le> fc_attempt_count r1" by auto
  have step: "queue_step c p t u"
    using step_claim [of c p t node] delivery.hyps(2) by simp
  from claim_effect [OF delivery.hyps(2)] obtain r0 r2 where
    r0: "r0 \<in> set (tables t)" "fc_id r0 = cid" "a = fc_attempt_count r0 + 1"
    and r2: "r2 \<in> set (tables u)" "fc_id r2 = cid" "fc_attempt_count r2 = a" by blast
  have "r0 = r1"
    using queue_inv_unique_id [OF inv r0(1) r1(1)] r0(2) r1(2) delivery.prems
    by (simp add: evolves_def)
  moreover have invu: "queue_inv (tables u)" using step inv by (rule queue_step_inv)
  from queue_step_evolves [OF step] r1(1) obtain r3 where "r3 \<in> set (tables u)" "evolves r1 r3"
    by (auto simp: rows_evolve_def)
  moreover from this have "r3 = r2"
    using queue_inv_unique_id [OF invu] r2 r1(2) delivery.prems by (auto simp: evolves_def)
  ultimately show ?case using invu r1 r0 r2 by (auto simp: evolves_def)
next
  case (other_step s n t u)
  then obtain r1 where inv: "queue_inv (tables t)" and r1: "r1 \<in> set (tables t)" "evolves r r1"
    "fc_attempt_count r + int n \<le> fc_attempt_count r1" by auto
  from queue_step_evolves [OF other_step.hyps(2)] r1(1) obtain r3
    where "r3 \<in> set (tables u)" "evolves r1 r3" by (auto simp: rows_evolve_def)
  with r1 queue_step_inv [OF other_step.hyps(2) inv] show ?case
    by (force simp: evolves_def)
qed

text \<open>
  C5.  However calls, lease expiries, retries, faults and restarts follow each other, a command is
  delivered to a worker at most as often as its \<^verbatim>\<open>max_attempts\<close> allows.
\<close>

theorem deliveries_bounded:
  assumes "deliveries c p cid s n t" and "queue_inv (tables s)"
    and "r \<in> set (tables s)" and "fc_id r = cid"
  shows "int n \<le> fc_max_attempts r"
proof -
  from deliveries_counted [OF assms] obtain r' where
    "queue_inv (tables t)" "r' \<in> set (tables t)" "evolves r r'"
    "fc_attempt_count r + int n \<le> fc_attempt_count r'" by blast
  with queue_inv_ok [OF assms(2,3)] show ?thesis
    by (auto simp: evolves_def dest!: queue_inv_ok simp: command_ok_def)
qed

theorem deliveries_bounded_witness:
  "\<exists>t. deliveries demo_codec demo_publisher ''c2'' demo_queue 1 t \<and> int 1 \<le> (5 :: int)"
proof -
  let ?r = "demo_row ''c2'' ''t2'' CommandPending None 0"
  from deliveries.delivery [OF no_delivery fst_run_obtain [OF demo_queue_claim]]
  obtain t where t: "deliveries demo_codec demo_publisher ''c2'' demo_queue 1 t" by auto
  have r: "?r \<in> set (tables demo_queue)" "fc_id ?r = ''c2''" "fc_max_attempts ?r = 5"
    by (simp_all add: demo_queue_def demo_conn_def demo_row_def command_row_def)
  from deliveries_bounded [OF t demo_queue_inv r(1,2)] r(3) t show ?thesis by auto
qed

end
