(* ===== verification/Queue_Flow.thy ===== *)
theory Queue_Flow
  imports Queue_Props
begin

text \<open>
  Properties of the queue that span several calls: publishing twice, publishing and claiming,
  failing and retrying, removing a node and taking the removal back.
\<close>

section \<open>Publishing\<close>

definition unsigned :: "FleetTask \<Rightarrow> FleetTask" where
  "unsigned task = task\<lparr>ft_TaskSignature := '''', ft_SignedAt := 0\<rparr>"

lemma publish_Inr:
  assumes "run_state (publish c p ent task status mx reason result) s = (Inr u, s')"
  obtains r where "insert_command r (tables s) = (Inr (), tables s')"
    and "fc_idempotency_key r = ft_TaskID task" and "same_clocks s s'"
  using assms
  by (auto simp: publish_def persistTask_def newUUID_def Let_def command_row_def
      dest!: stmt_Inr split: option.splits sum.splits prod.splits if_splits)

lemma run_publish_ok:
  assumes "faults s = []" and "pub_privateKey p = Some k"
    and "json_marshal c (unsigned task) = Some pl"
    and "sealPayload c p (ent_nonce ent) pl = Inr sp" and "ent_uuid ent = Some u"
  shows "run_state (publish c p ent task status mx reason result) s =
    (let n0 = app_clock s;
         sig = hex_EncodeToString (ed25519_sign c k (pl @ show_int (n0 div 1000000)));
         cid = nameUUID c (show_int (n0 * 1000) @ ''-'' @ hex_EncodeToString u);
         task' = task\<lparr>ft_TaskSignature := sig, ft_SignedAt := n0 div 1000000\<rparr>
     in case insert_command (command_row c task' cid sp status mx reason result sig
               (n0 div 1000000) n0 (db_clock s)) (tables s) of
          (Inl e, _) \<Rightarrow> (Inl (Wrap ''insert fleet command: '' (Driver e)), s)
        | (Inr _, q) \<Rightarrow> (Inr (), s\<lparr>tables := q\<rparr>))"
  using assms
  by (auto simp: publish_def persistTask_def newUUID_def signPayload_def randomHex_def unsigned_def
      Let_def run_ok split: prod.splits sum.splits)

lemma publish_Inl:
  assumes "run_state (publish c p ent task status mx reason result) s = (Inl e, s')"
  shows "tables s' = tables s"
  using assms
  by (auto simp: publish_def persistTask_def newUUID_def Let_def dest!: stmt_Inl
      split: option.splits sum.splits prod.splits if_splits)

lemma publish_known:
  assumes "\<exists>r \<in> set (tables s). fc_idempotency_key r = ft_TaskID task"
  shows "tables (snd (run_state (publish c p ent task status mx reason result) s)) = tables s"
proof (cases "run_state (publish c p ent task status mx reason result) s")
  case (Pair x s')
  show ?thesis
  proof (cases x)
    case (Inl e)
    with Pair publish_Inl show ?thesis by simp
  next
    case (Inr u)
    with Pair obtain r where "insert_command r (tables s) = (Inr (), tables s')"
      and "fc_idempotency_key r = ft_TaskID task" by (blast elim: publish_Inr)
    with assms Pair show ?thesis by (auto simp: insert_command_def split: if_splits)
  qed
qed

lemma insert_command_key:
  "insert_command r q = (Inr u, q') \<Longrightarrow> \<exists>x \<in> set q'. fc_idempotency_key x = fc_idempotency_key r"
  by (auto simp: insert_command_def split: if_splits)


definition demo_entropy :: entropy where
  "demo_entropy = \<lparr>ent_uuid = Some [1], ent_nonce = Some (replicate 12 CHR ''n'')\<rparr>"


section \<open>Publishing and claiming\<close>

text \<open>
  What the queue relies on in Go's library: JSON decodes what it encoded and ignores unknown fields,
  base64 and AES-GCM are inverted by their decoders.
\<close>

definition codec_laws :: "codec \<Rightarrow> FleetTask \<Rightarrow> bool" where
  "codec_laws c task \<longleftrightarrow>
     (\<forall>pl. json_marshal c task = Some pl \<longrightarrow> json_task c pl zero_task = (task, True))
     \<and> (\<forall>ct. json_task c (json_ct_wrapper c ct) zero_task = (zero_task, True)
           \<and> json_ct c (json_ct_wrapper c ct) = Some ct)
     \<and> (\<forall>x. base64_decode c (base64_encode c x) = Some x)
     \<and> (\<forall>x. x \<noteq> '''' \<longrightarrow> base64_encode c x \<noteq> '''')
     \<and> (\<forall>k n x. gcm_open c k n (gcm_seal c k n x) = Some x)"

lemma decode_sealed:
  assumes "codec_laws c task" and "json_marshal c task = Some pl" and "ft_TaskID task \<noteq> ''''"
    and "sealPayload c p nonce pl = Inr sp" and "\<And>n. nonce = Some n \<Longrightarrow> length n = gcm_nonce_size"
  shows "decode_command c p sp = Inr task"
proof (cases "pub_encryptionKey p = ''''")
  case True
  with assms show ?thesis by (simp add: sealPayload_def decode_command_def codec_laws_def)
next
  case False
  with assms(4) obtain n where n: "nonce = Some n" "aes_key_ok (pub_encryptionKey p)"
    and sp: "sp = json_ct_wrapper c (base64_encode c (n @ gcm_seal c (pub_encryptionKey p) n pl))"
    by (auto simp: sealPayload_def split: if_splits option.splits)
  have len: "length n = gcm_nonce_size" using assms(5) n by simp
  then have "n \<noteq> []" by (auto simp: gcm_nonce_size_def)
  with assms(1) have "base64_encode c (n @ gcm_seal c (pub_encryptionKey p) n pl) \<noteq> ''''"
    by (simp add: codec_laws_def)
  with False n len assms(1,2) show ?thesis
    by (simp add: sp decode_command_def openPayload_def codec_laws_def zero_task_def)
qed

lemma run_ClaimTask_ok:
  assumes "faults s = []"
    and "next_command (db_clock s) nodeID (reset_expired (db_clock s) nodeID (tables s)) = Some r"
  shows "run_state (ClaimTask c p nodeID) s = (case decode_command c p (fc_payload r) of
      Inl e \<Rightarrow> (Inl e, s)
    | Inr task0 \<Rightarrow> (Inr (stamped r task0, fc_id r, fc_attempt_count r + 1, fc_max_attempts r),
        s\<lparr>tables := update_where (\<lambda>x. fc_id x = fc_id r)
             (lease (db_clock s) (consumer_of nodeID s))
             (reset_expired (db_clock s) nodeID (tables s))\<rparr>))"
proof -
  let ?q = "reset_expired (db_clock s) nodeID (tables s)"
  let ?s1 = "s\<lparr>tables := update_where (\<lambda>x. fc_id x = fc_id r)
             (lease (db_clock s) (consumer_of nodeID s)) ?q\<rparr>"
  have "run_state (claim_body c p nodeID) s = (case decode_command c p (fc_payload r) of
      Inl e \<Rightarrow> (Abort e, ?s1)
    | Inr task0 \<Rightarrow> (Commit (Some (stamped r task0, fc_id r, fc_attempt_count r + 1, fc_max_attempts r)),
        ?s1))"
    using assms
    by (simp add: claim_body_def run_ok lease_next_def Let_def consumer_of_def stamped_def
        split: sum.splits)
  with assms(1) show ?thesis
    by (simp add: ClaimTask_def run_transaction_ok split: sum.splits)
qed

text \<open>
  C7.  A published task reaches its node unchanged, encrypted or not: if the node has nothing else
  to claim and the process clock is not ahead of the server's, the next claim returns the very
  task, with the signature and the signing time of its publication, as delivery 1 of 5.
\<close>

theorem publish_claim_roundtrip:
  assumes laws: "codec_laws c (unsigned task)" and tid: "ft_TaskID task \<noteq> ''''"
    and ok: "faults s = []" "pub_privateKey p = Some k" "json_marshal c (unsigned task) = Some pl"
      "sealPayload c p (ent_nonce ent) pl = Inr sp" "ent_uuid ent = Some u"
      "\<forall>n. ent_nonce ent = Some n \<longrightarrow> length n = gcm_nonce_size"
    and sig: "ed25519_sign c k (pl @ show_int (app_clock s div 1000000)) \<noteq> []"
    and clocks: "1000000 \<le> app_clock s" "app_clock s \<le> db_clock s"
    and fresh: "\<forall>r \<in> set (tables s). fc_idempotency_key r \<noteq> ft_TaskID task
      \<and> fc_task_public_id r \<noteq> ft_TaskID task
      \<and> fc_id r \<noteq> nameUUID c (show_int (app_clock s * 1000) @ ''-'' @ hex_EncodeToString u)
      \<and> fc_node_id r \<noteq> ft_NodeID task"
  shows "fst (run_state (PublishTask c p ent task \<bind> (\<lambda>_. ClaimTask c p (ft_NodeID task))) s) =
    Inr (task\<lparr>ft_TaskSignature := hex_EncodeToString
                 (ed25519_sign c k (pl @ show_int (app_clock s div 1000000))),
              ft_SignedAt := app_clock s div 1000000\<rparr>,
         nameUUID c (show_int (app_clock s * 1000) @ ''-'' @ hex_EncodeToString u), 1, 5)"
proof -
  let ?at = "app_clock s" and ?n = "ft_NodeID task"
  let ?sig = "hex_EncodeToString (ed25519_sign c k (pl @ show_int (?at div 1000000)))"
  let ?cid = "nameUUID c (show_int (?at * 1000) @ ''-'' @ hex_EncodeToString u)"
  let ?r = "command_row c (task\<lparr>ft_TaskSignature := ?sig, ft_SignedAt := ?at div 1000000\<rparr>) ?cid sp
    CommandPending 5 '''' '''' ?sig (?at div 1000000) ?at (db_clock s)"
  let ?s1 = "s\<lparr>tables := tables s @ [?r]\<rparr>"
  have "insert_command ?r (tables s) = (Inr (), tables s @ [?r])"
    using fresh by (auto simp: insert_command_def command_row_def)
  then have pub: "run_state (PublishTask c p ent task) s = (Inr (), ?s1)"
    by (simp add: PublishTask_def defaultMaxAttempts_def run_publish_ok [OF ok(1-5)] Let_def)
  have q: "reset_expired (db_clock s) ?n (tables s @ [?r]) = tables s @ [?r]"
    using fresh
    by (auto simp: reset_expired_def update_where_def lease_expired_def command_row_def
        intro!: map_idI)
  have "filter (claimable (db_clock s) ?n) (tables s) = []"
    using fresh by (auto simp: filter_empty_conv claimable_def)
  then have nx: "next_command (db_clock s) ?n (tables s @ [?r]) = Some ?r"
    using clocks by (simp add: next_command_def claimable_def command_row_def)
  have dec: "decode_command c p sp = Inr (unsigned task)"
    using decode_sealed [OF laws ok(3) _ ok(4)] tid ok(6) by (simp add: unsigned_def)
  have "hex_EncodeToString bs \<noteq> ''''" if "bs \<noteq> []" for bs
    using that by (cases bs) (auto simp: hex_EncodeToString_def hex_byte_def)
  then have signed: "?sig \<noteq> ''''" "0 < ?at div 1000000"
    using sig clocks(1) by auto
  have "run_state (ClaimTask c p ?n) ?s1 = (case decode_command c p (fc_payload ?r) of
      Inl e \<Rightarrow> (Inl e, ?s1)
    | Inr task0 \<Rightarrow> (Inr (stamped ?r task0, fc_id ?r, fc_attempt_count ?r + 1, fc_max_attempts ?r),
        ?s1\<lparr>tables := update_where (\<lambda>x. fc_id x = fc_id ?r)
             (lease (db_clock ?s1) (consumer_of ?n ?s1))
             (reset_expired (db_clock ?s1) ?n (tables ?s1))\<rparr>))"
    by (rule run_ClaimTask_ok) (use ok(1) q nx in \<open>simp_all del: append_assoc\<close>)
  then have "fst (run_state (ClaimTask c p ?n) ?s1) = Inr (task\<lparr>ft_TaskSignature := ?sig,
      ft_SignedAt := ?at div 1000000\<rparr>, ?cid, 1, 5)"
    using dec signed by (simp add: command_row_def unsigned_def stamped_def)
  with pub show ?thesis by simp
qed

theorem publish_claim_roundtrip_witness:
  "fst (run_state (PublishTask demo_codec demo_publisher demo_entropy (demo_task ''t9'')
      \<bind> (\<lambda>_. ClaimTask demo_codec demo_publisher ''n1'')) (demo_conn [] 7000000)) =
   Inr ((demo_task ''t9'')\<lparr>ft_TaskSignature := ''ab'', ft_SignedAt := 7\<rparr>,
     nameUUID demo_codec (show_int 7000000000 @ ''-01''), 1, 5)"
proof -
  have task: "unsigned (demo_task ''t9'') = demo_task ''t9''" "ft_NodeID (demo_task ''t9'') = ''n1''"
    by (simp_all add: unsigned_def demo_task_def zero_task_def)
  have laws: "codec_laws demo_codec (unsigned (demo_task ''t9''))"
    unfolding task by (simp add: codec_laws_def demo_codec_def demo_task_def)
  obtain k where k: "pub_privateKey demo_publisher = Some k"
    by (simp add: demo_publisher_def NewPublisher_def)
  obtain pl where pl: "json_marshal demo_codec (unsigned (demo_task ''t9'')) = Some pl"
    by (simp add: demo_codec_def)
  obtain sp where sp: "sealPayload demo_codec demo_publisher (ent_nonce demo_entropy) pl = Inr sp"
    by (simp add: sealPayload_def demo_publisher_def NewPublisher_def demo_entropy_def aes_key_ok_def)
  have nonce: "\<forall>n. ent_nonce demo_entropy = Some n \<longrightarrow> length n = gcm_nonce_size"
    by (simp add: demo_entropy_def gcm_nonce_size_def)
  have u: "ent_uuid demo_entropy = Some [1]" by (simp add: demo_entropy_def)
  have sig: "ed25519_sign demo_codec k m = [171]" for m by (simp add: demo_codec_def)
  have hex: "hex_EncodeToString [171] = ''ab''" "hex_EncodeToString [1] = ''01''" by code_simp+
  have "ft_TaskID (demo_task ''t9'') \<noteq> ''''" "faults (demo_conn [] 7000000 :: queue conn) = []"
    by (simp_all add: demo_task_def demo_conn_def)
  from publish_claim_roundtrip [OF laws this k pl sp u nonce] show ?thesis
    by (simp add: sig hex task demo_conn_def)
qed

end
