(* ===== verification/Queue_Nodes.thy ===== *)
theory Queue_Nodes
  imports Queue_Flow
begin

text \<open>
  Nodes and failures: the calls of one node leave the commands of the others alone, the
  cancellation that precedes a node's removal can be taken back, a failed task comes back after its
  backoff or is given up, and a payload that cannot be decoded stays at the head of the queue.
\<close>

section \<open>Isolation of nodes\<close>

definition others :: "string \<Rightarrow> queue \<Rightarrow> queue" where
  "others nodeID q = filter (\<lambda>r. fc_node_id r \<noteq> nodeID) q"

interpretation qn: table_contract "\<lambda>_ q q'. others n q' = others n q" for n
  by unfold_locales auto

abbreviation isolated :: "string \<Rightarrow> (queue conn, 'a) state \<Rightarrow> bool" where
  "isolated n \<equiv> state_io_rel (conn_rel (\<lambda>_ q q'. others n q' = others n q))"

lemma others_update:
  assumes "\<And>r. r \<in> set q \<Longrightarrow> p r \<Longrightarrow> fc_node_id r = n \<and> fc_node_id (f r) = n"
  shows "others n (update_where p f q) = others n q"
  using assms by (induction q) (auto simp: others_def)

lemma isolated_updates:
  assumes "\<And>t r. p r \<Longrightarrow> fc_node_id r = n \<and> fc_node_id (f t r) = n"
  shows "isolated n (plain_update msg p f)" and "isolated n (owned_update msg p f)"
  unfolding plain_update_def owned_update_def update_counted_def
  by (intro qn.conn_rules; use assms in \<open>auto intro!: others_update\<close>)+

lemma isolated_node_updates:
  "isolated n (MarkRunningForNode cid n)" "isolated n (RenewLeaseForNode cid n)"
  "isolated n (DiscardCommandForNode cid n reason)" "isolated n (CancelCommandForNode cid n reason)"
  "isolated n (CancelTaskForNode tid n reason)" "isolated n (AcknowledgeTaskForNode tid n)"
  "isolated n (RestoreCancelledTasksForNode n marker)"
  "isolated n (FinalizeCancelledTasksForNode n marker)"
  unfolding MarkRunningForNode_def RenewLeaseForNode_def DiscardCommandForNode_def
    CancelCommandForNode_def CancelTaskForNode_def AcknowledgeTaskForNode_def
    RestoreCancelledTasksForNode_def FinalizeCancelledTasksForNode_def
  by (rule isolated_updates; simp add: cancel_row_def)+

lemma isolated_cancel_all: "isolated n (CancelTasksForNode n marker)"
  unfolding CancelTasksForNode_def
  by (intro qn.conn_rules others_update) (auto simp: cancel_row_def)

lemma isolatedD: "isolated n m \<Longrightarrow> others n (tables (snd (run_state m s))) = others n (tables s)"
  by (auto simp: state_io_rel_def conn_rel_def)

lemma others_reset: "others n (reset_expired t n q) = others n q"
  unfolding reset_expired_def by (rule others_update) (simp add: lease_expired_def)

lemma isolated_claim:
  assumes "queue_inv (tables s)"
  shows "others n (tables (snd (run_state (ClaimTask c p n) s))) = others n (tables s)"
proof (cases "run_state (ClaimTask c p n) s")
  case (Pair x s')
  show ?thesis
  proof (cases x)
    case (Inl e)
    with Pair ClaimTask_Inl [of c p n s e s'] show ?thesis by (auto simp: others_reset)
  next
    case (Inr y)
    obtain task cid a m where "y = (task, cid, a, m)" by (cases y)
    with Pair Inr have run: "run_state (ClaimTask c p n) s = (Inr (task, cid, a, m), s')" by simp
    let ?q = "reset_expired (db_clock s) n (tables s)"
    obtain r where r: "next_command (db_clock s) n ?q = Some r"
      and s': "tables s' = update_where (\<lambda>x. fc_id x = fc_id r)
        (lease (db_clock s) (consumer_of n s)) ?q"
      using run by (rule ClaimTask_Inr)
    then have rq: "r \<in> set ?q" "fc_node_id r = n"
      by (auto dest!: next_command_SomeD simp: claimable_def)
    have "others n (tables s') = others n ?q"
      unfolding s'
    proof (rule others_update)
      fix x assume "x \<in> set ?q" "fc_id x = fc_id r"
      then have "x = r" using queue_inv_unique_id [OF queue_inv_reset [OF assms]] rq(1) by blast
      with rq(2) show "fc_node_id x = n \<and> fc_node_id (lease (db_clock s) (consumer_of n s) x) = n"
        by simp
    qed
    with Pair show ?thesis by (simp add: others_reset)
  qed
qed

text \<open>The calls that act for one node, with any arguments.\<close>

inductive node_call :: "codec \<Rightarrow> Publisher \<Rightarrow> string \<Rightarrow> queue conn \<Rightarrow> queue conn \<Rightarrow> bool"
  for c p n s where
  call_claim: "node_call c p n s (snd (run_state (ClaimTask c p n) s))"
| call_mark: "node_call c p n s (snd (run_state (MarkRunningForNode cid n) s))"
| call_renew: "node_call c p n s (snd (run_state (RenewLeaseForNode cid n) s))"
| call_discard: "node_call c p n s (snd (run_state (DiscardCommandForNode cid n reason) s))"
| call_cancel: "node_call c p n s (snd (run_state (CancelCommandForNode cid n reason) s))"
| call_cancel_task: "node_call c p n s (snd (run_state (CancelTaskForNode tid n reason) s))"
| call_ack: "node_call c p n s (snd (run_state (AcknowledgeTaskForNode tid n) s))"
| call_cancel_all: "node_call c p n s (snd (run_state (CancelTasksForNode n marker) s))"
| call_restore: "node_call c p n s (snd (run_state (RestoreCancelledTasksForNode n marker) s))"
| call_finalize: "node_call c p n s (snd (run_state (FinalizeCancelledTasksForNode n marker) s))"

text \<open>
  C8.  Whatever a node asks of the queue, with whatever command and task identifiers, the commands of
  every other node stay exactly as they are, in number, order and content.
\<close>

theorem node_isolation:
  assumes "queue_inv (tables s)" and "node_call c p n s s'"
  shows "filter (\<lambda>r. fc_node_id r \<noteq> n) (tables s') = filter (\<lambda>r. fc_node_id r \<noteq> n) (tables s)"
  using assms(2) unfolding others_def [symmetric]
  by cases
    (simp_all add: isolatedD isolated_claim assms(1) isolated_node_updates isolated_cancel_all)

theorem node_isolation_witness:
  "\<exists>s'. node_call demo_codec demo_publisher ''n1'' demo_queue s'
     \<and> filter (\<lambda>r. fc_node_id r \<noteq> ''n1'') (tables s')
       = filter (\<lambda>r. fc_node_id r \<noteq> ''n1'') (tables demo_queue)"
proof -
  have "node_call demo_codec demo_publisher ''n1'' demo_queue
    (snd (run_state (ClaimTask demo_codec demo_publisher ''n1'') demo_queue))" by (rule call_claim)
  with node_isolation [OF demo_queue_inv this] show ?thesis by blast
qed

section \<open>Removing a node and taking it back\<close>

lemma plain_update_Inr:
  assumes "run_state (plain_update msg p f) s = (Inr (), s')"
  shows "tables s' = update_where p (f (db_clock s)) (tables s)" and "same_clocks s s'"
  using assms by (auto simp: plain_update_def dest!: exec_Inr split: prod.splits sum.splits)

lemma CancelTasks_Inr:
  assumes "run_state (CancelTasksForNode n marker) s = (Inr (), s')"
  shows "tables s' = update_where (\<lambda>r. fc_node_id r = n \<and> is_active (fc_status r))
      (cancel_row marker (db_clock s)) (tables s)" and "same_clocks s s'"
  using assms unfolding CancelTasksForNode_def
  by (auto elim!: transaction_Inr dest!: exec_Inr simp: same_clocks_def
      split: prod.splits sum.splits)

lemma cancel_row_inactive: "\<not> is_active (fc_status (cancel_row m t r))"
  by (simp add: cancel_row_def is_active_def)

definition revived :: "int \<Rightarrow> fleet_command \<Rightarrow> fleet_command" where
  "revived t r = r\<lparr>fc_status := CommandPending, fc_last_error := None, fc_completed_at := None,
     fc_available_at := t, fc_leased_until := None, fc_leased_by := None\<rparr>"

text \<open>
  C9.  The cancellation before a node's removal is compensated exactly: if the marker is new, cancelling
  the node's commands leaves none of them active, and restoring under the same marker turns just the
  commands that were active before into pending ones that are due now and keep their identity,
  payload, signature and delivery count, while every other command of any node is untouched.
\<close>

theorem cancel_restore:
  assumes cancel: "run_state (CancelTasksForNode n marker) s = (Inr (), s1)"
    and restore: "run_state (RestoreCancelledTasksForNode n marker) s1 = (Inr (), s2)"
    and fresh: "\<forall>r \<in> set (tables s). fc_last_error r \<noteq> Some marker"
  shows "(\<forall>r \<in> set (tables s1). \<not> (fc_node_id r = n \<and> is_active (fc_status r)))
    \<and> tables s2 = update_where (\<lambda>r. fc_node_id r = n \<and> is_active (fc_status r))
        (\<lambda>r. r\<lparr>fc_status := CommandPending, fc_last_error := None, fc_completed_at := None,
               fc_available_at := db_clock s, fc_leased_until := None, fc_leased_by := None\<rparr>)
        (tables s)"
proof
  note s1 = CancelTasks_Inr [OF cancel]
  show "\<forall>r \<in> set (tables s1). \<not> (fc_node_id r = n \<and> is_active (fc_status r))"
  proof
    fix r assume "r \<in> set (tables s1)"
    then obtain q where "r = (if fc_node_id q = n \<and> is_active (fc_status q)
        then cancel_row marker (db_clock s) q else q)" unfolding s1(1) set_update_where by blast
    then show "\<not> (fc_node_id r = n \<and> is_active (fc_status r))"
      by (cases "fc_node_id q = n \<and> is_active (fc_status q)") (simp_all add: cancel_row_inactive)
  qed
  have "tables s2 = update_where (\<lambda>r. fc_node_id r = n \<and> fc_status r = CommandCancelled
      \<and> fc_last_error r = Some marker) (revived (db_clock s)) (tables s1)"
    using plain_update_Inr(1) [OF restore [unfolded RestoreCancelledTasksForNode_def]] s1(2)
    by (simp add: revived_def [abs_def] same_clocks_def)
  also have "\<dots> = update_where (\<lambda>r. fc_node_id r = n \<and> is_active (fc_status r))
      (revived (db_clock s)) (tables s)"
    using fresh unfolding s1(1) update_where_def
    by (auto simp: cancel_row_def revived_def is_active_def)
  finally show "tables s2 = update_where (\<lambda>r. fc_node_id r = n \<and> is_active (fc_status r))
        (\<lambda>r. r\<lparr>fc_status := CommandPending, fc_last_error := None, fc_completed_at := None,
               fc_available_at := db_clock s, fc_leased_until := None, fc_leased_by := None\<rparr>)
        (tables s)" by (simp add: revived_def [abs_def])
qed

theorem cancel_restore_witness:
  "\<exists>s1 s2. run_state (CancelTasksForNode ''n1'' ''m'') demo_queue = (Inr (), s1)
     \<and> run_state (RestoreCancelledTasksForNode ''n1'' ''m'') s1 = (Inr (), s2)
     \<and> (\<forall>r \<in> set (tables s1). \<not> (fc_node_id r = ''n1'' \<and> is_active (fc_status r)))"
proof -
  let ?s1 = "snd (run_state (CancelTasksForNode ''n1'' ''m'') demo_queue)"
  have "fst (run_state (CancelTasksForNode ''n1'' ''m'') demo_queue) = Inr ()" by code_simp
  note 1 = fst_run_obtain [OF this]
  have "fst (run_state (RestoreCancelledTasksForNode ''n1'' ''m'') ?s1) = Inr ()" by code_simp
  note 2 = fst_run_obtain [OF this]
  have "\<forall>r \<in> set (tables demo_queue). fc_last_error r \<noteq> Some ''m''" by code_simp
  from cancel_restore [OF 1 2 this] 1 2 show ?thesis by blast
qed

section \<open>Retry, backoff, dead letters\<close>

lemma backoff_bounds: "seconds 2 \<le> backoff a" "backoff a \<le> seconds 30"
  by (simp_all add: backoff_def seconds_def)

lemma backoff_mono: "a \<le> b \<Longrightarrow> backoff a \<le> backoff b"
  by (auto simp: backoff_def seconds_def)

lemma CompleteTask_failed:
  assumes inv: "queue_inv (tables s)" and r: "r \<in> set (tables s)"
    and run: "run_state (CompleteTask (fc_task_public_id r) False msg) s = (Inr (), s')"
  shows "tables s' = update_where (\<lambda>x. fc_task_public_id x = fc_task_public_id r)
    (\<lambda>x. if fc_attempt_count r \<ge> fc_max_attempts r
         then x\<lparr>fc_status := CommandDeadLetter, fc_last_error := Some msg,
                fc_completed_at := Some (db_clock s), fc_leased_until := None\<rparr>
         else x\<lparr>fc_status := CommandPending, fc_last_error := Some msg,
                fc_available_at := app_clock s + backoff (fc_attempt_count r),
                fc_leased_until := None, fc_leased_by := None\<rparr>) (tables s)"
proof -
  have "find_where (\<lambda>x. fc_task_public_id x = fc_task_public_id r) (tables s) = Some r"
    using queue_inv_unique_task [OF inv _ r] r find_where_SomeD find_where_None
    by (metis (mono_tags, lifting) option.exhaust)
  with run show ?thesis
    by (auto simp: CompleteTask_def Let_def same_clocks_def dest!: query_Inl query_Inr exec_Inr
        split: prod.splits sum.splits if_splits option.splits)
qed

text \<open>
  C10.  Reporting a task as failed puts its command back while deliveries are left: it becomes claimable
  for its node exactly from the reported time plus a backoff of 2 to 30 seconds on.  With no
  delivery left it becomes a dead letter that no later claim can pick up.  No other command changes.
\<close>

theorem complete_failure:
  assumes inv: "queue_inv (tables s)" and r: "r \<in> set (tables s)"
    and run: "run_state (CompleteTask (fc_task_public_id r) False msg) s = (Inr (), s')"
  shows "(\<exists>r' \<in> set (tables s'). fc_id r' = fc_id r \<and> fc_last_error r' = Some msg
      \<and> (if fc_attempt_count r < fc_max_attempts r
         then \<forall>t. claimable t (fc_node_id r) r' \<longleftrightarrow> app_clock s + backoff (fc_attempt_count r) \<le> t
         else fc_status r' = CommandDeadLetter \<and> (\<forall>t n. \<not> claimable t n r')))
    \<and> seconds 2 \<le> backoff (fc_attempt_count r) \<and> backoff (fc_attempt_count r) \<le> seconds 30
    \<and> (\<forall>x \<in> set (tables s). fc_id x \<noteq> fc_id r \<longrightarrow> x \<in> set (tables s'))"
proof (intro conjI backoff_bounds)
  let ?f = "\<lambda>x. if fc_attempt_count r \<ge> fc_max_attempts r
         then x\<lparr>fc_status := CommandDeadLetter, fc_last_error := Some msg,
                fc_completed_at := Some (db_clock s), fc_leased_until := None\<rparr>
         else x\<lparr>fc_status := CommandPending, fc_last_error := Some msg,
                fc_available_at := app_clock s + backoff (fc_attempt_count r),
                fc_leased_until := None, fc_leased_by := None\<rparr>"
  note s' = CompleteTask_failed [OF assms]
  show "\<exists>r' \<in> set (tables s'). fc_id r' = fc_id r \<and> fc_last_error r' = Some msg
      \<and> (if fc_attempt_count r < fc_max_attempts r
         then \<forall>t. claimable t (fc_node_id r) r' \<longleftrightarrow> app_clock s + backoff (fc_attempt_count r) \<le> t
         else fc_status r' = CommandDeadLetter \<and> (\<forall>t n. \<not> claimable t n r'))"
  proof (rule bexI [of _ "?f r"])
    show "?f r \<in> set (tables s')" using r unfolding s' set_update_where by force
  qed (simp add: claimable_def)
  show "\<forall>x \<in> set (tables s). fc_id x \<noteq> fc_id r \<longrightarrow> x \<in> set (tables s')"
    using queue_inv_unique_task [OF inv _ r] unfolding s' set_update_where by fastforce
qed

theorem complete_failure_witness:
  "\<exists>s' r'. run_state (CompleteTask ''t1'' False ''boom'') demo_queue = (Inr (), s')
     \<and> r' \<in> set (tables s') \<and> fc_id r' = ''c1''
     \<and> (\<forall>t. claimable t ''n1'' r' \<longleftrightarrow> 100 + seconds 2 \<le> t)"
proof -
  let ?r = "demo_row ''c1'' ''t1'' CommandLeased (Some 500) 1"
  have r: "?r \<in> set (tables demo_queue)" "fc_task_public_id ?r = ''t1''" "fc_id ?r = ''c1''"
    "fc_node_id ?r = ''n1''" "fc_attempt_count ?r = 1" "fc_max_attempts ?r = 5"
    by (simp_all add: demo_queue_def demo_conn_def demo_row_def command_row_def demo_task_def)
  have "fst (run_state (CompleteTask (fc_task_public_id ?r) False ''boom'') demo_queue) = Inr ()"
    by code_simp
  note run = fst_run_obtain [OF this]
  from complete_failure [OF demo_queue_inv r(1) run] run show ?thesis
    unfolding r by (auto simp: demo_queue_def demo_conn_def backoff_def)
qed

section \<open>A payload that cannot be decoded\<close>

text \<open>
  C11.  If the command that comes first among a node's commands is due and its stored payload cannot be
  decoded (for example after the encryption key was changed), then from then on every claim of the
  node fails without effect: the failed delivery is rolled back and not counted, so the command is
  neither retried up to its limit nor given up, and nothing behind it is ever delivered.
\<close>

theorem undecodable_blocks:
  assumes r: "r \<in> set q" "claimable t n r" "decode_command c p (fc_payload r) = Inl e"
    and first: "\<forall>x \<in> set q. fc_node_id x = n \<and> x \<noteq> r \<longrightarrow>
      (fc_priority r, fc_created_at r) < (fc_priority x, fc_created_at x)"
    and s: "tables s = q" "t \<le> db_clock s"
  shows "tables (snd (run_state (ClaimTask c p n) s)) = q
    \<and> (\<exists>e. fst (run_state (ClaimTask c p n) s) = Inl e)"
proof -
  let ?q = "reset_expired (db_clock s) n q"
  have cl: "claimable (db_clock s) n r" using r(2) s(2) by (simp add: claimable_def)
  then have rq: "r \<in> set ?q" using r(1)
    by (intro reset_expired_keeps) (auto simp: claimable_def lease_expired_def)
  have nx: "next_command (db_clock s) n ?q = Some r"
  proof (cases "next_command (db_clock s) n ?q")
    case None
    with rq cl show ?thesis by (simp add: next_command_None)
  next
    case (Some x)
    from next_command_SomeD [OF this] rq cl have x: "x \<in> set ?q" "claimable (db_clock s) n x"
      and le: "(fc_priority x, fc_created_at x) \<le> (fc_priority r, fc_created_at r)" by auto
    from x obtain x0 where "x0 \<in> set q" "fc_node_id x0 = n" "fc_priority x0 = fc_priority x"
      "fc_created_at x0 = fc_created_at x" "x = x0 \<or> lease_expired (db_clock s) n x0"
      by (auto simp: reset_expired_def set_update_where claimable_def split: if_splits)
    with first le cl have "x = r" by (fastforce simp: claimable_def lease_expired_def)
    with Some show ?thesis by simp
  qed
  obtain x s' where run: "run_state (ClaimTask c p n) s = (x, s')" by fastforce
  have "\<nexists>y. x = Inr y"
  proof
    assume "\<exists>y. x = Inr y"
    with run obtain task cid a m where "run_state (ClaimTask c p n) s = (Inr (task, cid, a, m), s')"
      by (metis prod_cases4)
    then show False using nx r(3) s(1) by (auto elim!: ClaimTask_Inr)
  qed
  then obtain e where e: "x = Inl e" by (cases x) auto
  with ClaimTask_Inl [OF run [unfolded e]] run nx s(1) show ?thesis by auto
qed

definition poisoned :: fleet_command where
  "poisoned = (demo_row ''c1'' ''t1'' CommandPending None 0)\<lparr>fc_payload := ''X''\<rparr>"

theorem undecodable_blocks_witness:
  "tables (snd (run_state (ClaimTask demo_codec demo_publisher ''n1'') (demo_conn [poisoned] 100)))
     = [poisoned]
   \<and> (\<exists>e. fst (run_state (ClaimTask demo_codec demo_publisher ''n1'') (demo_conn [poisoned] 100)) = Inl e)"
proof -
  have r: "poisoned \<in> set [poisoned]" "claimable 100 ''n1'' poisoned" by simp code_simp
  obtain e where "decode_command demo_codec demo_publisher (fc_payload poisoned) = Inl e"
    by (simp add: poisoned_def decode_command_def demo_codec_def zero_task_def Let_def)
  from undecodable_blocks [OF r this] show ?thesis by (simp add: demo_conn_def)
qed

section \<open>Identifiers of commands\<close>

lemma length_Suc_conv: "length xs = Suc n \<longleftrightarrow> (\<exists>y ys. xs = y # ys \<and> length ys = n)"
  by (cases xs) auto

definition is_hex :: "char \<Rightarrow> bool" where
  "is_hex ch \<longleftrightarrow> ch \<in> set ''0123456789abcdef''"

lemma is_hex_digit: "n < 16 \<Longrightarrow> is_hex (hex_digit n)"
proof -
  have "\<forall>n \<in> set [0..<16]. is_hex (hex_digit n)" by code_simp
  then show "n < 16 \<Longrightarrow> is_hex (hex_digit n)" by simp
qed

lemma low_nibble: "unat (b AND 15 :: byte) < 16"
proof -
  have "b AND 15 = take_bit 4 b" by (simp add: take_bit_eq_mask mask_numeral)
  then show ?thesis by (simp add: take_bit_eq_mod unat_mod)
qed

lemma high_nibble: "unat (drop_bit 4 b :: byte) < 16"
  using unsigned_less [of b, where 'a = nat] by (simp add: drop_bit_eq_div unat_div)

lemma hex_nibbles [simp]: "is_hex (hex_digit (unat (drop_bit 4 b :: byte)))"
  "is_hex (hex_digit (unat (b AND 15 :: byte)))"
  by (simp_all add: is_hex_digit high_nibble low_nibble)

lemma version_nibble: "hex_digit (unat (drop_bit 4 ((b AND 0x0f) OR 0x50 :: byte))) = CHR ''5''"
proof -
  have "drop_bit 4 ((b AND 0x0f) OR 0x50 :: byte) = 5" by simp
  then show ?thesis by (simp only:) code_simp
qed

lemma variant_nibble:
  "hex_digit (unat (drop_bit 4 ((b AND 0x3f) OR 0x80 :: byte))) \<in> set ''89ab''"
proof -
  let ?y = "drop_bit 4 b AND 3 :: byte"
  have "?y = take_bit 2 (drop_bit 4 b)" by (simp add: take_bit_eq_mask mask_numeral)
  then have "unat ?y < 4" by (simp add: take_bit_eq_mod unat_mod)
  then have "unat ?y = unat (0 :: byte) \<or> unat ?y = unat (1 :: byte) \<or> unat ?y = unat (2 :: byte)
      \<or> unat ?y = unat (3 :: byte)" by auto
  then have y: "?y \<in> set [0, 1, 2, 3]" by (simp only: word_unat_eq_iff [symmetric]) simp
  have "\<forall>y \<in> set [0, 1, 2, 3 :: byte]. hex_digit (unat (y OR 8)) \<in> set ''89ab''" by code_simp
  with y have "hex_digit (unat (?y OR 8)) \<in> set ''89ab''" by blast
  then show ?thesis by simp
qed

text \<open>
  C12.  Every identifier derived from a name is a well-formed version 5 UUID: groups of 8, 4, 4, 4 and
  12 hexadecimal digits separated by dashes, with version nibble 5 and variant nibble 8, 9, a or b.
  SHA-1 contributes only the length of its digest.
\<close>

theorem nameUUID_format:
  assumes "length (sha1 c seed) = 20"
  shows "\<exists>g1 g2 g3 g4 g5. nameUUID c seed = g1 @ ''-'' @ g2 @ ''-'' @ g3 @ ''-'' @ g4 @ ''-'' @ g5
    \<and> map length [g1, g2, g3, g4, g5] = [8, 4, 4, 4, 12]
    \<and> list_all is_hex (g1 @ g2 @ g3 @ g4 @ g5)
    \<and> hd g3 = CHR ''5'' \<and> hd g4 \<in> set ''89ab''"
proof -
  have "length (take 16 (sha1 c seed)) = Suc (Suc (Suc (Suc (Suc (Suc (Suc (Suc (Suc (Suc (Suc (Suc
      (Suc (Suc (Suc (Suc 0)))))))))))))))" using assms by simp
  then obtain b0 b1 b2 b3 b4 b5 b6 b7 b8 b9 b10 b11 b12 b13 b14 b15 where
    b: "take 16 (sha1 c seed) = [b0, b1, b2, b3, b4, b5, b6, b7, b8, b9, b10, b11, b12, b13, b14, b15]"
    unfolding length_Suc_conv length_0_conv by blast
  let ?v = "(b6 AND 0x0f) OR 0x50" and ?w = "(b8 AND 0x3f) OR 0x80"
  have u: "nameUUID c seed = formatUUID [b0, b1, b2, b3, b4, b5, ?v, b7, ?w, b9, b10, b11, b12, b13, b14, b15]"
    unfolding nameUUID_def b Let_def by simp
  have raw: "formatUUID [b0, b1, b2, b3, b4, b5, v, b7, w, b9, b10, b11, b12, b13, b14, b15] =
    concat (map hex_byte [b0, b1, b2, b3]) @ ''-'' @ concat (map hex_byte [b4, b5]) @ ''-'' @
    concat (map hex_byte [v, b7]) @ ''-'' @ concat (map hex_byte [w, b9]) @ ''-'' @
    concat (map hex_byte [b10, b11, b12, b13, b14, b15])" for v w
    by (simp add: formatUUID_def hex_EncodeToString_def slice_def hex_byte_def)
  have hb: "length (hex_byte b) = 2" "list_all is_hex (hex_byte b)"
    "hd (hex_byte b @ xs) = hex_digit (unat (drop_bit 4 b))" for b xs by (simp_all add: hex_byte_def)
  show ?thesis unfolding u raw
  proof (intro exI conjI)
    show "hd (concat (map hex_byte [?v, b7])) = CHR ''5''"
      using version_nibble by (simp only: hb(3) list.map concat.simps)
    show "hd (concat (map hex_byte [?w, b9])) \<in> set ''89ab''"
      using variant_nibble by (simp only: hb(3) list.map concat.simps)
  qed (rule refl, simp_all add: hb)
qed

theorem nameUUID_format_witness:
  "\<exists>g1 g2 g3 g4 g5. nameUUID demo_codec ''seed'' = g1 @ ''-'' @ g2 @ ''-'' @ g3 @ ''-'' @ g4 @ ''-'' @ g5
    \<and> map length [g1, g2, g3, g4, g5] = [8, 4, 4, 4, 12]
    \<and> list_all is_hex (g1 @ g2 @ g3 @ g4 @ g5)
    \<and> hd g3 = CHR ''5'' \<and> hd g4 \<in> set ''89ab''"
  by (rule nameUUID_format) (simp add: demo_codec_def)

end
