(* ===== verification/Validation.thy ===== *)
theory Validation
  imports Types
begin

text \<open>
  Validation of application definitions: \<^verbatim>\<open>src/pkg/admiral/validation.go\<close>.  One constructor of
  \<open>invalid\<close> per error the functions return; \<open>ValidateAppDefinition\<close> is the sequence of the checks
  of the source, in its order.  It returns the definition because \<^verbatim>\<open>validateHealthcheck\<close> writes
  the default status 200 through the pointer it gets.  \<^verbatim>\<open>strconv.ParseFloat\<close> is the parameter
  \<open>parse_float\<close>.
\<close>

datatype (plugins only: code) invalid =
  UnsafeCommand | UnsafeSetupCommand
  | NameRequired | NameInvalid string | DisplayNameRequired | NoServices | NoTiers
  | EnvNameRequired string | EnvNameInvalid string string | EnvNameReserved string string
  | SecretNameRequired | SecretEmpty string | SecretBoth string | SecretGenerator string
  | VolumeNameRequired | VolumeNameInvalid string | VolumeMountRelative string string
  | VolumeWithoutService string | VolumeMountConflict string string string
  | VolumeUndefinedService string string
  | ServiceNameRequired | ServiceNameInvalid string | ImageRequired string | ImageInvalid string string
  | ServiceCommand string invalid | ServiceSetupCommand string invalid | BackupRequired string
  | PortConflict int string string | PublicWithoutPort string
  | SelfDependency string | UndefinedDependency string string
  | SelfRequirement string | UndefinedRequirement string string
  | NegativeHealthWait string | HealthCheckPath string | HealthCheckPort string
  | HealthCheckCommand string | HealthCheckType string string
  | NoticeLabel string | NoticeValue string
  | RegistryServer string | RegistryUsername string | RegistryPassword string
  | ServiceSecretNameRequired string | ServiceSecretEmpty string string
  | ServiceSecretBoth string string | ServiceSecretGenerator string string string
  | PrivateVolumeConflict string string string
  | DependencyCycle string | SeveralPublicServices | PublicNameRequired
  | TierNameRequired | TierCPU string | TierMemoryRequired string | TierMemoryFormat string string
  | TierStorageRequired string | TierStorageFormat string string | TierStorageZero string string
  | TierPriceNegative string | TierFreeWithPrice string
  | BackupSchedule string string | RetentionCount string | RetentionDays string
  | BackupTypeRequired string | BackupNoneWithFields string | BackupEngineRequired string
  | BackupEngineUnsupported string string | BackupEnvRequired string | BackupEnvUndefined string string
  | BackupVolumeMissing string | BackupVolumeWithFields string | BackupTypeUnknown string
  | TierNeedsDatabase string | TierNeedsVolume string
  | SourceTypeNotAllowed string | SourcePathTraversal string | SourceNotHttps string
  | OutOfFuel

section \<open>Patterns\<close>

definition is_lower :: "char \<Rightarrow> bool" where "is_lower c = in_range CHR ''a'' CHR ''z'' c"
definition is_upper :: "char \<Rightarrow> bool" where "is_upper c = in_range CHR ''A'' CHR ''Z'' c"
definition is_digit :: "char \<Rightarrow> bool" where "is_digit c = in_range CHR ''0'' CHR ''9'' c"

text \<open>\<^verbatim>\<open>^[first][rest]*$\<close>\<close>

definition matches :: "(char \<Rightarrow> bool) \<Rightarrow> (char \<Rightarrow> bool) \<Rightarrow> string \<Rightarrow> bool" where
  "matches f r s = (case s of [] \<Rightarrow> False | c # cs \<Rightarrow> f c \<and> list_all r cs)"

definition appNamePattern :: "string \<Rightarrow> bool" where
  "appNamePattern = matches is_lower (\<lambda>c. is_lower c \<or> is_digit c \<or> c = CHR ''-'')"

definition envNamePattern :: "string \<Rightarrow> bool" where
  "envNamePattern = matches (\<lambda>c. is_upper c \<or> c = CHR ''_'') (\<lambda>c. is_upper c \<or> is_digit c \<or> c = CHR ''_'')"

definition serviceNamePattern :: "string \<Rightarrow> bool" where
  "serviceNamePattern = matches is_lower (\<lambda>c. is_lower c \<or> is_digit c \<or> c = CHR ''-'')"

definition imagePattern :: "string \<Rightarrow> bool" where
  "imagePattern = matches (\<lambda>c. is_lower c \<or> is_upper c \<or> is_digit c)
     (\<lambda>c. is_lower c \<or> is_upper c \<or> is_digit c \<or> c \<in> set ''_-.:/@'')"

definition runArgsRe :: "string \<Rightarrow> bool" where
  "runArgsRe s = list_ex (\<lambda>c. c \<in> set [CHR '';'', CHR ''&'', CHR 0x60, CHR ''$'', CHR ''('', CHR '')'', CHR ''|'']) s"

definition ValidateRunArgs :: "string \<Rightarrow> invalid + unit" where
  "ValidateRunArgs args = reject_if (runArgsRe args) UnsafeCommand"

definition setupArgsRe :: "string \<Rightarrow> bool" where
  "setupArgsRe s \<longleftrightarrow> list_ex (\<lambda>c. c \<in> set [CHR '';'', CHR ''&'', CHR 0x60, CHR ''|'', CHR 0x0A]) s
     \<or> Contains s ''$(''"

definition ValidateSetupArgs :: "string \<Rightarrow> invalid + unit" where
  "ValidateSetupArgs args = reject_if (setupArgsRe args) UnsafeSetupCommand"

section \<open>Environments, sizes, health checks\<close>

definition validateEnvironmentMap :: "string \<Rightarrow> strmap \<Rightarrow> invalid + unit" where
  "validateEnvironmentMap scope environment = for_each (\<lambda>(key, v) _.
     if key = '''' then Inl (EnvNameRequired scope)
     else if \<not> envNamePattern key then Inl (EnvNameInvalid scope key)
     else if length key \<ge> length ''ADMIRAL_'' \<and> take (length ''ADMIRAL_'') key = ''ADMIRAL_''
     then Inl (EnvNameReserved scope key)
     else Inr ()) environment ()"

definition ValidateTierEnvironment :: "string \<Rightarrow> strmap \<Rightarrow> invalid + unit" where
  "ValidateTierEnvironment tierName environment =
     validateEnvironmentMap (''tier '' @ tierName) environment"

text \<open>\<^verbatim>\<open>^(?i)[0-9]+(\.[0-9]+)?\s*(k|kb|kib|ki|m|...|ti)?$\<close>\<close>

definition storage_units :: "string list" where
  "storage_units = ['''', ''k'', ''kb'', ''kib'', ''ki'', ''m'', ''mb'', ''mib'', ''mi'',
     ''g'', ''gb'', ''gib'', ''gi'', ''t'', ''tb'', ''tib'', ''ti'']"

definition re_space :: "char \<Rightarrow> bool" where
  "re_space c \<longleftrightarrow> c \<in> set [CHR 0x09, CHR 0x0A, CHR 0x0C, CHR 0x0D, CHR 0x20]"

definition validStorageUnit :: "string \<Rightarrow> bool" where
  "validStorageUnit s = (let r1 = dropWhile is_digit s;
       frac = (case r1 of c # cs \<Rightarrow> c = CHR ''.'' \<and> cs \<noteq> [] \<and> is_digit (hd cs) | [] \<Rightarrow> False);
       r2 = (if frac then dropWhile is_digit (tl r1) else r1)
     in s \<noteq> [] \<and> is_digit (hd s) \<and> ToLower (dropWhile re_space r2) \<in> set storage_units)"

definition isValidStorageFormat :: "string \<Rightarrow> bool" where
  "isValidStorageFormat v = validStorageUnit (TrimSpace v)"

definition parseStorageBytes :: "(string \<Rightarrow> float64 option) \<Rightarrow> string \<Rightarrow> int" where
  "parseStorageBytes parse_float v0 = (let v = TrimSpace v0; lower = ToLower v in
     if v = '''' then 0 else
     let (multiplier, v) =
       (if HasSuffix lower ''tib'' then (1024 * 1024 * 1024 * 1024, drop_last 3 v)
        else if HasSuffix lower ''ti'' \<or> HasSuffix lower ''tb'' then (1024 * 1024 * 1024 * 1024, drop_last 2 v)
        else if HasSuffix lower ''t'' then (1024 * 1024 * 1024 * 1024, drop_last 1 v)
        else if HasSuffix lower ''gib'' then (1024 * 1024 * 1024, drop_last 3 v)
        else if HasSuffix lower ''gi'' \<or> HasSuffix lower ''gb'' then (1024 * 1024 * 1024, drop_last 2 v)
        else if HasSuffix lower ''g'' then (1024 * 1024 * 1024, drop_last 1 v)
        else if HasSuffix lower ''mib'' then (1024 * 1024, drop_last 3 v)
        else if HasSuffix lower ''mi'' \<or> HasSuffix lower ''mb'' then (1024 * 1024, drop_last 2 v)
        else if HasSuffix lower ''m'' then (1024 * 1024, drop_last 1 v)
        else if HasSuffix lower ''kib'' then (1024, drop_last 3 v)
        else if HasSuffix lower ''ki'' \<or> HasSuffix lower ''kb'' then (1024, drop_last 2 v)
        else if HasSuffix lower ''k'' then (1024, drop_last 1 v)
        else (1, v))
     in case parse_float (TrimSpace v) of
          None \<Rightarrow> 0
        | Some num \<Rightarrow> if f64_le num (Fin 0) then 0
            else int64_of_f64 (f64_mul num (f64_of_int multiplier)))"

text \<open>The errors and the health check as the call leaves it behind.\<close>

definition validateHealthcheck ::
  "string \<Rightarrow> YAMLHealthCheck option \<Rightarrow> invalid list \<times> YAMLHealthCheck option" where
  "validateHealthcheck serviceName h = (case h of
     None \<Rightarrow> ([], None)
   | Some hc \<Rightarrow>
       if hc_Type hc = ''http'' then
         ((if hc_Path hc = '''' then [HealthCheckPath serviceName] else []),
          Some (if hc_ExpectedStatus hc = 0 then hc\<lparr>hc_ExpectedStatus := 200\<rparr> else hc))
       else if hc_Type hc = ''tcp'' then
         ((if hc_Port hc = 0 then [HealthCheckPort serviceName] else []), h)
       else if hc_Type hc = ''command'' then
         ((if hc_Command hc = [] then [HealthCheckCommand serviceName] else []), h)
       else ([HealthCheckType serviceName (hc_Type hc)], h))"

definition defaultServiceVolumeMount :: "string \<Rightarrow> string \<Rightarrow> string" where
  "defaultServiceVolumeMount serviceName imageRef = (let img = ToLower (TrimSpace imageRef) in
     if Contains img ''postgres'' then ''/var/lib/postgresql/data''
     else if Contains img ''mariadb'' \<or> Contains img ''mysql'' then ''/var/lib/mysql''
     else if Contains img ''wordpress'' then ''/var/www/html/wp-content''
     else if serviceName = ''db'' then ''/var/lib/postgresql/data''
     else ''/data'')"

section \<open>Dependency cycles\<close>

text \<open>
  The closure \<^verbatim>\<open>visit\<close> over the two maps \<^verbatim>\<open>visited\<close> and \<^verbatim>\<open>inStack\<close>, as sets of names.  The
  first argument bounds the depth of the recursion; \<open>visit_fuel\<close> below is shown to be enough.
\<close>

type_synonym services = "(string \<times> YAMLService) list"

definition zero_service :: YAMLService where
  "zero_service = \<lparr>svc_Image = '''', svc_Port = 0, svc_Public = False, svc_Volume = '''',
     svc_DependsOn = [], svc_Requires = [], svc_Command = '''', svc_SetupCommand = '''',
     svc_SetupTimeout = 0, svc_NotifyOnSetup = [], svc_Env = [], svc_Secrets = [],
     svc_HealthCheck = None, svc_HealthCheckWaitSecs = 0, svc_Backup = None, svc_Registry = None,
     svc_User = ''''\<rparr>"

definition neighbours :: "services \<Rightarrow> string \<Rightarrow> string list" where
  "neighbours services name = (let svc = get zero_service services name
     in svc_DependsOn svc @ svc_Requires svc)"

fun visit :: "nat \<Rightarrow> services \<Rightarrow> string \<Rightarrow> string set \<times> string set \<Rightarrow>
    invalid + (string set \<times> string set)" where
  "visit 0 services name st = Inl OutOfFuel"
| "visit (Suc n) services name (visited, inStack) =
     (if name \<in> inStack then Inl (DependencyCycle name)
      else if name \<in> visited then Inr (visited, inStack)
      else case for_each (visit n services) (neighbours services name)
                  (insert name visited, insert name inStack) of
             Inl e \<Rightarrow> Inl e
           | Inr (visited', inStack') \<Rightarrow> Inr (visited', inStack' - {name}))"

definition visit_fuel :: "services \<Rightarrow> nat" where
  "visit_fuel services = Suc (Suc (length services +
     sum_list (map (\<lambda>(_, svc). length (svc_DependsOn svc) + length (svc_Requires svc)) services)))"

definition validateDependencyCycles :: "services \<Rightarrow> invalid + unit" where
  "validateDependencyCycles services =
     (case for_each (visit (visit_fuel services) services) (map fst services) ({}, {}) of
        Inl e \<Rightarrow> Inl e | Inr _ \<Rightarrow> Inr ())"

section \<open>The parts of an application definition\<close>

definition known_generators :: "string list" where
  "known_generators = [''username'', ''password'', ''random'', ''ssh_key'']"

definition check_app_secret :: "string \<times> YAMLSecret \<Rightarrow> invalid + unit" where
  "check_app_secret = (\<lambda>(envName, secret).
     if envName = '''' then Inl SecretNameRequired
     else if sec_Generate secret = '''' \<and> sec_Value secret = '''' then Inl (SecretEmpty envName)
     else if sec_Generate secret \<noteq> '''' \<and> sec_Value secret \<noteq> '''' then Inl (SecretBoth envName)
     else if sec_Generate secret \<noteq> '''' \<and> sec_Generate secret \<notin> set known_generators
     then Inl (SecretGenerator envName)
     else Inr ())"

definition check_service_secret :: "string \<Rightarrow> string \<times> YAMLSecret \<Rightarrow> invalid + unit" where
  "check_service_secret name = (\<lambda>(envName, secret).
     if envName = '''' then Inl (ServiceSecretNameRequired name)
     else if sec_Generate secret = '''' \<and> sec_Value secret = '''' then Inl (ServiceSecretEmpty name envName)
     else if sec_Generate secret \<noteq> '''' \<and> sec_Value secret \<noteq> ''''
     then Inl (ServiceSecretBoth name envName)
     else if sec_Generate secret \<noteq> '''' \<and> sec_Generate secret \<notin> set known_generators
     then Inl (ServiceSecretGenerator name envName (sec_Generate secret))
     else Inr ())"

text \<open>\<^verbatim>\<open>sharedMountIndex\<close> and \<^verbatim>\<open>serviceSharedVolumes\<close>, the state of the loop over shared volumes.\<close>

type_synonym shared_index = "(string \<times> string) list \<times> (string \<times> (string \<times> YAMLSharedVolume) list) list"

definition shared_mount :: "YAMLSharedVolume \<Rightarrow> string" where
  "shared_mount shared = Clean (TrimSpace (shv_Mount shared))"

definition attach_volume ::
  "services \<Rightarrow> string \<Rightarrow> YAMLSharedVolume \<Rightarrow> string \<Rightarrow> (string \<times> (string \<times> YAMLSharedVolume) list) list \<Rightarrow>
   invalid + (string \<times> (string \<times> YAMLSharedVolume) list) list" where
  "attach_volume services volumeName shared serviceName m =
     (if \<not> has services serviceName then Inl (VolumeUndefinedService volumeName serviceName)
      else Inr (put serviceName (put volumeName (shared\<lparr>shv_Mount := shared_mount shared\<rparr>)
                  (get [] m serviceName)) m))"

definition check_shared_volume ::
  "services \<Rightarrow> string \<times> YAMLSharedVolume \<Rightarrow> shared_index \<Rightarrow> invalid + shared_index" where
  "check_shared_volume services = (\<lambda>(volumeName, shared) (index, attached).
     let mount = shared_mount shared in
     if volumeName = '''' then Inl VolumeNameRequired
     else if \<not> serviceNamePattern volumeName then Inl (VolumeNameInvalid volumeName)
     else if \<not> IsAbs mount then Inl (VolumeMountRelative volumeName (shv_Mount shared))
     else if shv_Services shared = [] then Inl (VolumeWithoutService volumeName)
     else if has index mount then Inl (VolumeMountConflict volumeName mount (get '''' index mount))
     else and_then (for_each (attach_volume services volumeName shared) (shv_Services shared) attached)
            (\<lambda>attached. Inr (put mount volumeName index, attached)))"

definition check_notice :: "string \<Rightarrow> YAMLSetupNotice \<Rightarrow> invalid + unit" where
  "check_notice name notice =
     (if TrimSpace (note_Label notice) = '''' then Inl (NoticeLabel name)
      else if TrimSpace (note_Value notice) = '''' then Inl (NoticeValue name)
      else Inr ())"

definition check_registry :: "string \<Rightarrow> YAMLRegistry option \<Rightarrow> invalid + unit" where
  "check_registry name r = (case r of
     None \<Rightarrow> Inr ()
   | Some reg \<Rightarrow>
       if reg_Server reg = '''' then Inl (RegistryServer name)
       else if reg_Username reg = '''' then Inl (RegistryUsername name)
       else if reg_Password reg = '''' then Inl (RegistryPassword name)
       else Inr ())"

definition check_dependency :: "services \<Rightarrow> string \<Rightarrow> string \<Rightarrow> invalid + unit" where
  "check_dependency services name dep =
     (if dep = name then Inl (SelfDependency name)
      else if \<not> has services dep then Inl (UndefinedDependency name dep)
      else Inr ())"

definition check_requirement :: "services \<Rightarrow> string \<Rightarrow> string \<Rightarrow> invalid + unit" where
  "check_requirement services name req =
     (if req = name then Inl (SelfRequirement name)
      else if \<not> has services req then Inl (UndefinedRequirement name req)
      else Inr ())"

text \<open>The loop over the services: up to the port, the port, and what follows it.\<close>

definition check_service_head :: "string \<Rightarrow> YAMLService \<Rightarrow> invalid + unit" where
  "check_service_head name svc =
     (if name = '''' then Inl ServiceNameRequired
      else if \<not> serviceNamePattern name then Inl (ServiceNameInvalid name)
      else if svc_Image svc = '''' then Inl (ImageRequired name)
      else if \<not> imagePattern (svc_Image svc) then Inl (ImageInvalid name (svc_Image svc))
      else and_then (case (if svc_Command svc \<noteq> '''' then ValidateRunArgs (svc_Command svc) else Inr ()) of
             Inl e \<Rightarrow> Inl (ServiceCommand name e) | Inr _ \<Rightarrow> Inr ()) (\<lambda>_.
           and_then (case (if svc_SetupCommand svc \<noteq> '''' then ValidateSetupArgs (svc_SetupCommand svc)
                           else Inr ()) of
             Inl e \<Rightarrow> Inl (ServiceSetupCommand name e) | Inr _ \<Rightarrow> Inr ()) (\<lambda>_.
           reject_if (svc_Backup svc = None) (BackupRequired name))))"

definition check_port ::
  "string \<Rightarrow> YAMLService \<Rightarrow> (int \<times> string) list \<Rightarrow> invalid + (int \<times> string) list" where
  "check_port name svc usedPorts =
     (if svc_Port svc > 0 then
        (if has usedPorts (svc_Port svc)
         then Inl (PortConflict (svc_Port svc) (get '''' usedPorts (svc_Port svc)) name)
         else Inr (put (svc_Port svc) name usedPorts))
      else Inr usedPorts)"

definition check_private_volume ::
  "(string \<times> YAMLSharedVolume) list \<Rightarrow> string \<Rightarrow> YAMLService \<Rightarrow> invalid + unit" where
  "check_private_volume attached name svc =
     (let mount = defaultServiceVolumeMount name (svc_Image svc) in
      if svc_Volume svc = '''' then Inr ()
      else for_each (\<lambda>(sharedName, shared) _.
             reject_if (shv_Mount shared = mount) (PrivateVolumeConflict name mount sharedName))
           attached ())"

definition check_service_tail ::
  "services \<Rightarrow> (string \<times> YAMLSharedVolume) list \<Rightarrow> string \<Rightarrow> YAMLService \<Rightarrow> invalid + YAMLService" where
  "check_service_tail services attached name svc =
     and_then (reject_if (svc_Public svc \<and> svc_Port svc \<le> 0) (PublicWithoutPort name)) (\<lambda>_.
     and_then (for_each (\<lambda>dep _. check_dependency services name dep) (svc_DependsOn svc) ()) (\<lambda>_.
     and_then (for_each (\<lambda>req _. check_requirement services name req) (svc_Requires svc) ()) (\<lambda>_.
     and_then (reject_if (svc_HealthCheckWaitSecs svc < 0) (NegativeHealthWait name)) (\<lambda>_.
     case validateHealthcheck name (svc_HealthCheck svc) of
       (e # _, _) \<Rightarrow> Inl e
     | ([], hc) \<Rightarrow>
         and_then (for_each (\<lambda>notice _. check_notice name notice) (svc_NotifyOnSetup svc) ()) (\<lambda>_.
         and_then (check_registry name (svc_Registry svc)) (\<lambda>_.
         and_then (for_each (\<lambda>secret _. check_service_secret name secret) (svc_Secrets svc) ()) (\<lambda>_.
         and_then (check_private_volume attached name svc) (\<lambda>_.
         Inr (svc\<lparr>svc_HealthCheck := hc\<rparr>)))))))))"

definition check_service ::
  "services \<Rightarrow> (string \<times> (string \<times> YAMLSharedVolume) list) list \<Rightarrow> string \<times> YAMLService \<Rightarrow>
   (int \<times> string) list \<times> services \<Rightarrow> invalid + ((int \<times> string) list \<times> services)" where
  "check_service services attached = (\<lambda>(name, svc) (usedPorts, seen).
     and_then (check_service_head name svc) (\<lambda>_.
     and_then (check_port name svc usedPorts) (\<lambda>usedPorts.
     and_then (check_service_tail services (get [] attached name) name svc) (\<lambda>svc.
     Inr (usedPorts, seen @ [(name, svc)])))))"

definition check_public :: "string \<times> YAMLService \<Rightarrow> int \<Rightarrow> invalid + int" where
  "check_public = (\<lambda>(name, svc) publicCount.
     if svc_Public svc then
       (if publicCount + 1 > 1 then Inl SeveralPublicServices
        else if name = '''' then Inl PublicNameRequired
        else Inr (publicCount + 1))
     else Inr publicCount)"

definition check_policy :: "string \<Rightarrow> BackupPolicy option \<Rightarrow> invalid + unit" where
  "check_policy name b = (case b of
     None \<Rightarrow> Inr ()
   | Some bp \<Rightarrow>
       if \<not> bp_Enabled bp then Inr ()
       else if bp_Schedule bp \<notin> set [''disabled'', ''daily'', ''weekly'']
       then Inl (BackupSchedule name (bp_Schedule bp))
       else if ret_Count (bp_Retention bp) < 1 then Inl (RetentionCount name)
       else if ret_Days (bp_Retention bp) < 1 then Inl (RetentionDays name)
       else Inr ())"

definition check_tier :: "(string \<Rightarrow> float64 option) \<Rightarrow> string \<times> YAMLTier \<Rightarrow> invalid + unit" where
  "check_tier parse_float = (\<lambda>(name, tier).
     if name = '''' then Inl TierNameRequired
     else if f64_le (tier_CPU tier) (Fin 0) then Inl (TierCPU name)
     else if tier_Memory tier = '''' then Inl (TierMemoryRequired name)
     else if \<not> isValidStorageFormat (tier_Memory tier) then Inl (TierMemoryFormat name (tier_Memory tier))
     else if tier_Storage tier = '''' then Inl (TierStorageRequired name)
     else if \<not> isValidStorageFormat (tier_Storage tier) then Inl (TierStorageFormat name (tier_Storage tier))
     else if parseStorageBytes parse_float (tier_Storage tier) \<le> 0
     then Inl (TierStorageZero name (tier_Storage tier))
     else if f64_lt (tier_PriceMonthly tier) (Fin 0) then Inl (TierPriceNegative name)
     else if tier_Free tier \<and> \<not> f64_eq (tier_PriceMonthly tier) (Fin 0) then Inl (TierFreeWithPrice name)
     else and_then (ValidateTierEnvironment name (tier_Environment tier))
            (\<lambda>_. check_policy name (tier_Backups tier)))"

definition no_database_fields :: "YAMLServiceBackup \<Rightarrow> bool" where
  "no_database_fields b \<longleftrightarrow> bak_Engine b = '''' \<and> bak_DatabaseEnv b = '''' \<and> bak_UsernameEnv b = ''''
     \<and> bak_PasswordEnv b = ''''"

text \<open>
  The second loop over the services counts the database and the volume backups.  It dereferences
  \<^verbatim>\<open>svc.Backup\<close>, which the first loop has found to be there.
\<close>

definition check_backup ::
  "(string \<times> (string \<times> YAMLSharedVolume) list) list \<Rightarrow> string \<times> YAMLService \<Rightarrow> int \<times> int \<Rightarrow>
   invalid + (int \<times> int)" where
  "check_backup attached = (\<lambda>(name, svc) (databases, volumes).
     case svc_Backup svc of
       None \<Rightarrow> Inl (BackupRequired name)
     | Some b \<Rightarrow>
         if bak_Type b = '''' then Inl (BackupTypeRequired name)
         else if bak_Type b = ''none'' then
           (if \<not> no_database_fields b then Inl (BackupNoneWithFields name) else Inr (databases, volumes))
         else if bak_Type b = ''database'' then
           (if bak_Engine b = '''' then Inl (BackupEngineRequired name)
            else if bak_Engine b \<notin> set [''postgresql'', ''mysql'', ''mariadb'']
            then Inl (BackupEngineUnsupported name (bak_Engine b))
            else and_then (for_each (\<lambda>envName _.
                   if envName = '''' then Inl (BackupEnvRequired name)
                   else reject_if (\<not> has (svc_Env svc) envName \<and> \<not> has (svc_Secrets svc) envName)
                          (BackupEnvUndefined name envName))
                   [bak_DatabaseEnv b, bak_UsernameEnv b, bak_PasswordEnv b] ())
                 (\<lambda>_. Inr (databases + 1, volumes)))
         else if bak_Type b = ''volume'' then
           (if svc_Volume svc = '''' \<and> get [] attached name = [] then Inl (BackupVolumeMissing name)
            else if \<not> no_database_fields b then Inl (BackupVolumeWithFields name)
            else Inr (databases, volumes + 1))
         else Inl (BackupTypeUnknown name))"

definition check_tier_backups :: "int \<Rightarrow> int \<Rightarrow> string \<times> YAMLTier \<Rightarrow> invalid + unit" where
  "check_tier_backups databases volumes = (\<lambda>(name, tier).
     case tier_Backups tier of
       None \<Rightarrow> Inr ()
     | Some bp \<Rightarrow>
         if bp_BackupDatabase bp \<and> databases = 0 then Inl (TierNeedsDatabase name)
         else if bp_BackupVolumes bp \<and> volumes = 0 then Inl (TierNeedsVolume name)
         else Inr ())"

section \<open>The whole definition\<close>

definition ValidateAppDefinition ::
  "(string \<Rightarrow> float64 option) \<Rightarrow> AppDefinitionPayload \<Rightarrow> invalid + AppDefinitionPayload" where
  "ValidateAppDefinition parse_float payload =
     and_then (reject_if (app_Name payload = '''') NameRequired) (\<lambda>_.
     and_then (reject_if (\<not> appNamePattern (app_Name payload)) (NameInvalid (app_Name payload))) (\<lambda>_.
     and_then (reject_if (app_DisplayName payload = '''') DisplayNameRequired) (\<lambda>_.
     and_then (reject_if (app_Services payload = []) NoServices) (\<lambda>_.
     and_then (reject_if (app_Tiers payload = []) NoTiers) (\<lambda>_.
     and_then (validateEnvironmentMap ''app'' (app_Environment payload)) (\<lambda>_.
     and_then (for_each (\<lambda>secret _. check_app_secret secret) (app_Secrets payload) ()) (\<lambda>_.
     and_then (for_each (check_shared_volume (app_Services payload)) (app_SharedVolumes payload) ([], []))
       (\<lambda>(_, attached).
     and_then (for_each (check_service (app_Services payload) attached) (app_Services payload) ([], []))
       (\<lambda>(_, services).
     and_then (validateDependencyCycles services) (\<lambda>_.
     and_then (for_each check_public services 0) (\<lambda>_.
     and_then (for_each (\<lambda>tier _. check_tier parse_float tier) (app_Tiers payload) ()) (\<lambda>_.
     and_then (for_each (check_backup attached) services (0, 0)) (\<lambda>(databases, volumes).
     and_then (for_each (\<lambda>tier _. check_tier_backups databases volumes tier) (app_Tiers payload) ()) (\<lambda>_.
     Inr (payload\<lparr>app_Services := services\<rparr>)))))))))))))))"

section \<open>Restore sources\<close>

definition allowedRestoreSourceTypes :: "string list" where
  "allowedRestoreSourceTypes = [''local_path'', ''https'', ''s3'']"

definition restore_source_type :: "BackupRestoreSource \<Rightarrow> BackupRecord \<Rightarrow> string" where
  "restore_source_type source backupRecord = (let t = ToLower (TrimSpace (brs_Type source));
       t = (if t = '''' then ToLower (TrimSpace (br_StorageBackend backupRecord)) else t);
       t = (if t = '''' then ''local_path'' else t)
     in if t = ''local'' then ''local_path'' else t)"

definition restore_source_uri :: "BackupRestoreSource \<Rightarrow> BackupRecord \<Rightarrow> string" where
  "restore_source_uri source backupRecord = (let u = TrimSpace (brs_URI source)
     in if u = '''' then br_StorageKey backupRecord else u)"

definition ValidateRestoreSource :: "BackupRestoreSource \<Rightarrow> BackupRecord \<Rightarrow> invalid + unit" where
  "ValidateRestoreSource source backupRecord =
     (let srcType = restore_source_type source backupRecord;
          srcURI = restore_source_uri source backupRecord
      in if srcType \<notin> set allowedRestoreSourceTypes then Inl (SourceTypeNotAllowed srcType)
         else if srcType = ''local_path'' \<and> srcURI \<noteq> '''' \<and> Contains srcURI ''..''
         then Inl (SourcePathTraversal srcURI)
         else if srcType = ''https'' \<and> srcURI \<noteq> '''' \<and> \<not> HasPrefix srcURI ''https://''
         then Inl (SourceNotHttps srcURI)
         else Inr ())"

section \<open>Image references\<close>

text \<open>\<^verbatim>\<open>src/pkg/admiral/image_reference.go\<close>\<close>

definition CanonicalImageReference :: "string \<Rightarrow> string" where
  "CanonicalImageReference v0 = (let v = TrimSpace v0 in
     if v = '''' \<or> Contains v ''@sha256:'' then v
     else let v = ToLower v;
              first = (if CHR ''/'' \<in> set v then takeWhile (\<lambda>c. c \<noteq> CHR ''/'') v else v);
              v = (if \<not> Contains first ''.'' \<and> \<not> Contains first '':'' \<and> first \<noteq> ''localhost'' then
                     (if Contains v ''/'' then ''docker.io/'' @ v else ''docker.io/library/'' @ v)
                   else v)
          in if \<not> Contains v '':'' then v @ '':latest'' else v)"

definition ImageReferencesEqual :: "string \<Rightarrow> string \<Rightarrow> bool" where
  "ImageReferencesEqual actual expected = (let a = CanonicalImageReference actual;
     e = CanonicalImageReference expected in a \<noteq> '''' \<and> a = e)"

end
