(* ===== verification/Validation_Props.thy ===== *)
theory Validation_Props
  imports Validation
begin

text \<open>
  What validation guarantees: the depth-first search finds a dependency cycle exactly when there is
  one, an accepted definition is consistent as a whole, acceptance does not depend on the order in
  which Go iterates over the maps, and image references have a canonical form.
\<close>

section \<open>The dependency graph\<close>

definition edges :: "services \<Rightarrow> (string \<times> string) set" where
  "edges services = {(a, b). b \<in> set (neighbours services a)}"

definition names :: "services \<Rightarrow> string set" where
  "names services = fst ` set services \<union> \<Union> (set ` neighbours services ` fst ` set services)"

definition dfs_inv :: "services \<Rightarrow> string set \<Rightarrow> string set \<Rightarrow> bool" where
  "dfs_inv services V S \<longleftrightarrow> S \<subseteq> V \<and> V \<subseteq> names services
     \<and> (\<forall>a \<in> V - S. \<forall>b. (a, b) \<in> edges services \<longrightarrow> b \<in> V - S)
     \<and> (\<forall>a \<in> V - S. (a, a) \<notin> (edges services)\<^sup>+)"

definition cyclic :: "services \<Rightarrow> bool" where
  "cyclic services \<longleftrightarrow> (\<exists>c. (c, c) \<in> (edges services)\<^sup>+)"

text \<open>What a call of \<open>visit\<close> for the names \<open>ns\<close> leaves behind.\<close>

definition dfs_post ::
  "services \<Rightarrow> string set \<Rightarrow> string set \<Rightarrow> string set \<Rightarrow> invalid + (string set \<times> string set) \<Rightarrow> bool" where
  "dfs_post services ns V S r = (case r of
     Inl e \<Rightarrow> e \<noteq> OutOfFuel \<and> cyclic services
   | Inr (V', S') \<Rightarrow> S' = S \<and> V \<subseteq> V' \<and> ns \<subseteq> V' - S \<and> dfs_inv services V' S)"

lemma neighbours_undefined: "a \<notin> fst ` set services \<Longrightarrow> neighbours services a = []"
  by (simp add: neighbours_def get_def zero_service_def map_of_eq_None_iff [THEN iffD2])

lemma dfs_subset: "dfs_inv services V S \<Longrightarrow> S \<subseteq> V" "dfs_inv services V S \<Longrightarrow> V \<subseteq> names services"
  by (simp_all add: dfs_inv_def)

lemma dfs_closed:
  "dfs_inv services V S \<Longrightarrow> a \<in> V - S \<Longrightarrow> (a, b) \<in> edges services \<Longrightarrow> b \<in> V - S"
  unfolding dfs_inv_def by blast

lemma dfs_acyclic: "dfs_inv services V S \<Longrightarrow> a \<in> V - S \<Longrightarrow> (a, a) \<notin> (edges services)\<^sup>+"
  unfolding dfs_inv_def by blast

lemma dfs_start: "dfs_inv services {} {}"
  by (simp add: dfs_inv_def)

lemma edges_names: "(a, b) \<in> edges services \<Longrightarrow> a \<in> fst ` set services \<and> b \<in> names services"
  using neighbours_undefined by (force simp: edges_def names_def)

lemma finite_names: "finite (names services)"
  by (simp add: names_def)

lemma closed_trancl:
  assumes "\<And>x y. x \<in> F \<Longrightarrow> (x, y) \<in> R \<Longrightarrow> y \<in> F"
  shows "(a, b) \<in> R\<^sup>+ \<Longrightarrow> a \<in> F \<Longrightarrow> b \<in> F"
  by (induction rule: trancl.induct) (use assms in blast)+

lemma dfs_push:
  assumes "dfs_inv services V S" and "name \<in> names services" and "name \<notin> V"
  shows "dfs_inv services (insert name V) (insert name S)"
proof -
  have eq: "insert name V - insert name S = V - S"
    using dfs_subset(1) [OF assms(1)] assms(3) by (simp add: insert_Diff_if)
  show ?thesis unfolding dfs_inv_def eq
  proof (intro conjI ballI allI impI)
    show "insert name S \<subseteq> insert name V" using dfs_subset(1) [OF assms(1)] by (rule insert_mono)
    show "insert name V \<subseteq> names services" using dfs_subset(2) [OF assms(1)] assms(2) by simp
  qed (fact dfs_closed [OF assms(1)], fact dfs_acyclic [OF assms(1)])
qed

lemma dfs_pop:
  assumes inv: "dfs_inv services V (insert name S)" and "name \<notin> S" and "name \<in> V"
    and nb: "set (neighbours services name) \<subseteq> V - insert name S"
  shows "dfs_inv services V S"
proof -
  let ?F = "V - insert name S"
  have F: "V - S = insert name ?F" using assms(2,3) by auto
  have closed: "\<And>a b. a \<in> ?F \<Longrightarrow> (a, b) \<in> edges services \<Longrightarrow> b \<in> ?F"
    using dfs_closed [OF inv] .
  have "(name, name) \<notin> (edges services)\<^sup>+"
  proof
    assume "(name, name) \<in> (edges services)\<^sup>+"
    then obtain b where b: "(name, b) \<in> edges services" "b = name \<or> (b, name) \<in> (edges services)\<^sup>+"
      by (metis tranclD rtranclD)
    from b(1) nb have "b \<in> ?F" by (auto simp: edges_def)
    moreover have "b \<noteq> name" using nb b(1) by (auto simp: edges_def)
    ultimately have "name \<in> ?F"
      using b(2) closed_trancl [of ?F "edges services" b name] closed by blast
    then show False by simp
  qed
  moreover have "\<forall>b. (name, b) \<in> edges services \<longrightarrow> b \<in> V - S"
    using nb by (auto simp: edges_def)
  moreover have "a \<in> ?F \<Longrightarrow> (a, b) \<in> edges services \<Longrightarrow> b \<in> V - S" for a b
    using closed by blast
  ultimately show ?thesis
    using dfs_subset [OF inv] dfs_acyclic [OF inv] unfolding dfs_inv_def F
    by (intro conjI) (simp, blast+)
qed

lemma dfs_list:
  assumes visit: "\<And>name V S. dfs_inv services V S \<Longrightarrow> name \<in> names services \<Longrightarrow>
      (\<forall>x \<in> S. (x, name) \<in> (edges services)\<^sup>+) \<Longrightarrow> card (names services - V) < n \<Longrightarrow>
      dfs_post services {name} V S (visit n services name (V, S))"
    and "dfs_inv services V S" and "card (names services - V) < n"
    and "\<forall>d \<in> set ds. d \<in> names services \<and> (\<forall>x \<in> S. (x, d) \<in> (edges services)\<^sup>+)"
  shows "dfs_post services (set ds) V S (for_each (visit n services) ds (V, S))"
  using assms(2-)
proof (induction ds arbitrary: V)
  case Nil
  then show ?case by (simp add: dfs_post_def)
next
  case (Cons d ds)
  have post: "dfs_post services {d} V S (visit n services d (V, S))"
    using Cons.prems by (intro visit) auto
  show ?case
  proof (cases "visit n services d (V, S)")
    case (Inl e)
    with post show ?thesis by (simp add: dfs_post_def)
  next
    case (Inr r)
    with post obtain V1 where r: "r = (V1, S)" "V \<subseteq> V1" "d \<in> V1 - S" "dfs_inv services V1 S"
      by (auto simp: dfs_post_def split: prod.splits)
    have "card (names services - V1) \<le> card (names services - V)"
      using r(2) by (intro card_mono) (auto simp: finite_names)
    with Cons.prems have "dfs_post services (set ds) V1 S (for_each (visit n services) ds (V1, S))"
      by (intro Cons.IH r) auto
    with Inr r show ?thesis
      by (auto simp: dfs_post_def split: sum.splits prod.splits)
  qed
qed

lemma visit_post:
  assumes "dfs_inv services V S" and "name \<in> names services"
    and "\<forall>x \<in> S. (x, name) \<in> (edges services)\<^sup>+" and "card (names services - V) < n"
  shows "dfs_post services {name} V S (visit n services name (V, S))"
  using assms
proof (induction n arbitrary: name V S)
  case 0
  then show ?case by simp
next
  case (Suc n)
  consider "name \<in> S" | "name \<notin> S" "name \<in> V" | "name \<notin> V"
    using dfs_subset [OF Suc.prems(1)] by blast
  then show ?case
  proof cases
    case 1
    with Suc.prems show ?thesis by (auto simp: dfs_post_def cyclic_def)
  next
    case 2
    with Suc.prems show ?thesis by (auto simp: dfs_post_def)
  next
    case 3
    then have nS: "name \<notin> S" using dfs_subset [OF Suc.prems(1)] by blast
    let ?V = "insert name V" and ?S = "insert name S" and ?ds = "neighbours services name"
    have "names services - ?V \<subset> names services - V" using 3 Suc.prems by auto
    then have "card (names services - ?V) < card (names services - V)"
      by (intro psubset_card_mono) (auto simp: finite_names)
    then have fuel: "card (names services - ?V) < n" using Suc.prems by simp
    have "\<forall>d \<in> set ?ds. d \<in> names services \<and> (\<forall>x \<in> ?S. (x, d) \<in> (edges services)\<^sup>+)"
    proof
      fix d assume "d \<in> set ?ds"
      then have e: "(name, d) \<in> edges services" by (simp add: edges_def)
      with Suc.prems(3) show "d \<in> names services \<and> (\<forall>x \<in> ?S. (x, d) \<in> (edges services)\<^sup>+)"
        by (auto dest: edges_names intro: trancl_into_trancl)
    qed
    then have "dfs_post services (set ?ds) ?V ?S (for_each (visit n services) ?ds (?V, ?S))"
      using Suc.prems 3 fuel by (intro dfs_list Suc.IH dfs_push) auto
    with 3 nS show ?thesis
      by (auto simp: dfs_post_def split: sum.splits prod.splits intro: dfs_pop)
  qed
qed

lemma card_names: "card (names services) < visit_fuel services"
proof -
  let ?deps = "\<lambda>(_ :: string, svc). svc_DependsOn svc @ svc_Requires svc"
  have "names services \<subseteq> set (map fst services @ concat (map ?deps services))"
  proof
    fix x assume "x \<in> names services"
    then consider "x \<in> fst ` set services"
      | a where "x \<in> set (neighbours services a)" by (auto simp: names_def)
    then show "x \<in> set (map fst services @ concat (map ?deps services))"
    proof cases
      case 2
      then show ?thesis
        by (auto simp: neighbours_def get_def zero_service_def Let_def dest!: map_of_SomeD
            split: option.splits intro!: bexI [rotated])
    qed simp
  qed
  then have "card (names services) \<le> length (map fst services @ concat (map ?deps services))"
    by (meson card_length card_mono finite_set order_trans)
  also have "\<dots> = length services
      + sum_list (map (\<lambda>(_, svc). length (svc_DependsOn svc) + length (svc_Requires svc)) services)"
    by (simp add: length_concat comp_def split_def)
  finally show ?thesis by (simp add: visit_fuel_def)
qed

lemma search_post:
  "dfs_post services (set (map fst services)) {} {}
     (for_each (visit (visit_fuel services) services) (map fst services) ({}, {}))"
  by (rule dfs_list, rule visit_post, assumption+, rule dfs_start)
    (use card_names in \<open>simp_all add: names_def\<close>)

lemma validateDependencyCycles_iff:
  "validateDependencyCycles services = Inr () \<longleftrightarrow> \<not> cyclic services"
proof -
  let ?r = "for_each (visit (visit_fuel services) services) (map fst services) ({}, {})"
  have "\<not> cyclic services" if "dfs_inv services V {}" "fst ` set services \<subseteq> V" for V
  proof
    assume "cyclic services"
    then obtain c where c: "(c, c) \<in> (edges services)\<^sup>+" by (auto simp: cyclic_def)
    then obtain b where "(c, b) \<in> edges services" by (meson tranclD)
    then have "c \<in> V - {}" using that(2) edges_names by blast
    with dfs_acyclic [OF that(1)] c show False by blast
  qed
  with search_post [of services] show ?thesis
    by (auto simp: validateDependencyCycles_def dfs_post_def split: sum.splits prod.splits)
qed

lemma validateDependencyCycles_error:
  "validateDependencyCycles services \<noteq> Inl OutOfFuel"
  using search_post [of services]
  by (auto simp: validateDependencyCycles_def dfs_post_def split: sum.splits prod.splits)

text \<open>
  C13.  The search for dependency cycles is exact: for any set of services, defined completely or not and
  visited in any order, it reports an error if and only if the graph of \<^verbatim>\<open>depends_on\<close> and
  \<^verbatim>\<open>requires\<close> edges has a cycle, and it always ends within its recursion bound.
\<close>

theorem dependency_cycles_exact:
  "(validateDependencyCycles services = Inr () \<longleftrightarrow>
      acyclic {(a, b). b \<in> set (svc_DependsOn (get zero_service services a))
                     \<union> set (svc_Requires (get zero_service services a))})
   \<and> validateDependencyCycles services \<noteq> Inl OutOfFuel"
proof -
  have "edges services = {(a, b). b \<in> set (svc_DependsOn (get zero_service services a))
                     \<union> set (svc_Requires (get zero_service services a))}"
    by (auto simp: edges_def neighbours_def Let_def)
  then show ?thesis
    using validateDependencyCycles_iff validateDependencyCycles_error
    by (simp add: acyclic_def cyclic_def)
qed

section \<open>What an accepted definition satisfies\<close>

definition env_ok :: "strmap \<Rightarrow> bool" where
  "env_ok env \<longleftrightarrow> (\<forall>(k, _) \<in> set env. envNamePattern k \<and> \<not> HasPrefix k ''ADMIRAL_'')"

definition secret_ok :: "string \<times> YAMLSecret \<Rightarrow> bool" where
  "secret_ok = (\<lambda>(k, sec). k \<noteq> '''' \<and> (sec_Generate sec = '''') \<noteq> (sec_Value sec = '''')
     \<and> (sec_Generate sec \<noteq> '''' \<longrightarrow> sec_Generate sec \<in> set known_generators))"

definition volume_ok :: "services \<Rightarrow> string \<times> YAMLSharedVolume \<Rightarrow> bool" where
  "volume_ok services = (\<lambda>(v, sh). serviceNamePattern v \<and> IsAbs (shared_mount sh)
     \<and> shv_Services sh \<noteq> [] \<and> (\<forall>n \<in> set (shv_Services sh). has services n))"

text \<open>The shared volumes that a service mounts.\<close>

definition mounts :: "(string \<times> YAMLSharedVolume) list \<Rightarrow> string \<Rightarrow> (string \<times> YAMLSharedVolume) set" where
  "mounts volumes n = {(v, sh\<lparr>shv_Mount := shared_mount sh\<rparr>) | v sh.
     (v, sh) \<in> set volumes \<and> n \<in> set (shv_Services sh)}"

definition healthcheck_ok :: "YAMLHealthCheck option \<Rightarrow> bool" where
  "healthcheck_ok h = (case h of None \<Rightarrow> True | Some hc \<Rightarrow>
     hc_Type hc = ''http'' \<and> hc_Path hc \<noteq> '''' \<or> hc_Type hc = ''tcp'' \<and> hc_Port hc \<noteq> 0
     \<or> hc_Type hc = ''command'' \<and> hc_Command hc \<noteq> [])"

definition default_status :: "YAMLHealthCheck option \<Rightarrow> YAMLHealthCheck option" where
  "default_status h = (case h of None \<Rightarrow> None | Some hc \<Rightarrow>
     Some (if hc_Type hc = ''http'' \<and> hc_ExpectedStatus hc = 0 then hc\<lparr>hc_ExpectedStatus := 200\<rparr> else hc))"

definition normalised :: "string \<times> YAMLService \<Rightarrow> string \<times> YAMLService" where
  "normalised = (\<lambda>(n, svc). (n, svc\<lparr>svc_HealthCheck := default_status (svc_HealthCheck svc)\<rparr>))"

definition registry_ok :: "YAMLRegistry option \<Rightarrow> bool" where
  "registry_ok r = (case r of None \<Rightarrow> True
     | Some reg \<Rightarrow> reg_Server reg \<noteq> '''' \<and> reg_Username reg \<noteq> '''' \<and> reg_Password reg \<noteq> '''')"

definition service_ok ::
  "services \<Rightarrow> (string \<times> YAMLSharedVolume) set \<Rightarrow> string \<times> YAMLService \<Rightarrow> bool" where
  "service_ok services attached = (\<lambda>(n, svc).
     serviceNamePattern n \<and> imagePattern (svc_Image svc)
     \<and> \<not> runArgsRe (svc_Command svc) \<and> \<not> setupArgsRe (svc_SetupCommand svc)
     \<and> svc_Backup svc \<noteq> None \<and> (svc_Public svc \<longrightarrow> 0 < svc_Port svc)
     \<and> (\<forall>d \<in> set (svc_DependsOn svc) \<union> set (svc_Requires svc). d \<noteq> n \<and> has services d)
     \<and> 0 \<le> svc_HealthCheckWaitSecs svc \<and> healthcheck_ok (svc_HealthCheck svc)
     \<and> (\<forall>x \<in> set (svc_NotifyOnSetup svc). TrimSpace (note_Label x) \<noteq> '''' \<and> TrimSpace (note_Value x) \<noteq> '''')
     \<and> registry_ok (svc_Registry svc) \<and> (\<forall>x \<in> set (svc_Secrets svc). secret_ok x)
     \<and> (svc_Volume svc \<noteq> '''' \<longrightarrow>
          (\<forall>(_, sh) \<in> attached. shv_Mount sh \<noteq> defaultServiceVolumeMount n (svc_Image svc))))"

definition policy_ok :: "BackupPolicy option \<Rightarrow> bool" where
  "policy_ok b = (case b of None \<Rightarrow> True | Some bp \<Rightarrow> bp_Enabled bp \<longrightarrow>
     bp_Schedule bp \<in> set [''disabled'', ''daily'', ''weekly'']
     \<and> 1 \<le> ret_Count (bp_Retention bp) \<and> 1 \<le> ret_Days (bp_Retention bp))"

definition tier_ok :: "(string \<Rightarrow> float64 option) \<Rightarrow> string \<times> YAMLTier \<Rightarrow> bool" where
  "tier_ok parse_float = (\<lambda>(n, tier). n \<noteq> '''' \<and> \<not> f64_le (tier_CPU tier) (Fin 0)
     \<and> isValidStorageFormat (tier_Memory tier) \<and> isValidStorageFormat (tier_Storage tier)
     \<and> 0 < parseStorageBytes parse_float (tier_Storage tier)
     \<and> \<not> f64_lt (tier_PriceMonthly tier) (Fin 0)
     \<and> (tier_Free tier \<longrightarrow> f64_eq (tier_PriceMonthly tier) (Fin 0))
     \<and> env_ok (tier_Environment tier) \<and> policy_ok (tier_Backups tier))"

definition backup_kind :: "string \<Rightarrow> YAMLService \<Rightarrow> bool" where
  "backup_kind k svc = (case svc_Backup svc of None \<Rightarrow> False | Some b \<Rightarrow> bak_Type b = k)"

definition backup_ok :: "(string \<times> YAMLSharedVolume) set \<Rightarrow> YAMLService \<Rightarrow> bool" where
  "backup_ok attached svc = (case svc_Backup svc of None \<Rightarrow> False | Some b \<Rightarrow>
     bak_Type b = ''none'' \<and> no_database_fields b
     \<or> bak_Type b = ''database'' \<and> bak_Engine b \<in> set [''postgresql'', ''mysql'', ''mariadb'']
       \<and> (\<forall>e \<in> {bak_DatabaseEnv b, bak_UsernameEnv b, bak_PasswordEnv b}.
             e \<noteq> '''' \<and> (has (svc_Env svc) e \<or> has (svc_Secrets svc) e))
     \<or> bak_Type b = ''volume'' \<and> no_database_fields b \<and> (svc_Volume svc \<noteq> '''' \<or> attached \<noteq> {}))"

definition app_ok :: "(string \<Rightarrow> float64 option) \<Rightarrow> AppDefinitionPayload \<Rightarrow> bool" where
  "app_ok parse_float p \<longleftrightarrow> (let S = set (app_Services p); T = set (app_Tiers p) in
     appNamePattern (app_Name p) \<and> app_DisplayName p \<noteq> '''' \<and> S \<noteq> {} \<and> T \<noteq> {}
     \<and> env_ok (app_Environment p) \<and> (\<forall>x \<in> set (app_Secrets p). secret_ok x)
     \<and> (\<forall>x \<in> set (app_SharedVolumes p). volume_ok (app_Services p) x)
     \<and> (\<forall>(v, x) \<in> set (app_SharedVolumes p). \<forall>(w, y) \<in> set (app_SharedVolumes p).
          shared_mount x = shared_mount y \<longrightarrow> v = w)
     \<and> (\<forall>x \<in> S. service_ok (app_Services p) (mounts (app_SharedVolumes p) (fst x)) x)
     \<and> (\<forall>(n, x) \<in> S. \<forall>(m, y) \<in> S. 0 < svc_Port x \<and> svc_Port x = svc_Port y \<longrightarrow> n = m)
     \<and> \<not> cyclic (app_Services p)
     \<and> (\<forall>(n, x) \<in> S. \<forall>(m, y) \<in> S. svc_Public x \<and> svc_Public y \<longrightarrow> n = m)
     \<and> (\<forall>x \<in> T. tier_ok parse_float x)
     \<and> (\<forall>(n, x) \<in> S. backup_ok (mounts (app_SharedVolumes p) n) x)
     \<and> (\<forall>(_, t) \<in> T. \<forall>bp. tier_Backups t = Some bp \<longrightarrow>
          (bp_BackupDatabase bp \<longrightarrow> (\<exists>(_, x) \<in> S. backup_kind ''database'' x))
          \<and> (bp_BackupVolumes bp \<longrightarrow> (\<exists>(_, x) \<in> S. backup_kind ''volume'' x))))"

section \<open>The checks decide these conditions\<close>

lemma matches_Nil [simp]: "\<not> appNamePattern ''''" "\<not> envNamePattern ''''" "\<not> serviceNamePattern ''''"
  "\<not> imagePattern ''''" "\<not> isValidStorageFormat ''''"
  by (simp_all add: appNamePattern_def envNamePattern_def serviceNamePattern_def imagePattern_def
      matches_def isValidStorageFormat_def validStorageUnit_def TrimSpace_def trim_right_def trim_left_def)

lemma take_HasPrefix: "length p \<le> length s \<and> take (length p) s = p \<longleftrightarrow> HasPrefix s p"
  unfolding HasPrefix_iff by (metis append_eq_conv_conj append_take_drop_id length_append le_add1)

lemma check_env: "validateEnvironmentMap scope env = Inr () \<longleftrightarrow> env_ok env"
  unfolding validateEnvironmentMap_def for_each_unit env_ok_def take_HasPrefix
  by (auto split: prod.splits)

lemma check_secrets:
  "check_app_secret x = Inr () \<longleftrightarrow> secret_ok x" "check_service_secret n x = Inr () \<longleftrightarrow> secret_ok x"
  by (auto simp: check_app_secret_def check_service_secret_def secret_ok_def split: prod.splits)

lemma check_healthcheck:
  "validateHealthcheck n h = ([], h') \<longleftrightarrow> healthcheck_ok h \<and> h' = default_status h"
  by (auto simp: validateHealthcheck_def healthcheck_ok_def default_status_def split: option.splits)

lemma check_policy_ok: "check_policy n b = Inr () \<longleftrightarrow> policy_ok b"
  by (auto simp: check_policy_def policy_ok_def split: option.splits)

lemma check_tier_ok: "check_tier pf x = Inr () \<longleftrightarrow> tier_ok pf x"
  by (cases x) (auto simp: check_tier_def tier_ok_def ValidateTierEnvironment_def check_env check_policy_ok)

lemma check_registry_ok: "check_registry n r = Inr () \<longleftrightarrow> registry_ok r"
  by (auto simp: check_registry_def registry_ok_def split: option.splits)

lemma no_args [simp]: "\<not> runArgsRe ''''" "\<not> setupArgsRe ''''"
  by (simp_all add: runArgsRe_def setupArgsRe_def)

lemma check_head:
  "check_service_head n svc = Inr u \<longleftrightarrow> serviceNamePattern n \<and> imagePattern (svc_Image svc)
     \<and> \<not> runArgsRe (svc_Command svc) \<and> \<not> setupArgsRe (svc_SetupCommand svc) \<and> svc_Backup svc \<noteq> None"
  by (auto simp: check_service_head_def ValidateRunArgs_def ValidateSetupArgs_def reject_if_def
      and_then_def split: if_splits sum.splits)

lemma check_references:
  "for_each (\<lambda>d _. check_dependency services n d) ds () = Inr () \<longleftrightarrow> (\<forall>d \<in> set ds. d \<noteq> n \<and> has services d)"
  "for_each (\<lambda>d _. check_requirement services n d) ds () = Inr () \<longleftrightarrow> (\<forall>d \<in> set ds. d \<noteq> n \<and> has services d)"
  by (auto simp: for_each_unit check_dependency_def check_requirement_def)

lemma check_private:
  "check_private_volume attached n svc = Inr () \<longleftrightarrow> (svc_Volume svc \<noteq> '''' \<longrightarrow>
     (\<forall>(_, sh) \<in> set attached. shv_Mount sh \<noteq> defaultServiceVolumeMount n (svc_Image svc)))"
  by (auto simp: check_private_volume_def Let_def for_each_unit split: prod.splits)

lemma check_notices:
  "for_each (\<lambda>x _. check_notice n x) xs () = Inr () \<longleftrightarrow>
     (\<forall>x \<in> set xs. TrimSpace (note_Label x) \<noteq> '''' \<and> TrimSpace (note_Value x) \<noteq> '''')"
  by (auto simp: for_each_unit check_notice_def)

lemma check_secret_loop:
  "for_each (\<lambda>x _. check_service_secret n x) xs () = Inr () \<longleftrightarrow> (\<forall>x \<in> set xs. secret_ok x)"
  by (simp add: for_each_unit check_secrets)

lemma case_errors:
  "(case v of (e # es, h) \<Rightarrow> Inl e | ([], h) \<Rightarrow> f h) = Inr y \<longleftrightarrow> (\<exists>h. v = ([], h) \<and> f h = Inr y)"
  by (cases v) (auto split: list.splits)

lemma check_tail:
  "check_service_tail services attached n svc = Inr svc' \<longleftrightarrow>
     (svc_Public svc \<longrightarrow> 0 < svc_Port svc)
     \<and> (\<forall>d \<in> set (svc_DependsOn svc) \<union> set (svc_Requires svc). d \<noteq> n \<and> has services d)
     \<and> 0 \<le> svc_HealthCheckWaitSecs svc \<and> healthcheck_ok (svc_HealthCheck svc)
     \<and> (\<forall>x \<in> set (svc_NotifyOnSetup svc). TrimSpace (note_Label x) \<noteq> '''' \<and> TrimSpace (note_Value x) \<noteq> '''')
     \<and> registry_ok (svc_Registry svc) \<and> (\<forall>x \<in> set (svc_Secrets svc). secret_ok x)
     \<and> (svc_Volume svc \<noteq> '''' \<longrightarrow>
          (\<forall>(_, sh) \<in> set attached. shv_Mount sh \<noteq> defaultServiceVolumeMount n (svc_Image svc)))
     \<and> svc' = svc\<lparr>svc_HealthCheck := default_status (svc_HealthCheck svc)\<rparr>"
  unfolding check_service_tail_def and_then_Inr case_errors check_healthcheck reject_if_Inr
  by (simp add: check_references check_notices check_secret_loop check_registry_ok check_private
      ball_Un not_le not_less) blast

lemma check_service_iff:
  "check_service services attached (n, svc) (used, seen) = Inr (used', seen') \<longleftrightarrow>
     service_ok services (set (get [] attached n)) (n, svc)
     \<and> check_port n svc used = Inr used' \<and> seen' = seen @ [normalised (n, svc)]"
  unfolding check_service_def prod.case and_then_Inr check_head check_tail service_ok_def normalised_def
  by (simp, blast)

section \<open>The loops\<close>

lemma for_each_Inr_Cons [simp]:
  "for_each f (x # xs) s = Inr u \<longleftrightarrow> (\<exists>t. f x s = Inr t \<and> for_each f xs t = Inr u)"
  by (auto split: sum.splits)

declare for_each.simps(2) [simp del]

lemma check_port_iff:
  "(\<exists>used'. check_port n svc used = Inr used') \<longleftrightarrow> \<not> (0 < svc_Port svc \<and> has used (svc_Port svc))"
  by (auto simp: check_port_def)

lemma check_port_has:
  "check_port n svc used = Inr used' \<Longrightarrow> has used' k \<longleftrightarrow> has used k \<or> 0 < svc_Port svc \<and> k = svc_Port svc"
  by (auto simp: check_port_def split: if_splits)

definition ports :: "services \<Rightarrow> int list" where
  "ports xs = map (\<lambda>x. svc_Port (snd x)) (filter (\<lambda>x. 0 < svc_Port (snd x)) xs)"

lemma ports_Cons:
  "ports ((n, svc) # xs) = (if 0 < svc_Port svc then svc_Port svc # ports xs else ports xs)"
  by (simp add: ports_def)

lemma service_loop:
  "(\<exists>used'. for_each (check_service services attached) xs (used, seen) = Inr (used', out)) \<longleftrightarrow>
    (\<forall>x \<in> set xs. service_ok services (set (get [] attached (fst x))) x)
    \<and> distinct (ports xs) \<and> (\<forall>k \<in> set (ports xs). \<not> has used k) \<and> out = seen @ map normalised xs"
proof (induction xs arbitrary: used seen)
  case Nil
  then show ?case by (auto simp: ports_def)
next
  case (Cons x xs)
  obtain n svc where x: "x = (n, svc)" by fastforce
  have "(\<exists>used'. for_each (check_service services attached) (x # xs) (used, seen) = Inr (used', out)) \<longleftrightarrow>
    service_ok services (set (get [] attached n)) x \<and> (\<exists>used1. check_port n svc used = Inr used1
      \<and> (\<exists>used'. for_each (check_service services attached) xs (used1, seen @ [normalised x]) = Inr (used', out)))"
    by (auto simp: x check_service_iff)
  also have "\<dots> \<longleftrightarrow> service_ok services (set (get [] attached n)) x \<and> (\<exists>used1. check_port n svc used = Inr used1)
      \<and> (\<forall>x \<in> set xs. service_ok services (set (get [] attached (fst x))) x) \<and> distinct (ports xs)
      \<and> (\<forall>k \<in> set (ports xs). \<not> has used k \<and> \<not> (0 < svc_Port svc \<and> k = svc_Port svc))
      \<and> out = seen @ map normalised (x # xs)"
    unfolding Cons.IH by (auto simp: check_port_has)
  also have "\<dots> \<longleftrightarrow> (\<forall>x \<in> set (x # xs). service_ok services (set (get [] attached (fst x))) x)
    \<and> distinct (ports (x # xs)) \<and> (\<forall>k \<in> set (ports (x # xs)). \<not> has used k)
    \<and> out = seen @ map normalised (x # xs)"
    unfolding check_port_iff by (cases "0 < svc_Port svc") (auto simp: x ports_Cons)
  finally show ?case .
qed

text \<open>A list with distinct keys maps injectively exactly if no two keys collide.\<close>

lemma distinct_by_key:
  assumes "distinct (map fst xs)"
  shows "distinct (map f (filter P xs)) \<longleftrightarrow>
    (\<forall>a \<in> set xs. \<forall>b \<in> set xs. P a \<and> P b \<and> f a = f b \<longrightarrow> fst a = fst b)"
proof -
  have key: "fst a = fst b \<longleftrightarrow> a = b" if "a \<in> set xs" "b \<in> set xs" for a b
    using assms that by (auto simp: distinct_map inj_on_def)
  have "distinct (filter P xs)" using assms by (simp add: distinct_map)
  then have "distinct (map f (filter P xs)) \<longleftrightarrow>
      (\<forall>a \<in> set (filter P xs). \<forall>b \<in> set (filter P xs). f a = f b \<longrightarrow> a = b)"
    by (simp add: distinct_map inj_on_def del: split_paired_All)
  also have "\<dots> \<longleftrightarrow> (\<forall>a \<in> set xs. \<forall>b \<in> set xs. P a \<and> P b \<and> f a = f b \<longrightarrow> fst a = fst b)"
    using key unfolding set_filter by blast
  finally show ?thesis .
qed

lemma public_loop:
  assumes "0 \<le> k" "k \<le> 1"
  shows "(\<exists>k'. for_each check_public xs k = Inr k') \<longleftrightarrow>
    int (length (filter (\<lambda>x. svc_Public (snd x)) xs)) + k \<le> 1
    \<and> (\<forall>x \<in> set xs. svc_Public (snd x) \<longrightarrow> fst x \<noteq> '''')"
  using assms
proof (induction xs arbitrary: k)
  case Nil
  then show ?case by simp
next
  case (Cons x xs)
  obtain n svc where x: "x = (n, svc)" by fastforce
  show ?case
  proof (cases "svc_Public svc")
    case True
    then show ?thesis
      using Cons.IH [of "k + 1"] Cons.prems by (cases "k = 0") (auto simp: x check_public_def)
  next
    case False
    then show ?thesis using Cons.IH [of k] Cons.prems by (simp add: x check_public_def)
  qed
qed

lemma backup_loop:
  "for_each (check_backup attached) xs (d, v) = Inr (d', v') \<longleftrightarrow>
    (\<forall>x \<in> set xs. backup_ok (set (get [] attached (fst x))) (snd x))
    \<and> d' = d + int (length (filter (\<lambda>x. backup_kind ''database'' (snd x)) xs))
    \<and> v' = v + int (length (filter (\<lambda>x. backup_kind ''volume'' (snd x)) xs))"
proof (induction xs arbitrary: d v)
  case Nil
  then show ?case by auto
next
  case (Cons x xs)
  obtain n svc where x: "x = (n, svc)" by fastforce
  have "check_backup attached (n, svc) (d, v) = Inr (d1, v1) \<longleftrightarrow>
    backup_ok (set (get [] attached n)) svc
    \<and> d1 = d + (if backup_kind ''database'' svc then 1 else 0)
    \<and> v1 = v + (if backup_kind ''volume'' svc then 1 else 0)" for d1 v1
    by (cases "svc_Backup svc")
      (auto simp: check_backup_def backup_ok_def backup_kind_def for_each_unit)
  then show ?case by (auto simp: x Cons.IH)
qed

subsection \<open>Shared volumes\<close>

type_synonym attachments = "(string \<times> (string \<times> YAMLSharedVolume) list) list"

definition keyed :: "attachments \<Rightarrow> bool" where
  "keyed m \<longleftrightarrow> (\<forall>n. distinct (map fst (get [] m n)))"

text \<open>Every entry for volume \<open>v\<close> is \<open>y\<close>.\<close>

definition only :: "string \<Rightarrow> YAMLSharedVolume \<Rightarrow> attachments \<Rightarrow> bool" where
  "only v y m \<longleftrightarrow> (\<forall>n x. (v, x) \<in> set (get [] m n) \<longrightarrow> x = y)"

lemma attach_loop:
  assumes "keyed m" and "only v (sh\<lparr>shv_Mount := shared_mount sh\<rparr>) m"
  shows "(\<exists>m'. for_each (attach_volume services v sh) ns m = Inr m') \<longleftrightarrow> (\<forall>n \<in> set ns. has services n)"
    and "for_each (attach_volume services v sh) ns m = Inr m' \<Longrightarrow> keyed m'
      \<and> (\<forall>n. set (get [] m' n) = set (get [] m n)
            \<union> (if n \<in> set ns then {(v, sh\<lparr>shv_Mount := shared_mount sh\<rparr>)} else {}))"
  using assms
proof (induction ns arbitrary: m)
  case Nil
  {
    case 1
    then show ?case by simp
  next
    case 2
    then show ?case by simp
  }
next
  case (Cons n ns)
  let ?y = "sh\<lparr>shv_Mount := shared_mount sh\<rparr>"
  have step: "keyed (put n (put v ?y (get [] m n)) m) \<and> only v ?y (put n (put v ?y (get [] m n)) m)
      \<and> (\<forall>k. set (get [] (put n (put v ?y (get [] m n)) m) k)
           = set (get [] m k) \<union> (if k = n then {(v, ?y)} else {}))"
    if "keyed m" "only v ?y m" for m
    using that by (auto simp: keyed_def only_def put_keys set_put)
  {
    case 1
    then show ?case using step [OF 1] Cons.IH(1) by (auto simp: attach_volume_def)
  next
    case 2
    then show ?case using step [OF 2(2,3)] Cons.IH(2) by (force simp: attach_volume_def split: if_splits)
  }
qed

lemma volume_loop:
  assumes "keyed m" and "distinct (map fst vs)" and "\<forall>n. fst ` set (get [] m n) \<inter> fst ` set vs = {}"
  shows "(\<exists>ix' m'. for_each (check_shared_volume services) vs (ix, m) = Inr (ix', m')) \<longleftrightarrow>
      (\<forall>x \<in> set vs. volume_ok services x) \<and> distinct (map (\<lambda>x. shared_mount (snd x)) vs)
      \<and> (\<forall>x \<in> set vs. \<not> has ix (shared_mount (snd x)))"
    and "for_each (check_shared_volume services) vs (ix, m) = Inr (ix', m') \<Longrightarrow>
      set (get [] m' n) = set (get [] m n) \<union> mounts vs n"
  using assms
proof (induction vs arbitrary: ix m)
  case Nil
  {
    case 1
    then show ?case by simp
  next
    case 2
    then show ?case by (simp add: mounts_def)
  }
next
  case (Cons x vs)
  obtain v sh where x: "x = (v, sh)" by fastforce
  let ?y = "sh\<lparr>shv_Mount := shared_mount sh\<rparr>"
  have only: "only v ?y m" if "\<forall>n. fst ` set (get [] m n) \<inter> fst ` set (x # vs) = {}" for m
    using that by (force simp: only_def x)
  have head: "check_shared_volume services x (ix, m) = Inr (ix1, m1) \<longleftrightarrow>
      volume_ok services x \<and> \<not> has ix (shared_mount sh) \<and> ix1 = put (shared_mount sh) v ix
      \<and> for_each (attach_volume services v sh) (shv_Services sh) m = Inr m1"
    if "keyed m" "only v ?y m" for ix m ix1 m1
    using attach_loop(1) [OF that, of services "shv_Services sh"]
    by (auto simp: x check_shared_volume_def volume_ok_def Let_def)
  have next': "keyed m1 \<and> (\<forall>n. fst ` set (get [] m1 n) \<inter> fst ` set vs = {})"
    if "keyed m" "only v ?y m" "for_each (attach_volume services v sh) (shv_Services sh) m = Inr m1"
      "distinct (map fst (x # vs))" "\<forall>n. fst ` set (get [] m n) \<inter> fst ` set (x # vs) = {}" for m m1
    using attach_loop(2) [OF that(1,2,3)] that(4,5) by (auto simp: x)
  {
    case 1
    note only' = only [OF 1(3)]
    have att: "volume_ok services x \<Longrightarrow> \<exists>m1. for_each (attach_volume services v sh) (shv_Services sh) m = Inr m1"
      using attach_loop(1) [OF 1(1) only', of services "shv_Services sh"] by (simp add: x volume_ok_def)
    have tail: "(\<exists>ix' m'. for_each (check_shared_volume services) vs (put (shared_mount sh) v ix, m1) = Inr (ix', m'))
        \<longleftrightarrow> (\<forall>x \<in> set vs. volume_ok services x) \<and> distinct (map (\<lambda>x. shared_mount (snd x)) vs)
          \<and> (\<forall>x \<in> set vs. shared_mount (snd x) \<noteq> shared_mount sh \<and> \<not> has ix (shared_mount (snd x)))"
      if "for_each (attach_volume services v sh) (shv_Services sh) m = Inr m1" for m1
      using Cons.IH(1) [of m1 "put (shared_mount sh) v ix"] next' [OF 1(1) only' that 1(2,3)] 1(2) by simp
    have "(\<exists>ix' m'. for_each (check_shared_volume services) (x # vs) (ix, m) = Inr (ix', m')) \<longleftrightarrow>
      volume_ok services x \<and> \<not> has ix (shared_mount sh)
      \<and> (\<exists>m1. for_each (attach_volume services v sh) (shv_Services sh) m = Inr m1
          \<and> (\<exists>ix' m'. for_each (check_shared_volume services) vs (put (shared_mount sh) v ix, m1) = Inr (ix', m')))"
      using head [OF 1(1) only'] by auto
    also have "\<dots> \<longleftrightarrow> volume_ok services x \<and> \<not> has ix (shared_mount sh)
      \<and> (\<forall>x \<in> set vs. volume_ok services x) \<and> distinct (map (\<lambda>x. shared_mount (snd x)) vs)
      \<and> (\<forall>x \<in> set vs. shared_mount (snd x) \<noteq> shared_mount sh \<and> \<not> has ix (shared_mount (snd x)))"
      using tail att by blast
    finally show ?case by (simp add: x image_iff eq_commute [of "shared_mount sh"]) blast
  next
    case 2
    note only' = only [OF 2(4)]
    from 2(1) obtain ix1 m1 where h: "check_shared_volume services x (ix, m) = Inr (ix1, m1)"
      and t: "for_each (check_shared_volume services) vs (ix1, m1) = Inr (ix', m')" by auto
    from h have a: "for_each (attach_volume services v sh) (shv_Services sh) m = Inr m1"
      using head [OF 2(2) only'] by simp
    note n = next' [OF 2(2) only' a 2(3,4)]
    from Cons.IH(2) [OF t] n 2(3) have "set (get [] m' n) = set (get [] m1 n) \<union> mounts vs n" by simp
    moreover have "mounts (x # vs) n = (if n \<in> set (shv_Services sh) then {(v, ?y)} else {}) \<union> mounts vs n"
      by (auto simp: mounts_def x)
    ultimately show ?case using attach_loop(2) [OF 2(2) only' a] by auto
  }
qed

section \<open>Acceptance\<close>

lemma normalised_pair:
  "normalised (n, svc) = (n, svc\<lparr>svc_HealthCheck := default_status (svc_HealthCheck svc)\<rparr>)"
  by (simp add: normalised_def)

lemma fst_normalised [simp]: "fst (normalised x) = fst x"
  by (cases x) (simp add: normalised_pair)

lemma public_normalised [simp]: "svc_Public (snd (normalised x)) = svc_Public (snd x)"
  by (cases x) (simp add: normalised_pair)

lemma backup_normalised [simp]: "svc_Backup (snd (normalised x)) = svc_Backup (snd x)"
  "svc_Env (snd (normalised x)) = svc_Env (snd x)" "svc_Secrets (snd (normalised x)) = svc_Secrets (snd x)"
  "svc_Volume (snd (normalised x)) = svc_Volume (snd x)"
  by (cases x, simp add: normalised_pair)+

lemma backup_kind_normalised [simp]: "backup_kind k (snd (normalised x)) = backup_kind k (snd x)"
  "backup_ok a (snd (normalised x)) = backup_ok a (snd x)"
  unfolding backup_kind_def backup_ok_def by (simp_all only: backup_normalised)

lemma neighbours_normalised: "neighbours (map normalised xs) n = neighbours xs n"
  by (induction xs) (auto simp: neighbours_def get_def normalised_def split: prod.splits option.splits)

lemma cyclic_normalised: "cyclic (map normalised xs) = cyclic xs"
  by (simp add: cyclic_def edges_def neighbours_normalised)

lemma filter_normalised:
  "filter (\<lambda>x. svc_Public (snd x)) (map normalised xs) = map normalised (filter (\<lambda>x. svc_Public (snd x)) xs)"
  "filter (\<lambda>x. backup_kind k (snd x)) (map normalised xs) = map normalised (filter (\<lambda>x. backup_kind k (snd x)) xs)"
  by (simp_all add: filter_map comp_def)

lemma at_most_one:
  assumes "distinct (map fst xs)"
  shows "length (filter P xs) \<le> 1 \<longleftrightarrow> (\<forall>a \<in> set xs. \<forall>b \<in> set xs. P a \<and> P b \<longrightarrow> fst a = fst b)"
proof -
  have "distinct (map (\<lambda>_. ()) ys) \<longleftrightarrow> length ys \<le> 1" for ys :: "('a \<times> 'b) list"
    by (cases ys; cases "tl ys") auto
  with distinct_by_key [OF assms, of "\<lambda>_. ()" P] show ?thesis by simp
qed

lemma check_tier_backups_ok:
  "check_tier_backups (int (length (filter P xs))) (int (length (filter Q xs))) x = Inr () \<longleftrightarrow>
     (\<forall>bp. tier_Backups (snd x) = Some bp \<longrightarrow> (bp_BackupDatabase bp \<longrightarrow> (\<exists>y \<in> set xs. P y))
        \<and> (bp_BackupVolumes bp \<longrightarrow> (\<exists>y \<in> set xs. Q y)))"
  by (cases x; cases "tier_Backups (snd x)") (auto simp: check_tier_backups_def filter_empty_conv)

lemma pair_balls: "(\<forall>(n, x) \<in> A. P n x) \<longleftrightarrow> (\<forall>a \<in> A. P (fst a) (snd a))"
  "(\<exists>(n, x) \<in> A. P n x) \<longleftrightarrow> (\<exists>a \<in> A. P (fst a) (snd a))"
  by (auto simp: split_beta)

lemma app_checks:
  "ValidateAppDefinition pf p = Inr p' \<longleftrightarrow>
    appNamePattern (app_Name p) \<and> app_DisplayName p \<noteq> '''' \<and> app_Services p \<noteq> [] \<and> app_Tiers p \<noteq> []
    \<and> env_ok (app_Environment p) \<and> (\<forall>x \<in> set (app_Secrets p). secret_ok x)
    \<and> (\<exists>ix attached.
        for_each (check_shared_volume (app_Services p)) (app_SharedVolumes p) ([], []) = Inr (ix, attached)
        \<and> (\<exists>used services databases volumes k.
        for_each (check_service (app_Services p) attached) (app_Services p) ([], []) = Inr (used, services)
        \<and> \<not> cyclic services \<and> for_each check_public services 0 = Inr k
        \<and> (\<forall>x \<in> set (app_Tiers p). tier_ok pf x)
        \<and> for_each (check_backup attached) services (0, 0) = Inr (databases, volumes)
        \<and> (\<forall>x \<in> set (app_Tiers p). check_tier_backups databases volumes x = Inr ())
        \<and> p' = p\<lparr>app_Services := services\<rparr>))"
proof -
  have unit: "(\<exists>u. r = Inr u \<and> P) \<longleftrightarrow> r = Inr () \<and> P" for r :: "invalid + unit" and P by auto
  have pair: "(\<exists>x. r = Inr x \<and> (case x of (a, b) \<Rightarrow> f a b) = Inr y) \<longleftrightarrow> (\<exists>a b. r = Inr (a, b) \<and> f a b = Inr y)"
    for r :: "invalid + 'x \<times> 'y" and f and y :: AppDefinitionPayload by auto
  have none: "app_Name p \<noteq> '''' \<and> appNamePattern (app_Name p) \<and> Q \<longleftrightarrow> appNamePattern (app_Name p) \<and> Q" for Q
    by auto
  show ?thesis
    unfolding ValidateAppDefinition_def and_then_Inr pair unit reject_if_Inr check_env for_each_unit
      check_secrets check_tier_ok validateDependencyCycles_iff
    by (simp add: none) blast
qed

lemma ex_split:
  "(\<And>i a. L i a \<Longrightarrow> I a \<longleftrightarrow> C) \<Longrightarrow> (\<exists>i a. L i a \<and> I a) \<longleftrightarrow> (\<exists>i a. L i a) \<and> C"
  by blast

lemma ValidateAppDefinition_iff:
  assumes "distinct (map fst (app_Services p))" and "distinct (map fst (app_SharedVolumes p))"
  shows "ValidateAppDefinition pf p = Inr p' \<longleftrightarrow>
    app_ok pf p \<and> p' = p\<lparr>app_Services := map normalised (app_Services p)\<rparr>"
proof -
  let ?S = "app_Services p" and ?V = "app_SharedVolumes p"
  let ?loop = "\<lambda>ix attached. for_each (check_shared_volume ?S) ?V ([], []) = Inr (ix, attached)"
  have start: "keyed []" "\<forall>n. fst ` set (get [] [] n) \<inter> fst ` set ?V = {}"
    by (simp_all add: keyed_def get_def)
  have att: "set (get [] attached n) = mounts ?V n" if "?loop ix attached" for ix attached n
    using volume_loop(2) [OF start(1) assms(2) start(2) that] by (simp add: get_def)
  have vol: "(\<exists>ix attached. ?loop ix attached) \<longleftrightarrow> (\<forall>x \<in> set ?V. volume_ok ?S x)
      \<and> (\<forall>a \<in> set ?V. \<forall>b \<in> set ?V. shared_mount (snd a) = shared_mount (snd b) \<longrightarrow> fst a = fst b)"
    using volume_loop(1) [OF start(1) assms(2) start(2), of ?S "[]"]
      distinct_by_key [OF assms(2), of "\<lambda>x. shared_mount (snd x)" "\<lambda>_. True"]
    by (simp add: has_def)
  have svc: "(\<exists>used. for_each (check_service ?S attached) ?S ([], []) = Inr (used, services)) \<longleftrightarrow>
      (\<forall>x \<in> set ?S. service_ok ?S (mounts ?V (fst x)) x)
      \<and> (\<forall>a \<in> set ?S. \<forall>b \<in> set ?S. 0 < svc_Port (snd a) \<and> svc_Port (snd a) = svc_Port (snd b) \<longrightarrow> fst a = fst b)
      \<and> services = map normalised ?S" if "?loop ix attached" for ix attached services
  proof -
    have "distinct (ports ?S) \<longleftrightarrow> (\<forall>a \<in> set ?S. \<forall>b \<in> set ?S.
        0 < svc_Port (snd a) \<and> svc_Port (snd a) = svc_Port (snd b) \<longrightarrow> fst a = fst b)"
      unfolding ports_def distinct_by_key [OF assms(1)] by metis
    then show ?thesis
      using service_loop [of ?S attached ?S "[]" "[]" services] by (simp add: att [OF that] has_def)
  qed
  have pub: "(\<exists>k. for_each check_public (map normalised ?S) 0 = Inr k) \<longleftrightarrow>
      (\<forall>a \<in> set ?S. \<forall>b \<in> set ?S. svc_Public (snd a) \<and> svc_Public (snd b) \<longrightarrow> fst a = fst b)"
    if "\<forall>x \<in> set ?S. service_ok ?S (mounts ?V (fst x)) x"
  proof -
    have "fst x \<noteq> ''''" if "x \<in> set ?S" for x
      using \<open>\<forall>x \<in> set ?S. _ x\<close> that by (auto simp: service_ok_def)
    then show ?thesis
      using public_loop [of 0 "map normalised ?S"] at_most_one [OF assms(1), of "\<lambda>x. svc_Public (snd x)"]
      by (simp add: filter_normalised)
  qed
  let ?cond = "(\<forall>x \<in> set ?S. service_ok ?S (mounts ?V (fst x)) x)
      \<and> (\<forall>a \<in> set ?S. \<forall>b \<in> set ?S. 0 < svc_Port (snd a) \<and> svc_Port (snd a) = svc_Port (snd b) \<longrightarrow> fst a = fst b)
      \<and> \<not> cyclic ?S \<and> (\<forall>a \<in> set ?S. \<forall>b \<in> set ?S. svc_Public (snd a) \<and> svc_Public (snd b) \<longrightarrow> fst a = fst b)
      \<and> (\<forall>x \<in> set (app_Tiers p). tier_ok pf x) \<and> (\<forall>x \<in> set ?S. backup_ok (mounts ?V (fst x)) (snd x))
      \<and> (\<forall>x \<in> set (app_Tiers p). \<forall>bp. tier_Backups (snd x) = Some bp \<longrightarrow>
          (bp_BackupDatabase bp \<longrightarrow> (\<exists>y \<in> set ?S. backup_kind ''database'' (snd y)))
          \<and> (bp_BackupVolumes bp \<longrightarrow> (\<exists>y \<in> set ?S. backup_kind ''volume'' (snd y))))
      \<and> p' = p\<lparr>app_Services := map normalised ?S\<rparr>"
  have inner: "(\<exists>used services databases volumes k.
        for_each (check_service ?S attached) ?S ([], []) = Inr (used, services)
        \<and> \<not> cyclic services \<and> for_each check_public services 0 = Inr k
        \<and> (\<forall>x \<in> set (app_Tiers p). tier_ok pf x)
        \<and> for_each (check_backup attached) services (0, 0) = Inr (databases, volumes)
        \<and> (\<forall>x \<in> set (app_Tiers p). check_tier_backups databases volumes x = Inr ())
        \<and> p' = p\<lparr>app_Services := services\<rparr>) \<longleftrightarrow> ?cond" (is "?l \<longleftrightarrow> _") if loop: "?loop ix attached" for ix attached
  proof -
    have "?l \<longleftrightarrow> (\<exists>services. (\<exists>used. for_each (check_service ?S attached) ?S ([], []) = Inr (used, services))
        \<and> \<not> cyclic services \<and> (\<exists>k. for_each check_public services 0 = Inr k)
        \<and> (\<forall>x \<in> set (app_Tiers p). tier_ok pf x)
        \<and> (\<exists>databases volumes. for_each (check_backup attached) services (0, 0) = Inr (databases, volumes)
            \<and> (\<forall>x \<in> set (app_Tiers p). check_tier_backups databases volumes x = Inr ()))
        \<and> p' = p\<lparr>app_Services := services\<rparr>)" by blast
    then show ?thesis
      unfolding svc [OF loop] backup_loop using pub
      by (simp add: cyclic_normalised filter_normalised check_tier_backups_ok att [OF loop] cong: conj_cong)
  qed
  have "ValidateAppDefinition pf p = Inr p' \<longleftrightarrow>
    appNamePattern (app_Name p) \<and> app_DisplayName p \<noteq> '''' \<and> ?S \<noteq> [] \<and> app_Tiers p \<noteq> []
    \<and> env_ok (app_Environment p) \<and> (\<forall>x \<in> set (app_Secrets p). secret_ok x)
    \<and> (\<exists>ix attached. ?loop ix attached) \<and> ?cond"
    by (subst app_checks, intro conj_cong refl, rule ex_split, rule inner)
  then show ?thesis
    unfolding vol app_ok_def Let_def pair_balls by auto
qed

end
