(* ===== verification/Validation_Accept.thy ===== *)
theory Validation_Accept
  imports Validation_Props
begin

text \<open>
  The properties of validation as a whole: acceptance is equivalent to \<open>app_ok\<close>, it does not depend
  on the order of Go's map iteration, and image references have a canonical form.
\<close>

section \<open>A concrete application\<close>

definition demo_backup :: YAMLServiceBackup where
  "demo_backup = \<lparr>bak_Type = ''none'', bak_Engine = '''', bak_DatabaseEnv = '''', bak_UsernameEnv = '''',
     bak_PasswordEnv = ''''\<rparr>"

definition demo_service :: "string \<Rightarrow> int \<Rightarrow> string list \<Rightarrow> YAMLService" where
  "demo_service img port deps = zero_service\<lparr>svc_Image := img, svc_Port := port, svc_DependsOn := deps,
     svc_Backup := Some demo_backup\<rparr>"

definition demo_services :: services where
  "demo_services = [(''web'', (demo_service ''nginx'' 80 [''db''])\<lparr>svc_Public := True\<rparr>),
     (''db'', (demo_service ''postgres:16'' 5432 [])\<lparr>svc_Volume := ''data''\<rparr>)]"

definition demo_tier :: YAMLTier where
  "demo_tier = \<lparr>tier_CPU = Fin 1, tier_Memory = ''512M'', tier_Storage = ''10G'', tier_PriceMonthly = Fin 0,
     tier_Free = True, tier_Environment = [(''MODE'', ''small'')], tier_Backups = None\<rparr>"

definition demo_app :: AppDefinitionPayload where
  "demo_app = \<lparr>app_Name = ''shop'', app_DisplayName = ''Shop'', app_Description = '''',
     app_Environment = [(''LANG'', ''C'')], app_Services = demo_services,
     app_SharedVolumes = [(''media'', \<lparr>shv_Mount = ''/srv//media/'', shv_Services = [''web''], shv_UID = 0,
        shv_GID = 0\<rparr>)],
     app_Secrets = [], app_Tiers = [(''basic'', demo_tier)]\<rparr>"

definition demo_float :: "string \<Rightarrow> float64 option" where
  "demo_float s = (if s = ''10'' then Some (Fin 10) else if s = ''512'' then Some (Fin 512) else None)"

section \<open>Acceptance and its specification\<close>

text \<open>
  C14.  Validation accepts an application definition exactly when it is consistent as a whole: names match
  their patterns; secrets have one source; every referenced service exists and none refers to itself;
  positive ports are unique; at most one service is public and it has a port; the dependency
  graph has no cycle; shared volumes have absolute, pairwise different mounts that no private volume
  of the same service uses; environments stay out of the reserved \<^verbatim>\<open>ADMIRAL_\<close> prefix; tiers have
  positive resources; and backups refer to what is declared.  It changes nothing but the default
  status of HTTP health checks.
\<close>

theorem accepts_iff_consistent:
  assumes "distinct (map fst (app_Services p))" and "distinct (map fst (app_SharedVolumes p))"
  shows "ValidateAppDefinition pf p = Inr p' \<longleftrightarrow>
    app_ok pf p \<and> p' = p\<lparr>app_Services := map normalised (app_Services p)\<rparr>"
  using assms by (rule ValidateAppDefinition_iff)

theorem accepts_iff_consistent_witness:
  "ValidateAppDefinition demo_float demo_app = Inr demo_app \<and> app_ok demo_float demo_app"
proof -
  have "ValidateAppDefinition demo_float demo_app = Inr demo_app" by code_simp
  moreover have "distinct (map fst (app_Services demo_app))" "distinct (map fst (app_SharedVolumes demo_app))"
    by (simp_all add: demo_app_def demo_services_def)
  ultimately show ?thesis using accepts_iff_consistent by blast
qed

section \<open>Independence of the iteration order\<close>

definition same_entries :: "AppDefinitionPayload \<Rightarrow> AppDefinitionPayload \<Rightarrow> bool" where
  "same_entries p q \<longleftrightarrow> app_Name p = app_Name q \<and> app_DisplayName p = app_DisplayName q
     \<and> set (app_Environment p) = set (app_Environment q) \<and> set (app_Secrets p) = set (app_Secrets q)
     \<and> set (app_Services p) = set (app_Services q)
     \<and> set (app_SharedVolumes p) = set (app_SharedVolumes q) \<and> set (app_Tiers p) = set (app_Tiers q)"

lemma get_cong:
  assumes "distinct (map fst m)" "distinct (map fst m')" "set m = set m'"
  shows "get z m k = get z m' k"
proof -
  have "map_of m = map_of m'" using assms by (metis map_of_inject_set)
  then show ?thesis by (simp add: get_def)
qed

lemma app_ok_cong:
  assumes "same_entries p q"
    and "distinct (map fst (app_Services p))" and "distinct (map fst (app_Services q))"
  shows "app_ok pf p \<longleftrightarrow> app_ok pf q"
proof -
  have has: "has (app_Services p) = has (app_Services q)"
    using assms(1) by (auto simp: same_entries_def has_def fun_eq_iff)
  have mounts: "mounts (app_SharedVolumes p) = mounts (app_SharedVolumes q)"
    using assms(1) by (auto simp: same_entries_def mounts_def fun_eq_iff)
  have "neighbours (app_Services p) = neighbours (app_Services q)"
    using get_cong [OF assms(2,3)] assms(1) by (simp add: same_entries_def neighbours_def fun_eq_iff)
  then have cyc: "cyclic (app_Services p) = cyclic (app_Services q)"
    by (simp add: cyclic_def edges_def)
  have sets: "env_ok (app_Environment p) = env_ok (app_Environment q)"
    "set (app_Secrets p) = set (app_Secrets q)" "set (app_Services p) = set (app_Services q)"
    "set (app_SharedVolumes p) = set (app_SharedVolumes q)" "set (app_Tiers p) = set (app_Tiers q)"
    "app_Name p = app_Name q" "app_DisplayName p = app_DisplayName q"
    using assms(1) by (simp_all add: same_entries_def env_ok_def)
  show ?thesis
    unfolding app_ok_def Let_def volume_ok_def service_ok_def has mounts cyc sets ..
qed



section \<open>Image references\<close>

definition trimmed :: "string \<Rightarrow> bool" where
  "trimmed s \<longleftrightarrow> s = [] \<or> \<not> is_space (hd s) \<and> \<not> is_space (last s)"

lemma dropWhile_keep: "s = [] \<or> \<not> P (hd s) \<Longrightarrow> dropWhile P s = s"
  by (cases s) auto

lemma TrimSpace_id: "trimmed s \<Longrightarrow> TrimSpace s = s"
  using dropWhile_keep [of s is_space] dropWhile_keep [of "rev s" is_space]
  by (auto simp: trimmed_def TrimSpace_def trim_left_def trim_right_def hd_rev)

lemma trimmed_TrimSpace: "trimmed (TrimSpace s)"
proof -
  let ?t = "dropWhile is_space s"
  have 1: "?t = [] \<or> \<not> is_space (hd ?t)" by (metis hd_dropWhile)
  let ?u = "rev (dropWhile is_space (rev ?t))"
  have last: "?u = [] \<or> \<not> is_space (last ?u)"
    by (metis hd_dropWhile last_rev rev_is_Nil_conv)
  have "\<exists>w. ?t = ?u @ w"
    by (metis rev_append rev_rev_ident takeWhile_dropWhile_id)
  then have "?u = [] \<or> \<not> is_space (hd ?u)" using 1 by (metis append_is_Nil_conv hd_append2)
  with last show ?thesis by (auto simp: trimmed_def TrimSpace_def trim_left_def trim_right_def)
qed

lemma is_space_lower [simp]: "is_space (lower_char c) = is_space c"
proof (cases "in_range CHR ''A'' CHR ''Z'' c")
  case True
  then have b: "65 \<le> byte_of c" "byte_of c \<le> 90" by (auto simp: in_range_def byte_of_def)
  have "byte_of (lower_char c) = byte_of c + 32" using True b by (simp add: lower_char_def byte_of_def)
  moreover have "byte_of d \<le> 32" if "is_space d" for d using that by (auto simp: is_space_def byte_of_def)
  ultimately show ?thesis using b by fastforce
qed (simp add: lower_char_def)

lemma trimmed_lower: "trimmed s \<Longrightarrow> trimmed (ToLower s)"
  by (auto simp: trimmed_def ToLower_def hd_map last_map)

lemma Contains_char: "Contains s [c] \<longleftrightarrow> c \<in> set s"
  by (induction s) auto

definition first_part :: "string \<Rightarrow> string" where
  "first_part v = takeWhile (\<lambda>c. c \<noteq> CHR ''/'') v"

lemma first_part_id: "CHR ''/'' \<notin> set v \<Longrightarrow> first_part v = v"
  unfolding first_part_def takeWhile_eq_all_conv by blast

lemma first_part_append: "CHR ''/'' \<in> set v \<Longrightarrow> first_part (v @ w) = first_part v"
  unfolding first_part_def by (simp add: takeWhile_append1)

definition has_registry :: "string \<Rightarrow> bool" where
  "has_registry v \<longleftrightarrow> CHR ''.'' \<in> set (first_part v) \<or> CHR '':'' \<in> set (first_part v) \<or> first_part v = ''localhost''"

lemma canonical_unfold:
  "CanonicalImageReference s = (let v = TrimSpace s in
     if v = '''' \<or> Contains v ''@sha256:'' then v
     else let v = ToLower v;
              v = (if \<not> has_registry v then (if CHR ''/'' \<in> set v then ''docker.io/'' @ v
                     else ''docker.io/library/'' @ v) else v)
          in if CHR '':'' \<notin> set v then v @ '':latest'' else v)"
proof -
  have "(if CHR ''/'' \<in> set v then takeWhile (\<lambda>c. c \<noteq> CHR ''/'') v else v) = first_part v" for v
    using first_part_id [of v] by (auto simp: first_part_def simp del: takeWhile_eq_all_conv)
  then show ?thesis
    by (simp add: CanonicalImageReference_def Contains_char has_registry_def Let_def)
qed

text \<open>What canonicalisation leaves behind, when it does not keep the reference as it is.\<close>

definition canonical :: "string \<Rightarrow> bool" where
  "canonical v \<longleftrightarrow> v \<noteq> [] \<and> trimmed v \<and> ToLower v = v \<and> has_registry v \<and> CHR '':'' \<in> set v"

lemma canonical_fixpoint: "canonical v \<Longrightarrow> CanonicalImageReference v = v"
  by (simp add: canonical_unfold canonical_def TrimSpace_id)

lemma has_registry_latest: "has_registry v \<Longrightarrow> has_registry (v @ '':latest'')"
  by (cases "CHR ''/'' \<in> set v") (auto simp: has_registry_def first_part_append first_part_id)

definition docker_prefix :: "string \<Rightarrow> bool" where
  "docker_prefix u \<longleftrightarrow> u = ''docker.io/'' \<or> u = ''docker.io/library/''"

lemma docker_prefix_facts:
  assumes "docker_prefix u"
  shows "ToLower u = u" "has_registry (u @ v)" "u \<noteq> []" "\<not> is_space (hd u)"
proof -
  have "ToLower ''docker.io/'' = ''docker.io/''" "ToLower ''docker.io/library/'' = ''docker.io/library/''"
    by code_simp+
  with assms show "ToLower u = u" by (auto simp: docker_prefix_def)
  show "has_registry (u @ v)" "u \<noteq> []" "\<not> is_space (hd u)"
    using assms by (auto simp: docker_prefix_def has_registry_def first_part_def is_space_def)
qed

lemma latest_facts: "ToLower '':latest'' = '':latest''" "\<not> is_space (last '':latest'')"
  by code_simp+

lemma canonical_or_kept:
  "canonical (CanonicalImageReference s) \<or> CanonicalImageReference s = TrimSpace s
     \<and> (TrimSpace s = '''' \<or> Contains (TrimSpace s) ''@sha256:'')"
proof (cases "TrimSpace s = '''' \<or> Contains (TrimSpace s) ''@sha256:''")
  case True
  then show ?thesis by (auto simp: canonical_unfold)
next
  case False
  let ?v = "ToLower (TrimSpace s)"
  define w where "w = (if \<not> has_registry ?v then (if CHR ''/'' \<in> set ?v then ''docker.io/'' @ ?v
     else ''docker.io/library/'' @ ?v) else ?v)"
  have v: "trimmed ?v" "?v \<noteq> []"
    using False trimmed_lower [OF trimmed_TrimSpace] by (simp_all add: ToLower_def)
  have "has_registry ?v \<and> w = ?v \<or> (\<exists>u. docker_prefix u \<and> w = u @ ?v)"
    by (auto simp: w_def docker_prefix_def simp del: append.simps)
  then have w: "w \<noteq> []" "trimmed w" "ToLower w = w" "has_registry w"
    using v by (auto simp: trimmed_def ToLower_append docker_prefix_facts)
  have c: "CanonicalImageReference s = (if CHR '':'' \<notin> set w then w @ '':latest'' else w)"
    using False by (simp add: canonical_unfold w_def)
  have "canonical (w @ '':latest'')"
    using w latest_facts by (simp add: canonical_def trimmed_def ToLower_append has_registry_latest)
  with w c show ?thesis by (auto simp: canonical_def)
qed

lemma canonical_idem: "CanonicalImageReference (CanonicalImageReference s) = CanonicalImageReference s"
  using canonical_or_kept [of s]
proof
  assume "canonical (CanonicalImageReference s)"
  then show ?thesis by (rule canonical_fixpoint)
next
  assume "CanonicalImageReference s = TrimSpace s \<and> (TrimSpace s = '''' \<or> Contains (TrimSpace s) ''@sha256:'')"
  then show ?thesis
    by (auto simp: canonical_unfold TrimSpace_id [OF trimmed_TrimSpace])
qed

text \<open>
  The canonical form of an image reference is a fixed point of canonicalisation, and comparing
  references is an equivalence on the references that are not blank: a reference equals its own
  canonical form, and two references that both equal a third one equal each other.
\<close>

theorem image_reference_canonical:
  "CanonicalImageReference (CanonicalImageReference s) = CanonicalImageReference s
   \<and> (ImageReferencesEqual s (CanonicalImageReference s) \<longleftrightarrow> TrimSpace s \<noteq> '''')
   \<and> (ImageReferencesEqual s t \<longrightarrow> ImageReferencesEqual u t \<longrightarrow> ImageReferencesEqual s u)"
proof -
  have "CanonicalImageReference s \<noteq> '''' \<longleftrightarrow> TrimSpace s \<noteq> ''''"
    using canonical_or_kept [of s] by (auto simp: canonical_def canonical_unfold)
  then show ?thesis by (auto simp: ImageReferencesEqual_def Let_def canonical_idem)
qed

theorem image_reference_canonical_witness:
  "ImageReferencesEqual ''Nginx'' ''docker.io/library/nginx:latest''
   \<and> ImageReferencesEqual ''library/nginx'' ''docker.io/library/nginx:latest''
   \<and> ImageReferencesEqual ''Nginx'' ''library/nginx''"
proof -
  have 1: "ImageReferencesEqual ''Nginx'' ''docker.io/library/nginx:latest''"
    and 2: "ImageReferencesEqual ''library/nginx'' ''docker.io/library/nginx:latest''" by code_simp+
  with image_reference_canonical [of "''Nginx''" "''docker.io/library/nginx:latest''" "''library/nginx''"]
  show ?thesis by blast
qed

lemma lower_slash: "CHR ''/'' \<in> set s \<Longrightarrow> CHR ''/'' \<in> lower_char ` set s"
proof -
  have "lower_char CHR ''/'' = CHR ''/''" by code_simp
  then show "CHR ''/'' \<in> set s \<Longrightarrow> CHR ''/'' \<in> lower_char ` set s" by (metis imageI)
qed

text \<open>
  A short reference with a tag is not expanded: for a name without a slash that carries a tag, such
  as \<^verbatim>\<open>postgres:16\<close>, the colon is taken for the sign of a registry, so the reference is compared
  unequal to the fully qualified name that it stands for.
\<close>

theorem tagged_short_name_not_expanded:
  assumes "TrimSpace v = v" "ToLower v = v" "CHR ''/'' \<notin> set v" "CHR '':'' \<in> set v"
    "\<not> Contains v ''@sha256:''"
  shows "CanonicalImageReference v = v
    \<and> \<not> ImageReferencesEqual (''docker.io/library/'' @ v) v"
proof -
  have v: "v \<noteq> []" "has_registry v" using assms(3,4) by (auto simp: has_registry_def first_part_id)
  have 1: "CanonicalImageReference v = v" using assms v by (simp add: canonical_unfold)
  have "CanonicalImageReference (''docker.io/library/'' @ v) \<noteq> v"
  proof
    assume "CanonicalImageReference (''docker.io/library/'' @ v) = v"
    then have "CHR ''/'' \<notin> set (CanonicalImageReference (''docker.io/library/'' @ v))" using assms(3) by simp
    moreover have "CHR ''/'' \<in> set (''docker.io/library/'' @ v)" by simp
    then have "CHR ''/'' \<in> set (TrimSpace (''docker.io/library/'' @ v))"
      using TrimSpace_id assms(1) v(1) docker_prefix_facts
      by (metis docker_prefix_def hd_append2 last_appendR trimmed_TrimSpace trimmed_def append_is_Nil_conv)
    then have "CHR ''/'' \<in> set (CanonicalImageReference (''docker.io/library/'' @ v))"
      by (auto simp: canonical_unfold Let_def ToLower_def lower_slash)
    ultimately show False by simp
  qed
  with 1 show ?thesis by (simp add: ImageReferencesEqual_def Let_def)
qed

theorem tagged_short_name_not_expanded_witness:
  "\<not> ImageReferencesEqual ''docker.io/library/postgres:16'' ''postgres:16''"
proof -
  have "TrimSpace ''postgres:16'' = ''postgres:16''" "ToLower ''postgres:16'' = ''postgres:16''"
    "\<not> Contains ''postgres:16'' ''@sha256:''" by code_simp+
  then show ?thesis using tagged_short_name_not_expanded [of "''postgres:16''"] by simp
qed

end
