(* ===== verification/Store.thy ===== *)
theory Store
  imports Types "HOL-Library.Product_Lexorder" "HOL-Library.List_Lexorder" "HOL-Library.Char_ord"
begin

text \<open>
  The relational store: the tables of \<^verbatim>\<open>src/internal/database/migrations.go\<close> and the state they
  make up.  A row is a record with the columns that the modelled statements read or write; a
  nullable column is an option.  \<open>store\<close> is the database; the operations on it are in
  \<open>Store_Nodes\<close>, \<open>Store_Apps\<close>, \<open>Store_Catalog\<close> and \<open>Store_Access\<close>.
\<close>

section \<open>Rows\<close>

text \<open>A row of \<^verbatim>\<open>nodes\<close>, which is also the struct \<^verbatim>\<open>Node\<close>.\<close>

record Node =
  n_ID :: string
  n_Hostname :: string
  n_IP :: string
  n_WireguardIP :: string
  n_NodeRole :: string
  n_PublicIP :: string
  n_OS :: string
  n_PodmanVersion :: string
  n_FleetVersion :: string
  n_Status :: string
  n_LastHeartbeat :: "int option"
  n_DiskTotal :: int
  n_DiskUsed :: int
  n_PodsActive :: int
  n_PodsPaused :: int
  n_PodsFailed :: int
  n_StorageState :: string
  n_StorageMsg :: string
  n_ManualDisabled :: bool
  n_HealthStatus :: string
  n_HealthReasonCodes :: string
  n_AvailableForProvisioning :: bool
  n_UnavailableReasonCodes :: string
  n_RAMTotal :: int
  n_RAMUsed :: int
  n_RAMCommitLimit :: int
  n_DiskCommitLimit :: int
  n_CommittedRAM :: int
  n_CommittedDisk :: int
  n_LastMetricsAt :: "int option"
  n_TokenType :: string
  n_TokenStatus :: string
  n_TokenIdentifier :: "string option"
  n_TokenExpiresAt :: "int option"
  n_BootID :: string
  n_CreatedAt :: int

record NodeToken =
  tk_NodeID :: string
  tk_TokenType :: string
  tk_TokenIdentifier :: string
  tk_TokenHash :: string
  tk_TokenStatus :: string
  tk_TokenValueEncrypted :: string
  tk_TokenExpiresAt :: "int option"
  tk_ClaimID :: string

text \<open>A row of \<^verbatim>\<open>customer_apps\<close>.\<close>

record CustomerApp =
  ca_ID :: string
  ca_CustomerID :: string
  ca_AppDefinitionName :: string
  ca_TierName :: string
  ca_NodeID :: "string option"
  ca_CommercialStatus :: string
  ca_TechnicalStatus :: string
  ca_TierSnapshotJSON :: string
  ca_CreatedAt :: int
  ca_HealthStatus :: string
  ca_HealthMessage :: string
  ca_LastHealthChecked :: "int option"
  ca_LastHealthBootID :: string
  ca_StorageLimitBytes :: int
  ca_StorageUsedBytes :: int
  ca_StorageUsedPct :: float64
  ca_StorageState :: string
  ca_StorageMessage :: string
  ca_StorageCheckedAt :: "int option"
  ca_StorageExceeded :: bool
  ca_GracePeriodStartsAt :: "int option"
  ca_GracePeriodEndsAt :: "int option"
  ca_LogicalInstanceID :: string
  ca_InspectData :: string
  ca_SetupCompleted :: bool
  ca_NeedRestarting :: bool
  ca_UpdateType :: string
  ca_UpdateStartedAt :: "int option"

text \<open>A row of \<^verbatim>\<open>public_routes\<close>.\<close>

record PublicRoute =
  r_ID :: string
  r_Hostname :: string
  r_PublicID :: string
  r_AppInstanceID :: "string option"
  r_AppTemplateCode :: string
  r_NodeID :: "string option"
  r_ServiceName :: string
  r_TargetScheme :: string
  r_TargetHost :: string
  r_TargetPort :: int
  r_TargetURL :: string
  r_RouteKind :: string
  r_TLSMode :: string
  r_Status :: string
  r_LastError :: string
  r_LastHealthStatus :: string
  r_LastHealthCheckedAt :: "int option"
  r_CreatedAt :: int
  r_UpdatedAt :: int

record AppTier =
  at_AppName :: string
  at_Name :: string
  at_CPU :: float64
  at_Memory :: string
  at_Storage :: string
  at_PriceMonthly :: float64
  at_Free :: bool
  at_Environment :: strmap
  at_BackupPolicyJSON :: string

record OperationMetadata =
  om_TargetNodeID :: string
  om_ResizeTargetTier :: "AppTier option"
  om_SourceNodeID :: string
  om_LogicalInstanceID :: string
  om_MigrationStep :: string
  om_MigrationRoutes :: "PublicRoute list"
  om_HostPorts :: "(string \<times> int) list"
  om_BackupRecordIDs :: "string list"
  om_NewInstanceID :: string
  om_SourceAction :: string
  om_ImageDefinitions :: strmap

text \<open>A row of \<^verbatim>\<open>operations\<close>; the metadata column holds the decoded document.\<close>

record Operation =
  op_ID :: string
  op_InstanceID :: "string option"
  op_NodeID :: string
  op_TaskID :: string
  op_Action :: string
  op_Status :: string
  op_ErrorMessage :: "string option"
  op_AdminUser :: string
  op_Metadata :: "OperationMetadata option"
  op_CreatedAt :: int
  op_UpdatedAt :: int

text \<open>A row of \<^verbatim>\<open>app_definitions\<close>.\<close>

record AppDefinition =
  ad_Name :: string
  ad_DisplayName :: string
  ad_Description :: string
  ad_RawYAML :: string
  ad_Status :: string
  ad_Availability :: string
  ad_AvailabilityReason :: string
  ad_Revision :: int
  ad_Checksum :: string
  ad_CreatedAt :: int

text \<open>A row of \<^verbatim>\<open>instance_secrets\<close>.\<close>

record InstanceSecret =
  is_InstanceID :: string
  is_ServiceName :: string
  is_EnvName :: string
  is_EncryptedValue :: string
  is_ExposeToCustomer :: bool
  is_CreatedAt :: int

record ProvisionRequestRecord =
  pr_CustomerID :: string
  pr_KeyHash :: string
  pr_RequestHash :: string
  pr_InstanceID :: string
  pr_OperationID :: string
  pr_TaskID :: string
  pr_ResponseStatus :: int
  pr_ResponseJSON :: "string option"

record rate_limit =
  rl_identifier :: string
  rl_window_start :: float64
  rl_attempts :: int

text \<open>A row of \<^verbatim>\<open>admin_users\<close>; \<^verbatim>\<open>OperatorProfile\<close> and \<^verbatim>\<open>AdminUserRecord\<close> are parts of it.\<close>

record admin_user =
  au_Username :: string
  au_PasswordHash :: string
  au_MustChangePassword :: bool
  au_Email :: string
  au_EmailVerifiedAt :: "int option"
  au_MFAEmailEnabled :: bool
  au_CreatedAt :: int

record OperatorToken =
  ot_ID :: string
  ot_Username :: string
  ot_Label :: string
  ot_TokenPrefix :: string
  ot_TokenHash :: string
  ot_Scope :: string
  ot_ExpiresAt :: "int option"
  ot_RevokedAt :: "int option"
  ot_LastUsedAt :: "int option"
  ot_CreatedAt :: int

record AdminSession =
  as_TokenHash :: string
  as_Username :: string
  as_ExpiresAt :: int
  as_LastActivityAt :: int

record OutboxEntry =
  ob_ID :: string
  ob_TaskJSON :: string
  ob_OperationID :: string
  ob_InstanceID :: string
  ob_NodeID :: string
  ob_Action :: string
  ob_Status :: string
  ob_RetryCount :: int
  ob_MaxRetries :: int
  ob_LastError :: string
  ob_CreatedAt :: int
  ob_UpdatedAt :: int

text \<open>A row of the table \<^verbatim>\<open>backups\<close>, of which only the reference to a node is still used.\<close>

record backup_row =
  bk_ID :: string
  bk_NodeID :: "string option"

record BackupStorageConfig =
  sc_ID :: string
  sc_Backend :: string
  sc_Enabled :: bool
  sc_Endpoint :: string
  sc_Region :: string
  sc_Bucket :: string
  sc_Prefix :: string
  sc_ForcePathStyle :: bool
  sc_AccessKeyEnv :: string
  sc_SecretKeyEnv :: string
  sc_SessionTokenEnv :: string
  sc_CreatedAt :: string
  sc_UpdatedAt :: string

text \<open>
  Rows whose structs render times as text: the struct, whose time fields are empty in the table,
  beside the columns that hold the times.
\<close>

record storage_config_row =
  scr_config :: BackupStorageConfig
  scr_created_at :: int
  scr_updated_at :: int

record backup_record_row =
  brr_record :: BackupRecord
  brr_created_at :: int
  brr_completed_at :: "int option"
  brr_expires_at :: "int option"
  brr_verified_at :: "int option"

section \<open>The database\<close>

record store =
  st_nodes :: "Node list"
  st_tokens :: "NodeToken list"
  st_definitions :: "AppDefinition list"
  st_tiers :: "AppTier list"
  st_apps :: "CustomerApp list"
  st_operations :: "Operation list"
  st_routes :: "PublicRoute list"
  st_backups :: "backup_row list"
  st_backup_records :: "backup_record_row list"
  st_storage_configs :: "storage_config_row list"
  st_secrets :: "InstanceSecret list"
  st_provision_requests :: "ProvisionRequestRecord list"
  st_rate_limits :: "rate_limit list"
  st_admin_users :: "admin_user list"
  st_operator_tokens :: "OperatorToken list"
  st_sessions :: "AdminSession list"
  st_outbox :: "OutboxEntry list"

type_synonym 'a db = "(store conn, err + 'a) state"

definition empty_store :: store where
  "empty_store = \<lparr>st_nodes = [], st_tokens = [], st_definitions = [], st_tiers = [], st_apps = [],
     st_operations = [], st_routes = [], st_backups = [], st_backup_records = [], st_storage_configs = [],
     st_secrets = [], st_provision_requests = [], st_rate_limits = [], st_admin_users = [],
     st_operator_tokens = [], st_sessions = [], st_outbox = []\<rparr>"

section \<open>Statements\<close>

text \<open>\<^verbatim>\<open>fmt.Errorf("...: %w", err)\<close> around the error of a call.\<close>

definition wrapped :: "string \<Rightarrow> 'a db \<Rightarrow> 'a db" where
  "wrapped msg m = m \<bind> (\<lambda>r. return (case r of Inl e \<Rightarrow> Inl (Wrap msg e) | Inr x \<Rightarrow> Inr x))"

text \<open>\<^verbatim>\<open>COALESCE(NULLIF($1, ''), c)\<close>\<close>

definition or_keep :: "string \<Rightarrow> string \<Rightarrow> string" where
  "or_keep new old = (if new = '''' then old else new)"

text \<open>\<^verbatim>\<open>UPDATE\<close> and \<^verbatim>\<open>DELETE\<close> on one table.\<close>

definition update_nodes :: "(Node \<Rightarrow> bool) \<Rightarrow> (int \<Rightarrow> Node \<Rightarrow> Node) \<Rightarrow> unit db" where
  "update_nodes p f = exec (\<lambda>t d. d\<lparr>st_nodes := update_where p (f t) (st_nodes d)\<rparr>)"

definition update_apps :: "(CustomerApp \<Rightarrow> bool) \<Rightarrow> (int \<Rightarrow> CustomerApp \<Rightarrow> CustomerApp) \<Rightarrow> unit db" where
  "update_apps p f = exec (\<lambda>t d. d\<lparr>st_apps := update_where p (f t) (st_apps d)\<rparr>)"

definition update_operations :: "(Operation \<Rightarrow> bool) \<Rightarrow> (int \<Rightarrow> Operation \<Rightarrow> Operation) \<Rightarrow> unit db" where
  "update_operations p f = exec (\<lambda>t d. d\<lparr>st_operations := update_where p (f t) (st_operations d)\<rparr>)"

definition update_routes :: "(PublicRoute \<Rightarrow> bool) \<Rightarrow> (int \<Rightarrow> PublicRoute \<Rightarrow> PublicRoute) \<Rightarrow> unit db" where
  "update_routes p f = exec (\<lambda>t d. d\<lparr>st_routes := update_where p (f t) (st_routes d)\<rparr>)"

definition delete_routes :: "(PublicRoute \<Rightarrow> bool) \<Rightarrow> unit db" where
  "delete_routes p = exec (\<lambda>_ d. d\<lparr>st_routes := delete_where p (st_routes d)\<rparr>)"

text \<open>
  \<^verbatim>\<open>LIMIT limit OFFSET offset\<close>, which PostgreSQL refuses for negative numbers.  Text is ordered by
  its bytes, the collation \<^verbatim>\<open>C\<close>.
\<close>

definition page :: "int \<Rightarrow> int \<Rightarrow> 'a list \<Rightarrow> driver_error + 'a list" where
  "page limit offset rows = (if limit < 0 \<or> offset < 0 then Inl InvalidRowCount
     else Inr (take (nat limit) (drop (nat offset) rows)))"

text \<open>Listing functions first count the rows and then read one page of them.\<close>

definition counted_page ::
  "string \<Rightarrow> string \<Rightarrow> (store \<Rightarrow> nat) \<Rightarrow> (int \<Rightarrow> store \<Rightarrow> 'a list) \<Rightarrow> int \<Rightarrow> int \<Rightarrow> ('a list \<times> nat) db" where
  "counted_page count_msg query_msg count rows limit offset = do {
     c \<leftarrow> query (\<lambda>_. count);
     case c of
       Inl e \<Rightarrow> return (Inl (Wrap count_msg e))
     | Inr count_all \<Rightarrow> do {
         r \<leftarrow> stmt (\<lambda>t d. (page limit offset (rows t d), d));
         return (case r of Inl e \<Rightarrow> Inl (Wrap query_msg e) | Inr xs \<Rightarrow> Inr (xs, count_all))
       }
   }"

end
