(* ===== verification/Store_Nodes.thy ===== *)
theory Store_Nodes
  imports Store
begin

text \<open>
  Nodes: \<^verbatim>\<open>src/internal/database/nodes.go\<close>, the node part of \<^verbatim>\<open>health.go\<close>, and the capacity
  reservation of \<^verbatim>\<open>database.go\<close>.
\<close>

section \<open>Registration and inventory\<close>

definition ErrNodeCapacityPolicyBlocked :: err where
  "ErrNodeCapacityPolicyBlocked = Sentinel ''node cannot receive new workload under current policy''"

definition ErrNodeHasActiveInstances :: err where
  "ErrNodeHasActiveInstances = Sentinel ''node has active instances''"

definition new_node ::
  "string \<Rightarrow> string \<Rightarrow> string \<Rightarrow> string \<Rightarrow> string \<Rightarrow> string \<Rightarrow> string \<Rightarrow> string \<Rightarrow> int \<Rightarrow> Node" where
  "new_node nid hostname ip wireguardIP nodeRole publicIP os podmanV t =
     \<lparr>n_ID = nid, n_Hostname = hostname, n_IP = ip, n_WireguardIP = wireguardIP, n_NodeRole = nodeRole,
      n_PublicIP = publicIP, n_OS = os, n_PodmanVersion = podmanV, n_FleetVersion = '''',
      n_Status = ''registered'', n_LastHeartbeat = None, n_DiskTotal = 0, n_DiskUsed = 0,
      n_PodsActive = 0, n_PodsPaused = 0, n_PodsFailed = 0, n_StorageState = '''', n_StorageMsg = '''',
      n_ManualDisabled = False, n_HealthStatus = '''', n_HealthReasonCodes = '''',
      n_AvailableForProvisioning = True, n_UnavailableReasonCodes = '''', n_RAMTotal = 0, n_RAMUsed = 0,
      n_RAMCommitLimit = 0, n_DiskCommitLimit = 0, n_CommittedRAM = 0, n_CommittedDisk = 0,
      n_LastMetricsAt = None, n_TokenType = ''worker'', n_TokenStatus = ''pending'', n_TokenIdentifier = None,
      n_TokenExpiresAt = None, n_BootID = '''', n_CreatedAt = t\<rparr>"

definition RegisterNode ::
  "string \<Rightarrow> string \<Rightarrow> string \<Rightarrow> string \<Rightarrow> string \<Rightarrow> string \<Rightarrow> string \<Rightarrow> string \<Rightarrow> unit db" where
  "RegisterNode nid hostname ip wireguardIP nodeRole publicIP os podmanV = wrapped ''register node: ''
     (exec (\<lambda>t d. if \<exists>n \<in> set (st_nodes d). n_ID n = nid
        then d\<lparr>st_nodes := update_where (\<lambda>n. n_ID n = nid)
               (\<lambda>n. n\<lparr>n_Hostname := hostname, n_IP := ip, n_WireguardIP := wireguardIP,
                      n_NodeRole := nodeRole, n_PublicIP := publicIP, n_OS := os,
                      n_PodmanVersion := podmanV, n_Status := ''active'', n_LastHeartbeat := Some t\<rparr>)
               (st_nodes d)\<rparr>
        else d\<lparr>st_nodes := st_nodes d @
               [new_node nid hostname ip wireguardIP nodeRole publicIP os podmanV t]\<rparr>))"

text \<open>The join with \<^verbatim>\<open>node_tokens\<close> that \<^verbatim>\<open>GetNodes\<close> reads the token columns from.\<close>

definition join_token :: "NodeToken list \<Rightarrow> Node \<Rightarrow> Node" where
  "join_token tokens n =
     (let role = (if n_NodeRole n = '''' then ''worker'' else n_NodeRole n) in
      case find_where (\<lambda>tk. tk_NodeID tk = n_ID n \<and> tk_TokenType tk = role) tokens of
        None \<Rightarrow> n
      | Some tk \<Rightarrow> n\<lparr>n_TokenType := tk_TokenType tk, n_TokenStatus := tk_TokenStatus tk, n_TokenIdentifier := Some (tk_TokenIdentifier tk),
          n_TokenExpiresAt := (case tk_TokenExpiresAt tk of None \<Rightarrow> n_TokenExpiresAt n | Some e \<Rightarrow> Some e)\<rparr>)"

definition GetNodes :: "Node list db" where
  "GetNodes = wrapped ''query nodes: ''
     (query (\<lambda>_ d. map (join_token (st_tokens d)) (sort_key n_CreatedAt (st_nodes d))))"

definition GetNode :: "string \<Rightarrow> Node option db" where
  "GetNode nid = wrapped ''query node: '' (query (\<lambda>_ d. find_where (\<lambda>n. n_ID n = nid) (st_nodes d)))"

definition GetPortalNodes :: "Node list db" where
  "GetPortalNodes = wrapped ''query portal nodes: ''
     (query (\<lambda>_ d. sort_key n_CreatedAt (filter (\<lambda>n. n_NodeRole n = ''portal'') (st_nodes d))))"

definition UpdateNodeStatus :: "string \<Rightarrow> string \<Rightarrow> unit db" where
  "UpdateNodeStatus nid status = wrapped ''update node status: ''
     (update_nodes (\<lambda>n. n_ID n = nid) (\<lambda>_ n. n\<lparr>n_Status := status\<rparr>))"

definition heartbeat_overdue :: "int \<Rightarrow> int \<Rightarrow> Node \<Rightarrow> bool" where
  "heartbeat_overdue timeout t n \<longleftrightarrow> \<not> (n_Status n = ''offline'' \<or> n_Status n = ''disabled'')
     \<and> (case n_LastHeartbeat n of None \<Rightarrow> False | Some h \<Rightarrow> h < t - timeout) \<and> n_NodeRole n = ''worker''"

definition MarkNodesOffline :: "int \<Rightarrow> string list db" where
  "MarkNodesOffline timeout = wrapped ''mark nodes offline: ''
     (stmt (\<lambda>t d. (Inr (map n_ID (filter (heartbeat_overdue timeout t) (st_nodes d))),
        d\<lparr>st_nodes := update_where (heartbeat_overdue timeout t)
           (\<lambda>n. n\<lparr>n_Status := ''offline'', n_HealthStatus := ''degraded'',
                  n_AvailableForProvisioning := False,
                  n_UnavailableReasonCodes := ''heartbeat_timeout''\<rparr>) (st_nodes d)\<rparr>)))"

definition SetNodeManualDisabled :: "string \<Rightarrow> bool \<Rightarrow> unit db" where
  "SetNodeManualDisabled nid disabled = wrapped ''set node manual_disabled: ''
     (update_nodes (\<lambda>n. n_ID n = nid) (\<lambda>_ n. n\<lparr>n_ManualDisabled := disabled\<rparr>))"

record HeartbeatRequest =
  hb_NodeID :: string
  hb_BootID :: string
  hb_Hostname :: string
  hb_IP :: string
  hb_WireguardIP :: string
  hb_PublicIP :: string
  hb_PodmanVersion :: string
  hb_FleetVersion :: string
  hb_Status :: string
  hb_DiskTotal :: int
  hb_DiskUsed :: int
  hb_RAMTotal :: int
  hb_RAMUsed :: int
  hb_RAMAvailable :: int
  hb_PodsActive :: int
  hb_PodsPaused :: int
  hb_PodsFailed :: int

definition UpdateNodeHeartbeat :: "string \<Rightarrow> HeartbeatRequest \<Rightarrow> unit db" where
  "UpdateNodeHeartbeat nid req = wrapped ''update node heartbeat: ''
     (update_nodes (\<lambda>n. n_ID n = nid) (\<lambda>t n. n\<lparr>n_LastHeartbeat := Some t,
        n_BootID := or_keep (hb_BootID req) (n_BootID n), n_LastMetricsAt := Some t, n_Status := ''active'',
        n_Hostname := or_keep (hb_Hostname req) (n_Hostname n), n_IP := or_keep (hb_IP req) (n_IP n),
        n_WireguardIP := or_keep (hb_WireguardIP req) (n_WireguardIP n),
        n_PublicIP := or_keep (hb_PublicIP req) (n_PublicIP n),
        n_PodmanVersion := or_keep (hb_PodmanVersion req) (n_PodmanVersion n),
        n_FleetVersion := or_keep (hb_FleetVersion req) (n_FleetVersion n),
        n_DiskTotal := hb_DiskTotal req, n_DiskUsed := hb_DiskUsed req, n_RAMTotal := hb_RAMTotal req,
        n_RAMUsed := hb_RAMUsed req, n_PodsActive := hb_PodsActive req, n_PodsPaused := hb_PodsPaused req,
        n_PodsFailed := hb_PodsFailed req\<rparr>))"

definition UpdatePortalHeartbeat :: "string \<Rightarrow> string \<Rightarrow> unit db" where
  "UpdatePortalHeartbeat nid ip = wrapped ''update portal heartbeat: ''
     (update_nodes (\<lambda>n. n_ID n = nid) (\<lambda>t n. n\<lparr>n_LastHeartbeat := Some t, n_LastMetricsAt := Some t,
        n_Status := ''active'', n_IP := or_keep ip (n_IP n)\<rparr>))"

definition UpdateNodeStorageState :: "string \<Rightarrow> string \<Rightarrow> string \<Rightarrow> unit db" where
  "UpdateNodeStorageState nid storageState storageMsg =
     update_nodes (\<lambda>n. n_ID n = nid) (\<lambda>_ n. n\<lparr>n_StorageState := storageState, n_StorageMsg := storageMsg\<rparr>)"

definition UpdateNodeHealth :: "string \<Rightarrow> string \<Rightarrow> string \<Rightarrow> bool \<Rightarrow> string \<Rightarrow> unit db" where
  "UpdateNodeHealth nid healthStatus healthReasons available unavailableReasons =
     update_nodes (\<lambda>n. n_ID n = nid) (\<lambda>_ n. n\<lparr>n_HealthStatus := healthStatus,
       n_HealthReasonCodes := healthReasons, n_AvailableForProvisioning := available,
       n_UnavailableReasonCodes := unavailableReasons\<rparr>)"

definition UpdateNodeCommitLimits :: "string \<Rightarrow> int \<Rightarrow> int \<Rightarrow> unit db" where
  "UpdateNodeCommitLimits nid ramCommitLimit diskCommitLimit =
     update_nodes (\<lambda>n. n_ID n = nid)
       (\<lambda>_ n. n\<lparr>n_RAMCommitLimit := ramCommitLimit, n_DiskCommitLimit := diskCommitLimit\<rparr>)"

section \<open>Committed capacity\<close>

text \<open>An \<^verbatim>\<open>UPDATE\<close> of one node whose new values must fit into a \<^verbatim>\<open>bigint\<close>.\<close>

definition commit_update :: "string \<Rightarrow> (Node \<Rightarrow> int) \<Rightarrow> (Node \<Rightarrow> int) \<Rightarrow> unit db" where
  "commit_update nid ram disk = stmt (\<lambda>_ d.
     if \<exists>n \<in> set (st_nodes d). n_ID n = nid \<and> \<not> (int64_ok (ram n) \<and> int64_ok (disk n))
     then (Inl OutOfRange, d)
     else (Inr (), d\<lparr>st_nodes := update_where (\<lambda>n. n_ID n = nid)
             (\<lambda>n. n\<lparr>n_CommittedRAM := ram n, n_CommittedDisk := disk n\<rparr>) (st_nodes d)\<rparr>))"

definition AddNodeCommitment :: "string \<Rightarrow> int \<Rightarrow> int \<Rightarrow> unit db" where
  "AddNodeCommitment nid ramDelta diskDelta =
     commit_update nid (\<lambda>n. n_CommittedRAM n + ramDelta) (\<lambda>n. n_CommittedDisk n + diskDelta)"

definition ReleaseNodeCommitment :: "string \<Rightarrow> int \<Rightarrow> int \<Rightarrow> unit db" where
  "ReleaseNodeCommitment nid ramDelta diskDelta =
     commit_update nid (\<lambda>n. max (n_CommittedRAM n - ramDelta) 0) (\<lambda>n. max (n_CommittedDisk n - diskDelta) 0)"

definition GetCommittedResources :: "string \<Rightarrow> (int \<times> int) db" where
  "GetCommittedResources nid = query (\<lambda>_ d. case find_where (\<lambda>n. n_ID n = nid) (st_nodes d) of
     None \<Rightarrow> (0, 0) | Some n \<Rightarrow> (n_CommittedRAM n, n_CommittedDisk n))"

text \<open>
  The conditions of \<^verbatim>\<open>reserveNodeCapacityTx\<close> that do not compute, then the sums: evaluating a sum
  that leaves the range of \<^verbatim>\<open>bigint\<close> is an error of the statement.
\<close>

definition reservable :: "string \<Rightarrow> Node \<Rightarrow> bool" where
  "reservable nid n \<longleftrightarrow> n_ID n = nid \<and> n_Status n = ''active'' \<and> n_HealthStatus n = ''healthy''
     \<and> n_AvailableForProvisioning n \<and> n_RAMCommitLimit n > 0 \<and> n_DiskCommitLimit n > 0"

definition fits :: "int \<Rightarrow> int \<Rightarrow> Node \<Rightarrow> bool" where
  "fits ramDelta diskDelta n \<longleftrightarrow> n_CommittedRAM n + ramDelta \<le> n_RAMCommitLimit n
     \<and> n_CommittedDisk n + diskDelta \<le> n_DiskCommitLimit n"

definition reserve_stmt :: "string \<Rightarrow> int \<Rightarrow> int \<Rightarrow> int \<Rightarrow> store \<Rightarrow> (driver_error + nat) \<times> store" where
  "reserve_stmt nid ramDelta diskDelta t d =
     (let p = (\<lambda>n. reservable nid n \<and> fits ramDelta diskDelta n) in
      if \<exists>n \<in> set (st_nodes d). reservable nid n
           \<and> \<not> (int64_ok (n_CommittedRAM n + ramDelta) \<and> int64_ok (n_CommittedDisk n + diskDelta))
      then (Inl OutOfRange, d)
      else (Inr (affected p (st_nodes d)), d\<lparr>st_nodes := update_where p
             (\<lambda>n. n\<lparr>n_CommittedRAM := n_CommittedRAM n + ramDelta,
                    n_CommittedDisk := n_CommittedDisk n + diskDelta\<rparr>) (st_nodes d)\<rparr>))"

definition reserveNodeCapacityTx :: "string \<Rightarrow> int \<Rightarrow> int \<Rightarrow> unit db" where
  "reserveNodeCapacityTx nid ramDelta diskDelta = do {
     r \<leftarrow> stmt (reserve_stmt nid ramDelta diskDelta);
     case r of
       Inl e \<Rightarrow> return (Inl (Wrap ''reserve node capacity: '' e))
     | Inr rows \<Rightarrow> return (if rows = 0 then Inl ErrNodeCapacityPolicyBlocked else Inr ())
   }"

definition ReserveNodeCapacity :: "string \<Rightarrow> int \<Rightarrow> int \<Rightarrow> unit db" where
  "ReserveNodeCapacity nid ramDelta diskDelta =
     transaction ''begin reserve node capacity tx: '' (\<lambda>_. ''commit reserve node capacity tx: '') (do {
       r \<leftarrow> reserveNodeCapacityTx nid ramDelta diskDelta;
       case r of Inl e \<Rightarrow> return (Abort e) | Inr _ \<Rightarrow> return (Commit ())
     })"

section \<open>Tokens\<close>

definition UpsertNodeToken ::
  "string \<Rightarrow> string \<Rightarrow> string \<Rightarrow> string \<Rightarrow> string \<Rightarrow> string \<Rightarrow> int option \<Rightarrow> string \<Rightarrow> unit db" where
  "UpsertNodeToken nodeID ident hash typ status enc expiresAt claimID = wrapped ''upsert node token: ''
     (stmt (\<lambda>_ d.
        let mine = (\<lambda>tk. tk_NodeID tk = nodeID \<and> tk_TokenType tk = typ);
            row = \<lparr>tk_NodeID = nodeID, tk_TokenType = typ, tk_TokenIdentifier = ident, tk_TokenHash = hash,
                   tk_TokenStatus = status, tk_TokenValueEncrypted = enc, tk_TokenExpiresAt = expiresAt,
                   tk_ClaimID = claimID\<rparr>
        in if \<exists>tk \<in> set (st_tokens d). \<not> mine tk \<and> tk_TokenIdentifier tk = ident
           then (Inl (UniqueViolation ''node_tokens_token_identifier_key''), d)
           else if \<exists>tk \<in> set (st_tokens d). mine tk
           then (Inr (), d\<lparr>st_tokens := update_where mine (\<lambda>_. row) (st_tokens d)\<rparr>)
           else (Inr (), d\<lparr>st_tokens := st_tokens d @ [row]\<rparr>)))"

definition GetNodeTokenByIdentifier :: "string \<Rightarrow> (Node \<times> NodeToken) option db" where
  "GetNodeTokenByIdentifier ident = wrapped ''query node token by identifier: '' (query (\<lambda>_ d.
     case find_where (\<lambda>tk. tk_TokenIdentifier tk = ident
            \<and> (\<exists>n \<in> set (st_nodes d). n_ID n = tk_NodeID tk)) (st_tokens d) of
       None \<Rightarrow> None
     | Some tk \<Rightarrow> (case find_where (\<lambda>n. n_ID n = tk_NodeID tk) (st_nodes d) of
         None \<Rightarrow> None | Some n \<Rightarrow> Some (n, tk))))"

definition GetNodeByTokenIdentifier :: "string \<Rightarrow> Node option db" where
  "GetNodeByTokenIdentifier ident = wrapped ''query node by token identifier: ''
     (query (\<lambda>_ d. find_where (\<lambda>n. n_TokenIdentifier n = Some ident) (st_nodes d)))"

definition UpdateNodeTokenStatus :: "string \<Rightarrow> string \<Rightarrow> unit db" where
  "UpdateNodeTokenStatus nid status = wrapped ''update node token status: ''
     (update_nodes (\<lambda>n. n_ID n = nid) (\<lambda>_ n. n\<lparr>n_TokenStatus := status\<rparr>))"

text \<open>
  Deleting a node that a row of \<^verbatim>\<open>customer_apps\<close>, \<^verbatim>\<open>public_routes\<close> or \<^verbatim>\<open>backups\<close> still refers to
  violates a foreign key; then the whole statement fails.
\<close>

definition referenced :: "store \<Rightarrow> string \<Rightarrow> bool" where
  "referenced d nid \<longleftrightarrow> (\<exists>a \<in> set (st_apps d). ca_NodeID a = Some nid)
     \<or> (\<exists>r \<in> set (st_routes d). r_NodeID r = Some nid) \<or> (\<exists>b \<in> set (st_backups d). bk_NodeID b = Some nid)"

definition delete_nodes :: "(int \<Rightarrow> Node \<Rightarrow> bool) \<Rightarrow> string list db" where
  "delete_nodes p = stmt (\<lambda>t d. let gone = map n_ID (filter (p t) (st_nodes d)) in
     if \<exists>nid \<in> set gone. referenced d nid then (Inl (ForeignKeyViolation ''nodes''), d)
     else (Inr gone, d\<lparr>st_nodes := delete_where (p t) (st_nodes d)\<rparr>))"

definition DeleteExpiredPendingNodes :: "string list db" where
  "DeleteExpiredPendingNodes = wrapped ''delete expired pending nodes: ''
     (delete_nodes (\<lambda>t n. (n_TokenStatus n = ''available'' \<or> n_TokenStatus n = ''pending'')
        \<and> (case n_TokenExpiresAt n of None \<Rightarrow> False | Some e \<Rightarrow> e < t)))"

definition token_expired :: "int \<Rightarrow> NodeToken \<Rightarrow> bool" where
  "token_expired t tk \<longleftrightarrow> tk_TokenStatus tk \<in> set [''available'', ''pending'', ''active'', ''consumed'']
     \<and> (case tk_TokenExpiresAt tk of None \<Rightarrow> False | Some e \<Rightarrow> e < t)"

definition ReapExpiredNodeTokens :: "nat db" where
  "ReapExpiredNodeTokens = wrapped ''reap expired node tokens: ''
     (stmt (\<lambda>t d. (Inr (affected (token_expired t) (st_tokens d)),
        d\<lparr>st_tokens := delete_where (token_expired t) (st_tokens d)\<rparr>)))"

section \<open>Removal\<close>

definition active_instances :: "string \<Rightarrow> store \<Rightarrow> nat" where
  "active_instances nid d =
     affected (\<lambda>a. ca_NodeID a = Some nid \<and> ca_CommercialStatus a \<noteq> ''cancelled'') (st_apps d)"

text \<open>
  \<^verbatim>\<open>RemoveNodeWithHook\<close>: \<open>hook\<close> is the optional external revocation; it gets the node and succeeds
  or fails.  Every early return rolls the transaction back.
\<close>

definition remove_rows :: "string \<Rightarrow> (store conn, (err, unit) outcome) state" where
  "remove_rows nid = do {
     a \<leftarrow> delete_routes (\<lambda>r. r_NodeID r = Some nid);
     case a of Inl e \<Rightarrow> return (Abort (Wrap ''remove node: delete public_routes: '' e)) | Inr _ \<Rightarrow> do {
     b \<leftarrow> exec (\<lambda>_ d. d\<lparr>st_tokens := delete_where (\<lambda>tk. tk_NodeID tk = nid) (st_tokens d)\<rparr>);
     case b of Inl e \<Rightarrow> return (Abort (Wrap ''remove node: delete node_tokens: '' e)) | Inr _ \<Rightarrow> do {
     c \<leftarrow> update_apps (\<lambda>a. ca_NodeID a = Some nid) (\<lambda>_ a. a\<lparr>ca_NodeID := None\<rparr>);
     case c of Inl e \<Rightarrow> return (Abort (Wrap ''remove node: detach customer_apps: '' e)) | Inr _ \<Rightarrow> do {
     k \<leftarrow> exec (\<lambda>_ d. d\<lparr>st_backups := update_where (\<lambda>b. bk_NodeID b = Some nid)
            (\<lambda>b. b\<lparr>bk_NodeID := None\<rparr>) (st_backups d)\<rparr>);
     case k of Inl e \<Rightarrow> return (Abort (Wrap ''remove node: detach backups: '' e)) | Inr _ \<Rightarrow> do {
     g \<leftarrow> delete_nodes (\<lambda>_ n. n_ID n = nid);
     case g of Inl e \<Rightarrow> return (Abort (Wrap ''remove node: delete node: '' e))
     | Inr gone \<Rightarrow> return (if gone = [] then Abort (Plain ''remove node: node not found'') else Commit ())
     }}}}}"

definition RemoveNodeWithHook :: "string \<Rightarrow> bool \<Rightarrow> (Node \<Rightarrow> err option) option \<Rightarrow> unit db" where
  "RemoveNodeWithHook nid force hook =
     transaction ''remove node: begin tx: '' (\<lambda>_. '''') (do {
       e \<leftarrow> query (\<lambda>_ d. find_where (\<lambda>n. n_ID n = nid) (st_nodes d));
       case e of
         Inl e \<Rightarrow> return (Abort (Wrap ''remove node: lock node: '' e))
       | Inr None \<Rightarrow> return (Abort (Plain ''remove node: node not found''))
       | Inr (Some existing) \<Rightarrow> do {
           c \<leftarrow> (if force then return (Inr 0) else query (\<lambda>_. active_instances nid));
           case c of
             Inl e \<Rightarrow> return (Abort (Wrap ''remove node: check instances: '' e))
           | Inr count \<Rightarrow>
               if count > 0 then return (Abort (Wrap ''remove node: '' ErrNodeHasActiveInstances))
               else (case hook of
                   None \<Rightarrow> remove_rows nid
                 | Some f \<Rightarrow> (case f existing of
                     Some e \<Rightarrow> return (Abort (Wrap ''remove node: pre-delete revocation: '' e))
                   | None \<Rightarrow> remove_rows nid))
         }
     })"

definition RemoveNode :: "string \<Rightarrow> bool \<Rightarrow> unit db" where
  "RemoveNode nid force = RemoveNodeWithHook nid force None"

end
