(* ===== verification/Store_Apps.thy ===== *)
theory Store_Apps
  imports Store_Nodes
begin

text \<open>
  Instances and operations: \<^verbatim>\<open>src/internal/database/instances.go\<close>, \<^verbatim>\<open>operations.go\<close>, the instance
  part of \<^verbatim>\<open>health.go\<close>, and the idempotent reservation of \<^verbatim>\<open>provision_requests.go\<close>.
\<close>

section \<open>Instances\<close>

definition ErrCustomerAppNotPaused :: err where
  "ErrCustomerAppNotPaused = Sentinel ''customer app is no longer paused''"

definition new_app ::
  "string \<Rightarrow> string \<Rightarrow> string \<Rightarrow> string \<Rightarrow> string option \<Rightarrow> string \<Rightarrow> string \<Rightarrow> int \<Rightarrow> CustomerApp" where
  "new_app aid customerID appName tierName nodeID snapshot logicalID t =
     \<lparr>ca_ID = aid, ca_CustomerID = customerID, ca_AppDefinitionName = appName, ca_TierName = tierName,
      ca_NodeID = nodeID, ca_CommercialStatus = ''active'', ca_TechnicalStatus = ''pending_provision'',
      ca_TierSnapshotJSON = snapshot, ca_CreatedAt = t, ca_HealthStatus = '''', ca_HealthMessage = '''',
      ca_LastHealthChecked = None, ca_LastHealthBootID = '''', ca_StorageLimitBytes = 0,
      ca_StorageUsedBytes = 0, ca_StorageUsedPct = Fin 0, ca_StorageState = ''unknown'',
      ca_StorageMessage = '''', ca_StorageCheckedAt = None, ca_StorageExceeded = False,
      ca_GracePeriodStartsAt = None, ca_GracePeriodEndsAt = None, ca_LogicalInstanceID = logicalID,
      ca_InspectData = '''', ca_SetupCompleted = False, ca_NeedRestarting = False, ca_UpdateType = '''',
      ca_UpdateStartedAt = None\<rparr>"

text \<open>\<^verbatim>\<open>INSERT INTO customer_apps\<close> with the primary key and the two foreign keys of the table.\<close>

definition insert_app :: "(int \<Rightarrow> CustomerApp) \<Rightarrow> unit db" where
  "insert_app row = stmt (\<lambda>t d.
     if \<exists>a \<in> set (st_apps d). ca_ID a = ca_ID (row t) then (Inl (UniqueViolation ''customer_apps_pkey''), d)
     else if \<forall>x \<in> set (st_definitions d). ad_Name x \<noteq> ca_AppDefinitionName (row t)
     then (Inl (ForeignKeyViolation ''customer_apps_app_definition_name_fkey''), d)
     else if ca_NodeID (row t) \<noteq> None \<and> (\<forall>n \<in> set (st_nodes d). Some (n_ID n) \<noteq> ca_NodeID (row t))
     then (Inl (ForeignKeyViolation ''customer_apps_node_id_fkey''), d)
     else (Inr (), d\<lparr>st_apps := st_apps d @ [row t]\<rparr>))"

definition CreateCustomerApp ::
  "string \<Rightarrow> string \<Rightarrow> string \<Rightarrow> string \<Rightarrow> string \<Rightarrow> string \<Rightarrow> unit db" where
  "CreateCustomerApp aid customerID appName tierName nodeID snapshot = wrapped ''create customer app: ''
     (insert_app (new_app aid customerID appName tierName (if nodeID \<noteq> '''' then Some nodeID else None)
        snapshot aid))"

definition ReserveNodeCapacityAndCreateApp ::
  "string \<Rightarrow> string \<Rightarrow> string \<Rightarrow> string \<Rightarrow> string \<Rightarrow> string \<Rightarrow> string \<Rightarrow> int \<Rightarrow> int \<Rightarrow> unit db" where
  "ReserveNodeCapacityAndCreateApp aid customerID appName tierName nodeID snapshot logicalID ramDelta diskDelta =
     transaction ''begin reserve node capacity tx: '' (\<lambda>_. ''commit reserve node capacity tx: '') (do {
       r \<leftarrow> reserveNodeCapacityTx nodeID ramDelta diskDelta;
       case r of
         Inl e \<Rightarrow> return (Abort e)
       | Inr _ \<Rightarrow> do {
           i \<leftarrow> insert_app (new_app aid customerID appName tierName (Some nodeID) snapshot
                  (if logicalID = '''' then aid else logicalID));
           case i of
             Inl e \<Rightarrow> return (Abort (Wrap ''create customer app in reserve tx: '' e))
           | Inr _ \<Rightarrow> return (Commit ())
         }
     })"

text \<open>\<^verbatim>\<open>UPDATE customer_apps SET node_id\<close> checks the foreign key when it touches a row.\<close>

definition UpdateCustomerAppNode :: "string \<Rightarrow> string \<Rightarrow> unit db" where
  "UpdateCustomerAppNode aid nodeID = wrapped ''update customer app node: '' (stmt (\<lambda>_ d.
     if (\<exists>a \<in> set (st_apps d). ca_ID a = aid) \<and> (\<forall>n \<in> set (st_nodes d). n_ID n \<noteq> nodeID)
     then (Inl (ForeignKeyViolation ''customer_apps_node_id_fkey''), d)
     else (Inr (), d\<lparr>st_apps := update_where (\<lambda>a. ca_ID a = aid) (\<lambda>a. a\<lparr>ca_NodeID := Some nodeID\<rparr>) (st_apps d)\<rparr>)))"

definition UpdateCustomerAppStatus :: "string \<Rightarrow> string \<Rightarrow> string \<Rightarrow> unit db" where
  "UpdateCustomerAppStatus aid commStatus techStatus = wrapped ''update customer app status: ''
     (update_apps (\<lambda>a. ca_ID a = aid) (\<lambda>_ a. a\<lparr>
        ca_CommercialStatus := or_keep commStatus (ca_CommercialStatus a),
        ca_TechnicalStatus := or_keep techStatus (ca_TechnicalStatus a)\<rparr>))"

definition UpdateCustomerAppInspectData :: "string \<Rightarrow> string \<Rightarrow> unit db" where
  "UpdateCustomerAppInspectData aid inspectData = wrapped ''update customer app inspect data: ''
     (update_apps (\<lambda>a. ca_ID a = aid) (\<lambda>_ a. a\<lparr>ca_InspectData := inspectData\<rparr>))"

definition SetSetupCompleted :: "string \<Rightarrow> unit db" where
  "SetSetupCompleted aid = wrapped ''set setup_completed for instance: ''
     (update_apps (\<lambda>a. ca_ID a = aid) (\<lambda>_ a. a\<lparr>ca_SetupCompleted := True\<rparr>))"

definition ClearCustomerAppRestartRequired :: "string \<Rightarrow> unit db" where
  "ClearCustomerAppRestartRequired aid = wrapped ''clear restart requirement for instance: ''
     (update_apps (\<lambda>a. ca_ID a = aid)
        (\<lambda>_ a. a\<lparr>ca_NeedRestarting := False, ca_UpdateType := '''', ca_UpdateStartedAt := None\<rparr>))"

definition UpdateCustomerAppTier :: "string \<Rightarrow> string \<Rightarrow> string \<Rightarrow> unit db" where
  "UpdateCustomerAppTier aid tierName snapshot = wrapped ''update customer app tier: ''
     (update_apps (\<lambda>a. ca_ID a = aid) (\<lambda>_ a. a\<lparr>ca_TierName := tierName, ca_TierSnapshotJSON := snapshot\<rparr>))"

definition restart_overdue :: "int \<Rightarrow> int \<Rightarrow> CustomerApp \<Rightarrow> bool" where
  "restart_overdue threshold t a \<longleftrightarrow> ca_NeedRestarting a \<and> ca_UpdateType a = ''security_critical''
     \<and> (case ca_UpdateStartedAt a of None \<Rightarrow> False | Some u \<Rightarrow> u < t - seconds threshold)
     \<and> ca_TechnicalStatus a \<notin> set [''restart_overdue'', ''deprovisioning'', ''deprovisioned'']"

text \<open>The threshold is the number of whole seconds of the Go duration.\<close>

definition FlagOverdueInstances :: "int \<Rightarrow> nat db" where
  "FlagOverdueInstances threshold = wrapped ''flag overdue instances: ''
     (stmt (\<lambda>t d. (Inr (affected (restart_overdue threshold t) (st_apps d)),
        d\<lparr>st_apps := update_where (restart_overdue threshold t)
          (\<lambda>a. a\<lparr>ca_TechnicalStatus := ''restart_overdue''\<rparr>) (st_apps d)\<rparr>)))"

section \<open>Effective availability\<close>

text \<open>
  The two \<^verbatim>\<open>CASE\<close> expressions of \<^verbatim>\<open>effectiveAvailabilityColumns\<close> over an instance and the row of
  its node from the left join; a comparison with a missing row is not true.
\<close>

definition heartbeat_stale :: "int \<Rightarrow> Node \<Rightarrow> bool" where
  "heartbeat_stale t n = (case n_LastHeartbeat n of None \<Rightarrow> True | Some h \<Rightarrow> h \<le> t - seconds 120)"

definition effective_availability :: "int \<Rightarrow> CustomerApp \<Rightarrow> Node option \<Rightarrow> string" where
  "effective_availability t ca node =
     (if ca_TechnicalStatus ca \<in> set [''stopped'', ''paused_for_storage'', ''migrating''] then ''unavailable''
      else if ca_TechnicalStatus ca \<in> set [''deprovisioning'', ''deprovisioned''] then ''unavailable''
      else if ca_NodeID ca = None then ''unknown''
      else if (case node of None \<Rightarrow> True | Some n \<Rightarrow>
             n_Status n \<noteq> ''active'' \<or> heartbeat_stale t n \<or> n_HealthStatus n \<noteq> ''healthy'')
      then ''unavailable''
      else if ca_LastHealthChecked ca = None then ''unknown''
      else if (case node of None \<Rightarrow> True | Some n \<Rightarrow> n_BootID n = '''') then ''unavailable''
      else if (case node of None \<Rightarrow> False | Some n \<Rightarrow> ca_LastHealthBootID ca \<noteq> n_BootID n) then ''unavailable''
      else if ca_HealthStatus ca \<noteq> ''healthy'' then ''unavailable''
      else if (case ca_LastHealthChecked ca of None \<Rightarrow> False | Some h \<Rightarrow> h \<le> t - seconds 15) then ''unavailable''
      else ''available'')"

definition availability_reason :: "int \<Rightarrow> CustomerApp \<Rightarrow> Node option \<Rightarrow> string" where
  "availability_reason t ca node =
     (if ca_TechnicalStatus ca = ''stopped'' then ''instance_stopped''
      else if ca_TechnicalStatus ca = ''migrating'' then ''instance_migrating''
      else if ca_TechnicalStatus ca = ''paused_for_storage'' then ''instance_paused_for_storage''
      else if ca_TechnicalStatus ca = ''deprovisioning'' then ''instance_deprovisioning''
      else if ca_TechnicalStatus ca = ''deprovisioned'' then ''instance_deprovisioned''
      else if ca_NodeID ca = None then ''node_unassigned''
      else if (case node of None \<Rightarrow> False | Some n \<Rightarrow> n_Status n \<noteq> ''active'')
      then (case node of None \<Rightarrow> '''' | Some n \<Rightarrow> or_keep (n_UnavailableReasonCodes n) ''node_not_active'')
      else if (case node of None \<Rightarrow> True | Some n \<Rightarrow> heartbeat_stale t n) then ''heartbeat_stale''
      else if (case node of None \<Rightarrow> False | Some n \<Rightarrow> n_HealthStatus n \<noteq> ''healthy'')
      then (case node of None \<Rightarrow> '''' | Some n \<Rightarrow> or_keep (n_HealthReasonCodes n) ''node_unhealthy'')
      else if ca_LastHealthChecked ca = None then ''runtime_not_observed''
      else if (case node of None \<Rightarrow> True | Some n \<Rightarrow> n_BootID n = '''') then ''node_boot_id_unknown''
      else if (case node of None \<Rightarrow> False | Some n \<Rightarrow> ca_LastHealthBootID ca \<noteq> n_BootID n)
      then ''runtime_observation_before_node_boot''
      else if ca_HealthStatus ca \<noteq> ''healthy'' then ''runtime_not_healthy''
      else if (case ca_LastHealthChecked ca of None \<Rightarrow> False | Some h \<Rightarrow> h \<le> t - seconds 15)
      then ''runtime_observation_stale''
      else '''')"

text \<open>An instance as \<^verbatim>\<open>GetCustomerApp\<close> reports it.\<close>

record AppView =
  av_App :: CustomerApp
  av_Hostname :: string
  av_EffectiveAvailability :: string
  av_AvailabilityReason :: string

definition node_of :: "store \<Rightarrow> CustomerApp \<Rightarrow> Node option" where
  "node_of d ca = find_where (\<lambda>n. Some (n_ID n) = ca_NodeID ca) (st_nodes d)"

definition app_view :: "int \<Rightarrow> store \<Rightarrow> CustomerApp \<Rightarrow> string \<Rightarrow> AppView" where
  "app_view t d ca hostname = \<lparr>av_App = ca, av_Hostname = hostname,
     av_EffectiveAvailability = effective_availability t ca (node_of d ca),
     av_AvailabilityReason = availability_reason t ca (node_of d ca)\<rparr>"

text \<open>
  The rows of an instance in the left join with \<^verbatim>\<open>public_routes\<close> and \<^verbatim>\<open>nodes\<close>: one for each of its
  routes of kind \<^verbatim>\<open>app_instance\<close>, and one without a hostname when it has none.
\<close>

definition app_rows :: "int \<Rightarrow> store \<Rightarrow> CustomerApp \<Rightarrow> AppView list" where
  "app_rows t d ca =
     (case filter (\<lambda>r. r_AppInstanceID r = Some (ca_ID ca) \<and> r_RouteKind r = ''app_instance'') (st_routes d) of
        [] \<Rightarrow> [app_view t d ca '''']
      | rs \<Rightarrow> map (\<lambda>r. app_view t d ca (r_Hostname r)) rs)"

definition GetCustomerApp :: "string \<Rightarrow> AppView option db" where
  "GetCustomerApp aid = wrapped ''query customer app: '' (query (\<lambda>t d.
     case concat (map (app_rows t d) (filter (\<lambda>a. ca_ID a = aid) (st_apps d))) of
       [] \<Rightarrow> None | v # _ \<Rightarrow> Some v))"

text \<open>\<^verbatim>\<open>ORDER BY created_at DESC, id DESC\<close> over the instances that satisfy the \<^verbatim>\<open>WHERE\<close> clause.\<close>

definition app_listing :: "(CustomerApp \<Rightarrow> bool) \<Rightarrow> int \<Rightarrow> store \<Rightarrow> AppView list" where
  "app_listing p t d = concat (map (app_rows t d)
     (rev (sort_key (\<lambda>a. (ca_CreatedAt a, ca_ID a)) (filter p (st_apps d)))))"

definition GetCustomerAppsPage :: "int \<Rightarrow> int \<Rightarrow> string \<Rightarrow> (AppView list \<times> nat) db" where
  "GetCustomerAppsPage limit offset customerID =
     (let p = (\<lambda>a. if customerID \<noteq> '''' then ca_CustomerID a = customerID else True) in
      counted_page ''count customer apps: '' ''query customer apps: ''
        (\<lambda>d. affected p (st_apps d)) (app_listing p) limit offset)"

definition GetCustomerApps :: "string \<Rightarrow> AppView list db" where
  "GetCustomerApps customerID = do {
     r \<leftarrow> GetCustomerAppsPage 1000 0 customerID;
     return (case r of Inl e \<Rightarrow> Inl e | Inr (apps, _) \<Rightarrow> Inr apps)
   }"

definition GetCustomerAppsPageFiltered ::
  "int \<Rightarrow> int \<Rightarrow> string \<Rightarrow> bool \<Rightarrow> string \<Rightarrow> (AppView list \<times> nat) db" where
  "GetCustomerAppsPageFiltered limit offset customerID needRestarting updateType =
     (let p = (\<lambda>a. (customerID \<noteq> '''' \<longrightarrow> ca_CustomerID a = customerID)
            \<and> (needRestarting \<longrightarrow> ca_NeedRestarting a) \<and> (updateType \<noteq> '''' \<longrightarrow> ca_UpdateType a = updateType)) in
      counted_page ''count filtered customer apps: '' ''query filtered customer apps: ''
        (\<lambda>d. affected p (st_apps d)) (app_listing p) limit offset)"

definition UpdateInstanceHealthForBoot ::
  "string \<Rightarrow> string \<Rightarrow> string \<Rightarrow> string \<Rightarrow> string \<Rightarrow> bool \<Rightarrow> unit db" where
  "UpdateInstanceHealthForBoot aid healthStatus techStatus message bootID preserve =
     update_apps (\<lambda>a. ca_ID a = aid) (\<lambda>t a.
       let a = a\<lparr>ca_HealthStatus := healthStatus, ca_HealthMessage := message,
                 ca_LastHealthChecked := Some t, ca_LastHealthBootID := bootID\<rparr>
       in if \<not> preserve then a\<lparr>ca_TechnicalStatus := techStatus\<rparr> else a)"

definition node_boot :: "store \<Rightarrow> CustomerApp \<Rightarrow> string" where
  "node_boot d a = (case node_of d a of
     None \<Rightarrow> '''' | Some n \<Rightarrow> n_BootID n)"

definition UpdateInstanceHealth :: "string \<Rightarrow> string \<Rightarrow> string \<Rightarrow> unit db" where
  "UpdateInstanceHealth aid healthStatus message = exec (\<lambda>t d. d\<lparr>st_apps := update_where (\<lambda>a. ca_ID a = aid)
     (\<lambda>a. a\<lparr>ca_HealthStatus := healthStatus, ca_HealthMessage := message, ca_LastHealthChecked := Some t,
            ca_LastHealthBootID := node_boot d a\<rparr>) (st_apps d)\<rparr>)"

definition UpdateInstanceHealthAndTechStatus :: "string \<Rightarrow> string \<Rightarrow> string \<Rightarrow> string \<Rightarrow> unit db" where
  "UpdateInstanceHealthAndTechStatus aid healthStatus techStatus message =
     exec (\<lambda>t d. d\<lparr>st_apps := update_where (\<lambda>a. ca_ID a = aid)
     (\<lambda>a. a\<lparr>ca_HealthStatus := healthStatus, ca_HealthMessage := message, ca_TechnicalStatus := techStatus,
            ca_LastHealthChecked := Some t, ca_LastHealthBootID := node_boot d a\<rparr>) (st_apps d)\<rparr>)"

definition migration_healthy :: "string \<Rightarrow> string \<Rightarrow> int \<Rightarrow> int \<Rightarrow> store \<Rightarrow> bool" where
  "migration_healthy aid nodeID since t d \<longleftrightarrow> (\<exists>ca \<in> set (st_apps d). \<exists>n \<in> set (st_nodes d).
     Some (n_ID n) = ca_NodeID ca \<and> ca_ID ca = aid \<and> n_ID n = nodeID \<and> n_Status n = ''active''
     \<and> n_HealthStatus n = ''healthy''
     \<and> (case n_LastHeartbeat n of None \<Rightarrow> False | Some h \<Rightarrow> h > t - seconds 120)
     \<and> n_BootID n \<noteq> '''' \<and> ca_LastHealthBootID ca = n_BootID n \<and> ca_HealthStatus ca = ''healthy''
     \<and> (case ca_LastHealthChecked ca of None \<Rightarrow> False | Some h \<Rightarrow> h > since))"

definition MigrationInstanceHealthy :: "string \<Rightarrow> string \<Rightarrow> int \<Rightarrow> bool db" where
  "MigrationInstanceHealthy aid nodeID since = wrapped ''check migration health: ''
     (query (migration_healthy aid nodeID since))"

definition UpdateInstanceStorage ::
  "string \<Rightarrow> string \<Rightarrow> string \<Rightarrow> int \<Rightarrow> int \<Rightarrow> float64 \<Rightarrow> bool \<Rightarrow> unit db" where
  "UpdateInstanceStorage aid storageState storageMessage limitBytes usedBytes usedPct exceeded =
     update_apps (\<lambda>a. ca_ID a = aid) (\<lambda>t a. a\<lparr>ca_StorageLimitBytes := limitBytes,
       ca_StorageUsedBytes := usedBytes, ca_StorageUsedPct := usedPct, ca_StorageState := storageState,
       ca_StorageMessage := storageMessage, ca_StorageCheckedAt := Some t, ca_StorageExceeded := exceeded\<rparr>)"

definition SetGracePeriod :: "string \<Rightarrow> int \<Rightarrow> unit db" where
  "SetGracePeriod aid endsAt = update_apps (\<lambda>a. ca_ID a = aid)
     (\<lambda>t a. a\<lparr>ca_GracePeriodStartsAt := Some t, ca_GracePeriodEndsAt := Some endsAt\<rparr>)"

definition ClearGracePeriod :: "string \<Rightarrow> unit db" where
  "ClearGracePeriod aid = update_apps (\<lambda>a. ca_ID a = aid)
     (\<lambda>_ a. a\<lparr>ca_GracePeriodStartsAt := None, ca_GracePeriodEndsAt := None\<rparr>)"

definition grace_expired :: "int \<Rightarrow> CustomerApp \<Rightarrow> bool" where
  "grace_expired t a \<longleftrightarrow> (case ca_GracePeriodEndsAt a of None \<Rightarrow> False | Some e \<Rightarrow> e < t)
     \<and> ca_StorageState a = ''over_quota''
     \<and> ca_TechnicalStatus a \<notin> set [''stopped'', ''paused_for_storage'', ''migrating'', ''initializing'',
          ''setup_failed'', ''deprovisioning'', ''deprovisioned'']"

definition GetExpiredGracePeriodApps :: "CustomerApp list db" where
  "GetExpiredGracePeriodApps = wrapped ''query expired grace period apps: ''
     (query (\<lambda>t d. sort_key (\<lambda>a. case ca_GracePeriodEndsAt a of None \<Rightarrow> 0 | Some e \<Rightarrow> e)
        (filter (grace_expired t) (st_apps d))))"

section \<open>Operations\<close>

definition ErrMigrationConflict :: err where
  "ErrMigrationConflict = Sentinel ''instance state or active operations prevent migration''"

definition instanceIDArg :: "string \<Rightarrow> string option" where
  "instanceIDArg instanceID = (if instanceID = '''' then None else Some instanceID)"

definition new_operation ::
  "string \<Rightarrow> string option \<Rightarrow> string \<Rightarrow> string \<Rightarrow> string \<Rightarrow> string \<Rightarrow> string \<Rightarrow> OperationMetadata option \<Rightarrow> int \<Rightarrow> Operation" where
  "new_operation oid instanceID nodeID taskID action status adminUser metadata t =
     \<lparr>op_ID = oid, op_InstanceID = instanceID, op_NodeID = nodeID, op_TaskID = taskID, op_Action = action,
      op_Status = status, op_ErrorMessage = None, op_AdminUser = adminUser, op_Metadata = metadata,
      op_CreatedAt = t, op_UpdatedAt = t\<rparr>"

definition insert_operation :: "(int \<Rightarrow> Operation) \<Rightarrow> unit db" where
  "insert_operation row = stmt (\<lambda>t d.
     if \<exists>x \<in> set (st_operations d). op_ID x = op_ID (row t) then (Inl (UniqueViolation ''operations_pkey''), d)
     else if op_InstanceID (row t) \<noteq> None \<and> (\<forall>a \<in> set (st_apps d). Some (ca_ID a) \<noteq> op_InstanceID (row t))
     then (Inl (ForeignKeyViolation ''operations_instance_id_fkey''), d)
     else (Inr (), d\<lparr>st_operations := st_operations d @ [row t]\<rparr>))"

definition CreateOperation ::
  "string \<Rightarrow> string \<Rightarrow> string \<Rightarrow> string \<Rightarrow> string \<Rightarrow> string \<Rightarrow> unit db" where
  "CreateOperation oid instanceID nodeID action status adminUser = wrapped ''create operation: ''
     (insert_operation (new_operation oid (instanceIDArg instanceID) nodeID '''' action status adminUser None))"

definition CreateOperationWithMetadata ::
  "string \<Rightarrow> string \<Rightarrow> string \<Rightarrow> string \<Rightarrow> string \<Rightarrow> string \<Rightarrow> OperationMetadata option \<Rightarrow> unit db" where
  "CreateOperationWithMetadata oid instanceID nodeID action status adminUser metadata =
     wrapped ''create operation with metadata: ''
     (insert_operation (new_operation oid (instanceIDArg instanceID) nodeID '''' action status adminUser metadata))"

definition op_active :: "string \<Rightarrow> Operation \<Rightarrow> bool" where
  "op_active aid x \<longleftrightarrow> op_InstanceID x = Some aid \<and> op_Status x \<in> set [''pending_dispatch'', ''queued'', ''running'']"

definition CreateMigrationOperation ::
  "string \<Rightarrow> string \<Rightarrow> string \<Rightarrow> string \<Rightarrow> OperationMetadata option \<Rightarrow> unit db" where
  "CreateMigrationOperation oid instanceID sourceNodeID adminUser metadata =
     transaction ''begin migration operation: '' (\<lambda>_. ''commit migration operation: '') (do {
       r \<leftarrow> query (\<lambda>_ d. find_where (\<lambda>a. ca_ID a = instanceID) (st_apps d));
       case r of
         Inl e \<Rightarrow> return (Abort (Wrap ''lock migration instance: '' e))
       | Inr None \<Rightarrow> return (Abort ErrMigrationConflict)
       | Inr (Some a) \<Rightarrow>
           if ca_NodeID a \<noteq> Some sourceNodeID \<or> ca_TechnicalStatus a \<noteq> ''running''
           then return (Abort ErrMigrationConflict)
           else do {
             b \<leftarrow> query (\<lambda>_ d. \<exists>x \<in> set (st_operations d). op_active instanceID x);
             case b of
               Inl e \<Rightarrow> return (Abort (Wrap ''check active instance operations: '' e))
             | Inr active \<Rightarrow>
                 if active then return (Abort ErrMigrationConflict)
                 else do {
                   i \<leftarrow> insert_operation (new_operation oid (Some instanceID) sourceNodeID '''' ''migrate''
                          ''running'' adminUser metadata);
                   case i of
                     Inl e \<Rightarrow> return (Abort (Wrap ''create migration operation: '' e))
                   | Inr _ \<Rightarrow> return (Commit ())
                 }
           }
     })"

definition CreateRestoreOperationAndSetStatus :: "string \<Rightarrow> string \<Rightarrow> string \<Rightarrow> string \<Rightarrow> unit db" where
  "CreateRestoreOperationAndSetStatus oid instanceID nodeID adminUser =
     transaction ''begin restore operation transaction: '' (\<lambda>_. ''commit restore operation transaction: '') (do {
       r \<leftarrow> (let p = (\<lambda>a. ca_ID a = instanceID \<and> ca_TechnicalStatus a \<in> set [''paused'', ''stopped'']) in
            stmt (\<lambda>_ d. (Inr (affected p (st_apps d)),
              d\<lparr>st_apps := update_where p (\<lambda>a. a\<lparr>ca_TechnicalStatus := ''restoring''\<rparr>) (st_apps d)\<rparr>)));
       case r of
         Inl e \<Rightarrow> return (Abort (Wrap ''set customer app restoring status: '' e))
       | Inr rows \<Rightarrow>
           if rows \<noteq> 1 then return (Abort ErrCustomerAppNotPaused)
           else do {
             i \<leftarrow> insert_operation (new_operation oid (instanceIDArg instanceID) nodeID '''' ''restore_backup''
                    ''pending_dispatch'' adminUser None);
             case i of
               Inl e \<Rightarrow> return (Abort (Wrap ''create restore operation: '' e))
             | Inr _ \<Rightarrow> return (Commit ())
           }
     })"

definition UpdateOperationMetadata :: "string \<Rightarrow> OperationMetadata option \<Rightarrow> unit db" where
  "UpdateOperationMetadata oid metadata = wrapped ''update operation metadata: ''
     (update_operations (\<lambda>x. op_ID x = oid) (\<lambda>t x. x\<lparr>op_Metadata := metadata, op_UpdatedAt := t\<rparr>))"

definition UpdateOperationTaskID :: "string \<Rightarrow> string \<Rightarrow> unit db" where
  "UpdateOperationTaskID oid taskID = wrapped ''update operation task_id: ''
     (update_operations (\<lambda>x. op_ID x = oid) (\<lambda>t x. x\<lparr>op_TaskID := taskID, op_UpdatedAt := t\<rparr>))"

definition UpdateOperation :: "string \<Rightarrow> string \<Rightarrow> string \<Rightarrow> unit db" where
  "UpdateOperation oid status errMsg = wrapped ''update operation: ''
     (update_operations (\<lambda>x. op_ID x = oid) (\<lambda>t x. x\<lparr>op_Status := status,
        op_ErrorMessage := (if errMsg = '''' then None else Some errMsg), op_UpdatedAt := t\<rparr>))"

definition MarkOperationQueuedIfPendingDispatch :: "string \<Rightarrow> unit db" where
  "MarkOperationQueuedIfPendingDispatch oid = wrapped ''mark operation queued: ''
     (update_operations (\<lambda>x. op_ID x = oid \<and> op_Status x = ''pending_dispatch'')
        (\<lambda>t x. x\<lparr>op_Status := ''queued'', op_ErrorMessage := None, op_UpdatedAt := t\<rparr>))"

definition GetOperation :: "string \<Rightarrow> Operation option db" where
  "GetOperation oid = wrapped ''query operation: ''
     (query (\<lambda>_ d. find_where (\<lambda>x. op_ID x = oid) (st_operations d)))"

definition GetOperationsPage :: "int \<Rightarrow> int \<Rightarrow> (Operation list \<times> nat) db" where
  "GetOperationsPage limit offset = counted_page ''count operations: '' ''query operations: ''
     (\<lambda>d. length (st_operations d))
     (\<lambda>_ d. rev (sort_key (\<lambda>x. (op_CreatedAt x, op_ID x)) (st_operations d))) limit offset"

definition GetOperations :: "Operation list db" where
  "GetOperations = do {
     r \<leftarrow> GetOperationsPage 1000 0;
     return (case r of Inl e \<Rightarrow> Inl e | Inr (ops, _) \<Rightarrow> Inr ops)
   }"

definition GetRunningOperationsByInstance :: "string \<Rightarrow> Operation list db" where
  "GetRunningOperationsByInstance aid = wrapped ''query operations by instance: ''
     (query (\<lambda>_ d. filter (\<lambda>x. op_InstanceID x = Some aid \<and> op_Status x = ''running'') (st_operations d)))"

section \<open>Idempotent provisioning\<close>

definition ErrProvisionIdempotencyConflict :: err where
  "ErrProvisionIdempotencyConflict =
     Sentinel ''idempotency key was already used for a different provision request''"

definition same_request :: "string \<Rightarrow> string \<Rightarrow> ProvisionRequestRecord \<Rightarrow> bool" where
  "same_request customerID keyHash r \<longleftrightarrow> pr_CustomerID r = customerID \<and> pr_KeyHash r = keyHash"

definition GetProvisionRequest :: "string \<Rightarrow> string \<Rightarrow> ProvisionRequestRecord option db" where
  "GetProvisionRequest customerID keyHash = wrapped ''get provision idempotency record: ''
     (query (\<lambda>_ d. find_where (same_request customerID keyHash) (st_provision_requests d)))"

record provision_args =
  pa_customerID :: string
  pa_keyHash :: string
  pa_requestHash :: string
  pa_instanceID :: string
  pa_operationID :: string
  pa_taskID :: string
  pa_appName :: string
  pa_tierName :: string
  pa_nodeID :: string
  pa_tierSnapshotJSON :: string
  pa_logicalInstanceID :: string
  pa_adminUser :: string
  pa_ramDelta :: int
  pa_diskDelta :: int

definition provision_record :: "provision_args \<Rightarrow> ProvisionRequestRecord" where
  "provision_record x = \<lparr>pr_CustomerID = pa_customerID x, pr_KeyHash = pa_keyHash x,
     pr_RequestHash = pa_requestHash x, pr_InstanceID = pa_instanceID x, pr_OperationID = pa_operationID x,
     pr_TaskID = pa_taskID x, pr_ResponseStatus = 0, pr_ResponseJSON = None\<rparr>"

text \<open>\<^verbatim>\<open>INSERT ... ON CONFLICT (customer_id, idempotency_key_hash) DO NOTHING RETURNING\<close>.\<close>

definition claim_key :: "provision_args \<Rightarrow> store \<Rightarrow> string option \<times> store" where
  "claim_key x d =
     (if \<exists>r \<in> set (st_provision_requests d). same_request (pa_customerID x) (pa_keyHash x) r then (None, d)
      else (Some (pa_requestHash x),
            d\<lparr>st_provision_requests := st_provision_requests d @ [provision_record x]\<rparr>))"

text \<open>
  The transaction of \<^verbatim>\<open>ReserveIdempotentProvision\<close>: \<open>Commit True\<close> when the key was claimed; when
  it was taken the transaction is rolled back, which the error \<open>key_taken\<close> stands for; that
  explicit rollback is a statement of its own and may fail.
\<close>

definition key_taken :: err where
  "key_taken = Plain ''duplicate idempotency key''"

definition provision_body :: "provision_args \<Rightarrow> (store conn, (err, unit) outcome) state" where
  "provision_body x = do {
     k \<leftarrow> stmt (\<lambda>_ d. case claim_key x d of (r, d') \<Rightarrow> (Inr r, d'));
     case k of
       Inl e \<Rightarrow> return (Abort (Wrap ''claim provision idempotency key: '' e))
     | Inr None \<Rightarrow> return (Abort key_taken)
     | Inr (Some insertedHash) \<Rightarrow>
         if insertedHash \<noteq> pa_requestHash x
         then return (Abort (Plain ''claimed provision idempotency hash changed unexpectedly''))
         else do {
           r \<leftarrow> reserveNodeCapacityTx (pa_nodeID x) (pa_ramDelta x) (pa_diskDelta x);
           case r of Inl e \<Rightarrow> return (Abort e) | Inr _ \<Rightarrow> do {
           a \<leftarrow> insert_app (new_app (pa_instanceID x) (pa_customerID x) (pa_appName x) (pa_tierName x)
                  (Some (pa_nodeID x)) (pa_tierSnapshotJSON x)
                  (if pa_logicalInstanceID x = '''' then pa_instanceID x else pa_logicalInstanceID x));
           case a of Inl e \<Rightarrow> return (Abort (Wrap ''create idempotent customer app: '' e)) | Inr _ \<Rightarrow> do {
           b \<leftarrow> insert_operation (new_operation (pa_operationID x) (Some (pa_instanceID x)) (pa_nodeID x)
                  (pa_taskID x) ''provision_app'' ''pending_dispatch'' (pa_adminUser x) None);
           case b of Inl e \<Rightarrow> return (Abort (Wrap ''create idempotent provision operation: '' e))
           | Inr _ \<Rightarrow> return (Commit ())
         }}}
   }"

text \<open>
  The result of \<^verbatim>\<open>ReserveIdempotentProvision\<close>: whether a new reservation was made, the record if
  one is returned, and the error if there is one.
\<close>

definition ReserveIdempotentProvision ::
  "provision_args \<Rightarrow> (store conn, bool \<times> ProvisionRequestRecord option \<times> err option) state" where
  "ReserveIdempotentProvision x = do {
     r \<leftarrow> transaction ''begin idempotent provision transaction: ''
            (\<lambda>_. ''commit idempotent provision transaction: '') (provision_body x);
     case r of
       Inr _ \<Rightarrow> return (True, Some (provision_record x), None)
     | Inl e \<Rightarrow>
         if e \<noteq> key_taken then return (False, None, Some e)
         else do {
           x0 \<leftarrow> exec (\<lambda>_ d. d);
           case x0 of
             Inl e \<Rightarrow> return (False, None, Some (Wrap ''release duplicate provision transaction: '' e))
           | Inr _ \<Rightarrow> do {
           g \<leftarrow> GetProvisionRequest (pa_customerID x) (pa_keyHash x);
           return (case g of
             Inl e \<Rightarrow> (False, None, Some e)
           | Inr None \<Rightarrow> (False, None, Some (Plain ''provision idempotency record disappeared after conflict''))
           | Inr (Some existing) \<Rightarrow>
               if pr_RequestHash existing \<noteq> pa_requestHash x
               then (False, Some existing, Some ErrProvisionIdempotencyConflict)
               else (False, Some existing, None))
         }}
   }"

definition CompleteProvisionRequest :: "string \<Rightarrow> string \<Rightarrow> int \<Rightarrow> string \<Rightarrow> unit db" where
  "CompleteProvisionRequest customerID keyHash status responseJSON = do {
     r \<leftarrow> (let p = (\<lambda>r. same_request customerID keyHash r \<and> pr_ResponseStatus r = 0) in
          stmt (\<lambda>_ d. (Inr (affected p (st_provision_requests d)), d\<lparr>st_provision_requests :=
            update_where p (\<lambda>r. r\<lparr>pr_ResponseStatus := status, pr_ResponseJSON := Some responseJSON\<rparr>)
              (st_provision_requests d)\<rparr>)));
     case r of
       Inl e \<Rightarrow> return (Inl (Wrap ''complete provision idempotency record: '' e))
     | Inr rows \<Rightarrow>
         if rows = 1 then return (Inr ())
         else do {
           b \<leftarrow> query (\<lambda>_ d. \<exists>r \<in> set (st_provision_requests d). same_request customerID keyHash r
                  \<and> pr_ResponseStatus r = status \<and> pr_ResponseJSON r = Some responseJSON);
           return (case b of
             Inl e \<Rightarrow> Inl (Wrap ''verify completed provision idempotency record: '' e)
           | Inr found \<Rightarrow> if \<not> found
               then Inl (Plain ''provision idempotency record was completed with a different response'')
               else Inr ())
         }
   }"

end
