(* ===== verification/Store_Catalog.thy ===== *)
theory Store_Catalog
  imports Store_Apps
begin

text \<open>
  The catalogue of applications (\<^verbatim>\<open>src/internal/database/apps.go\<close>), the secrets of instances
  (\<^verbatim>\<open>secrets.go\<close>), public routes (\<^verbatim>\<open>routes.go\<close>), backup records (\<^verbatim>\<open>backups.go\<close>) and the storage
  configuration of backups (\<^verbatim>\<open>storage.go\<close>).
\<close>

section \<open>Application definitions\<close>

definition upsert_definition :: "string \<Rightarrow> string \<Rightarrow> string \<Rightarrow> string \<Rightarrow> unit db" where
  "upsert_definition name displayName description rawYAML = exec (\<lambda>t d.
     if \<exists>a \<in> set (st_definitions d). ad_Name a = name
     then d\<lparr>st_definitions := update_where (\<lambda>a. ad_Name a = name)
            (\<lambda>a. a\<lparr>ad_DisplayName := displayName, ad_Description := description, ad_RawYAML := rawYAML\<rparr>)
            (st_definitions d)\<rparr>
     else d\<lparr>st_definitions := st_definitions d @ [\<lparr>ad_Name = name, ad_DisplayName = displayName,
            ad_Description = description, ad_RawYAML = rawYAML, ad_Status = ''active'',
            ad_Availability = ''available'', ad_AvailabilityReason = '''', ad_Revision = 0, ad_Checksum = '''',
            ad_CreatedAt = t\<rparr>]\<rparr>)"

text \<open>
  \<open>numeric\<close> is PostgreSQL's conversion of a \<^verbatim>\<open>float64\<close> to \<^verbatim>\<open>NUMERIC(10, 2)\<close>, which rounds to two
  decimals and fails when the value does not fit.
\<close>

definition insert_tier :: "(float64 \<Rightarrow> float64 option) \<Rightarrow> string \<Rightarrow> AppTier \<Rightarrow> unit db" where
  "insert_tier numeric name tier = stmt (\<lambda>_ d. case numeric (at_PriceMonthly tier) of
       None \<Rightarrow> (Inl OutOfRange, d)
     | Some price \<Rightarrow>
         if \<exists>x \<in> set (st_tiers d). at_AppName x = name \<and> at_Name x = at_Name tier
         then (Inl (UniqueViolation ''app_tiers_pkey''), d)
         else if \<forall>a \<in> set (st_definitions d). ad_Name a \<noteq> name
         then (Inl (ForeignKeyViolation ''app_tiers_app_name_fkey''), d)
         else (Inr (), d\<lparr>st_tiers := st_tiers d @ [tier\<lparr>at_AppName := name, at_PriceMonthly := price\<rparr>]\<rparr>))"

fun insert_tiers :: "(float64 \<Rightarrow> float64 option) \<Rightarrow> string \<Rightarrow> AppTier list \<Rightarrow> unit db" where
  "insert_tiers numeric name [] = return (Inr ())"
| "insert_tiers numeric name (tier # tiers) = do {
     r \<leftarrow> insert_tier numeric name tier;
     case r of
       Inl e \<Rightarrow> return (Inl (Wrap (''insert tier '' @ at_Name tier @ '': '') e))
     | Inr _ \<Rightarrow> insert_tiers numeric name tiers
   }"

definition needs_restart :: "string \<Rightarrow> CustomerApp \<Rightarrow> bool" where
  "needs_restart name a \<longleftrightarrow> ca_AppDefinitionName a = name
     \<and> ca_TechnicalStatus a \<notin> set [''deprovisioning'', ''deprovisioned'']"

definition mark_restart :: "string \<Rightarrow> string \<Rightarrow> unit db" where
  "mark_restart name updateType = update_apps (needs_restart name)
     (\<lambda>t a. a\<lparr>ca_NeedRestarting := True, ca_UpdateType := updateType, ca_UpdateStartedAt := Some t\<rparr>)"

definition SaveAppDefinition ::
  "(float64 \<Rightarrow> float64 option) \<Rightarrow> string \<Rightarrow> string \<Rightarrow> string \<Rightarrow> string \<Rightarrow> AppTier list \<Rightarrow> string \<Rightarrow> unit db" where
  "SaveAppDefinition numeric name displayName description rawYAML tiers updateType =
     transaction ''start transaction: '' (\<lambda>_. '''') (do {
       p \<leftarrow> query (\<lambda>_ d. map_option ad_RawYAML (find_where (\<lambda>a. ad_Name a = name) (st_definitions d)));
       case p of Inl e \<Rightarrow> return (Abort (Wrap ''check existing app definition: '' e)) | Inr previous \<Rightarrow> do {
       let definitionChanged = (previous \<noteq> None \<and> previous \<noteq> Some rawYAML);
       u \<leftarrow> upsert_definition name displayName description rawYAML;
       case u of Inl e \<Rightarrow> return (Abort (Wrap ''insert app definition: '' e)) | Inr _ \<Rightarrow> do {
       c \<leftarrow> exec (\<lambda>_ d. d\<lparr>st_tiers := delete_where (\<lambda>x. at_AppName x = name) (st_tiers d)\<rparr>);
       case c of Inl e \<Rightarrow> return (Abort (Wrap ''clear old tiers: '' e)) | Inr _ \<Rightarrow> do {
       i \<leftarrow> insert_tiers numeric name tiers;
       case i of Inl e \<Rightarrow> return (Abort e) | Inr _ \<Rightarrow>
       if definitionChanged then do {
         m \<leftarrow> mark_restart name updateType;
         case m of
           Inl e \<Rightarrow> return (Abort (Wrap ''mark instances for restart after app definition update: '' e))
         | Inr _ \<Rightarrow> return (Commit ())
       } else return (Commit ())
     }}}})"

text \<open>An \<^verbatim>\<open>UPDATE\<close> of one definition that answers \<^verbatim>\<open>sql.ErrNoRows\<close> when there is none.\<close>

definition update_definition :: "string \<Rightarrow> string \<Rightarrow> (AppDefinition \<Rightarrow> AppDefinition) \<Rightarrow> unit db" where
  "update_definition msg name f = do {
     r \<leftarrow> stmt (\<lambda>_ d. (Inr (affected (\<lambda>a. ad_Name a = name) (st_definitions d)),
            d\<lparr>st_definitions := update_where (\<lambda>a. ad_Name a = name) f (st_definitions d)\<rparr>));
     return (case r of
       Inl e \<Rightarrow> Inl (Wrap msg e)
     | Inr rows \<Rightarrow> if rows = 0 then Inl (Driver NoRows) else Inr ())
   }"

definition UpdateAppDefinitionStatus :: "string \<Rightarrow> string \<Rightarrow> unit db" where
  "UpdateAppDefinitionStatus name status =
     (let status = ToLower (TrimSpace status) in
      if status = ''active'' \<or> status = ''inactive''
      then update_definition ''update app definition status: '' name (\<lambda>a. a\<lparr>ad_Status := status\<rparr>)
      else return (Inl (Plain (''invalid app definition status '' @ status))))"

definition UpdateAppAvailability :: "string \<Rightarrow> string \<Rightarrow> string \<Rightarrow> unit db" where
  "UpdateAppAvailability name availability reason =
     (let availability = ToLower (TrimSpace availability) in
      if availability = ''available'' \<or> availability = ''unavailable''
      then update_definition ''update app availability: '' name
             (\<lambda>a. a\<lparr>ad_Availability := availability, ad_AvailabilityReason := reason\<rparr>)
      else return (Inl (Plain (''invalid app availability '' @ availability))))"

definition GetAppDefinitions :: "AppDefinition list db" where
  "GetAppDefinitions = wrapped ''query app definitions: '' (query (\<lambda>_ d. sort_key ad_Name (st_definitions d)))"

definition GetAppDefinition :: "string \<Rightarrow> AppDefinition option db" where
  "GetAppDefinition name = wrapped ''query app: ''
     (query (\<lambda>_ d. find_where (\<lambda>a. ad_Name a = name) (st_definitions d)))"

definition GetAppTiers :: "string \<Rightarrow> AppTier list db" where
  "GetAppTiers appName = wrapped ''query app tiers: ''
     (query (\<lambda>_ d. filter (\<lambda>x. at_AppName x = appName) (st_tiers d)))"

section \<open>Instance secrets\<close>

definition secret_key :: "InstanceSecret \<Rightarrow> string \<times> string \<times> string" where
  "secret_key s = (is_InstanceID s, is_ServiceName s, is_EnvName s)"

definition SaveInstanceSecret :: "string \<Rightarrow> string \<Rightarrow> string \<Rightarrow> string \<Rightarrow> bool \<Rightarrow> unit db" where
  "SaveInstanceSecret instanceID serviceName envName encryptedValue expose = wrapped ''save instance secret: ''
     (stmt (\<lambda>t d. let mine = (\<lambda>s. secret_key s = (instanceID, serviceName, envName)) in
        if \<forall>a \<in> set (st_apps d). ca_ID a \<noteq> instanceID
        then (Inl (ForeignKeyViolation ''instance_secrets_instance_id_fkey''), d)
        else if \<exists>s \<in> set (st_secrets d). mine s
        then (Inr (), d\<lparr>st_secrets := update_where mine
               (\<lambda>s. s\<lparr>is_EncryptedValue := encryptedValue, is_ExposeToCustomer := expose\<rparr>) (st_secrets d)\<rparr>)
        else (Inr (), d\<lparr>st_secrets := st_secrets d @ [\<lparr>is_InstanceID = instanceID, is_ServiceName = serviceName,
               is_EnvName = envName, is_EncryptedValue = encryptedValue, is_ExposeToCustomer = expose,
               is_CreatedAt = t\<rparr>]\<rparr>)))"

definition GetInstanceSecrets :: "string \<Rightarrow> InstanceSecret list db" where
  "GetInstanceSecrets instanceID = wrapped ''query instance secrets: '' (query (\<lambda>_ d.
     sort_key (\<lambda>s. (is_ServiceName s, is_EnvName s)) (filter (\<lambda>s. is_InstanceID s = instanceID) (st_secrets d))))"

definition GetAllInstanceSecrets :: "InstanceSecret list db" where
  "GetAllInstanceSecrets = wrapped ''query all instance secrets: '' (query (\<lambda>_ d. sort_key secret_key (st_secrets d)))"

definition GetExposedInstanceSecrets :: "string \<Rightarrow> InstanceSecret list db" where
  "GetExposedInstanceSecrets instanceID = wrapped ''query exposed instance secrets: '' (query (\<lambda>_ d.
     sort_key (\<lambda>s. (is_ServiceName s, is_EnvName s))
       (filter (\<lambda>s. is_InstanceID s = instanceID \<and> is_ExposeToCustomer s) (st_secrets d))))"

record InstanceSecretUpdate =
  isu_InstanceID :: string
  isu_ServiceName :: string
  isu_EnvName :: string
  isu_EncryptedValue :: string

definition update_target :: "InstanceSecretUpdate \<Rightarrow> string \<times> string \<times> string" where
  "update_target u = (isu_InstanceID u, isu_ServiceName u, isu_EnvName u)"

definition update_label :: "InstanceSecretUpdate \<Rightarrow> string" where
  "update_label u = ''update secret '' @ isu_InstanceID u @ ''/'' @ isu_ServiceName u @ ''/'' @ isu_EnvName u"

fun rotate_secrets :: "InstanceSecretUpdate list \<Rightarrow> (store conn, (err, unit) outcome) state" where
  "rotate_secrets [] = return (Commit ())"
| "rotate_secrets (u # us) = do {
     r \<leftarrow> (let mine = (\<lambda>s. secret_key s = update_target u) in
       stmt (\<lambda>_ d. (Inr (affected mine (st_secrets d)), d\<lparr>st_secrets := update_where mine
         (\<lambda>s. s\<lparr>is_EncryptedValue := isu_EncryptedValue u\<rparr>) (st_secrets d)\<rparr>)));
     case r of
       Inl e \<Rightarrow> return (Abort (Wrap (update_label u @ '': '') e))
     | Inr count \<Rightarrow>
         if count \<noteq> 1
         then return (Abort (Plain (update_label u @ '' affected '' @ show_int (int count) @ '' rows'')))
         else rotate_secrets us
   }"

definition UpdateInstanceSecretCiphertexts :: "InstanceSecretUpdate list \<Rightarrow> unit db" where
  "UpdateInstanceSecretCiphertexts updates =
     (if updates = [] then return (Inr ())
      else transaction ''begin secret rotation: '' (\<lambda>_. ''commit secret rotation: '') (do {
        p \<leftarrow> query (\<lambda>_ _. ());
        case p of
          Inl e \<Rightarrow> return (Abort (Wrap ''prepare secret rotation: '' e))
        | Inr _ \<Rightarrow> rotate_secrets updates
      }))"

section \<open>Public routes\<close>

text \<open>
  In the struct an absent instance is the empty string and an absent node is \<^verbatim>\<open>nil\<close> or empty; both
  are stored as \<^verbatim>\<open>NULL\<close>, which is \<open>None\<close> here.
\<close>

definition nonempty :: "string option \<Rightarrow> string option" where
  "nonempty x = (if x = Some '''' then None else x)"

definition route_columns :: "PublicRoute \<Rightarrow> PublicRoute" where
  "route_columns r = r\<lparr>r_AppInstanceID := nonempty (r_AppInstanceID r), r_NodeID := nonempty (r_NodeID r)\<rparr>"

definition route_fk :: "PublicRoute \<Rightarrow> store \<Rightarrow> driver_error option" where
  "route_fk r d =
     (if r_AppInstanceID r \<noteq> None \<and> (\<forall>a \<in> set (st_apps d). Some (ca_ID a) \<noteq> r_AppInstanceID r)
      then Some (ForeignKeyViolation ''public_routes_app_instance_id_fkey'')
      else if r_NodeID r \<noteq> None \<and> (\<forall>n \<in> set (st_nodes d). Some (n_ID n) \<noteq> r_NodeID r)
      then Some (ForeignKeyViolation ''public_routes_node_id_fkey'') else None)"

definition CreatePublicRoute :: "PublicRoute \<Rightarrow> unit db" where
  "CreatePublicRoute route0 = wrapped ''create public route: '' (stmt (\<lambda>t d.
     let route = route_columns route0; same = (\<lambda>r. r_Hostname r = r_Hostname route) in
     if \<exists>r \<in> set (st_routes d). same r
     then (case route_fk route d of Some e \<Rightarrow> (Inl e, d) | None \<Rightarrow>
       (Inr (), d\<lparr>st_routes := update_where same
         (\<lambda>r. route\<lparr>r_ID := r_ID r, r_CreatedAt := r_CreatedAt r, r_UpdatedAt := t\<rparr>) (st_routes d)\<rparr>))
     else if \<exists>r \<in> set (st_routes d). r_ID r = r_ID route
     then (Inl (UniqueViolation ''public_routes_pkey''), d)
     else (case route_fk route d of Some e \<Rightarrow> (Inl e, d) | None \<Rightarrow>
       (Inr (), d\<lparr>st_routes := st_routes d @ [route\<lparr>r_CreatedAt := t, r_UpdatedAt := t\<rparr>]\<rparr>))))"

definition GetPublicRoutes :: "PublicRoute list db" where
  "GetPublicRoutes = wrapped ''query public routes: '' (query (\<lambda>_ d. sort_key r_CreatedAt (st_routes d)))"

definition GetRoutesByInstance :: "string \<Rightarrow> PublicRoute list db" where
  "GetRoutesByInstance instanceID = wrapped ''query routes by instance: ''
     (query (\<lambda>_ d. sort_key r_CreatedAt (filter (\<lambda>r. r_AppInstanceID r = Some instanceID) (st_routes d))))"

definition GetPublicRoute :: "string \<Rightarrow> PublicRoute option db" where
  "GetPublicRoute hostname = wrapped ''query public route: ''
     (query (\<lambda>_ d. find_where (\<lambda>r. r_Hostname r = hostname) (st_routes d)))"

definition UpdatePublicRoute :: "PublicRoute option \<Rightarrow> unit db" where
  "UpdatePublicRoute arg = (case arg of
     None \<Rightarrow> return (Inl (Plain ''public route is nil''))
   | Some route0 \<Rightarrow> do {
       x \<leftarrow> stmt (\<lambda>t d. let route = route_columns route0; same = (\<lambda>r. r_Hostname r = r_Hostname route) in
         if affected same (st_routes d) = 0 then (Inr 0, d)
         else case route_fk route d of Some e \<Rightarrow> (Inl e, d) | None \<Rightarrow>
           (Inr (affected same (st_routes d)), d\<lparr>st_routes := update_where same
             (\<lambda>r. route\<lparr>r_ID := r_ID r, r_CreatedAt := r_CreatedAt r, r_UpdatedAt := t\<rparr>) (st_routes d)\<rparr>));
       return (case x of
         Inl e \<Rightarrow> Inl (Wrap ''update public route: '' e)
       | Inr rows \<Rightarrow> if rows = 0 then Inl (Plain ''update public route: no rows affected'') else Inr ())
     })"

definition DeletePublicRoute :: "string \<Rightarrow> unit db" where
  "DeletePublicRoute hostname = wrapped ''delete public route: '' (delete_routes (\<lambda>r. r_Hostname r = hostname))"

definition DeletePublicRouteByKind :: "string \<Rightarrow> unit db" where
  "DeletePublicRouteByKind kind = wrapped ''delete public routes by kind: '' (delete_routes (\<lambda>r. r_RouteKind r = kind))"

definition DeletePublicRouteByKindAndNotHostname :: "string \<Rightarrow> string \<Rightarrow> unit db" where
  "DeletePublicRouteByKindAndNotHostname kind hostname = wrapped ''delete public routes by kind except: ''
     (delete_routes (\<lambda>r. r_RouteKind r = kind \<and> r_Hostname r \<noteq> hostname))"

definition UpdatePublicRouteStatus :: "string \<Rightarrow> string \<Rightarrow> string \<Rightarrow> string \<Rightarrow> int option \<Rightarrow> unit db" where
  "UpdatePublicRouteStatus hostname status lastError lastHealth checkedAt = wrapped ''update public route status: ''
     (update_routes (\<lambda>r. r_Hostname r = hostname) (\<lambda>t r. r\<lparr>r_Status := status, r_LastError := lastError,
        r_LastHealthStatus := lastHealth, r_LastHealthCheckedAt := checkedAt, r_UpdatedAt := t\<rparr>))"

section \<open>Backup records\<close>

definition update_backups ::
  "string \<Rightarrow> (int \<Rightarrow> backup_record_row \<Rightarrow> backup_record_row) \<Rightarrow> unit db" where
  "update_backups bid f = exec (\<lambda>t d. d\<lparr>st_backup_records :=
     update_where (\<lambda>b. br_ID (brr_record b) = bid) (f t) (st_backup_records d)\<rparr>)"

definition CreateBackupRecord :: "BackupRecord \<Rightarrow> unit db" where
  "CreateBackupRecord rec = wrapped ''create backup record: '' (stmt (\<lambda>t d.
     if \<exists>b \<in> set (st_backup_records d). br_ID (brr_record b) = br_ID rec
     then (Inl (UniqueViolation ''backup_records_pkey''), d)
     else if \<forall>a \<in> set (st_apps d). ca_ID a \<noteq> br_InstanceID rec
     then (Inl (ForeignKeyViolation ''backup_records_instance_id_fkey''), d)
     else (Inr (), d\<lparr>st_backup_records := st_backup_records d @
       [\<lparr>brr_record = rec\<lparr>br_CreatedAt := '''', br_CompletedAt := '''', br_ExpiresAt := '''', br_VerifiedAt := ''''\<rparr>,
         brr_created_at = t, brr_completed_at = None, brr_expires_at = None, brr_verified_at = None\<rparr>]\<rparr>)))"

text \<open>\<open>parse\<close> is \<^verbatim>\<open>time.Parse(time.RFC3339, s)\<close> and \<open>render\<close> is \<^verbatim>\<open>t.Format(time.RFC3339)\<close>.\<close>

definition UpdateBackupRecord :: "(string \<Rightarrow> int option) \<Rightarrow> BackupRecord \<Rightarrow> unit db" where
  "UpdateBackupRecord parse rec =
     (let expiresVal = (if br_ExpiresAt rec \<noteq> '''' then parse (br_ExpiresAt rec) else None) in
      wrapped ''update backup record: '' (update_backups (br_ID rec) (\<lambda>t b. b\<lparr>
        brr_record := (brr_record b)\<lparr>br_Status := br_Status rec, br_StorageBackend := br_StorageBackend rec,
          br_StorageKey := br_StorageKey rec, br_StorageURIAdmin := br_StorageURIAdmin rec,
          br_SizeBytes := br_SizeBytes rec, br_ChecksumSHA256 := br_ChecksumSHA256 rec,
          br_ErrorMessage := br_ErrorMessage rec\<rparr>,
        brr_completed_at := Some t, brr_expires_at := expiresVal\<rparr>)))"

definition UpdateBackupVerified :: "string \<Rightarrow> unit db" where
  "UpdateBackupVerified bid = wrapped ''update backup verified: ''
     (update_backups bid (\<lambda>t b. b\<lparr>brr_verified_at := Some t\<rparr>))"

definition UpdateBackupVerifiedFailed :: "string \<Rightarrow> string \<Rightarrow> unit db" where
  "UpdateBackupVerifiedFailed bid errMsg = wrapped ''update backup verified failed: ''
     (update_backups bid (\<lambda>_ b. b\<lparr>brr_record := (brr_record b)\<lparr>br_ErrorMessage := errMsg\<rparr>, brr_verified_at := None\<rparr>))"

definition render_backup :: "(int \<Rightarrow> string) \<Rightarrow> backup_record_row \<Rightarrow> BackupRecord" where
  "render_backup render b = (let opt = (\<lambda>x. case x of None \<Rightarrow> '''' | Some t \<Rightarrow> render t) in
     (brr_record b)\<lparr>br_CreatedAt := render (brr_created_at b), br_CompletedAt := opt (brr_completed_at b),
       br_ExpiresAt := opt (brr_expires_at b), br_VerifiedAt := opt (brr_verified_at b)\<rparr>)"

definition GetBackupRecordsPage :: "(int \<Rightarrow> string) \<Rightarrow> string \<Rightarrow> int \<Rightarrow> int \<Rightarrow> (BackupRecord list \<times> nat) db" where
  "GetBackupRecordsPage render instanceID limit offset =
     (let p = (\<lambda>b. if instanceID \<noteq> '''' then br_InstanceID (brr_record b) = instanceID else True) in
      counted_page ''count backup records: '' ''query backup records: ''
        (\<lambda>d. affected p (st_backup_records d))
        (\<lambda>_ d. map (render_backup render) (rev (sort_key (\<lambda>b. (brr_created_at b, br_ID (brr_record b)))
           (filter p (st_backup_records d))))) limit offset)"

definition GetBackupRecords :: "(int \<Rightarrow> string) \<Rightarrow> string \<Rightarrow> BackupRecord list db" where
  "GetBackupRecords render instanceID = do {
     r \<leftarrow> GetBackupRecordsPage render instanceID 1000 0;
     return (case r of Inl e \<Rightarrow> Inl e | Inr (records, _) \<Rightarrow> Inr records)
   }"

definition GetBackupRecord :: "(int \<Rightarrow> string) \<Rightarrow> string \<Rightarrow> BackupRecord option db" where
  "GetBackupRecord render bid = wrapped ''get backup record: '' (query (\<lambda>_ d. map_option (render_backup render)
     (find_where (\<lambda>b. br_ID (brr_record b) = bid) (st_backup_records d))))"

definition GetSucceededS3Backups :: "(int \<Rightarrow> string) \<Rightarrow> BackupRecord list db" where
  "GetSucceededS3Backups render = wrapped ''query succeeded s3 backups: '' (query (\<lambda>_ d.
     map (render_backup render) (rev (sort_key brr_created_at
       (filter (\<lambda>b. br_Status (brr_record b) = ''succeeded'' \<and> br_StorageBackend (brr_record b) = ''s3'')
         (st_backup_records d))))))"

section \<open>Storage of backups\<close>

definition SaveBackupStorageConfig :: "BackupStorageConfig \<Rightarrow> unit db" where
  "SaveBackupStorageConfig cfg0 = wrapped ''save backup storage config: '' (exec (\<lambda>t d.
     let cfg = cfg0\<lparr>sc_CreatedAt := '''', sc_UpdatedAt := ''''\<rparr>; mine = (\<lambda>c. sc_ID (scr_config c) = sc_ID cfg) in
     if \<exists>c \<in> set (st_storage_configs d). mine c
     then d\<lparr>st_storage_configs := update_where mine (\<lambda>c. c\<lparr>scr_config := cfg, scr_updated_at := t\<rparr>)
            (st_storage_configs d)\<rparr>
     else d\<lparr>st_storage_configs := st_storage_configs d @
            [\<lparr>scr_config = cfg, scr_created_at = t, scr_updated_at = t\<rparr>]\<rparr>))"

definition render_config :: "(int \<Rightarrow> string) \<Rightarrow> storage_config_row \<Rightarrow> BackupStorageConfig" where
  "render_config render c = (scr_config c)\<lparr>sc_CreatedAt := render (scr_created_at c),
     sc_UpdatedAt := render (scr_updated_at c)\<rparr>"

definition GetBackupStorageConfig :: "(int \<Rightarrow> string) \<Rightarrow> string \<Rightarrow> BackupStorageConfig option db" where
  "GetBackupStorageConfig render cid = wrapped ''get backup storage config: '' (query (\<lambda>_ d.
     map_option (render_config render) (find_where (\<lambda>c. sc_ID (scr_config c) = cid) (st_storage_configs d))))"

definition GetActiveBackupStorageConfig :: "(int \<Rightarrow> string) \<Rightarrow> BackupStorageConfig option db" where
  "GetActiveBackupStorageConfig render = wrapped ''get active backup storage config: '' (query (\<lambda>_ d.
     map_option (render_config render) (find_where (\<lambda>c. sc_Enabled (scr_config c)) (st_storage_configs d))))"

end
