(* ===== verification/Store_Access.thy ===== *)
theory Store_Access
  imports Store_Catalog
begin

text \<open>
  Who may use the control plane and how often (\<^verbatim>\<open>src/internal/database/users.go\<close>,
  \<^verbatim>\<open>sessions.go\<close>, \<^verbatim>\<open>ratelimit.go\<close>), the outbox of tasks that could not be published
  (\<^verbatim>\<open>outbox.go\<close>) and the metrics of a node (\<^verbatim>\<open>metrics.go\<close>).
\<close>

section \<open>Rate limits\<close>

definition int32_ok :: "int \<Rightarrow> bool" where
  "int32_ok x \<longleftrightarrow> - 2147483648 \<le> x \<and> x \<le> 2147483647"

definition unix_seconds :: "int \<Rightarrow> int" where
  "unix_seconds t = t div 1000000"

definition update_rate :: "string \<Rightarrow> (rate_limit \<Rightarrow> rate_limit) \<Rightarrow> unit db" where
  "update_rate identifier f = stmt (\<lambda>_ d.
     if \<exists>r \<in> set (st_rate_limits d). rl_identifier r = identifier \<and> \<not> int32_ok (rl_attempts (f r))
     then (Inl OutOfRange, d)
     else (Inr (), d\<lparr>st_rate_limits := update_where (\<lambda>r. rl_identifier r = identifier) f (st_rate_limits d)\<rparr>))"

definition insert_rate :: "rate_limit \<Rightarrow> unit db" where
  "insert_rate row = stmt (\<lambda>_ d.
     if \<exists>r \<in> set (st_rate_limits d). rl_identifier r = rl_identifier row
     then (Inl (UniqueViolation ''rate_limits_pkey''), d)
     else (Inr (), d\<lparr>st_rate_limits := st_rate_limits d @ [row]\<rparr>))"

text \<open>
  The value of a committed transaction is whether the attempt is allowed and the seconds until the
  window ends.
\<close>

definition commit_after ::
  "string \<Rightarrow> 'a \<Rightarrow> err + unit \<Rightarrow> (store conn, (err, 'a) outcome) state" where
  "commit_after msg x r = return (case r of Inl e \<Rightarrow> Abort (Wrap msg e) | Inr _ \<Rightarrow> Commit x)"

definition remaining_seconds :: "float64 \<Rightarrow> int \<Rightarrow> float64 \<Rightarrow> int" where
  "remaining_seconds windowSeconds unix windowStart =
     (let remaining = int64_of_f64 (f64_add (f64_sub windowSeconds (f64_sub (f64_of_int unix) windowStart)) (Fin 1))
      in if remaining < 1 then 1 else remaining)"

definition CheckRateLimit :: "string \<Rightarrow> int \<Rightarrow> float64 \<Rightarrow> (bool \<times> int) db" where
  "CheckRateLimit identifier maxAttempts windowSeconds =
     transaction ''begin tx: '' (\<lambda>_. ''commit: '') (do {
       t \<leftarrow> now;
       let unix = unix_seconds t;
       let cutoff = f64_sub (f64_of_int unix) windowSeconds;
       q \<leftarrow> query (\<lambda>_ d. find_where (\<lambda>r. rl_identifier r = identifier) (st_rate_limits d));
       case q of
         Inl e \<Rightarrow> return (Abort (Wrap ''select rate limit: '' e))
       | Inr None \<Rightarrow> insert_rate \<lparr>rl_identifier = identifier, rl_window_start = f64_of_int unix, rl_attempts = 1\<rparr>
           \<bind> commit_after ''insert rate limit: '' (True, 0)
       | Inr (Some row) \<Rightarrow>
           if f64_lt (rl_window_start row) cutoff
           then update_rate identifier (\<lambda>r. r\<lparr>rl_window_start := f64_of_int unix, rl_attempts := 1\<rparr>)
                  \<bind> commit_after ''update rate limit reset: '' (True, 0)
           else if rl_attempts row \<ge> maxAttempts
           then return (Commit (False, remaining_seconds windowSeconds unix (rl_window_start row)))
           else update_rate identifier (\<lambda>r. r\<lparr>rl_attempts := rl_attempts r + 1\<rparr>)
                  \<bind> commit_after ''update rate limit: '' (True, 0)
     })"

definition ResetRateLimit :: "string \<Rightarrow> unit db" where
  "ResetRateLimit identifier =
     exec (\<lambda>_ d. d\<lparr>st_rate_limits := delete_where (\<lambda>r. rl_identifier r = identifier) (st_rate_limits d)\<rparr>)"

section \<open>Operators\<close>

definition update_users :: "string \<Rightarrow> (int \<Rightarrow> admin_user \<Rightarrow> admin_user) \<Rightarrow> unit db" where
  "update_users username f =
     exec (\<lambda>t d. d\<lparr>st_admin_users := update_where (\<lambda>u. au_Username u = username) (f t) (st_admin_users d)\<rparr>)"

definition find_user :: "string \<Rightarrow> store \<Rightarrow> admin_user option" where
  "find_user username d = find_where (\<lambda>u. au_Username u = username) (st_admin_users d)"

definition CreateAdminUser :: "string \<Rightarrow> string \<Rightarrow> bool \<Rightarrow> unit db" where
  "CreateAdminUser username passwordHash mustChangePassword = wrapped ''create admin user: '' (exec (\<lambda>t d.
     if \<exists>u \<in> set (st_admin_users d). au_Username u = username
     then d\<lparr>st_admin_users := update_where (\<lambda>u. au_Username u = username)
            (\<lambda>u. u\<lparr>au_PasswordHash := passwordHash, au_MustChangePassword := mustChangePassword\<rparr>) (st_admin_users d)\<rparr>
     else d\<lparr>st_admin_users := st_admin_users d @ [\<lparr>au_Username = username, au_PasswordHash = passwordHash,
            au_MustChangePassword = mustChangePassword, au_Email = '''', au_EmailVerifiedAt = None,
            au_MFAEmailEnabled = False, au_CreatedAt = t\<rparr>]\<rparr>))"

definition GetAdminUser :: "string \<Rightarrow> (string \<times> bool) db" where
  "GetAdminUser username = wrapped ''get admin user: '' (query (\<lambda>_ d. case find_user username d of
     None \<Rightarrow> ('''', False) | Some u \<Rightarrow> (au_PasswordHash u, au_MustChangePassword u)))"

definition GetAdminUserCreatedAt :: "string \<Rightarrow> int option db" where
  "GetAdminUserCreatedAt username = wrapped ''get admin user created at: ''
     (query (\<lambda>_ d. map_option au_CreatedAt (find_user username d)))"

definition UpdateAdminPassword :: "string \<Rightarrow> string \<Rightarrow> unit db" where
  "UpdateAdminPassword username passwordHash = wrapped ''update admin password: ''
     (update_users username (\<lambda>_ u. u\<lparr>au_PasswordHash := passwordHash, au_MustChangePassword := False\<rparr>))"

definition ListAdminUsers :: "(string \<times> bool \<times> int) list db" where
  "ListAdminUsers = wrapped ''list admin users: '' (query (\<lambda>_ d.
     map (\<lambda>u. (au_Username u, au_MustChangePassword u, au_CreatedAt u)) (sort_key au_Username (st_admin_users d))))"

definition HasAnyAdminUser :: "bool db" where
  "HasAnyAdminUser = wrapped ''check admin users: '' (query (\<lambda>_ d. st_admin_users d \<noteq> []))"

record OperatorProfile =
  opf_Username :: string
  opf_Email :: string
  opf_EmailVerifiedAt :: "int option"
  opf_MFAEmailEnabled :: bool

definition GetOperatorProfile :: "string \<Rightarrow> OperatorProfile db" where
  "GetOperatorProfile username = wrapped ''get operator profile: '' (query (\<lambda>_ d. case find_user username d of
     None \<Rightarrow> \<lparr>opf_Username = '''', opf_Email = '''', opf_EmailVerifiedAt = None, opf_MFAEmailEnabled = False\<rparr>
   | Some u \<Rightarrow> \<lparr>opf_Username = au_Username u, opf_Email = au_Email u,
       opf_EmailVerifiedAt = au_EmailVerifiedAt u, opf_MFAEmailEnabled = au_MFAEmailEnabled u\<rparr>))"

definition UpdateOperatorProfile :: "string \<Rightarrow> string \<Rightarrow> bool \<Rightarrow> bool \<Rightarrow> unit db" where
  "UpdateOperatorProfile username email verified mfa = wrapped ''update operator profile: ''
     (update_users username (\<lambda>t u. u\<lparr>au_Email := email, au_EmailVerifiedAt := (if verified then Some t else None),
        au_MFAEmailEnabled := mfa\<rparr>))"

section \<open>Operator tokens\<close>

definition CreateOperatorToken :: "OperatorToken \<Rightarrow> unit db" where
  "CreateOperatorToken tok = wrapped ''create operator token: '' (stmt (\<lambda>t d.
     if ot_Scope tok \<notin> set [''read'', ''write'', ''admin'']
     then (Inl (CheckViolation ''operator_tokens_scope_check''), d)
     else if \<exists>x \<in> set (st_operator_tokens d). ot_ID x = ot_ID tok
     then (Inl (UniqueViolation ''operator_tokens_pkey''), d)
     else if \<exists>x \<in> set (st_operator_tokens d). ot_TokenHash x = ot_TokenHash tok
     then (Inl (UniqueViolation ''operator_tokens_token_hash_key''), d)
     else if find_user (ot_Username tok) d = None
     then (Inl (ForeignKeyViolation ''operator_tokens_username_fkey''), d)
     else (Inr (), d\<lparr>st_operator_tokens := st_operator_tokens d @
            [tok\<lparr>ot_RevokedAt := None, ot_LastUsedAt := None, ot_CreatedAt := t\<rparr>]\<rparr>)))"

text \<open>The listing leaves the hash of a token out.\<close>

definition ListOperatorTokens :: "string \<Rightarrow> OperatorToken list db" where
  "ListOperatorTokens username = wrapped ''list operator tokens: '' (query (\<lambda>_ d.
     map (\<lambda>x. x\<lparr>ot_TokenHash := ''''\<rparr>) (rev (sort_key ot_CreatedAt
       (filter (\<lambda>x. ot_Username x = username) (st_operator_tokens d))))))"

definition zero_operator_token :: OperatorToken where
  "zero_operator_token = \<lparr>ot_ID = '''', ot_Username = '''', ot_Label = '''', ot_TokenPrefix = '''', ot_TokenHash = '''',
     ot_Scope = '''', ot_ExpiresAt = None, ot_RevokedAt = None, ot_LastUsedAt = None, ot_CreatedAt = 0\<rparr>"

definition GetOperatorToken :: "string \<Rightarrow> OperatorToken db" where
  "GetOperatorToken hash = wrapped ''get operator token: '' (query (\<lambda>_ d.
     case find_where (\<lambda>x. ot_TokenHash x = hash) (st_operator_tokens d) of
       None \<Rightarrow> zero_operator_token | Some x \<Rightarrow> x))"

definition RevokeOperatorToken :: "string \<Rightarrow> string \<Rightarrow> bool db" where
  "RevokeOperatorToken tid username = do {
     r \<leftarrow> (let p = (\<lambda>x. ot_ID x = tid \<and> ot_Username x = username \<and> ot_RevokedAt x = None) in
       stmt (\<lambda>t d. (Inr (affected p (st_operator_tokens d)), d\<lparr>st_operator_tokens :=
         update_where p (\<lambda>x. x\<lparr>ot_RevokedAt := Some t\<rparr>) (st_operator_tokens d)\<rparr>)));
     return (case r of Inl e \<Rightarrow> Inl (Wrap ''revoke operator token: '' e) | Inr n \<Rightarrow> Inr (n = 1))
   }"

text \<open>The error of the update is dropped.\<close>

definition TouchOperatorToken :: "string \<Rightarrow> (store conn, unit) state" where
  "TouchOperatorToken tid = do {
     _ \<leftarrow> exec (\<lambda>t d. d\<lparr>st_operator_tokens := update_where (\<lambda>x. ot_ID x = tid)
            (\<lambda>x. x\<lparr>ot_LastUsedAt := Some t\<rparr>) (st_operator_tokens d)\<rparr>);
     return ()
   }"

section \<open>Sessions\<close>

definition delete_sessions :: "(int \<Rightarrow> AdminSession \<Rightarrow> bool) \<Rightarrow> unit db" where
  "delete_sessions p = exec (\<lambda>t d. d\<lparr>st_sessions := delete_where (p t) (st_sessions d)\<rparr>)"

definition DeleteExpiredAdminSessions :: "unit db" where
  "DeleteExpiredAdminSessions = do {
     u \<leftarrow> now;
     wrapped ''delete expired admin sessions: ''
       (delete_sessions (\<lambda>t s. as_ExpiresAt s < t \<or> as_LastActivityAt s < u - seconds 1800))
   }"

definition CreateAdminSession :: "string \<Rightarrow> string \<Rightarrow> int \<Rightarrow> int \<Rightarrow> unit db" where
  "CreateAdminSession tokenHash username expiresAt lastActivityAt = wrapped ''create admin session: ''
     (stmt (\<lambda>_ d. if \<exists>s \<in> set (st_sessions d). as_TokenHash s = tokenHash
        then (Inl (UniqueViolation ''admin_sessions_pkey''), d)
        else if find_user username d = None
        then (Inl (ForeignKeyViolation ''admin_sessions_username_fkey''), d)
        else (Inr (), d\<lparr>st_sessions := st_sessions d @ [\<lparr>as_TokenHash = tokenHash, as_Username = username,
               as_ExpiresAt = expiresAt, as_LastActivityAt = lastActivityAt\<rparr>]\<rparr>)))"

definition GetAdminSession :: "string \<Rightarrow> (string \<times> int \<times> int) option db" where
  "GetAdminSession tokenHash = wrapped ''get admin session: '' (query (\<lambda>_ d.
     map_option (\<lambda>s. (as_Username s, as_ExpiresAt s, as_LastActivityAt s))
       (find_where (\<lambda>s. as_TokenHash s = tokenHash) (st_sessions d))))"

definition UpdateAdminSessionActivity :: "string \<Rightarrow> int \<Rightarrow> unit db" where
  "UpdateAdminSessionActivity tokenHash lastActivity = wrapped ''update admin session activity: ''
     (exec (\<lambda>_ d. d\<lparr>st_sessions := update_where (\<lambda>s. as_TokenHash s = tokenHash)
        (\<lambda>s. s\<lparr>as_LastActivityAt := lastActivity\<rparr>) (st_sessions d)\<rparr>))"

definition DeleteAdminSession :: "string \<Rightarrow> unit db" where
  "DeleteAdminSession tokenHash = wrapped ''delete admin session: ''
     (delete_sessions (\<lambda>_ s. as_TokenHash s = tokenHash))"

definition DeleteOtherAdminSessions :: "string \<Rightarrow> string \<Rightarrow> unit db" where
  "DeleteOtherAdminSessions username currentTokenHash = wrapped ''delete other admin sessions: ''
     (delete_sessions (\<lambda>_ s. as_Username s = username \<and> as_TokenHash s \<noteq> currentTokenHash))"

section \<open>Outbox\<close>

definition CreateOutboxEntry :: "string \<Rightarrow> string \<Rightarrow> string \<Rightarrow> string \<Rightarrow> string \<Rightarrow> string \<Rightarrow> unit db" where
  "CreateOutboxEntry oid taskJSON operationID instanceID nodeID action = wrapped ''create outbox entry: ''
     (stmt (\<lambda>t d. if \<exists>e \<in> set (st_outbox d). ob_ID e = oid
        then (Inl (UniqueViolation ''task_outbox_pkey''), d)
        else (Inr (), d\<lparr>st_outbox := st_outbox d @ [\<lparr>ob_ID = oid, ob_TaskJSON = taskJSON,
               ob_OperationID = operationID, ob_InstanceID = instanceID, ob_NodeID = nodeID, ob_Action = action,
               ob_Status = ''pending'', ob_RetryCount = 0, ob_MaxRetries = 10, ob_LastError = '''',
               ob_CreatedAt = t, ob_UpdatedAt = t\<rparr>]\<rparr>)))"

definition outbox_pending :: "OutboxEntry \<Rightarrow> bool" where
  "outbox_pending e \<longleftrightarrow> ob_Status e = ''pending'' \<and> ob_RetryCount e < ob_MaxRetries e"

definition GetPendingOutboxEntries :: "int \<Rightarrow> OutboxEntry list db" where
  "GetPendingOutboxEntries limit = wrapped ''query pending outbox entries: ''
     (stmt (\<lambda>_ d. (page limit 0 (sort_key ob_CreatedAt (filter outbox_pending (st_outbox d))), d)))"

definition UpdateOutboxEntryRetry :: "string \<Rightarrow> string \<Rightarrow> int \<Rightarrow> unit db" where
  "UpdateOutboxEntryRetry oid lastError retryCount =
     (let status = (if retryCount \<ge> 10 then ''failed'' else ''pending'') in
      wrapped ''update outbox entry: '' (exec (\<lambda>t d. d\<lparr>st_outbox := update_where (\<lambda>e. ob_ID e = oid)
        (\<lambda>e. e\<lparr>ob_Status := status, ob_LastError := lastError, ob_RetryCount := retryCount, ob_UpdatedAt := t\<rparr>)
        (st_outbox d)\<rparr>)))"

definition DeleteOutboxEntry :: "string \<Rightarrow> unit db" where
  "DeleteOutboxEntry oid = wrapped ''delete outbox entry: ''
     (exec (\<lambda>_ d. d\<lparr>st_outbox := delete_where (\<lambda>e. ob_ID e = oid) (st_outbox d)\<rparr>))"

section \<open>Metrics of a node\<close>

record InstanceCounts =
  ic_Running :: nat
  ic_Stopped :: nat
  ic_Failed :: nat
  ic_Provisioning :: nat
  ic_Total :: nat

record StorageSummary =
  ss_TotalInstances :: nat
  ss_TotalLimit :: int
  ss_TotalUsed :: int
  ss_TotalExceeded :: nat

record NodeMetrics =
  nm_NodeID :: string
  nm_Hostname :: string
  nm_IP :: string
  nm_Status :: string
  nm_PodmanVersion :: string
  nm_FleetVersion :: string
  nm_LastHeartbeat :: "int option"
  nm_DiskTotal :: int
  nm_DiskUsed :: int
  nm_PodsActive :: int
  nm_PodsPaused :: int
  nm_PodsFailed :: int
  nm_Instances :: InstanceCounts
  nm_Storage :: StorageSummary

definition instance_counts :: "string \<Rightarrow> store \<Rightarrow> InstanceCounts" where
  "instance_counts nodeID d = (let apps = filter (\<lambda>a. ca_NodeID a = Some nodeID) (st_apps d) in
     \<lparr>ic_Running = affected (\<lambda>a. ca_TechnicalStatus a = ''running'') apps,
      ic_Stopped = affected (\<lambda>a. ca_TechnicalStatus a = ''stopped'') apps,
      ic_Failed = affected (\<lambda>a. ca_TechnicalStatus a \<in> set [''failed'', ''setup_failed'']) apps,
      ic_Provisioning = affected (\<lambda>a. ca_TechnicalStatus a
        \<in> set [''provisioning'', ''pending_provision'', ''initializing'']) apps,
      ic_Total = length apps\<rparr>)"

text \<open>The sums are scanned into \<^verbatim>\<open>int64\<close> variables, which fails when one of them does not fit.\<close>

definition storage_summary :: "string \<Rightarrow> store \<Rightarrow> StorageSummary option" where
  "storage_summary nodeID d = (let apps = filter (\<lambda>a. ca_NodeID a = Some nodeID) (st_apps d);
     limit = sum_list (map ca_StorageLimitBytes apps); used = sum_list (map ca_StorageUsedBytes apps) in
     if int64_ok limit \<and> int64_ok used
     then Some \<lparr>ss_TotalInstances = length apps, ss_TotalLimit = limit, ss_TotalUsed = used,
                ss_TotalExceeded = affected ca_StorageExceeded apps\<rparr>
     else None)"

definition node_metrics :: "Node \<Rightarrow> NodeMetrics" where
  "node_metrics n = \<lparr>nm_NodeID = n_ID n, nm_Hostname = n_Hostname n, nm_IP = n_IP n, nm_Status = n_Status n,
     nm_PodmanVersion = n_PodmanVersion n, nm_FleetVersion = n_FleetVersion n,
     nm_LastHeartbeat = n_LastHeartbeat n, nm_DiskTotal = n_DiskTotal n, nm_DiskUsed = n_DiskUsed n,
     nm_PodsActive = n_PodsActive n, nm_PodsPaused = n_PodsPaused n, nm_PodsFailed = n_PodsFailed n,
     nm_Instances = \<lparr>ic_Running = 0, ic_Stopped = 0, ic_Failed = 0, ic_Provisioning = 0, ic_Total = 0\<rparr>,
     nm_Storage = \<lparr>ss_TotalInstances = 0, ss_TotalLimit = 0, ss_TotalUsed = 0, ss_TotalExceeded = 0\<rparr>\<rparr>"

definition GetNodeMetrics :: "string \<Rightarrow> NodeMetrics option db" where
  "GetNodeMetrics nodeID = do {
     g \<leftarrow> GetNode nodeID;
     case g of
       Inl e \<Rightarrow> return (Inl (Wrap ''get node for metrics: '' e))
     | Inr None \<Rightarrow> return (Inr None)
     | Inr (Some node) \<Rightarrow> do {
         i \<leftarrow> query (\<lambda>_. instance_counts nodeID);
         let m = (case i of Inl _ \<Rightarrow> node_metrics node | Inr c \<Rightarrow> (node_metrics node)\<lparr>nm_Instances := c\<rparr>);
         s \<leftarrow> query (\<lambda>_. storage_summary nodeID);
         return (Inr (Some (case s of Inr (Some y) \<Rightarrow> m\<lparr>nm_Storage := y\<rparr> | _ \<Rightarrow> m)))
       }
   }"

end
