(* ===== verification/Store_Inv.thy ===== *)
theory Store_Inv
  imports Store_Access
begin

text \<open>
  Integrity of the relational store.  \<open>store_ok\<close> collects the keys and references that the code
  relies on; \<open>store_call\<close> has one rule per operation of the \<^verbatim>\<open>database\<close> package that writes;
  every state that such calls can reach from an empty database, with any faults and any passing of
  time, satisfies \<open>store_ok\<close>.
\<close>

section \<open>Keys and references\<close>

text \<open>A nullable and a plain reference column: each value is a key of the other table.\<close>

definition refers :: "'k option list \<Rightarrow> 'k list \<Rightarrow> bool" where
  "refers xs ys \<longleftrightarrow> set xs \<subseteq> insert None (Some ` set ys)"

definition keyed :: "'k list \<Rightarrow> 'k list \<Rightarrow> bool" where
  "keyed xs ys \<longleftrightarrow> set xs \<subseteq> set ys"

definition token_key :: "NodeToken \<Rightarrow> string \<times> string" where
  "token_key tk = (tk_NodeID tk, tk_TokenType tk)"

definition tier_key :: "AppTier \<Rightarrow> string \<times> string" where
  "tier_key x = (at_AppName x, at_Name x)"

definition request_key :: "ProvisionRequestRecord \<Rightarrow> string \<times> string" where
  "request_key r = (pr_CustomerID r, pr_KeyHash r)"

definition node_keys_ok :: "store \<Rightarrow> bool" where
  "node_keys_ok d \<longleftrightarrow> distinct (map n_ID (st_nodes d)) \<and> distinct (map token_key (st_tokens d))
     \<and> distinct (map tk_TokenIdentifier (st_tokens d)) \<and> distinct (map ad_Name (st_definitions d))
     \<and> distinct (map tier_key (st_tiers d)) \<and> distinct (map ca_ID (st_apps d))
     \<and> distinct (map op_ID (st_operations d))"

definition other_keys_ok :: "store \<Rightarrow> bool" where
  "other_keys_ok d \<longleftrightarrow> distinct (map r_ID (st_routes d)) \<and> distinct (map r_Hostname (st_routes d))
     \<and> distinct (map (\<lambda>b. br_ID (brr_record b)) (st_backup_records d))
     \<and> distinct (map (\<lambda>c. sc_ID (scr_config c)) (st_storage_configs d))
     \<and> distinct (map secret_key (st_secrets d)) \<and> distinct (map request_key (st_provision_requests d))
     \<and> distinct (map rl_identifier (st_rate_limits d)) \<and> distinct (map au_Username (st_admin_users d))
     \<and> distinct (map ot_ID (st_operator_tokens d)) \<and> distinct (map ot_TokenHash (st_operator_tokens d))
     \<and> distinct (map as_TokenHash (st_sessions d)) \<and> distinct (map ob_ID (st_outbox d))"

text \<open>
  The references.  The last two are not foreign keys: a recorded provision request names an
  existing instance of its customer and an existing operation.
\<close>

definition refs_ok :: "store \<Rightarrow> bool" where
  "refs_ok d \<longleftrightarrow> refers (map ca_NodeID (st_apps d)) (map n_ID (st_nodes d))
     \<and> refers (map r_NodeID (st_routes d)) (map n_ID (st_nodes d))
     \<and> refers (map bk_NodeID (st_backups d)) (map n_ID (st_nodes d))
     \<and> keyed (map ca_AppDefinitionName (st_apps d)) (map ad_Name (st_definitions d))
     \<and> keyed (map at_AppName (st_tiers d)) (map ad_Name (st_definitions d))
     \<and> refers (map op_InstanceID (st_operations d)) (map ca_ID (st_apps d))
     \<and> refers (map r_AppInstanceID (st_routes d)) (map ca_ID (st_apps d))
     \<and> keyed (map is_InstanceID (st_secrets d)) (map ca_ID (st_apps d))
     \<and> keyed (map (\<lambda>b. br_InstanceID (brr_record b)) (st_backup_records d)) (map ca_ID (st_apps d))
     \<and> keyed (map as_Username (st_sessions d)) (map au_Username (st_admin_users d))
     \<and> keyed (map ot_Username (st_operator_tokens d)) (map au_Username (st_admin_users d))"

definition requests_ok :: "store \<Rightarrow> bool" where
  "requests_ok d \<longleftrightarrow>
     keyed (map (\<lambda>r. (pr_InstanceID r, pr_CustomerID r)) (st_provision_requests d))
       (map (\<lambda>a. (ca_ID a, ca_CustomerID a)) (st_apps d))
     \<and> keyed (map pr_OperationID (st_provision_requests d)) (map op_ID (st_operations d))"

definition store_ok :: "store \<Rightarrow> bool" where
  "store_ok d \<longleftrightarrow> node_keys_ok d \<and> other_keys_ok d \<and> refs_ok d \<and> requests_ok d"

lemmas store_ok_defs = store_ok_def node_keys_ok_def other_keys_ok_def refs_ok_def requests_ok_def

lemma refers_append [simp]:
  "refers (xs @ [x]) ys \<longleftrightarrow> refers xs ys \<and> (x = None \<or> (\<exists>y \<in> set ys. x = Some y))"
  by (auto simp: refers_def)

lemma keyed_append [simp]: "keyed (xs @ [x]) ys \<longleftrightarrow> keyed xs ys \<and> x \<in> set ys"
  by (auto simp: keyed_def)

lemma refers_more [simp]: "refers xs ys \<Longrightarrow> refers xs (ys @ zs)"
  by (auto simp: refers_def)

lemma keyed_more [simp]: "keyed xs ys \<Longrightarrow> keyed xs (ys @ zs)"
  by (auto simp: keyed_def)

lemma refers_delete [simp]: "refers (map k rows) ys \<Longrightarrow> refers (map k (delete_where p rows)) ys"
  by (auto simp: refers_def delete_where_def)

lemma keyed_delete [simp]: "keyed (map k rows) ys \<Longrightarrow> keyed (map k (delete_where p rows)) ys"
  by (auto simp: keyed_def delete_where_def)

lemma distinct_delete [simp]: "distinct (map k rows) \<Longrightarrow> distinct (map k (delete_where p rows))"
  by (simp add: delete_where_def distinct_map_filter)

lemma refers_deleted_key:
  "refers (map g rows) (map k keys) \<Longrightarrow> \<forall>q \<in> set keys. p q \<longrightarrow> (\<forall>r \<in> set rows. g r \<noteq> Some (k q)) \<Longrightarrow>
   refers (map g rows) (map k (delete_where p keys))"
  by (fastforce simp: refers_def delete_where_def)

lemma refers_cleared:
  assumes "refers (map g rows) ys" and "\<And>r. p r \<Longrightarrow> g (f r) = None \<or> g (f r) = g r"
  shows "refers (map g (update_where p f rows)) ys"
proof -
  have "g (if p r then f r else r) \<in> insert None (Some ` set ys)" if "r \<in> set rows" for r
    using assms(1) assms(2) [of r] that by (auto simp: refers_def)
  then show ?thesis by (auto simp: refers_def update_where_def)
qed

section \<open>Operations that keep the store intact\<close>

abbreviation keeps_ok :: "(store conn, 'a) state \<Rightarrow> bool" where
  "keeps_ok \<equiv> state_io_rel (conn_rel (\<lambda>_ d d'. store_ok d \<longrightarrow> store_ok d'))"

interpretation sk: table_contract "\<lambda>_ d d'. store_ok d \<longrightarrow> store_ok d'"
  by unfold_locales auto

lemma keeps_wrapped: "keeps_ok m \<Longrightarrow> keeps_ok (wrapped msg m)"
  unfolding wrapped_def by (intro sk.conn_rules)

lemma keeps_update_nodes:
  assumes "\<And>t n. n_ID (f t n) = n_ID n"
  shows "keeps_ok (update_nodes p f)"
  unfolding update_nodes_def
  by (intro sk.conn_rules) (simp add: store_ok_defs map_update_where assms)

lemma keeps_update_apps:
  assumes "\<And>t a. ca_ID (f t a) = ca_ID a" and "\<And>t a. ca_NodeID (f t a) = ca_NodeID a"
    and "\<And>t a. ca_AppDefinitionName (f t a) = ca_AppDefinitionName a"
    and "\<And>t a. ca_CustomerID (f t a) = ca_CustomerID a"
  shows "keeps_ok (update_apps p f)"
  unfolding update_apps_def
  by (intro sk.conn_rules) (simp add: store_ok_defs map_update_where assms)

lemma keeps_update_operations:
  assumes "\<And>t a. op_ID (f t a) = op_ID a" and "\<And>t a. op_InstanceID (f t a) = op_InstanceID a"
  shows "keeps_ok (update_operations p f)"
  unfolding update_operations_def
  by (intro sk.conn_rules) (simp add: store_ok_defs map_update_where assms)

lemma keeps_update_routes:
  assumes "\<And>t a. r_ID (f t a) = r_ID a" and "\<And>t a. r_Hostname (f t a) = r_Hostname a"
    and "\<And>t a. r_NodeID (f t a) = r_NodeID a" and "\<And>t a. r_AppInstanceID (f t a) = r_AppInstanceID a"
  shows "keeps_ok (update_routes p f)"
  unfolding update_routes_def
  by (intro sk.conn_rules) (simp add: store_ok_defs map_update_where assms)

lemma keeps_delete_routes: "keeps_ok (delete_routes p)"
  unfolding delete_routes_def by (intro sk.conn_rules) (simp add: store_ok_defs)

lemmas keeps_rules = keeps_wrapped keeps_update_nodes keeps_update_apps keeps_update_operations
  keeps_update_routes keeps_delete_routes sk.conn_rules

subsection \<open>Nodes\<close>

lemma keeps_RegisterNode: "keeps_ok (RegisterNode nid h ip w r pub os pv)"
  unfolding RegisterNode_def
  by (intro keeps_rules) (auto simp: store_ok_defs map_update_where new_node_def)

lemma keeps_node_updates:
  "keeps_ok (UpdateNodeStatus nid status)" "keeps_ok (SetNodeManualDisabled nid disabled)"
  "keeps_ok (UpdateNodeHeartbeat nid req)" "keeps_ok (UpdatePortalHeartbeat nid ip)"
  "keeps_ok (UpdateNodeStorageState nid st msg)" "keeps_ok (UpdateNodeHealth nid hs hr av ur)"
  "keeps_ok (UpdateNodeCommitLimits nid rl dl)" "keeps_ok (UpdateNodeTokenStatus nid status)"
  unfolding UpdateNodeStatus_def SetNodeManualDisabled_def UpdateNodeHeartbeat_def
    UpdatePortalHeartbeat_def UpdateNodeStorageState_def UpdateNodeHealth_def
    UpdateNodeCommitLimits_def UpdateNodeTokenStatus_def
  by (intro keeps_rules; simp)+

lemma keeps_MarkNodesOffline: "keeps_ok (MarkNodesOffline timeout)"
  unfolding MarkNodesOffline_def
  by (intro keeps_rules) (auto simp: store_ok_defs map_update_where)

lemma keeps_commit_update: "keeps_ok (commit_update nid ram disk)"
  unfolding commit_update_def
  by (intro keeps_rules) (auto simp: store_ok_defs map_update_where split: if_splits)

lemma keeps_reserve: "keeps_ok (reserveNodeCapacityTx nid ram disk)"
  unfolding reserveNodeCapacityTx_def
  by (intro keeps_rules)
    (auto simp: store_ok_defs map_update_where reserve_stmt_def Let_def split: if_splits)

lemma keeps_ReserveNodeCapacity: "keeps_ok (ReserveNodeCapacity nid ram disk)"
  unfolding ReserveNodeCapacity_def by (intro keeps_rules keeps_reserve)

lemma keeps_commitments:
  "keeps_ok (AddNodeCommitment nid ram disk)" "keeps_ok (ReleaseNodeCommitment nid ram disk)"
  unfolding AddNodeCommitment_def ReleaseNodeCommitment_def by (rule keeps_commit_update)+

lemma distinct_replace:
  assumes "distinct (map k rows)" and "distinct (map g rows)"
    and same: "\<And>q r. p q \<Longrightarrow> p r \<Longrightarrow> k q = k r"
    and free: "\<forall>r \<in> set rows. \<not> p r \<longrightarrow> g r \<noteq> g row"
  shows "distinct (map g (update_where p (\<lambda>_. row) rows))"
proof -
  have "g (update_where p (\<lambda>_. row) rows ! i) \<noteq> g (update_where p (\<lambda>_. row) rows ! j)"
    if ij: "i < length rows" "j < length rows" "i \<noteq> j" for i j
  proof -
    from assms(1) ij have "k (rows ! i) \<noteq> k (rows ! j)" by (auto simp: distinct_conv_nth)
    then have "\<not> (p (rows ! i) \<and> p (rows ! j))" using same by blast
    moreover from assms(2) ij have "g (rows ! i) \<noteq> g (rows ! j)" by (auto simp: distinct_conv_nth)
    moreover have "rows ! i \<in> set rows" "rows ! j \<in> set rows" using ij by auto
    ultimately show ?thesis using free ij by (auto dest: sym)
  qed
  then show ?thesis by (simp add: distinct_conv_nth)
qed

lemma ok_replace_token:
  assumes ok: "store_ok d"
    and free: "\<forall>tk \<in> set (st_tokens d). token_key tk \<noteq> token_key row \<longrightarrow> tk_TokenIdentifier tk \<noteq> tk_TokenIdentifier row"
  shows "store_ok (d\<lparr>st_tokens := update_where (\<lambda>tk. token_key tk = token_key row) (\<lambda>_. row) (st_tokens d)\<rparr>)"
proof -
  from ok have keys: "distinct (map token_key (st_tokens d))" "distinct (map tk_TokenIdentifier (st_tokens d))"
    by (auto simp: store_ok_defs)
  have 1: "map token_key (update_where (\<lambda>tk. token_key tk = token_key row) (\<lambda>_. row) (st_tokens d))
      = map token_key (st_tokens d)"
    by (rule map_update_where) simp
  have 2: "distinct (map tk_TokenIdentifier
      (update_where (\<lambda>tk. token_key tk = token_key row) (\<lambda>_. row) (st_tokens d)))"
    by (rule distinct_replace [OF keys]) (use free in simp_all)
  from 1 2 ok show ?thesis by (simp add: store_ok_defs)
qed

lemma ok_insert_token:
  assumes "store_ok d" and "\<forall>tk \<in> set (st_tokens d). token_key tk \<noteq> token_key row"
    and "\<forall>tk \<in> set (st_tokens d). tk_TokenIdentifier tk \<noteq> tk_TokenIdentifier row"
  shows "store_ok (d\<lparr>st_tokens := st_tokens d @ [row]\<rparr>)"
proof -
  from assms(2,3) have "token_key row \<notin> token_key ` set (st_tokens d)"
    "tk_TokenIdentifier row \<notin> tk_TokenIdentifier ` set (st_tokens d)" by auto
  with assms(1) show ?thesis by (simp add: store_ok_defs)
qed

lemma keeps_UpsertNodeToken: "keeps_ok (UpsertNodeToken nid ident hash typ status enc ex cl)"
proof -
  define row where "row = \<lparr>tk_NodeID = nid, tk_TokenType = typ, tk_TokenIdentifier = ident, tk_TokenHash = hash,
    tk_TokenStatus = status, tk_TokenValueEncrypted = enc, tk_TokenExpiresAt = ex, tk_ClaimID = cl\<rparr>"
  have eq: "tk_NodeID tk = nid \<and> tk_TokenType tk = typ \<longleftrightarrow> token_key tk = token_key row"
    "tk_TokenIdentifier tk = ident \<longleftrightarrow> tk_TokenIdentifier tk = tk_TokenIdentifier row" for tk
    by (simp_all add: row_def token_key_def)
  show ?thesis
    unfolding UpsertNodeToken_def Let_def row_def [symmetric] eq
    by (intro keeps_rules impI) (auto intro!: ok_insert_token intro: ok_replace_token split: if_splits)
qed

lemma keeps_delete_nodes: "keeps_ok (delete_nodes p)"
  unfolding delete_nodes_def Let_def
  by (intro keeps_rules)
    (auto simp: store_ok_defs referenced_def intro!: refers_deleted_key split: if_splits)

lemma keeps_expired:
  "keeps_ok DeleteExpiredPendingNodes" "keeps_ok ReapExpiredNodeTokens"
  unfolding DeleteExpiredPendingNodes_def ReapExpiredNodeTokens_def
  by (intro keeps_rules keeps_delete_nodes; auto simp: store_ok_defs)+

lemma keeps_detach_apps: "keeps_ok (update_apps p (\<lambda>_ a. a\<lparr>ca_NodeID := None\<rparr>))"
  unfolding update_apps_def
  by (intro keeps_rules) (auto simp: store_ok_defs map_update_where intro: refers_cleared)

lemma keeps_remove_rows: "keeps_ok (remove_rows nid)"
  unfolding remove_rows_def
  by (intro keeps_delete_routes keeps_detach_apps keeps_delete_nodes sk.conn_rules)
    (auto simp: store_ok_defs intro: refers_cleared)

lemma keeps_RemoveNode: "keeps_ok (RemoveNodeWithHook nid force hook)" "keeps_ok (RemoveNode nid force)"
  unfolding RemoveNode_def RemoveNodeWithHook_def by (intro keeps_rules keeps_remove_rows)+

subsection \<open>Instances and operations\<close>

lemma ok_insert_app:
  assumes "store_ok d" and "\<forall>b \<in> set (st_apps d). ca_ID b \<noteq> ca_ID a"
    and "\<exists>x \<in> set (st_definitions d). ad_Name x = ca_AppDefinitionName a"
    and "ca_NodeID a \<noteq> None \<longrightarrow> (\<exists>n \<in> set (st_nodes d). Some (n_ID n) = ca_NodeID a)"
  shows "store_ok (d\<lparr>st_apps := st_apps d @ [a]\<rparr>)"
proof -
  from assms(2) have "ca_ID a \<notin> ca_ID ` set (st_apps d)" by auto
  moreover from assms(3) have "ca_AppDefinitionName a \<in> ad_Name ` set (st_definitions d)" by force
  moreover from assms(4) have "ca_NodeID a = None \<or> (\<exists>y \<in> n_ID ` set (st_nodes d). ca_NodeID a = Some y)"
    by force
  ultimately show ?thesis using assms(1) by (simp add: store_ok_defs)
qed

lemma keeps_insert_app: "keeps_ok (insert_app row)"
  unfolding insert_app_def
  by (intro keeps_rules impI) (auto intro!: ok_insert_app split: if_splits)

lemma ok_insert_operation:
  assumes "store_ok d" and "\<forall>y \<in> set (st_operations d). op_ID y \<noteq> op_ID x"
    and "op_InstanceID x \<noteq> None \<longrightarrow> (\<exists>a \<in> set (st_apps d). Some (ca_ID a) = op_InstanceID x)"
  shows "store_ok (d\<lparr>st_operations := st_operations d @ [x]\<rparr>)"
proof -
  from assms(2) have "op_ID x \<notin> op_ID ` set (st_operations d)" by auto
  moreover from assms(3) have "op_InstanceID x = None \<or> (\<exists>y \<in> ca_ID ` set (st_apps d). op_InstanceID x = Some y)"
    by force
  ultimately show ?thesis using assms(1) by (simp add: store_ok_defs)
qed

lemma keeps_insert_operation: "keeps_ok (insert_operation row)"
  unfolding insert_operation_def
  by (intro keeps_rules impI) (auto intro!: ok_insert_operation split: if_splits)

lemma keeps_app_updates:
  "keeps_ok (UpdateCustomerAppStatus aid cs ts)" "keeps_ok (UpdateCustomerAppInspectData aid x)"
  "keeps_ok (SetSetupCompleted aid)" "keeps_ok (ClearCustomerAppRestartRequired aid)"
  "keeps_ok (UpdateCustomerAppTier aid tn sn)" "keeps_ok (UpdateInstanceHealthForBoot aid hs ts msg boot pre)"
  "keeps_ok (UpdateInstanceStorage aid ss sm lb ub up exc)" "keeps_ok (SetGracePeriod aid e)"
  "keeps_ok (ClearGracePeriod aid)"
  unfolding UpdateCustomerAppStatus_def UpdateCustomerAppInspectData_def SetSetupCompleted_def
    ClearCustomerAppRestartRequired_def UpdateCustomerAppTier_def UpdateInstanceHealthForBoot_def
    UpdateInstanceStorage_def SetGracePeriod_def ClearGracePeriod_def
  by (intro keeps_rules; simp add: Let_def)+

lemma keeps_app_statements:
  "keeps_ok (UpdateInstanceHealth aid hs msg)" "keeps_ok (UpdateInstanceHealthAndTechStatus aid hs ts msg)"
  "keeps_ok (FlagOverdueInstances threshold)"
  unfolding UpdateInstanceHealth_def UpdateInstanceHealthAndTechStatus_def FlagOverdueInstances_def
  by (intro keeps_rules; auto simp: store_ok_defs map_update_where)+

lemma ok_assign_app:
  assumes ok: "store_ok d" and nid: "(\<exists>a \<in> set (st_apps d). ca_ID a = aid) \<longrightarrow> (\<exists>n \<in> set (st_nodes d). n_ID n = nid)"
  shows "store_ok (d\<lparr>st_apps := update_where (\<lambda>a. ca_ID a = aid) (\<lambda>a. a\<lparr>ca_NodeID := Some nid\<rparr>) (st_apps d)\<rparr>)"
proof -
  let ?apps = "update_where (\<lambda>a. ca_ID a = aid) (\<lambda>a. a\<lparr>ca_NodeID := Some nid\<rparr>) (st_apps d)"
  have "refers (map ca_NodeID (st_apps d)) (map n_ID (st_nodes d))"
    using ok by (simp add: store_ok_defs)
  then have "ca_NodeID a \<in> insert None (Some ` n_ID ` set (st_nodes d))" if "a \<in> set (st_apps d)" for a
    using that by (auto simp: refers_def)
  with nid have "refers (map ca_NodeID ?apps) (map n_ID (st_nodes d))"
    by (force simp: refers_def update_where_def)
  with ok show ?thesis by (simp add: store_ok_defs map_update_where)
qed

lemma keeps_UpdateCustomerAppNode: "keeps_ok (UpdateCustomerAppNode aid nid)"
  unfolding UpdateCustomerAppNode_def
  by (intro keeps_rules impI) (auto intro!: ok_assign_app split: if_splits)

lemma keeps_create_apps:
  "keeps_ok (CreateCustomerApp aid cust app tier nid snap)"
  "keeps_ok (ReserveNodeCapacityAndCreateApp aid cust app tier nid snap lid ram disk)"
  unfolding CreateCustomerApp_def ReserveNodeCapacityAndCreateApp_def
  by (intro keeps_rules keeps_insert_app keeps_reserve)+

lemma keeps_operations:
  "keeps_ok (CreateOperation oid aid nid action status adm)"
  "keeps_ok (CreateOperationWithMetadata oid aid nid action status adm meta)"
  "keeps_ok (CreateMigrationOperation oid aid nid adm meta)"
  unfolding CreateOperation_def CreateOperationWithMetadata_def CreateMigrationOperation_def
  by (intro keeps_rules keeps_insert_operation)+

lemma keeps_restore: "keeps_ok (CreateRestoreOperationAndSetStatus oid aid nid adm)"
  unfolding CreateRestoreOperationAndSetStatus_def Let_def
  by (intro keeps_rules keeps_insert_operation) (auto simp: store_ok_defs map_update_where)

lemma keeps_operation_updates:
  "keeps_ok (UpdateOperationMetadata oid meta)" "keeps_ok (UpdateOperationTaskID oid tid)"
  "keeps_ok (UpdateOperation oid status msg)" "keeps_ok (MarkOperationQueuedIfPendingDispatch oid)"
  unfolding UpdateOperationMetadata_def UpdateOperationTaskID_def UpdateOperation_def
    MarkOperationQueuedIfPendingDispatch_def
  by (intro keeps_rules; simp)+

lemma keeps_CompleteProvisionRequest: "keeps_ok (CompleteProvisionRequest cust key status json)"
  unfolding CompleteProvisionRequest_def Let_def
  by (intro keeps_rules) (auto simp: store_ok_defs map_update_where request_key_def)

subsection \<open>Catalogue, secrets, routes and backups\<close>

lemma keeps_upsert_definition: "keeps_ok (upsert_definition name dn desc yaml)"
  unfolding upsert_definition_def
  by (intro keeps_rules) (auto simp: store_ok_defs map_update_where)

lemma ok_insert_tier:
  assumes "store_ok d" and "\<forall>x \<in> set (st_tiers d). tier_key x \<noteq> tier_key row"
    and "\<exists>a \<in> set (st_definitions d). ad_Name a = at_AppName row"
  shows "store_ok (d\<lparr>st_tiers := st_tiers d @ [row]\<rparr>)"
proof -
  from assms(2,3) have "tier_key row \<notin> tier_key ` set (st_tiers d)"
    "at_AppName row \<in> ad_Name ` set (st_definitions d)" by force+
  with assms(1) show ?thesis by (simp add: store_ok_defs)
qed

lemma keeps_app_definitions:
  "keeps_ok (UpdateAppDefinitionStatus name status)" "keeps_ok (UpdateAppAvailability name av reason)"
  unfolding UpdateAppDefinitionStatus_def UpdateAppAvailability_def update_definition_def Let_def
  by (intro keeps_rules; auto simp: store_ok_defs map_update_where)+

lemma keeps_mark_restart: "keeps_ok (mark_restart name ut)"
  unfolding mark_restart_def by (intro keeps_rules) simp_all

lemma ok_insert_secret:
  assumes "store_ok d" and "\<forall>x \<in> set (st_secrets d). secret_key x \<noteq> secret_key row"
    and "\<exists>a \<in> set (st_apps d). ca_ID a = is_InstanceID row"
  shows "store_ok (d\<lparr>st_secrets := st_secrets d @ [row]\<rparr>)"
proof -
  from assms(2,3) have "secret_key row \<notin> secret_key ` set (st_secrets d)"
    "is_InstanceID row \<in> ca_ID ` set (st_apps d)" by force+
  with assms(1) show ?thesis by (simp add: store_ok_defs)
qed

lemma ok_update_secret:
  assumes "store_ok d" and "\<And>x. secret_key (f x) = secret_key x"
  shows "store_ok (d\<lparr>st_secrets := update_where p f (st_secrets d)\<rparr>)"
proof -
  have "is_InstanceID (f x) = is_InstanceID x" for x
    using assms(2) [of x] by (simp add: secret_key_def)
  with assms show ?thesis by (simp add: store_ok_defs map_update_where)
qed

lemma keeps_SaveInstanceSecret: "keeps_ok (SaveInstanceSecret aid svc env enc ex)"
  unfolding SaveInstanceSecret_def Let_def
  by (intro keeps_rules impI)
    (auto intro!: ok_insert_secret ok_update_secret simp: secret_key_def split: if_splits)

lemma keeps_rotate_secrets: "keeps_ok (rotate_secrets us)"
proof (induction us)
  case Nil
  show ?case by (simp add: sk.io_return)
next
  case (Cons u us)
  show ?case
    unfolding rotate_secrets.simps Let_def
    by (intro keeps_rules Cons.IH impI) (auto intro!: ok_update_secret simp: secret_key_def)
qed

lemma keeps_UpdateInstanceSecretCiphertexts: "keeps_ok (UpdateInstanceSecretCiphertexts us)"
  unfolding UpdateInstanceSecretCiphertexts_def by (intro keeps_rules keeps_rotate_secrets)

lemma ok_insert_route:
  assumes "store_ok d" and "\<forall>x \<in> set (st_routes d). r_ID x \<noteq> r_ID r"
    and "\<forall>x \<in> set (st_routes d). r_Hostname x \<noteq> r_Hostname r" and "route_fk r d = None"
  shows "store_ok (d\<lparr>st_routes := st_routes d @ [r]\<rparr>)"
proof -
  from assms(2,3) have "r_ID r \<notin> r_ID ` set (st_routes d)" "r_Hostname r \<notin> r_Hostname ` set (st_routes d)"
    by auto
  moreover from assms(4) have "r_NodeID r = None \<or> (\<exists>y \<in> n_ID ` set (st_nodes d). r_NodeID r = Some y)"
    "r_AppInstanceID r = None \<or> (\<exists>y \<in> ca_ID ` set (st_apps d). r_AppInstanceID r = Some y)"
    by (force simp: route_fk_def split: if_splits)+
  ultimately show ?thesis using assms(1) by (simp add: store_ok_defs)
qed

lemma refers_replaced:
  assumes "refers (map g rows) ys" and "v = None \<or> (\<exists>y \<in> set ys. v = Some y)"
    and "\<And>r. p r \<Longrightarrow> g (f r) = v"
  shows "refers (map g (update_where p f rows)) ys"
proof -
  have "g (if p r then f r else r) \<in> insert None (Some ` set ys)" if "r \<in> set rows" for r
    using assms that by (auto simp: refers_def)
  then show ?thesis by (auto simp: refers_def update_where_def)
qed

lemma ok_replace_route:
  assumes ok: "store_ok d" and fk: "route_fk r d = None"
  shows "store_ok (d\<lparr>st_routes := update_where (\<lambda>x. r_Hostname x = r_Hostname r)
     (\<lambda>x. r\<lparr>r_ID := r_ID x, r_CreatedAt := r_CreatedAt x, r_UpdatedAt := t\<rparr>) (st_routes d)\<rparr>)"
proof -
  let ?rs = "update_where (\<lambda>x. r_Hostname x = r_Hostname r)
     (\<lambda>x. r\<lparr>r_ID := r_ID x, r_CreatedAt := r_CreatedAt x, r_UpdatedAt := t\<rparr>) (st_routes d)"
  have "map r_ID ?rs = map r_ID (st_routes d)" "map r_Hostname ?rs = map r_Hostname (st_routes d)"
    by (simp_all add: map_update_where)
  moreover have "refers (map r_NodeID ?rs) (map n_ID (st_nodes d))"
    by (rule refers_replaced [where v = "r_NodeID r"])
      (use ok fk in \<open>force simp: store_ok_defs route_fk_def split: if_splits\<close>)+
  moreover have "refers (map r_AppInstanceID ?rs) (map ca_ID (st_apps d))"
    by (rule refers_replaced [where v = "r_AppInstanceID r"])
      (use ok fk in \<open>force simp: store_ok_defs route_fk_def split: if_splits\<close>)+
  ultimately show ?thesis using ok by (simp add: store_ok_defs)
qed

lemma route_fk_times [simp]: "route_fk (r\<lparr>r_CreatedAt := t, r_UpdatedAt := u\<rparr>) d = route_fk r d"
  by (simp add: route_fk_def)

lemma keeps_CreatePublicRoute: "keeps_ok (CreatePublicRoute r)"
  unfolding CreatePublicRoute_def Let_def
  by (intro keeps_rules impI)
    (auto intro!: ok_insert_route intro: ok_replace_route split: if_splits option.splits)

lemma keeps_UpdatePublicRoute: "keeps_ok (UpdatePublicRoute r)"
  unfolding UpdatePublicRoute_def Let_def
  by (intro keeps_rules impI) (auto intro: ok_replace_route split: if_splits option.splits)

lemma keeps_route_changes:
  "keeps_ok (DeletePublicRoute h)" "keeps_ok (DeletePublicRouteByKind k)"
  "keeps_ok (DeletePublicRouteByKindAndNotHostname k h)" "keeps_ok (UpdatePublicRouteStatus h st e lh ch)"
  unfolding DeletePublicRoute_def DeletePublicRouteByKind_def DeletePublicRouteByKindAndNotHostname_def
    UpdatePublicRouteStatus_def
  by (intro keeps_rules; simp)+

lemma keeps_insert_tiers: "keeps_ok (insert_tiers numeric name tiers)"
proof (induction tiers)
  case Nil
  show ?case by (simp add: sk.io_return)
next
  case (Cons tier tiers)
  have "keeps_ok (insert_tier numeric name tier)"
    unfolding insert_tier_def
    by (intro keeps_rules impI)
      (auto intro!: ok_insert_tier simp: tier_key_def split: if_splits option.splits)
  then show ?case
    unfolding insert_tiers.simps by (intro keeps_rules Cons.IH)
qed

lemma keeps_clear_tiers:
  "keeps_ok (exec (\<lambda>_ d. d\<lparr>st_tiers := delete_where (\<lambda>x. at_AppName x = name) (st_tiers d)\<rparr>))"
  by (intro sk.io_exec impI) (simp add: store_ok_defs)

lemma keeps_SaveAppDefinition: "keeps_ok (SaveAppDefinition numeric name dn desc yaml tiers ut)"
  unfolding SaveAppDefinition_def
  by (intro keeps_upsert_definition keeps_insert_tiers keeps_mark_restart keeps_clear_tiers
      sk.io_transaction sk.io_rules sk.io_query)

lemma ok_update_backups:
  assumes "store_ok d" and "\<And>b. br_ID (brr_record (f b)) = br_ID (brr_record b)"
    and "\<And>b. br_InstanceID (brr_record (f b)) = br_InstanceID (brr_record b)"
  shows "store_ok (d\<lparr>st_backup_records := update_where p f (st_backup_records d)\<rparr>)"
  using assms by (simp add: store_ok_defs map_update_where)

lemma ok_insert_backup:
  assumes "store_ok d" and "\<forall>b \<in> set (st_backup_records d). br_ID (brr_record b) \<noteq> br_ID (brr_record r)"
    and "\<exists>a \<in> set (st_apps d). ca_ID a = br_InstanceID (brr_record r)"
  shows "store_ok (d\<lparr>st_backup_records := st_backup_records d @ [r]\<rparr>)"
proof -
  from assms(2,3) have "br_ID (brr_record r) \<notin> (\<lambda>b. br_ID (brr_record b)) ` set (st_backup_records d)"
    "br_InstanceID (brr_record r) \<in> ca_ID ` set (st_apps d)" by force+
  with assms(1) show ?thesis by (simp add: store_ok_defs)
qed

lemma keeps_backups:
  "keeps_ok (CreateBackupRecord rec)" "keeps_ok (UpdateBackupRecord parse rec)"
  "keeps_ok (UpdateBackupVerified bid)" "keeps_ok (UpdateBackupVerifiedFailed bid msg)"
  unfolding CreateBackupRecord_def UpdateBackupRecord_def UpdateBackupVerified_def
    UpdateBackupVerifiedFailed_def update_backups_def Let_def
  by (intro keeps_rules impI; auto intro!: ok_insert_backup ok_update_backups split: if_splits)+

lemma keeps_SaveBackupStorageConfig: "keeps_ok (SaveBackupStorageConfig cfg)"
  unfolding SaveBackupStorageConfig_def Let_def
  by (intro keeps_rules) (auto simp: store_ok_defs map_update_where image_iff)

subsection \<open>Operators, sessions, limits and outbox\<close>

lemma keeps_update_rate: "(\<And>r. rl_identifier (f r) = rl_identifier r) \<Longrightarrow> keeps_ok (update_rate ident f)"
  unfolding update_rate_def
  by (intro keeps_rules) (auto simp: store_ok_defs map_update_where split: if_splits)

lemma keeps_commit_after: "keeps_ok (commit_after msg x r)"
  unfolding commit_after_def by (intro keeps_rules)

lemma ok_insert_rate:
  assumes "store_ok d" and "\<forall>r \<in> set (st_rate_limits d). rl_identifier r \<noteq> rl_identifier row"
  shows "store_ok (d\<lparr>st_rate_limits := st_rate_limits d @ [row]\<rparr>)"
proof -
  from assms(2) have "rl_identifier row \<notin> rl_identifier ` set (st_rate_limits d)" by auto
  with assms(1) show ?thesis by (simp add: store_ok_defs)
qed

lemma keeps_insert_rate: "keeps_ok (insert_rate row)"
  unfolding insert_rate_def
  by (intro keeps_rules impI) (auto intro!: ok_insert_rate split: if_splits)

lemma keeps_rate_limits: "keeps_ok (CheckRateLimit ident k w)" "keeps_ok (ResetRateLimit ident)"
  unfolding CheckRateLimit_def ResetRateLimit_def Let_def
   apply (intro keeps_insert_rate keeps_update_rate keeps_commit_after sk.io_transaction sk.io_rules sk.io_query
      sk.io_now; simp)
  apply (intro keeps_rules)
  apply (simp add: store_ok_defs)
  done

lemma keeps_update_users: "(\<And>t u. au_Username (f t u) = au_Username u) \<Longrightarrow> keeps_ok (update_users name f)"
  unfolding update_users_def by (intro keeps_rules) (simp add: store_ok_defs map_update_where)

lemma keeps_users:
  "keeps_ok (CreateAdminUser name hash mcp)" "keeps_ok (UpdateAdminPassword name hash)"
  "keeps_ok (UpdateOperatorProfile name email ver mfa)"
  unfolding CreateAdminUser_def UpdateAdminPassword_def UpdateOperatorProfile_def
  by (intro keeps_wrapped keeps_update_users sk.io_exec; auto simp: store_ok_defs map_update_where image_iff)+

lemma user_exists: "find_user name d \<noteq> None \<longleftrightarrow> name \<in> au_Username ` set (st_admin_users d)"
proof (cases "find_user name d")
  case None
  then show ?thesis by (auto simp: find_user_def find_where_None)
next
  case (Some u)
  then show ?thesis by (auto simp: find_user_def dest!: find_where_SomeD)
qed

lemma ok_insert_operator_token:
  assumes "store_ok d" and "\<forall>x \<in> set (st_operator_tokens d). ot_ID x \<noteq> ot_ID r"
    and "\<forall>x \<in> set (st_operator_tokens d). ot_TokenHash x \<noteq> ot_TokenHash r"
    and "find_user (ot_Username r) d \<noteq> None"
  shows "store_ok (d\<lparr>st_operator_tokens := st_operator_tokens d @ [r]\<rparr>)"
proof -
  from assms(2,3) have "ot_ID r \<notin> ot_ID ` set (st_operator_tokens d)"
    "ot_TokenHash r \<notin> ot_TokenHash ` set (st_operator_tokens d)" by auto
  with assms(1,4) show ?thesis by (simp only: user_exists) (simp add: store_ok_defs)
qed

lemma ok_insert_session:
  assumes "store_ok d" and "\<forall>x \<in> set (st_sessions d). as_TokenHash x \<noteq> as_TokenHash r"
    and "find_user (as_Username r) d \<noteq> None"
  shows "store_ok (d\<lparr>st_sessions := st_sessions d @ [r]\<rparr>)"
proof -
  from assms(2) have "as_TokenHash r \<notin> as_TokenHash ` set (st_sessions d)" by auto
  with assms(1,3) show ?thesis by (simp only: user_exists) (simp add: store_ok_defs)
qed

lemma keeps_operator_tokens:
  "keeps_ok (CreateOperatorToken tok)" "keeps_ok (RevokeOperatorToken tid name)" "keeps_ok (TouchOperatorToken tid)"
  unfolding CreateOperatorToken_def RevokeOperatorToken_def TouchOperatorToken_def Let_def
    apply (intro keeps_rules impI)
    apply (auto intro!: ok_insert_operator_token split: if_splits)[1]
   apply (intro keeps_rules)
   apply (auto simp: store_ok_defs map_update_where)[1]
  apply (intro keeps_rules)
  apply (simp add: store_ok_defs map_update_where)
  done

lemma keeps_delete_sessions: "keeps_ok (delete_sessions p)"
  unfolding delete_sessions_def by (intro keeps_rules) (simp add: store_ok_defs)

lemma keeps_CreateAdminSession: "keeps_ok (CreateAdminSession hash name ex la)"
  unfolding CreateAdminSession_def
  by (intro keeps_rules impI) (auto intro!: ok_insert_session split: if_splits)

lemma keeps_sessions:
  "keeps_ok DeleteExpiredAdminSessions" "keeps_ok (DeleteAdminSession hash)" "keeps_ok (DeleteOtherAdminSessions name hash)"
  unfolding DeleteExpiredAdminSessions_def DeleteAdminSession_def DeleteOtherAdminSessions_def
  by (intro keeps_wrapped keeps_delete_sessions sk.io_bind sk.io_now)+

lemma keeps_UpdateAdminSessionActivity: "keeps_ok (UpdateAdminSessionActivity hash la)"
  unfolding UpdateAdminSessionActivity_def
  by (intro keeps_rules) (simp add: store_ok_defs map_update_where)

lemma keeps_outbox:
  "keeps_ok (CreateOutboxEntry oid json opid aid nid action)" "keeps_ok (UpdateOutboxEntryRetry oid msg k)"
  "keeps_ok (DeleteOutboxEntry oid)"
  unfolding CreateOutboxEntry_def UpdateOutboxEntryRetry_def DeleteOutboxEntry_def Let_def
  by (intro keeps_rules; auto simp: store_ok_defs map_update_where image_iff split: if_splits)+

subsection \<open>Idempotent provisioning\<close>

text \<open>
  The rows that a committed provisioning transaction leaves.  Between its statements the request
  refers to rows that do not exist yet, so the transaction is treated as a whole.
\<close>

definition reserved :: "string \<Rightarrow> int \<Rightarrow> int \<Rightarrow> Node list \<Rightarrow> Node list" where
  "reserved nid ram disk = update_where (\<lambda>n. reservable nid n \<and> fits ram disk n)
     (\<lambda>n. n\<lparr>n_CommittedRAM := n_CommittedRAM n + ram, n_CommittedDisk := n_CommittedDisk n + disk\<rparr>)"

definition provision_app_row :: "provision_args \<Rightarrow> int \<Rightarrow> CustomerApp" where
  "provision_app_row x = new_app (pa_instanceID x) (pa_customerID x) (pa_appName x) (pa_tierName x)
     (Some (pa_nodeID x)) (pa_tierSnapshotJSON x)
     (if pa_logicalInstanceID x = '''' then pa_instanceID x else pa_logicalInstanceID x)"

definition provision_op_row :: "provision_args \<Rightarrow> int \<Rightarrow> Operation" where
  "provision_op_row x = new_operation (pa_operationID x) (Some (pa_instanceID x)) (pa_nodeID x)
     (pa_taskID x) ''provision_app'' ''pending_dispatch'' (pa_adminUser x) None"

definition provisioned :: "provision_args \<Rightarrow> int \<Rightarrow> store \<Rightarrow> store" where
  "provisioned x t d = d\<lparr>st_provision_requests := st_provision_requests d @ [provision_record x],
     st_nodes := reserved (pa_nodeID x) (pa_ramDelta x) (pa_diskDelta x) (st_nodes d),
     st_apps := st_apps d @ [provision_app_row x t], st_operations := st_operations d @ [provision_op_row x t]\<rparr>"

definition provision_allowed :: "provision_args \<Rightarrow> store \<Rightarrow> bool" where
  "provision_allowed x d \<longleftrightarrow>
     (\<forall>r \<in> set (st_provision_requests d). \<not> same_request (pa_customerID x) (pa_keyHash x) r)
     \<and> (\<exists>n \<in> set (st_nodes d). reservable (pa_nodeID x) n \<and> fits (pa_ramDelta x) (pa_diskDelta x) n)
     \<and> (\<forall>a \<in> set (st_apps d). ca_ID a \<noteq> pa_instanceID x)
     \<and> (\<exists>y \<in> set (st_definitions d). ad_Name y = pa_appName x)
     \<and> (\<forall>y \<in> set (st_operations d). op_ID y \<noteq> pa_operationID x)"

lemma reserve_Inr:
  assumes "run_state (reserveNodeCapacityTx nid ram disk) c = (Inr u, c')"
  shows "tables c' = (tables c)\<lparr>st_nodes := reserved nid ram disk (st_nodes (tables c))\<rparr>
    \<and> (\<exists>n \<in> set (st_nodes (tables c)). reservable nid n \<and> fits ram disk n) \<and> same_clocks c c'"
  using assms
  by (auto simp: reserveNodeCapacityTx_def reserve_stmt_def reserved_def Let_def affected_def filter_empty_conv
      dest!: call_dests split: prod.splits sum.splits if_splits)

lemma insert_app_Inr:
  assumes "run_state (insert_app row) c = (Inr u, c')"
  shows "tables c' = (tables c)\<lparr>st_apps := st_apps (tables c) @ [row (db_clock c)]\<rparr> \<and> same_clocks c c'
    \<and> (\<forall>a \<in> set (st_apps (tables c)). ca_ID a \<noteq> ca_ID (row (db_clock c)))
    \<and> (\<exists>y \<in> set (st_definitions (tables c)). ad_Name y = ca_AppDefinitionName (row (db_clock c)))"
  using assms by (auto simp: insert_app_def dest!: stmt_Inr split: if_splits)

lemma insert_operation_Inr:
  assumes "run_state (insert_operation row) c = (Inr u, c')"
  shows "tables c' = (tables c)\<lparr>st_operations := st_operations (tables c) @ [row (db_clock c)]\<rparr> \<and> same_clocks c c'
    \<and> (\<forall>a \<in> set (st_operations (tables c)). op_ID a \<noteq> op_ID (row (db_clock c)))"
  using assms by (auto simp: insert_operation_def dest!: stmt_Inr split: if_splits)

lemma claim_Inr:
  assumes "run_state (stmt (\<lambda>_ d. case claim_key x d of (r, d') \<Rightarrow> (Inr r, d'))) c = (Inr (Some h), c')"
  shows "tables c' = (tables c)\<lparr>st_provision_requests := st_provision_requests (tables c) @ [provision_record x]\<rparr>
    \<and> (\<forall>r \<in> set (st_provision_requests (tables c)). \<not> same_request (pa_customerID x) (pa_keyHash x) r)
    \<and> same_clocks c c'"
  using assms by (auto simp: claim_key_def dest!: stmt_Inr split: if_splits)

lemma provision_commit:
  assumes "run_state (provision_body x) c = (Commit u, c')"
  shows "tables c' = provisioned x (db_clock c) (tables c) \<and> provision_allowed x (tables c) \<and> same_clocks c c'"
proof -
  from assms obtain h c1 c2 c3 where
    1: "run_state (stmt (\<lambda>_ d. case claim_key x d of (r, d') \<Rightarrow> (Inr r, d'))) c = (Inr (Some h), c1)"
    and 2: "run_state (reserveNodeCapacityTx (pa_nodeID x) (pa_ramDelta x) (pa_diskDelta x)) c1 = (Inr (), c2)"
    and 3: "run_state (insert_app (provision_app_row x)) c2 = (Inr (), c3)"
    and 4: "run_state (insert_operation (provision_op_row x)) c3 = (Inr (), c')"
    unfolding provision_body_def provision_app_row_def provision_op_row_def
    by (auto split: prod.splits sum.splits option.splits if_splits)
  note e = claim_Inr [OF 1] reserve_Inr [OF 2] insert_app_Inr [OF 3] insert_operation_Inr [OF 4]
  then have clk: "db_clock c3 = db_clock c" "db_clock c2 = db_clock c" "same_clocks c c'"
    by (auto simp: same_clocks_def)
  have ids: "ca_ID (provision_app_row x t) = pa_instanceID x"
    "ca_AppDefinitionName (provision_app_row x t) = pa_appName x"
    "op_ID (provision_op_row x t) = pa_operationID x" for t
    by (simp_all add: provision_app_row_def new_app_def provision_op_row_def new_operation_def)
  from e clk ids show ?thesis
    by (auto simp: provisioned_def provision_allowed_def)
qed

text \<open>What a call of \<^verbatim>\<open>ReserveIdempotentProvision\<close> leaves, for each kind of answer.\<close>

lemma ReserveIdempotentProvision_cases:
  assumes "run_state (ReserveIdempotentProvision x) c = ((new, rec, e), c')"
  shows "new \<and> rec = Some (provision_record x) \<and> e = None
       \<and> tables c' = provisioned x (db_clock c) (tables c) \<and> provision_allowed x (tables c)
     \<or> \<not> new \<and> tables c' = tables c"
proof -
  obtain r c1 where tr: "run_state (transaction ''begin idempotent provision transaction: ''
      (\<lambda>_. ''commit idempotent provision transaction: '') (provision_body x)) c = (r, c1)" by fastforce
  show ?thesis
  proof (cases r)
    case (Inr u)
    then have "new" "rec = Some (provision_record x)" "e = None" "c' = c1"
      using assms tr by (auto simp: ReserveIdempotentProvision_def)
    moreover obtain d d' where "tables d = tables c" "same_clocks c d"
      "run_state (provision_body x) d = (Commit u, d')" "tables c1 = tables d'"
      using transaction_Inr [OF tr [unfolded Inr]] by blast
    ultimately show ?thesis
      using provision_commit [of x d u d'] by (auto simp: same_clocks_def)
  next
    case (Inl e1)
    with tr have "tables c1 = tables c" by (auto dest: transaction_Inl)
    moreover have "\<not> new \<and> tables c' = tables c1"
      using assms tr Inl
      by (auto simp: ReserveIdempotentProvision_def GetProvisionRequest_def wrapped_def
          dest!: call_dests split: prod.splits sum.splits option.splits if_splits)
    ultimately show ?thesis by simp
  qed
qed

end
