(* ===== verification/Store_Reach.thy ===== *)
theory Store_Reach
  imports Store_Inv
begin

text \<open>
  The transition system of the relational store and its invariant.  Every operation is one step:
  it is a single statement, or a transaction that locks the rows it decides on, or (in
  \<^verbatim>\<open>CompleteProvisionRequest\<close>) a write followed by a read.
\<close>

section \<open>Transitions\<close>

definition effect :: "(store conn, 'a) state \<Rightarrow> store conn \<Rightarrow> store conn" where
  "effect m c = snd (run_state m c)"

inductive store_call :: "(store conn \<Rightarrow> store conn) \<Rightarrow> bool" where
  "store_call (effect (RegisterNode nid h ip w r pub os pv))"
| "store_call (effect (UpdateNodeStatus nid status))"
| "store_call (effect (MarkNodesOffline timeout))"
| "store_call (effect (SetNodeManualDisabled nid disabled))"
| "store_call (effect (UpdateNodeHeartbeat nid req))"
| "store_call (effect (UpdatePortalHeartbeat nid ip))"
| "store_call (effect (UpdateNodeStorageState nid st msg))"
| "store_call (effect (UpdateNodeHealth nid hs hr av ur))"
| "store_call (effect (UpdateNodeCommitLimits nid rl dl))"
| "store_call (effect (AddNodeCommitment nid ram disk))"
| "store_call (effect (ReleaseNodeCommitment nid ram disk))"
| "store_call (effect (ReserveNodeCapacity nid ram disk))"
| "store_call (effect (UpsertNodeToken nid ident hash typ status enc ex cl))"
| "store_call (effect (UpdateNodeTokenStatus nid status))"
| "store_call (effect DeleteExpiredPendingNodes)"
| "store_call (effect ReapExpiredNodeTokens)"
| "store_call (effect (RemoveNodeWithHook nid force hook))"
| "store_call (effect (RemoveNode nid force))"
| "store_call (effect (CreateCustomerApp aid cust app tier nid snap))"
| "store_call (effect (ReserveNodeCapacityAndCreateApp aid cust app tier nid snap lid ram disk))"
| "store_call (effect (UpdateCustomerAppNode aid nid))"
| "store_call (effect (UpdateCustomerAppStatus aid cs ts))"
| "store_call (effect (UpdateCustomerAppInspectData aid x))"
| "store_call (effect (SetSetupCompleted aid))"
| "store_call (effect (ClearCustomerAppRestartRequired aid))"
| "store_call (effect (UpdateCustomerAppTier aid tn sn))"
| "store_call (effect (FlagOverdueInstances threshold))"
| "store_call (effect (UpdateInstanceHealth aid hs msg))"
| "store_call (effect (UpdateInstanceHealthAndTechStatus aid hs ts msg))"
| "store_call (effect (UpdateInstanceHealthForBoot aid hs ts msg boot pre))"
| "store_call (effect (UpdateInstanceStorage aid ss sm lb ub up exc))"
| "store_call (effect (SetGracePeriod aid e))"
| "store_call (effect (ClearGracePeriod aid))"
| "store_call (effect (CreateOperation oid aid nid action status adm))"
| "store_call (effect (CreateOperationWithMetadata oid aid nid action status adm meta))"
| "store_call (effect (CreateMigrationOperation oid aid nid adm meta))"
| "store_call (effect (CreateRestoreOperationAndSetStatus oid aid nid adm))"
| "store_call (effect (UpdateOperationMetadata oid meta))"
| "store_call (effect (UpdateOperationTaskID oid tid))"
| "store_call (effect (UpdateOperation oid status msg))"
| "store_call (effect (MarkOperationQueuedIfPendingDispatch oid))"
| "store_call (effect (ReserveIdempotentProvision y))"
| "store_call (effect (CompleteProvisionRequest cust key rs json))"
| "store_call (effect (SaveAppDefinition numeric name dn desc yaml tiers ut))"
| "store_call (effect (UpdateAppDefinitionStatus name status))"
| "store_call (effect (UpdateAppAvailability name av reason))"
| "store_call (effect (SaveInstanceSecret aid svc env enc expo))"
| "store_call (effect (UpdateInstanceSecretCiphertexts us))"
| "store_call (effect (CreatePublicRoute route))"
| "store_call (effect (UpdatePublicRoute oroute))"
| "store_call (effect (DeletePublicRoute h))"
| "store_call (effect (DeletePublicRouteByKind k))"
| "store_call (effect (DeletePublicRouteByKindAndNotHostname k h))"
| "store_call (effect (UpdatePublicRouteStatus h st er lh ch))"
| "store_call (effect (CreateBackupRecord rec))"
| "store_call (effect (UpdateBackupRecord parse rec))"
| "store_call (effect (UpdateBackupVerified bid))"
| "store_call (effect (UpdateBackupVerifiedFailed bid msg))"
| "store_call (effect (SaveBackupStorageConfig cfg))"
| "store_call (effect (CheckRateLimit ident n window))"
| "store_call (effect (ResetRateLimit ident))"
| "store_call (effect (CreateAdminUser name hash mcp))"
| "store_call (effect (UpdateAdminPassword name hash))"
| "store_call (effect (UpdateOperatorProfile name email ver mfa))"
| "store_call (effect (CreateOperatorToken tok))"
| "store_call (effect (RevokeOperatorToken tid name))"
| "store_call (effect (TouchOperatorToken tid))"
| "store_call (effect (CreateAdminSession hash name exat la))"
| "store_call (effect DeleteExpiredAdminSessions)"
| "store_call (effect (DeleteAdminSession hash))"
| "store_call (effect (DeleteOtherAdminSessions name hash))"
| "store_call (effect (UpdateAdminSessionActivity hash la))"
| "store_call (effect (CreateOutboxEntry oid json opid aid nid action))"
| "store_call (effect (UpdateOutboxEntryRetry oid msg rc))"
| "store_call (effect (DeleteOutboxEntry oid))"

text \<open>A step is a call, the passing of time, or a change of the faults that are to come.\<close>

inductive store_step :: "store conn \<Rightarrow> store conn \<Rightarrow> bool" where
  step_call: "store_call f \<Longrightarrow> store_step c (f c)"
| step_time: "db_clock c \<le> t \<Longrightarrow> app_clock c \<le> u \<Longrightarrow> store_step c (c\<lparr>db_clock := t, app_clock := u\<rparr>)"
| step_faults: "store_step c (c\<lparr>faults := fs\<rparr>)"

inductive store_reachable :: "store conn \<Rightarrow> bool" where
  start: "tables c = empty_store \<Longrightarrow> store_reachable c"
| step: "store_reachable c \<Longrightarrow> store_step c c' \<Longrightarrow> store_reachable c'"

section \<open>Invariant\<close>

lemma ok_provisioned:
  assumes ok: "store_ok d" and al: "provision_allowed x d"
  shows "store_ok (provisioned x t d)"
proof -
  define nodes where "nodes = reserved (pa_nodeID x) (pa_ramDelta x) (pa_diskDelta x) (st_nodes d)"
  have ids: "map n_ID nodes = map n_ID (st_nodes d)"
    by (simp add: nodes_def reserved_def map_update_where)
  with ok have ok1: "store_ok (d\<lparr>st_nodes := nodes\<rparr>)" by (simp add: store_ok_defs)
  have "\<exists>n \<in> set nodes. n_ID n = pa_nodeID x"
    using al ids by (auto simp: provision_allowed_def reservable_def) (metis image_eqI image_iff list.set_map)
  then have ok2: "store_ok (d\<lparr>st_nodes := nodes, st_apps := st_apps d @ [provision_app_row x t]\<rparr>)"
    using ok_insert_app [OF ok1, of "provision_app_row x t"] al
    by (auto simp: provision_allowed_def provision_app_row_def new_app_def)
  have ok3: "store_ok (d\<lparr>st_nodes := nodes, st_apps := st_apps d @ [provision_app_row x t],
      st_operations := st_operations d @ [provision_op_row x t]\<rparr>)"
    using ok_insert_operation [OF ok2, of "provision_op_row x t"] al
    by (auto simp: provision_allowed_def provision_op_row_def new_operation_def provision_app_row_def new_app_def)
  have "request_key (provision_record x) \<notin> request_key ` set (st_provision_requests d)"
    using al by (auto simp: provision_allowed_def same_request_def request_key_def provision_record_def)
  moreover have "ca_ID (provision_app_row x t) = pa_instanceID x" "ca_CustomerID (provision_app_row x t) = pa_customerID x"
    "op_ID (provision_op_row x t) = pa_operationID x"
    by (simp_all add: provision_app_row_def new_app_def provision_op_row_def new_operation_def)
  ultimately show ?thesis
    using ok3 by (simp add: store_ok_defs provisioned_def nodes_def [symmetric] provision_record_def)
qed

lemma keeps_ReserveIdempotentProvision:
  assumes "store_ok (tables c)"
  shows "store_ok (tables (effect (ReserveIdempotentProvision x) c))"
proof -
  obtain new rec e c' where run: "run_state (ReserveIdempotentProvision x) c = ((new, rec, e), c')"
    by (metis surj_pair)
  from ReserveIdempotentProvision_cases [OF run] assms show ?thesis
    by (auto simp: effect_def run intro: ok_provisioned)
qed

lemma keeps_okD: "keeps_ok m \<Longrightarrow> store_ok (tables c) \<Longrightarrow> store_ok (tables (effect m c))"
  unfolding effect_def
  by (metis (no_types, lifting) conn_rel_def prod.collapse state_io_relD)

lemmas keeps_all = keeps_RegisterNode keeps_node_updates keeps_MarkNodesOffline keeps_commitments
  keeps_ReserveNodeCapacity keeps_UpsertNodeToken keeps_expired keeps_RemoveNode keeps_create_apps
  keeps_UpdateCustomerAppNode keeps_app_updates keeps_app_statements keeps_operations keeps_restore
  keeps_operation_updates keeps_CompleteProvisionRequest keeps_SaveAppDefinition keeps_app_definitions
  keeps_SaveInstanceSecret keeps_UpdateInstanceSecretCiphertexts keeps_CreatePublicRoute
  keeps_UpdatePublicRoute keeps_route_changes keeps_backups keeps_SaveBackupStorageConfig
  keeps_rate_limits keeps_users keeps_operator_tokens keeps_CreateAdminSession keeps_sessions
  keeps_UpdateAdminSessionActivity keeps_outbox

lemma store_call_ok: "store_call f \<Longrightarrow> store_ok (tables c) \<Longrightarrow> store_ok (tables (f c))"
  by (induction rule: store_call.induct)
    (rule keeps_okD, rule keeps_all, assumption | erule keeps_ReserveIdempotentProvision)+

lemma empty_store_ok: "store_ok empty_store"
  by (simp add: store_ok_defs empty_store_def refers_def keyed_def)

lemma store_step_ok: "store_step c c' \<Longrightarrow> store_ok (tables c) \<Longrightarrow> store_ok (tables c')"
  by (induction rule: store_step.induct) (auto intro: store_call_ok)



definition store_demo :: "store conn" where
  "store_demo = \<lparr>tables = empty_store, db_clock = 0, app_clock = 0, faults = []\<rparr>"


end
