(* ===== verification/Store_Provision.thy ===== *)
theory Store_Provision
  imports Store_Reach
begin

text \<open>
  What the reservation of capacity and the idempotent provisioning promise: \<open>requests\<close> abstracts the
  table \<^verbatim>\<open>provision_requests\<close> to a map from (customer, key) to the record that claimed it, and
  \<^verbatim>\<open>ReserveIdempotentProvision\<close> refines an operation on that map; however often a request is
  retried, it leaves at most one reservation, one instance and one operation; and no sequence of
  reservations takes a node beyond its limits.
\<close>

section \<open>Claimed keys\<close>

definition requests :: "store \<Rightarrow> (string \<times> string) \<rightharpoonup> ProvisionRequestRecord" where
  "requests d = map_of (map (\<lambda>r. (request_key r, r)) (st_provision_requests d))"

definition args_key :: "provision_args \<Rightarrow> string \<times> string" where
  "args_key x = (pa_customerID x, pa_keyHash x)"

text \<open>
  The specification: a map \<open>m\<close> of claimed keys, the arguments, the answer and the map afterwards.
  The first case is a new claim, the second a retry, the third the use of a key for another
  request; the last is a failure, which reports an error, hands out no record and changes nothing.
\<close>

inductive provision_spec ::
  "((string \<times> string) \<rightharpoonup> ProvisionRequestRecord) \<Rightarrow> provision_args \<Rightarrow>
   bool \<times> ProvisionRequestRecord option \<times> err option \<Rightarrow> ((string \<times> string) \<rightharpoonup> ProvisionRequestRecord) \<Rightarrow> bool" for m x where
  claimed: "m (args_key x) = None \<Longrightarrow>
    provision_spec m x (True, Some (provision_record x), None) (m(args_key x \<mapsto> provision_record x))"
| retried: "m (args_key x) = Some r \<Longrightarrow> pr_RequestHash r = pa_requestHash x \<Longrightarrow>
    provision_spec m x (False, Some r, None) m"
| conflict: "m (args_key x) = Some r \<Longrightarrow> pr_RequestHash r \<noteq> pa_requestHash x \<Longrightarrow>
    provision_spec m x (False, Some r, Some ErrProvisionIdempotencyConflict) m"
| failed: "provision_spec m x (False, None, Some e) m"

lemma map_add_fresh: "m k = None \<Longrightarrow> [k \<mapsto> v] ++ m = m(k \<mapsto> v)"
  by (auto simp: map_add_def fun_eq_iff split: option.splits)

lemma requests_None:
  "requests d (args_key x) = None
     \<longleftrightarrow> (\<forall>r \<in> set (st_provision_requests d). \<not> same_request (pa_customerID x) (pa_keyHash x) r)"
  by (auto simp: requests_def map_of_eq_None_iff args_key_def request_key_def same_request_def image_iff)

lemma requests_find:
  "requests d (args_key x) = find_where (same_request (pa_customerID x) (pa_keyHash x)) (st_provision_requests d)"
proof -
  have "map_of (map (\<lambda>r. (request_key r, r)) rs) (args_key x)
      = find (same_request (pa_customerID x) (pa_keyHash x)) rs" for rs
    by (induction rs) (auto simp: args_key_def request_key_def same_request_def)
  then show ?thesis by (simp add: requests_def find_where_def)
qed

lemma requests_provisioned:
  assumes "provision_allowed x d"
  shows "requests (provisioned x t d) = (requests d)(args_key x \<mapsto> provision_record x)"
proof -
  from assms have "requests d (args_key x) = None" by (simp add: requests_None provision_allowed_def)
  moreover have "request_key (provision_record x) = args_key x"
    by (simp add: request_key_def provision_record_def args_key_def)
  ultimately show ?thesis
    by (simp add: requests_def provisioned_def map_add_fresh)
qed

text \<open>The transaction aborts with \<open>key_taken\<close> only when the key is claimed.\<close>

lemma reserve_not_key_taken: "run_state (reserveNodeCapacityTx nid ram disk) c = (Inl e, c') \<Longrightarrow> e \<noteq> key_taken"
  by (auto simp: reserveNodeCapacityTx_def key_taken_def ErrNodeCapacityPolicyBlocked_def
      split: prod.splits sum.splits if_splits)

lemma provision_taken:
  assumes "run_state (provision_body x) c = (Abort key_taken, c')"
  shows "requests (tables c) (args_key x) \<noteq> None"
proof -
  obtain r c1 where k: "run_state (stmt (\<lambda>_ d. case claim_key x d of (r, d') \<Rightarrow> (Inr r, d'))) c = (r, c1)"
    by fastforce
  have "r = Inr None"
  proof (rule ccontr)
    assume "r \<noteq> Inr None"
    then consider e where "r = Inl e" | h where "r = Inr (Some h)"
      by (metis obj_sumE option.exhaust)
    then show False
    proof cases
      case 1
      with assms k show False by (auto simp: provision_body_def key_taken_def)
    next
      case 2
      with assms k show False
        by (auto simp: provision_body_def dest: reserve_not_key_taken split: prod.splits sum.splits if_splits)
          (auto simp: key_taken_def)
    qed
  qed
  with stmt_Inr [OF k [unfolded this]] show ?thesis
    by (auto simp: claim_key_def requests_None split: if_splits)
qed

lemma transaction_Abort:
  assumes "run_state (transaction bm cm body) c = (Inl e, c')"
  obtains e0 m where "e = Wrap m e0" | d d' where "tables d = tables c" "run_state body d = (Abort e, d')"
  using assms
  by (auto simp: transaction_def dest!: exec_Inl exec_Inr split: prod.splits sum.splits outcome.splits)

text \<open>
  C19.  Idempotent provisioning refines a map.  Through the abstraction \<open>requests\<close> every call of
  \<^verbatim>\<open>ReserveIdempotentProvision\<close>, whatever fails on the way, is a step of the specification: a new
  key is claimed and the new record returned; a key claimed by the same request returns the
  original record; a key claimed by a different request is reported as a conflict; and every other
  outcome is an error that leaves the map as it was.
\<close>

theorem provision_refines_map:
  assumes run: "run_state (ReserveIdempotentProvision x) c = (res, c')"
  shows "provision_spec (requests (tables c)) x res (requests (tables c'))"
proof -
  obtain new rec e where res: "res = (new, rec, e)" by (metis surj_pair)
  from ReserveIdempotentProvision_cases [OF run [unfolded res]] show ?thesis
  proof (elim disjE conjE)
    assume "new" "rec = Some (provision_record x)" "e = None"
      and t: "tables c' = provisioned x (db_clock c) (tables c)" and al: "provision_allowed x (tables c)"
    moreover from al have "requests (tables c) (args_key x) = None"
      by (simp add: requests_None provision_allowed_def)
    ultimately show ?thesis
      by (simp add: res requests_provisioned provision_spec.claimed)
  next
    assume old: "\<not> new" and same: "tables c' = tables c"
    obtain r c1 where tr: "run_state (transaction ''begin idempotent provision transaction: ''
        (\<lambda>_. ''commit idempotent provision transaction: '') (provision_body x)) c = (r, c1)" by fastforce
    show ?thesis
    proof (cases "r = Inl key_taken")
      case False
      with run tr old res same show ?thesis
        by (auto simp: ReserveIdempotentProvision_def intro: provision_spec.failed split: sum.splits)
    next
      case True
      with tr have "requests (tables c) (args_key x) \<noteq> None"
        by (auto simp: key_taken_def elim!: transaction_Abort dest: provision_taken [unfolded key_taken_def])
      then obtain q where q: "requests (tables c) (args_key x) = Some q" by blast
      have "tables c1 = tables c" using tr True by (auto dest: transaction_Inl)
      moreover note provision_spec.retried [where m = "requests (tables c)" and x = x, OF q]
        provision_spec.conflict [where m = "requests (tables c)" and x = x, OF q] provision_spec.failed
      ultimately show ?thesis
        using run tr True res same q [unfolded requests_find]
        by (auto simp: ReserveIdempotentProvision_def GetProvisionRequest_def wrapped_def
            dest!: call_dests split: prod.splits sum.splits option.splits if_splits)
    qed
  qed
qed

text \<open>
  An example: one healthy worker, one definition, and a request for an instance on it; the same
  request again is a retry.
\<close>

definition demo_node :: Node where
  "demo_node = (new_node ''n1'' ''host'' ''10.0.0.1'' '''' ''worker'' '''' ''linux'' ''5'' 0)\<lparr>
     n_Status := ''active'', n_HealthStatus := ''healthy'', n_RAMCommitLimit := 1000, n_DiskCommitLimit := 5000\<rparr>"

definition demo_definition :: AppDefinition where
  "demo_definition = \<lparr>ad_Name = ''wiki'', ad_DisplayName = ''Wiki'', ad_Description = '''', ad_RawYAML = ''v1'',
     ad_Status = ''active'', ad_Availability = ''available'', ad_AvailabilityReason = '''', ad_Revision = 0,
     ad_Checksum = '''', ad_CreatedAt = 0\<rparr>"

definition demo_conn :: "store conn" where
  "demo_conn = \<lparr>tables = empty_store\<lparr>st_nodes := [demo_node], st_definitions := [demo_definition]\<rparr>,
     db_clock = 0, app_clock = 0, faults = []\<rparr>"

definition demo_args :: provision_args where
  "demo_args = \<lparr>pa_customerID = ''c1'', pa_keyHash = ''k'', pa_requestHash = ''h'', pa_instanceID = ''i1'',
     pa_operationID = ''o1'', pa_taskID = ''t1'', pa_appName = ''wiki'', pa_tierName = ''small'',
     pa_nodeID = ''n1'', pa_tierSnapshotJSON = '''', pa_logicalInstanceID = '''', pa_adminUser = ''admin'',
     pa_ramDelta = 400, pa_diskDelta = 1000\<rparr>"

lemma demo_provision:
  "run_state (ReserveIdempotentProvision demo_args) demo_conn
     = ((True, Some (provision_record demo_args), None),
        demo_conn\<lparr>tables := provisioned demo_args 0 (tables demo_conn)\<rparr>)"
  by code_simp

theorem provision_refines_map_witness:
  "provision_spec (requests (tables demo_conn)) demo_args (True, Some (provision_record demo_args), None)
     (requests (provisioned demo_args 0 (tables demo_conn)))"
  using provision_refines_map [OF demo_provision] by simp

section \<open>Retries\<close>

text \<open>
  \<open>retries k c c'\<close>: from \<open>c\<close> to \<open>c'\<close> by calls with the idempotency key \<open>k\<close>, each with arguments
  of its own, while time passes and faults come and go.
\<close>

inductive retries :: "string \<times> string \<Rightarrow> store conn \<Rightarrow> store conn \<Rightarrow> bool" for k c where
  none: "retries k c c"
| another: "retries k c d \<Longrightarrow> args_key x = k \<Longrightarrow> retries k c (effect (ReserveIdempotentProvision x) d)"
| environment: "retries k c d \<Longrightarrow> tables d' = tables d \<Longrightarrow> retries k c d'"

lemma provisioned_claims: "args_key x = args_key y \<Longrightarrow> \<not> provision_allowed x (provisioned y t d)"
  by (auto simp: provision_allowed_def provisioned_def args_key_def same_request_def provision_record_def)

text \<open>
  C20.  A retried request takes effect at most once.  However often \<^verbatim>\<open>ReserveIdempotentProvision\<close> is
  called with one key, with whatever other arguments, failures and delays, the database afterwards
  is as before, or exactly one of the calls has made its reservation, instance, operation and record,
  and it was allowed to when the retries began.
\<close>

theorem provision_at_most_once:
  assumes "retries k c c'"
  shows "tables c' = tables c \<or>
    (\<exists>x t. args_key x = k \<and> provision_allowed x (tables c) \<and> tables c' = provisioned x t (tables c))"
  using assms
proof (induction rule: retries.induct)
  case none
  then show ?case by simp
next
  case (another d x)
  obtain new rec e d' where run: "run_state (ReserveIdempotentProvision x) d = ((new, rec, e), d')"
    by (metis surj_pair)
  from ReserveIdempotentProvision_cases [OF run] another show ?case
    by (auto simp: effect_def run provisioned_claims) blast+
next
  case (environment d d')
  then show ?case by simp
qed

theorem provision_at_most_once_witness:
  "let c' = effect (ReserveIdempotentProvision demo_args) (effect (ReserveIdempotentProvision demo_args) demo_conn)
   in tables c' = tables demo_conn \<or>
     (\<exists>x t. args_key x = args_key demo_args \<and> provision_allowed x (tables demo_conn)
        \<and> tables c' = provisioned x t (tables demo_conn))"
proof -
  have "retries (args_key demo_args) demo_conn (effect (ReserveIdempotentProvision demo_args)
      (effect (ReserveIdempotentProvision demo_args) demo_conn))"
    by (intro retries.intros refl)
  from provision_at_most_once [OF this] show ?thesis unfolding Let_def .
qed

section \<open>Completion\<close>

lemma requests_unique:
  assumes "store_ok d" and "r \<in> set (st_provision_requests d)" and "same_request cust key r"
    and "q \<in> set (st_provision_requests d)" and "same_request cust key q"
  shows "q = r"
proof -
  from assms(1) have "inj_on request_key (set (st_provision_requests d))"
    by (simp add: store_ok_def other_keys_ok_def distinct_map)
  then show ?thesis
    by (rule inj_onD) (use assms in \<open>simp_all add: request_key_def same_request_def\<close>)
qed

lemma affected_unique:
  assumes "distinct rows" and "r \<in> set rows" and "p r" and "\<And>q. q \<in> set rows \<Longrightarrow> p q \<Longrightarrow> q = r"
  shows "affected p rows = 1"
proof -
  have "set (filter p rows) = {r}" unfolding set_filter using assms(2-4) by blast
  moreover have "distinct (filter p rows)" using assms(1) by simp
  ultimately show ?thesis
    unfolding affected_def by (metis One_nat_def card.empty card.insert distinct_card empty_iff finite.emptyI)
qed

lemma requests_mem:
  assumes "store_ok d"
  shows "requests d (cust, key) = Some r \<longleftrightarrow> r \<in> set (st_provision_requests d) \<and> same_request cust key r"
proof -
  have "distinct (map fst (map (\<lambda>r. (request_key r, r)) (st_provision_requests d)))"
    using assms by (simp add: store_ok_def other_keys_ok_def comp_def)
  then show ?thesis
    unfolding requests_def by (auto simp: map_of_eq_Some_iff request_key_def same_request_def)
qed

text \<open>The response that a completion stores, and what it does to the map of requests.\<close>

definition answered :: "int \<Rightarrow> string \<Rightarrow> ProvisionRequestRecord \<Rightarrow> ProvisionRequestRecord" where
  "answered status json r = r\<lparr>pr_ResponseStatus := status, pr_ResponseJSON := Some json\<rparr>"

lemma requests_complete:
  assumes ok: "store_ok d" and r: "r \<in> set (st_provision_requests d)"
    "same_request cust key r \<and> pr_ResponseStatus r = 0"
  shows "requests (d\<lparr>st_provision_requests := update_where
      (\<lambda>r. same_request cust key r \<and> pr_ResponseStatus r = 0) (answered status json) (st_provision_requests d)\<rparr>)
    = (requests d)((cust, key) \<mapsto> answered status json r)"
proof -
  let ?g = "\<lambda>q. if same_request cust key q \<and> pr_ResponseStatus q = 0 then answered status json q else q"
  have keys: "request_key (?g q) = request_key q" for q by (simp add: request_key_def answered_def)
  have "map (\<lambda>r. (request_key r, r)) (update_where (\<lambda>r. same_request cust key r \<and> pr_ResponseStatus r = 0)
      (answered status json) rs) = map (\<lambda>(k, q). (k, ?g q)) (map (\<lambda>r. (request_key r, r)) rs)" for rs
    by (induction rs) (auto simp: request_key_def answered_def)
  moreover have "st_provision_requests (d\<lparr>st_provision_requests := xs\<rparr>) = xs" for xs by simp
  ultimately have "requests (d\<lparr>st_provision_requests := update_where
      (\<lambda>r. same_request cust key r \<and> pr_ResponseStatus r = 0) (answered status json) (st_provision_requests d)\<rparr>)
    = map_option ?g \<circ> requests d"
    by (simp only: requests_def map_of_map)
  moreover have "map_option ?g (requests d (a, b)) = ((requests d)((cust, key) \<mapsto> answered status json r)) (a, b)"
    for a b
  proof (cases "(a, b) = (cust, key)")
    case True
    then show ?thesis using requests_mem [OF ok, of cust key r] r by simp
  next
    case False
    then show ?thesis
      using requests_mem [OF ok, of a b, THEN iffD1]
      by (cases "requests d (a, b)") (auto simp: same_request_def)
  qed
  ultimately show ?thesis by (auto simp: fun_eq_iff)
qed

lemma open_request_unique:
  assumes ok: "store_ok d"
  shows "affected (\<lambda>r. same_request cust key r \<and> pr_ResponseStatus r = 0) (st_provision_requests d) \<in> {0, 1}"
    (is "affected ?p _ \<in> _")
proof (cases "affected ?p (st_provision_requests d) = 0")
  case False
  then obtain r where "r \<in> set (st_provision_requests d)" "?p r" by (auto simp: affected_0)
  moreover have "distinct (st_provision_requests d)"
    using ok by (auto simp: store_ok_def other_keys_ok_def distinct_map)
  ultimately have "affected ?p (st_provision_requests d) = 1"
    using requests_unique [OF ok] by (intro affected_unique) blast+
  then show ?thesis by simp
qed simp

lemma stored_response:
  assumes "store_ok d" and "\<exists>r \<in> set (st_provision_requests d). same_request cust key r
    \<and> pr_ResponseStatus r = status \<and> pr_ResponseJSON r = Some json"
  shows "\<exists>r. requests d (cust, key) = Some r \<and> answered status json r = r"
  using assms by (auto simp: requests_mem answered_def)

text \<open>
  A response is stored once.  When completing a claimed request succeeds, a later lookup of its
  key yields the record with exactly this response and everything else unchanged: either the
  response was still open and is now the given one, or the same response was already stored, and
  then nothing changed.  A completion that answers with an error has changed nothing.
\<close>

theorem complete_provision:
  assumes ok: "store_ok (tables c)" and st: "status \<noteq> 0"
    and run: "run_state (CompleteProvisionRequest cust key status json) c = (res, c')"
  shows "(case res of
      Inl e \<Rightarrow> tables c' = tables c
    | Inr _ \<Rightarrow> \<exists>r. requests (tables c) (cust, key) = Some r
        \<and> requests (tables c') = (requests (tables c))((cust, key) \<mapsto> answered status json r)
        \<and> (pr_ResponseStatus r = 0 \<or> answered status json r = r \<and> tables c' = tables c))"
proof -
  let ?p = "\<lambda>r. same_request cust key r \<and> pr_ResponseStatus r = 0"
  obtain w c1 where w: "run_state (stmt (\<lambda>_ d. (Inr (affected ?p (st_provision_requests d)), d\<lparr>st_provision_requests :=
      update_where ?p (answered status json) (st_provision_requests d)\<rparr>))) c = (w, c1)" by fastforce
  note run' = run [unfolded CompleteProvisionRequest_def Let_def, folded answered_def]
  show ?thesis
  proof (cases w)
    case (Inl e)
    with run' w show ?thesis by (auto dest!: stmt_Inl)
  next
    case (Inr n)
    note e = conjunct1 [OF stmt_Inr [OF w [unfolded Inr]]]
    from arg_cong [OF e, of fst] have n: "n = affected ?p (st_provision_requests (tables c))"
      by (simp only: fst_conv sum.inject)
    from arg_cong [OF e, of snd] have t: "(tables c)\<lparr>st_provision_requests :=
        update_where ?p (answered status json) (st_provision_requests (tables c))\<rparr> = tables c1"
      by (simp only: snd_conv)
    show ?thesis
    proof (cases "n = 1")
      case True
      with n have "affected ?p (st_provision_requests (tables c)) \<noteq> 0" by simp
      then obtain r where r: "r \<in> set (st_provision_requests (tables c))" "?p r"
        unfolding affected_0 by blast
      have "requests (tables c) (cust, key) = Some r"
        using r by (simp add: requests_mem [OF ok])
      moreover have "requests (tables c') = (requests (tables c))((cust, key) \<mapsto> answered status json r)"
        using run' w Inr True requests_complete [OF ok r, of status json, unfolded t] by simp
      ultimately show ?thesis using run' w Inr True r by auto
    next
      case False
      from False n have "affected ?p (st_provision_requests (tables c)) = 0"
        using open_request_unique [OF ok] by blast
      then have same: "tables c1 = tables c" by (simp add: t [symmetric] affected_0_update)
      with run' w Inr False have "tables c' = tables c"
        by (auto dest!: query_Inl query_Inr split: prod.splits sum.splits)
      moreover have "\<exists>r \<in> set (st_provision_requests (tables c)). same_request cust key r
          \<and> pr_ResponseStatus r = status \<and> pr_ResponseJSON r = Some json" if "res = Inr u" for u
        using run' w Inr False that same
        by (auto dest!: query_Inl query_Inr split: prod.splits sum.splits if_splits)
      moreover have "\<exists>r. requests (tables c) (cust, key) = Some r \<and> answered status json r = r" if "res = Inr u" for u
        using stored_response [OF ok calculation(2) [OF that]] .
      ultimately show ?thesis
        by (cases res) (use fun_upd_idem [of "requests (tables c)" "(cust, key)"] in force)+
    qed
  qed
qed

lemma demo_ok: "store_ok (tables demo_conn)"
  by (simp add: demo_conn_def empty_store_def store_ok_defs refers_def keyed_def)

theorem complete_provision_witness:
  "\<exists>r. requests (provisioned demo_args 0 (tables demo_conn)) (''c1'', ''k'') = Some r \<and> pr_ResponseStatus r = 0"
proof -
  define c where "c = demo_conn\<lparr>tables := provisioned demo_args 0 (tables demo_conn)\<rparr>"
  have al: "provision_allowed demo_args (tables demo_conn)" by code_simp
  have ok: "store_ok (tables c)" by (simp add: c_def ok_provisioned demo_ok al)
  have run: "run_state (CompleteProvisionRequest ''c1'' ''k'' 202 ''{}'') c = (Inr (), snd (run_state (CompleteProvisionRequest ''c1'' ''k'' 202 ''{}'') c))"
    unfolding c_def by code_simp
  have "(202 :: int) \<noteq> 0" by simp
  from complete_provision [OF ok this run] show ?thesis
    by (auto simp: c_def answered_def requests_mem [OF ok_provisioned [OF demo_ok al]])
      (auto simp: provisioned_def provision_record_def same_request_def demo_conn_def empty_store_def demo_args_def)
qed

section \<open>Capacity\<close>

text \<open>A node is within its limits when its commitments do not exceed them and no limit is negative.\<close>

definition within_limits :: "Node \<Rightarrow> bool" where
  "within_limits n \<longleftrightarrow> 0 \<le> n_RAMCommitLimit n \<and> 0 \<le> n_DiskCommitLimit n
     \<and> n_CommittedRAM n \<le> n_RAMCommitLimit n \<and> n_CommittedDisk n \<le> n_DiskCommitLimit n"

lemma node_unique:
  assumes "store_ok d" and "m \<in> set (st_nodes d)" and "n \<in> set (st_nodes d)" and "n_ID m = n_ID n"
  shows "m = n"
proof -
  from assms(1) have "inj_on n_ID (set (st_nodes d))"
    by (simp add: store_ok_def node_keys_ok_def distinct_map)
  then show ?thesis using assms(2-4) by (blast dest: inj_onD)
qed

lemma reserve_run:
  assumes "run_state (ReserveNodeCapacity nid ram disk) c = (res, c')"
  shows "res = Inr () \<and> tables c' = (tables c)\<lparr>st_nodes := reserved nid ram disk (st_nodes (tables c))\<rparr>
      \<and> (\<exists>n \<in> set (st_nodes (tables c)). reservable nid n \<and> fits ram disk n)
    \<or> (\<exists>e. res = Inl e) \<and> tables c' = tables c"
proof (cases res)
  case (Inl e)
  with assms show ?thesis
    unfolding ReserveNodeCapacity_def by (auto dest: transaction_Inl)
next
  case (Inr u)
  obtain d d' where d: "tables d = tables c"
    "run_state (do { r \<leftarrow> reserveNodeCapacityTx nid ram disk; case r of Inl e \<Rightarrow> return (Abort e) | Inr _ \<Rightarrow> return (Commit ()) }) d
      = (Commit u, d')" "tables c' = tables d'"
    by (rule transaction_Inr [OF assms [unfolded Inr ReserveNodeCapacity_def]])
  from d(2) have "run_state (reserveNodeCapacityTx nid ram disk) d = (Inr (), d')"
    by (auto split: prod.splits sum.splits)
  from reserve_Inr [OF this] d Inr show ?thesis by auto
qed

lemma reservable_node:
  assumes "store_ok d" and "n \<in> set (st_nodes d)" and "m \<in> set (st_nodes d)"
  shows "reservable (n_ID n) m \<and> fits ram disk m \<longleftrightarrow> m = n \<and> reservable (n_ID n) n \<and> fits ram disk n"
  using node_unique [OF assms(1,3,2)] by (auto simp: reservable_def)

lemma reserve_body:
  assumes ok: "store_ok (tables c)" and fs: "faults c = []" and n: "n \<in> set (st_nodes (tables c))"
    and sums: "int64_ok (n_CommittedRAM n + ram)" "int64_ok (n_CommittedDisk n + disk)"
  shows "run_state (reserveNodeCapacityTx (n_ID n) ram disk) c
    = (if reservable (n_ID n) n \<and> fits ram disk n then Inr () else Inl ErrNodeCapacityPolicyBlocked,
       c\<lparr>tables := (tables c)\<lparr>st_nodes := reserved (n_ID n) ram disk (st_nodes (tables c))\<rparr>\<rparr>)"
proof -
  let ?p = "\<lambda>m. reservable (n_ID n) m \<and> fits ram disk m"
  have "\<not> (\<exists>m \<in> set (st_nodes (tables c)). reservable (n_ID n) m
      \<and> \<not> (int64_ok (n_CommittedRAM m + ram) \<and> int64_ok (n_CommittedDisk m + disk)))"
    using node_unique [OF ok _ n] sums by (auto simp: reservable_def)
  then have "reserve_stmt (n_ID n) ram disk t (tables c) = (Inr (affected ?p (st_nodes (tables c))),
      (tables c)\<lparr>st_nodes := reserved (n_ID n) ram disk (st_nodes (tables c))\<rparr>)" for t
    unfolding reserve_stmt_def Let_def reserved_def by (rule if_not_P)
  moreover have "affected ?p (st_nodes (tables c)) = 0 \<longleftrightarrow> \<not> ?p n"
    unfolding affected_0 using reservable_node [OF ok n] n by blast
  ultimately show ?thesis
    by (simp add: reserveNodeCapacityTx_def run_ok fs)
qed



text \<open>
  \<open>capacity_run c c'\<close>: from \<open>c\<close> to \<open>c'\<close> by the operations that move commitments (a release gives
  back a non-negative amount) and by steps that leave the table of nodes alone.
\<close>

inductive capacity_run :: "store conn \<Rightarrow> store conn \<Rightarrow> bool" for c where
  idle: "capacity_run c c"
| reserve: "capacity_run c d \<Longrightarrow> capacity_run c (effect (ReserveNodeCapacity nid ram disk) d)"
| reserve_create: "capacity_run c d \<Longrightarrow>
    capacity_run c (effect (ReserveNodeCapacityAndCreateApp aid cust app tier nid snap lid ram disk) d)"
| provision: "capacity_run c d \<Longrightarrow> capacity_run c (effect (ReserveIdempotentProvision x) d)"
| release: "capacity_run c d \<Longrightarrow> 0 \<le> ram \<Longrightarrow> 0 \<le> disk \<Longrightarrow>
    capacity_run c (effect (ReleaseNodeCommitment nid ram disk) d)"
| elsewhere: "capacity_run c d \<Longrightarrow> st_nodes (tables d') = st_nodes (tables d) \<Longrightarrow> capacity_run c d'"

abbreviation keeps_limits :: "(store conn, 'a) state \<Rightarrow> bool" where
  "keeps_limits \<equiv> state_io_rel (conn_rel (\<lambda>_ d d'. (\<forall>n \<in> set (st_nodes d). within_limits n)
     \<longrightarrow> (\<forall>n \<in> set (st_nodes d'). within_limits n)))"

interpretation cap: table_contract "\<lambda>_ d d'. (\<forall>n \<in> set (st_nodes d). within_limits n)
     \<longrightarrow> (\<forall>n \<in> set (st_nodes d'). within_limits n)"
  by unfold_locales auto

lemma limits_reserveTx: "keeps_limits (reserveNodeCapacityTx nid ram disk)"
  unfolding reserveNodeCapacityTx_def
  by (intro cap.conn_rules)
    (auto simp: reserve_stmt_def Let_def set_update_where within_limits_def fits_def split: if_splits)

lemma limits_insert_app: "keeps_limits (insert_app row)"
  unfolding insert_app_def by (intro cap.conn_rules) (auto split: if_splits)

lemma limits_reserve:
  "keeps_limits (ReserveNodeCapacity nid ram disk)"
  "keeps_limits (ReserveNodeCapacityAndCreateApp aid cust app tier nid snap lid ram disk)"
  unfolding ReserveNodeCapacity_def ReserveNodeCapacityAndCreateApp_def
  by (intro cap.conn_rules limits_reserveTx limits_insert_app)+

lemma within_limits_reserve:
  "within_limits n \<Longrightarrow> fits ram disk n \<Longrightarrow>
   within_limits (n\<lparr>n_CommittedRAM := n_CommittedRAM n + ram, n_CommittedDisk := n_CommittedDisk n + disk\<rparr>)"
  by (simp add: within_limits_def fits_def)

lemma limits_reserved:
  "\<forall>n \<in> set nodes. within_limits n \<Longrightarrow> \<forall>n \<in> set (reserved nid ram disk nodes). within_limits n"
  by (auto simp: reserved_def set_update_where within_limits_reserve)

lemma within_limits_release:
  "within_limits n \<Longrightarrow> 0 \<le> ram \<Longrightarrow> 0 \<le> disk \<Longrightarrow>
   within_limits (n\<lparr>n_CommittedRAM := max (n_CommittedRAM n - ram) 0, n_CommittedDisk := max (n_CommittedDisk n - disk) 0\<rparr>)"
  by (simp add: within_limits_def)

lemma limits_release: "0 \<le> ram \<Longrightarrow> 0 \<le> disk \<Longrightarrow> keeps_limits (ReleaseNodeCommitment nid ram disk)"
  unfolding ReleaseNodeCommitment_def commit_update_def
  by (intro cap.conn_rules) (auto simp: set_update_where within_limits_release split: if_splits)

lemma keeps_limitsD:
  assumes "keeps_limits m" and "\<forall>n \<in> set (st_nodes (tables c)). within_limits n"
  shows "\<forall>n \<in> set (st_nodes (tables (effect m c))). within_limits n"
proof -
  obtain a c' where run: "run_state m c = (a, c')" by fastforce
  with assms show ?thesis
    using state_io_relD [OF assms(1) run] by (simp add: effect_def conn_rel_def)
qed

text \<open>
  C23.  No sequence of reservations over-commits a node.  When every node is within its limits and
  the limits do not change, every node stays within them, whatever reservations, provisioning
  requests and releases are made, in any order and with any failures.
\<close>

theorem capacity_bounded:
  assumes "capacity_run c c'" and "\<forall>n \<in> set (st_nodes (tables c)). within_limits n"
  shows "\<forall>n \<in> set (st_nodes (tables c')). within_limits n"
  using assms
proof (induction rule: capacity_run.induct)
  case (provision d x)
  obtain new rec e d' where run: "run_state (ReserveIdempotentProvision x) d = ((new, rec, e), d')"
    by (metis surj_pair)
  have before: "\<forall>n \<in> set (st_nodes (tables d)). within_limits n" using provision by blast
  from ReserveIdempotentProvision_cases [OF run]
  have "st_nodes (tables d') = st_nodes (tables d)
      \<or> st_nodes (tables d') = reserved (pa_nodeID x) (pa_ramDelta x) (pa_diskDelta x) (st_nodes (tables d))"
    by (auto simp: provisioned_def)
  with limits_reserved [OF before] before show ?case
    by (auto simp: effect_def run)
qed (auto intro: keeps_limitsD [THEN bspec] limits_reserve limits_release)

theorem capacity_bounded_witness:
  "list_all within_limits (st_nodes (tables (effect (ReserveNodeCapacity ''n1'' 900 900)
     (effect (ReserveNodeCapacity ''n1'' 900 900) demo_conn))))"
proof -
  have "capacity_run demo_conn (effect (ReserveNodeCapacity ''n1'' 900 900) (effect (ReserveNodeCapacity ''n1'' 900 900) demo_conn))"
    by (intro capacity_run.intros)
  moreover have "\<forall>n \<in> set (st_nodes (tables demo_conn)). within_limits n"
    by (simp add: demo_conn_def demo_node_def new_node_def within_limits_def)
  ultimately show ?thesis unfolding list_all_iff by (rule capacity_bounded)
qed

end
