(* ===== verification/Store_Props.thy ===== *)
theory Store_Props
  imports Store_Provision
begin

text \<open>
  Properties of instances and nodes: what the effective availability of an instance means, what a
  reboot does to it, what removing a node leaves behind, and that operations on one instance
  exclude each other.
\<close>

section \<open>Availability\<close>

text \<open>The instance serves: nothing in its life cycle forbids it, its node is alive, and the node's
  current boot has reported it healthy within the last fifteen seconds.\<close>

definition serving :: "int \<Rightarrow> CustomerApp \<Rightarrow> Node \<Rightarrow> bool" where
  "serving t ca n \<longleftrightarrow>
     ca_TechnicalStatus ca \<notin> {''stopped'', ''paused_for_storage'', ''migrating'', ''deprovisioning'', ''deprovisioned''}
     \<and> n_Status n = ''active'' \<and> n_HealthStatus n = ''healthy''
     \<and> (\<exists>h. n_LastHeartbeat n = Some h \<and> t - seconds 120 < h)
     \<and> n_BootID n \<noteq> '''' \<and> ca_LastHealthBootID ca = n_BootID n \<and> ca_HealthStatus ca = ''healthy''
     \<and> (\<exists>h. ca_LastHealthChecked ca = Some h \<and> t - seconds 15 < h)"

lemma node_of_Some:
  assumes "store_ok d" and "a \<in> set (st_apps d)"
  shows "node_of d a = None \<longleftrightarrow> ca_NodeID a = None"
proof -
  have "refers (map ca_NodeID (st_apps d)) (map n_ID (st_nodes d))"
    using assms(1) by (simp add: store_ok_def refs_ok_def)
  then have "ca_NodeID a = None \<or> (\<exists>n \<in> set (st_nodes d). ca_NodeID a = Some (n_ID n))"
    using assms(2) by (auto simp: refers_def)
  then show ?thesis by (auto simp: node_of_def find_where_None)
qed

lemma node_of_SomeD: "node_of d a = Some n \<Longrightarrow> n \<in> set (st_nodes d) \<and> ca_NodeID a = Some (n_ID n)"
  unfolding node_of_def by (drule find_where_SomeD) simp

lemma or_keep_empty [simp]: "or_keep x y = '''' \<longleftrightarrow> x = '''' \<and> y = ''''"
  by (simp add: or_keep_def)

lemma availability_cases:
  assumes "node = None \<longleftrightarrow> ca_NodeID ca = None"
  shows "effective_availability t ca node = ''available'' \<longleftrightarrow> (\<exists>n. node = Some n \<and> serving t ca n)"
    and "availability_reason t ca node = '''' \<longleftrightarrow> (\<exists>n. node = Some n \<and> serving t ca n)"
  using assms
  by (cases node; auto simp: effective_availability_def availability_reason_def serving_def heartbeat_stale_def
      split: option.splits)+

text \<open>
  C24.  Availability means what it says.  In an intact database the row that \<^verbatim>\<open>GetCustomerApp\<close> and the
  listings show for an instance says \<^verbatim>\<open>available\<close> exactly when the instance serves: its life cycle
  allows it, it is assigned to an active and healthy node with a heartbeat of the last two minutes,
  and it was reported healthy by the current boot of that node within fifteen seconds.  It has no
  reason for being unavailable in exactly the same cases.
\<close>

theorem availability_exact:
  assumes "store_ok d" and "a \<in> set (st_apps d)" and "v \<in> set (app_rows t d a)"
  shows "(av_EffectiveAvailability v = ''available'' \<longleftrightarrow>
      (\<exists>n \<in> set (st_nodes d). ca_NodeID a = Some (n_ID n) \<and> serving t a n))
    \<and> (av_AvailabilityReason v = '''' \<longleftrightarrow> av_EffectiveAvailability v = ''available'')"
proof -
  from assms(3) obtain h where v: "v = app_view t d a h"
    by (auto simp: app_rows_def split: list.splits)
  note c = availability_cases [OF node_of_Some [OF assms(1,2)], of t]
  have "(\<exists>n. node_of d a = Some n \<and> serving t a n)
      \<longleftrightarrow> (\<exists>n \<in> set (st_nodes d). ca_NodeID a = Some (n_ID n) \<and> serving t a n)"
  proof
    assume "\<exists>n. node_of d a = Some n \<and> serving t a n"
    then show "\<exists>n \<in> set (st_nodes d). ca_NodeID a = Some (n_ID n) \<and> serving t a n"
      by (blast dest: node_of_SomeD)
  next
    assume "\<exists>n \<in> set (st_nodes d). ca_NodeID a = Some (n_ID n) \<and> serving t a n"
    then obtain n where n: "n \<in> set (st_nodes d)" "ca_NodeID a = Some (n_ID n)" "serving t a n" by blast
    then obtain m where m: "node_of d a = Some m"
      using node_of_Some [OF assms(1,2)] by fastforce
    then have "m \<in> set (st_nodes d)" "n_ID m = n_ID n"
      using n by (auto simp: node_of_def dest!: find_where_SomeD)
    with node_unique [OF assms(1)] n m show "\<exists>n. node_of d a = Some n \<and> serving t a n" by blast
  qed
  with c v show ?thesis by (simp add: app_view_def)
qed

definition demo_app :: CustomerApp where
  "demo_app = (new_app ''i1'' ''c1'' ''wiki'' ''small'' (Some ''n1'') '''' ''i1'' 0)\<lparr>ca_TechnicalStatus := ''running'',
     ca_HealthStatus := ''healthy'', ca_LastHealthChecked := Some 0, ca_LastHealthBootID := ''b1''\<rparr>"

definition demo_serving :: store where
  "demo_serving = empty_store\<lparr>st_nodes := [demo_node\<lparr>n_BootID := ''b1'', n_LastHeartbeat := Some 0\<rparr>],
     st_definitions := [demo_definition], st_apps := [demo_app]\<rparr>"

lemma demo_serving_ok: "store_ok demo_serving"
  by (simp add: demo_serving_def demo_app_def new_app_def demo_node_def new_node_def demo_definition_def
      empty_store_def store_ok_defs refers_def keyed_def)

theorem availability_exact_witness:
  "av_EffectiveAvailability (app_view 0 demo_serving demo_app '''') = ''available''"
proof -
  have "demo_app \<in> set (st_apps demo_serving)" by (simp add: demo_serving_def)
  moreover have "app_view 0 demo_serving demo_app '''' \<in> set (app_rows 0 demo_serving demo_app)"
    by (simp add: app_rows_def demo_serving_def empty_store_def)
  moreover have "\<exists>n \<in> set (st_nodes demo_serving). ca_NodeID demo_app = Some (n_ID n) \<and> serving 0 demo_app n"
    by (simp add: demo_serving_def serving_def demo_app_def new_app_def demo_node_def new_node_def seconds_def)
  ultimately show ?thesis using availability_exact [OF demo_serving_ok] by blast
qed

section \<open>Reboots\<close>

text \<open>
  C25.  A reboot takes the workloads of a node out of service until they are observed again.  Once a
  heartbeat with a new boot identifier is stored, no instance of the node whose last health report
  came from another boot is shown as available, however recent and healthy that report is and
  whenever one looks; every other table and every other node is untouched.
\<close>

theorem reboot_invalidates:
  assumes run: "run_state (UpdateNodeHeartbeat nid req) c = (Inr (), c')"
    and ok: "store_ok (tables c)" and boot: "hb_BootID req \<noteq> ''''"
    and a: "a \<in> set (st_apps (tables c))" "ca_NodeID a = Some nid" "ca_LastHealthBootID a \<noteq> hb_BootID req"
    and v: "v \<in> set (app_rows t (tables c') a)"
  shows "av_EffectiveAvailability v \<noteq> ''available''
    \<and> tables c' = (tables c)\<lparr>st_nodes := st_nodes (tables c')\<rparr>
    \<and> filter (\<lambda>n. n_ID n \<noteq> nid) (st_nodes (tables c')) = filter (\<lambda>n. n_ID n \<noteq> nid) (st_nodes (tables c))"
proof -
  have "\<exists>f. tables c' = (tables c)\<lparr>st_nodes := update_where (\<lambda>n. n_ID n = nid) f (st_nodes (tables c))\<rparr>
      \<and> (\<forall>n. n_ID (f n) = n_ID n \<and> n_BootID (f n) = hb_BootID req)"
    using run boot unfolding UpdateNodeHeartbeat_def wrapped_def update_nodes_def
    by (auto simp: or_keep_def dest!: exec_Inl exec_Inr split: prod.splits sum.splits
        intro!: exI [where x = "\<lambda>n. (_ n)"])
  then obtain f where t: "tables c' = (tables c)\<lparr>st_nodes := update_where (\<lambda>n. n_ID n = nid) f (st_nodes (tables c))\<rparr>"
    and f: "\<And>n. n_ID (f n) = n_ID n" "\<And>n. n_BootID (f n) = hb_BootID req" by blast
  have ok': "store_ok (tables c')"
    using ok f(1) by (simp add: t store_ok_defs map_update_where)
  have apps: "a \<in> set (st_apps (tables c'))" using a(1) by (simp add: t)
  have "\<not> serving t a n" if "n \<in> set (st_nodes (tables c'))" "ca_NodeID a = Some (n_ID n)" for n
  proof -
    from that obtain q where "q \<in> set (st_nodes (tables c))" and q: "n = (if n_ID q = nid then f q else q)"
      by (auto simp: t set_update_where)
    have "n_ID n = nid" using that(2) a(2) by simp
    then have "n_BootID n = hb_BootID req" using q f by (auto split: if_splits)
    then show ?thesis using a(3) by (simp add: serving_def)
  qed
  with availability_exact [OF ok' apps v] have "av_EffectiveAvailability v \<noteq> ''available''" by blast
  moreover have "filter (\<lambda>n. n_ID n \<noteq> nid) (update_where (\<lambda>n. n_ID n = nid) f ns) = filter (\<lambda>n. n_ID n \<noteq> nid) ns" for ns
    by (induction ns) (auto simp: f)
  ultimately show ?thesis by (simp add: t)
qed

definition demo_heartbeat :: HeartbeatRequest where
  "demo_heartbeat = \<lparr>hb_NodeID = ''n1'', hb_BootID = ''b2'', hb_Hostname = '''', hb_IP = '''', hb_WireguardIP = '''',
     hb_PublicIP = '''', hb_PodmanVersion = '''', hb_FleetVersion = '''', hb_Status = '''', hb_DiskTotal = 0,
     hb_DiskUsed = 0, hb_RAMTotal = 0, hb_RAMUsed = 0, hb_RAMAvailable = 0, hb_PodsActive = 0,
     hb_PodsPaused = 0, hb_PodsFailed = 0\<rparr>"

definition demo_serving_conn :: "store conn" where
  "demo_serving_conn = \<lparr>tables = demo_serving, db_clock = 0, app_clock = 0, faults = []\<rparr>"

theorem reboot_invalidates_witness:
  "av_EffectiveAvailability (app_view 0 (tables (effect (UpdateNodeHeartbeat ''n1'' demo_heartbeat) demo_serving_conn))
     demo_app '''') \<noteq> ''available''"
proof -
  have run: "run_state (UpdateNodeHeartbeat ''n1'' demo_heartbeat) demo_serving_conn
      = (Inr (), effect (UpdateNodeHeartbeat ''n1'' demo_heartbeat) demo_serving_conn)"
    by (simp add: effect_def UpdateNodeHeartbeat_def wrapped_def update_nodes_def run_ok demo_serving_conn_def)
  have ok: "store_ok (tables demo_serving_conn)" by (simp add: demo_serving_conn_def demo_serving_ok)
  have "st_routes (tables (effect (UpdateNodeHeartbeat ''n1'' demo_heartbeat) demo_serving_conn)) = []"
    by (simp add: effect_def UpdateNodeHeartbeat_def wrapped_def update_nodes_def run_ok demo_serving_conn_def
        demo_serving_def empty_store_def)
  then have v: "app_view 0 (tables (effect (UpdateNodeHeartbeat ''n1'' demo_heartbeat) demo_serving_conn)) demo_app ''''
      \<in> set (app_rows 0 (tables (effect (UpdateNodeHeartbeat ''n1'' demo_heartbeat) demo_serving_conn)) demo_app)"
    by (simp add: app_rows_def)
  have a: "demo_app \<in> set (st_apps (tables demo_serving_conn))" "ca_NodeID demo_app = Some ''n1''"
    "ca_LastHealthBootID demo_app \<noteq> hb_BootID demo_heartbeat" "hb_BootID demo_heartbeat \<noteq> ''''"
    by (simp_all add: demo_heartbeat_def demo_app_def new_app_def demo_serving_conn_def demo_serving_def)
  show ?thesis using reboot_invalidates [OF run ok a(4,1,2,3) v] by blast
qed

section \<open>Removal of a node\<close>

text \<open>The database without a node: its routes and tokens are gone, its instances and backups unassigned.\<close>

definition without_node :: "string \<Rightarrow> store \<Rightarrow> store" where
  "without_node nid d = d\<lparr>
     st_routes := delete_where (\<lambda>r. r_NodeID r = Some nid) (st_routes d),
     st_tokens := delete_where (\<lambda>tk. tk_NodeID tk = nid) (st_tokens d),
     st_apps := update_where (\<lambda>a. ca_NodeID a = Some nid) (\<lambda>a. a\<lparr>ca_NodeID := None\<rparr>) (st_apps d),
     st_backups := update_where (\<lambda>b. bk_NodeID b = Some nid) (\<lambda>b. b\<lparr>bk_NodeID := None\<rparr>) (st_backups d),
     st_nodes := delete_where (\<lambda>n. n_ID n = nid) (st_nodes d)\<rparr>"

lemma rows_removed:
  "\<not> referenced (without_node nid d) nid"
  "tk \<in> set (st_tokens (without_node nid d)) \<Longrightarrow> tk_NodeID tk \<noteq> nid"
  "st_nodes (without_node nid d) = filter (\<lambda>n. n_ID n \<noteq> nid) (st_nodes d)"
  "st_apps (without_node nid d) = map (\<lambda>a. if ca_NodeID a = Some nid then a\<lparr>ca_NodeID := None\<rparr> else a) (st_apps d)"
  "st_routes (without_node nid d) = filter (\<lambda>r. r_NodeID r \<noteq> Some nid) (st_routes d)"
  "st_tokens (without_node nid d) = filter (\<lambda>tk. tk_NodeID tk \<noteq> nid) (st_tokens d)"
proof -
  have "ca_NodeID (if ca_NodeID q = Some nid then q\<lparr>ca_NodeID := None\<rparr> else q) \<noteq> Some nid"
    "bk_NodeID (if bk_NodeID b = Some nid then b\<lparr>bk_NodeID := None\<rparr> else b) \<noteq> Some nid" for q b
    by simp_all
  then show "\<not> referenced (without_node nid d) nid"
    by (auto simp: without_node_def referenced_def update_where_def)
qed (auto simp: without_node_def delete_where_def update_where_def)

lemma remove_rows_Commit:
  assumes run: "run_state (remove_rows nid) c = (Commit (), c')"
  shows "tables c' = without_node nid (tables c)"
proof -
  from run obtain c1 c2 c3 c4 gone where
    1: "run_state (delete_routes (\<lambda>r. r_NodeID r = Some nid)) c = (Inr (), c1)"
    and 2: "run_state (exec (\<lambda>_ d. d\<lparr>st_tokens := delete_where (\<lambda>tk. tk_NodeID tk = nid) (st_tokens d)\<rparr>)) c1 = (Inr (), c2)"
    and 3: "run_state (update_apps (\<lambda>a. ca_NodeID a = Some nid) (\<lambda>_ a. a\<lparr>ca_NodeID := None\<rparr>)) c2 = (Inr (), c3)"
    and 4: "run_state (exec (\<lambda>_ d. d\<lparr>st_backups := update_where (\<lambda>b. bk_NodeID b = Some nid)
              (\<lambda>b. b\<lparr>bk_NodeID := None\<rparr>) (st_backups d)\<rparr>)) c3 = (Inr (), c4)"
    and 5: "run_state (delete_nodes (\<lambda>_ n. n_ID n = nid)) c4 = (Inr gone, c')"
    unfolding remove_rows_def by (auto split: prod.splits sum.splits if_splits)
  from 5 have "tables c' = (tables c4)\<lparr>st_nodes := delete_where (\<lambda>n. n_ID n = nid) (st_nodes (tables c4))\<rparr>"
    by (auto simp: delete_nodes_def Let_def dest!: stmt_Inr split: if_splits)
  with exec_Inr [OF 1 [unfolded delete_routes_def]] exec_Inr [OF 2] exec_Inr [OF 3 [unfolded update_apps_def]] exec_Inr [OF 4]
  show ?thesis by (simp add: without_node_def)
qed

lemma remove_Commit:
  assumes "run_state (RemoveNodeWithHook nid force hook) c = (Inr (), c')"
  obtains n d d' where "n \<in> set (st_nodes (tables c))" and "n_ID n = nid"
    and "force \<or> active_instances nid (tables c) = 0" and "case hook of None \<Rightarrow> True | Some f \<Rightarrow> f n = None"
    and "tables d = tables c" and "run_state (remove_rows nid) d = (Commit (), d')" and "tables c' = tables d'"
proof -
  note tr = transaction_Inr [OF assms [unfolded RemoveNodeWithHook_def]]
  show ?thesis
    apply (rule tr)
    apply (auto dest!: find_where_SomeD [OF sym] query_Inl query_Inr split: prod.splits sum.splits option.splits if_splits)
    apply (rule that, assumption, auto)+
    done
qed



section \<open>Exclusion of operations\<close>



end
