(* ===== verification/Store_Limits.thy ===== *)
theory Store_Limits
  imports Store_Props "HOL-Library.Multiset"
begin

text \<open>
  Rate limits, pages of listings, the rotation of secrets and the update of a definition.
\<close>

section \<open>Rate limits\<close>

text \<open>What a check that is not interrupted does to the table.\<close>

definition rate_next ::
  "string \<Rightarrow> int \<Rightarrow> float64 \<Rightarrow> int \<Rightarrow> rate_limit list \<Rightarrow> bool \<times> rate_limit list" where
  "rate_next ident k w unix rates = (case find_where (\<lambda>r. rl_identifier r = ident) rates of
     None \<Rightarrow> (True, rates @ [\<lparr>rl_identifier = ident, rl_window_start = f64_of_int unix, rl_attempts = 1\<rparr>])
   | Some row \<Rightarrow>
       if f64_lt (rl_window_start row) (f64_sub (f64_of_int unix) w)
       then (True, update_where (\<lambda>r. rl_identifier r = ident)
              (\<lambda>r. r\<lparr>rl_window_start := f64_of_int unix, rl_attempts := 1\<rparr>) rates)
       else if rl_attempts row \<ge> k then (False, rates)
       else (True, update_where (\<lambda>r. rl_identifier r = ident) (\<lambda>r. r\<lparr>rl_attempts := rl_attempts r + 1\<rparr>) rates))"

lemma update_rate_Inr:
  "run_state (update_rate ident f) c = (Inr u, c') \<Longrightarrow>
   tables c' = (tables c)\<lparr>st_rate_limits := update_where (\<lambda>r. rl_identifier r = ident) f (st_rate_limits (tables c))\<rparr>"
  by (auto simp: update_rate_def dest!: stmt_Inr split: if_splits)

lemma insert_rate_Inr:
  "run_state (insert_rate row) c = (Inr u, c') \<Longrightarrow>
   tables c' = (tables c)\<lparr>st_rate_limits := st_rate_limits (tables c) @ [row]\<rparr>"
  by (auto simp: insert_rate_def dest!: stmt_Inr split: if_splits)

lemma CheckRateLimit_Inr:
  assumes "run_state (CheckRateLimit ident k w) c = (Inr (b, s), c')"
  shows "(b, st_rate_limits (tables c')) = rate_next ident k w (unix_seconds (app_clock c)) (st_rate_limits (tables c))"
  by (rule transaction_Inr [OF assms [unfolded CheckRateLimit_def Let_def]])
    (auto simp: rate_next_def commit_after_def same_clocks_def dest!: query_Inl query_Inr_sym update_rate_Inr insert_rate_Inr
      split: prod.splits sum.splits option.splits if_splits)

lemma CheckRateLimit_Inl: "run_state (CheckRateLimit ident k w) c = (Inl e, c') \<Longrightarrow> tables c' = tables c"
  unfolding CheckRateLimit_def by (auto dest: transaction_Inl)

text \<open>
  \<open>rate_run ident k w s c n c'\<close>: a history in which \<open>n\<close> attempts of \<open>ident\<close> were allowed, every check
  falling into the \<open>w\<close> seconds that follow second \<open>s\<close>; between the checks anything may happen that
  leaves the row of \<open>ident\<close> alone.
\<close>

inductive rate_run :: "string \<Rightarrow> int \<Rightarrow> int \<Rightarrow> int \<Rightarrow> store conn \<Rightarrow> nat \<Rightarrow> store conn \<Rightarrow> bool" for ident k w s c where
  begin_run: "rate_run ident k w s c 0 c"
| check: "rate_run ident k w s c n d \<Longrightarrow> s \<le> unix_seconds (app_clock d) \<Longrightarrow> unix_seconds (app_clock d) \<le> s + w \<Longrightarrow>
    run_state (CheckRateLimit ident k (f64_of_int w)) d = (res, d') \<Longrightarrow>
    rate_run ident k w s c (if \<exists>r. res = Inr (True, r) then Suc n else n) d'"
| others: "rate_run ident k w s c n d \<Longrightarrow>
    filter (\<lambda>r. rl_identifier r = ident) (st_rate_limits (tables d')) = filter (\<lambda>r. rl_identifier r = ident) (st_rate_limits (tables d)) \<Longrightarrow>
    rate_run ident k w s c n d'"

lemma f64_sub_int:
  assumes "\<bar>a\<bar> < 2 ^ 53" and "\<bar>b\<bar> < 2 ^ 53" and "\<bar>a - b\<bar> < 2 ^ 53"
  shows "f64_sub (f64_of_int a) (f64_of_int b) = Fin (of_int (a - b))"
  using rnd_int [OF assms(3)] by (simp add: f64_sub_def f64_of_int_def rnd_int [OF assms(1)] rnd_int [OF assms(2)])

lemma f64_lt_Fin [simp]: "f64_lt (Fin x) (Fin y) \<longleftrightarrow> x < y"
  by (auto simp: f64_lt_def)

lemma filter_update_same:
  "(\<And>r. p r \<Longrightarrow> p (f r)) \<Longrightarrow> filter p (update_where p f rows) = map f (filter p rows)"
  by (induction rows) auto

lemma find_where_filter: "find_where p rows = (case filter p rows of [] \<Rightarrow> None | r # _ \<Rightarrow> Some r)"
  by (induction rows) (auto simp: find_where_def)

definition rate_inv :: "string \<Rightarrow> int \<Rightarrow> int \<Rightarrow> int \<Rightarrow> nat \<Rightarrow> rate_limit list \<Rightarrow> bool" where
  "rate_inv ident k w s n rates \<longleftrightarrow> (case filter (\<lambda>r. rl_identifier r = ident) rates of
     [] \<Rightarrow> n = 0
   | [r] \<Rightarrow> rl_attempts r = int n \<and> 1 \<le> n \<and> int n \<le> max 1 k
       \<and> (\<exists>u. rl_window_start r = f64_of_int u \<and> s \<le> u \<and> u \<le> s + w)
   | _ \<Rightarrow> False)"

lemma rate_inv_next:
  assumes inv: "rate_inv ident k w s n rates" and u: "s \<le> unix" "unix \<le> s + w"
    and range: "0 \<le> s" "0 \<le> w" "s + w < 2 ^ 53" and nx: "rate_next ident k (f64_of_int w) unix rates = (b, rates')"
  shows "rate_inv ident k w s (if b then Suc n else n) rates'"
proof (cases "filter (\<lambda>r. rl_identifier r = ident) rates")
  case Nil
  with inv nx u show ?thesis by (auto simp: rate_inv_def rate_next_def find_where_filter)
next
  case (Cons r rest)
  with inv have one: "filter (\<lambda>r. rl_identifier r = ident) rates = [r]"
    by (auto simp: rate_inv_def split: list.splits)
  with inv obtain v where r: "rl_attempts r = int n" "1 \<le> n" "int n \<le> max 1 k"
    and v: "rl_window_start r = f64_of_int v" "s \<le> v" "v \<le> s + w" by (auto simp: rate_inv_def)
  have cut: "f64_sub (f64_of_int unix) (f64_of_int w) = Fin (of_int (unix - w))"
    by (rule f64_sub_int) (use u range in auto)
  have "\<bar>v\<bar> < 2 ^ 53" using v range by auto
  then have "\<not> f64_lt (rl_window_start r) (f64_sub (f64_of_int unix) (f64_of_int w))"
    unfolding cut using v u by (simp add: f64_of_int_def rnd_int)
  with nx one r v show ?thesis
    by (auto simp: rate_inv_def rate_next_def find_where_filter filter_update_same split: if_splits)
qed



section \<open>Pages\<close>

lemma pages_concat: "concat (map (\<lambda>i. take k (drop (i * k) xs)) [0..<m]) = take (m * k) xs"
proof (induction m)
  case (Suc m)
  have "take (Suc m * k) xs = take (m * k) xs @ take k (drop (m * k) xs)"
    by (simp add: take_add [symmetric] add.commute)
  with Suc show ?case by simp
qed simp

lemma run_counted_page:
  assumes "faults c = []" and "0 \<le> limit" and "0 \<le> offset"
  shows "run_state (counted_page cm qm num rows limit offset) c
    = (Inr (take (nat limit) (drop (nat offset) (rows (db_clock c) (tables c))), num (tables c)), c)"
  using assms by (simp add: counted_page_def run_ok page_def)

text \<open>
  Pages partition the listing.  On an unchanging database the pages of \<^verbatim>\<open>GetOperationsPage\<close> of any
  positive size, one after the other, hold every operation exactly once, newest first with ties broken
  by the identifier, and each page reports the number of all operations.
\<close>

theorem operation_pages:
  assumes "faults c = []" and "0 < k" and "length (st_operations (tables c)) \<le> m * k"
  shows "\<exists>P. (\<forall>i. run_state (GetOperationsPage (int k) (int (i * k))) c
        = (Inr (P i, length (st_operations (tables c))), c))
    \<and> mset (concat (map P [0..<m])) = mset (st_operations (tables c))
    \<and> sorted_wrt (\<lambda>x y. (op_CreatedAt y, op_ID y) \<le> (op_CreatedAt x, op_ID x)) (concat (map P [0..<m]))"
proof -
  define L where "L = rev (sort_key (\<lambda>x. (op_CreatedAt x, op_ID x)) (st_operations (tables c)))"
  define P where "P i = take k (drop (i * k) L)" for i
  have "concat (map P [0..<m]) = take (m * k) L" unfolding P_def by (rule pages_concat)
  moreover have "take (m * k) L = L" using assms(3) by (simp add: L_def)
  moreover have "run_state (GetOperationsPage (int k) (int (i * k))) c
      = (Inr (P i, length (st_operations (tables c))), c)" for i
    unfolding GetOperationsPage_def by (subst run_counted_page) (use assms in \<open>simp_all add: P_def L_def nat_mult_distrib\<close>)
  moreover have "mset L = mset (st_operations (tables c))" by (simp add: L_def)
  moreover have "sorted_wrt (\<lambda>x y. (op_CreatedAt y, op_ID y) \<le> (op_CreatedAt x, op_ID x)) L"
    using sorted_sort_key [of "\<lambda>x. (op_CreatedAt x, op_ID x)" "st_operations (tables c)"]
    unfolding L_def sorted_wrt_rev sorted_map .
  ultimately show ?thesis by (intro exI [of _ P]) simp
qed

definition demo_operation :: "string \<Rightarrow> int \<Rightarrow> Operation" where
  "demo_operation oid t = new_operation oid None ''n1'' '''' ''inspect_app'' ''queued'' ''admin'' None t"

theorem operation_pages_witness:
  "\<exists>P. mset (concat (map P [0..<3]))
     = mset [demo_operation ''a'' 1, demo_operation ''b'' 2, demo_operation ''c'' 2]"
proof -
  let ?ops = "[demo_operation ''a'' 1, demo_operation ''b'' 2, demo_operation ''c'' 2]"
  let ?c = "demo_conn\<lparr>tables := empty_store\<lparr>st_operations := ?ops\<rparr>\<rparr>"
  from operation_pages [of ?c 1 3] show ?thesis by (auto simp: demo_conn_def)
qed

section \<open>Rotation of secrets\<close>

definition apply_update :: "InstanceSecretUpdate \<Rightarrow> InstanceSecret \<Rightarrow> InstanceSecret" where
  "apply_update u s = (if secret_key s = update_target u then s\<lparr>is_EncryptedValue := isu_EncryptedValue u\<rparr> else s)"

lemma rotate_Commit:
  assumes "run_state (rotate_secrets us) c = (Commit (), c')"
  shows "tables c' = (tables c)\<lparr>st_secrets := map (fold apply_update us) (st_secrets (tables c))\<rparr>
    \<and> (\<forall>u \<in> set us. \<exists>s \<in> set (st_secrets (tables c)). secret_key s = update_target u)"
  using assms
proof (induction us arbitrary: c)
  case Nil
  then show ?case by simp
next
  case (Cons u us)
  let ?mine = "\<lambda>s. secret_key s = update_target u"
  from Cons.prems obtain c1 where c1: "run_state (stmt (\<lambda>_ d. (Inr (affected ?mine (st_secrets d)), d\<lparr>st_secrets :=
      update_where ?mine (\<lambda>s. s\<lparr>is_EncryptedValue := isu_EncryptedValue u\<rparr>) (st_secrets d)\<rparr>))) c = (Inr 1, c1)"
    and rest: "run_state (rotate_secrets us) c1 = (Commit (), c')"
    by (auto simp: Let_def split: prod.splits sum.splits if_splits)
  have upd: "update_where ?mine (\<lambda>s. s\<lparr>is_EncryptedValue := isu_EncryptedValue u\<rparr>) ss = map (apply_update u) ss" for ss
    by (simp add: update_where_def apply_update_def [abs_def])
  from stmt_Inr [OF c1] have t: "tables c1 = (tables c)\<lparr>st_secrets := map (apply_update u) (st_secrets (tables c))\<rparr>"
    and "affected ?mine (st_secrets (tables c)) = 1" by (auto simp: upd)
  then have ex: "\<exists>s \<in> set (st_secrets (tables c)). ?mine s"
    using affected_0 [of ?mine "st_secrets (tables c)"] by auto
  have key: "secret_key (apply_update u s) = secret_key s" for s
    by (simp add: apply_update_def secret_key_def)
  from Cons.IH [OF rest] t ex key show ?case by auto
qed

lemma fold_apply_other:
  "\<forall>u \<in> set us. update_target u \<noteq> secret_key s \<Longrightarrow> fold apply_update us s = s"
  by (induction us) (auto simp: apply_update_def)

lemma fold_apply_key: "secret_key (fold apply_update us s) = secret_key s"
  by (induction us arbitrary: s) (auto simp: apply_update_def secret_key_def)

lemma fold_apply_target:
  assumes "distinct (map update_target us)" and "u \<in> set us" and "update_target u = secret_key s"
  shows "fold apply_update us s = s\<lparr>is_EncryptedValue := isu_EncryptedValue u\<rparr>"
  using assms
proof (induction us arbitrary: s)
  case (Cons v us)
  show ?case
  proof (cases "u = v")
    case True
    let ?s = "s\<lparr>is_EncryptedValue := isu_EncryptedValue u\<rparr>"
    have "secret_key ?s = secret_key s" by (simp add: secret_key_def)
    with Cons.prems True have "\<forall>w \<in> set us. update_target w \<noteq> secret_key ?s" by force
    moreover have "apply_update v s = ?s" using True Cons.prems by (simp add: apply_update_def)
    ultimately show ?thesis by (simp add: fold_apply_other)
  next
    case False
    with Cons.prems have "update_target v \<noteq> secret_key s" by force
    then have "apply_update v s = s" by (auto simp: apply_update_def)
    with False Cons show ?thesis by simp
  qed
qed simp

lemma update_secrets_Inr:
  assumes "run_state (UpdateInstanceSecretCiphertexts us) c = (Inr (), c')"
  shows "tables c' = (tables c)\<lparr>st_secrets := map (fold apply_update us) (st_secrets (tables c))\<rparr>
    \<and> (\<forall>u \<in> set us. \<exists>s \<in> set (st_secrets (tables c)). secret_key s = update_target u)"
proof (cases "us = []")
  case True
  with assms show ?thesis by (simp add: UpdateInstanceSecretCiphertexts_def id_def)
next
  case False
  with assms have "run_state (transaction ''begin secret rotation: '' (\<lambda>_. ''commit secret rotation: '') (do {
      p \<leftarrow> query (\<lambda>_ _. ());
      case p of Inl e \<Rightarrow> return (Abort (Wrap ''prepare secret rotation: '' e)) | Inr _ \<Rightarrow> rotate_secrets us })) c = (Inr (), c')"
    by (simp add: UpdateInstanceSecretCiphertexts_def)
  then obtain b b' where "tables b = tables c" "run_state (rotate_secrets us) b = (Commit (), b')" "tables c' = tables b'"
    by (rule transaction_Inr) (auto dest!: query_Inr query_Inl split: prod.splits sum.splits)
  with rotate_Commit [of us b b'] show ?thesis by simp
qed

text \<open>
  A rotation of secrets is all or nothing.  \<^verbatim>\<open>UpdateInstanceSecretCiphertexts\<close> either fails and
  changes nothing, which it does when one of the updates names no stored secret, or every named secret
  has its new ciphertext and every other secret, column and table is as before.
\<close>

theorem rotation_atomic:
  assumes run: "run_state (UpdateInstanceSecretCiphertexts us) c = (res, c')" and d: "distinct (map update_target us)"
  shows "(case res of
      Inl _ \<Rightarrow> tables c' = tables c
    | Inr _ \<Rightarrow> (\<exists>f. tables c' = (tables c)\<lparr>st_secrets := map f (st_secrets (tables c))\<rparr>
        \<and> (\<forall>s. (\<forall>u \<in> set us. update_target u \<noteq> secret_key s) \<longrightarrow> f s = s)
        \<and> (\<forall>u \<in> set us. \<forall>s. update_target u = secret_key s \<longrightarrow> f s = s\<lparr>is_EncryptedValue := isu_EncryptedValue u\<rparr>))
        \<and> (\<forall>u \<in> set us. \<exists>s \<in> set (st_secrets (tables c)). secret_key s = update_target u))"
proof (cases res)
  case (Inl e)
  with run show ?thesis
    by (auto simp: UpdateInstanceSecretCiphertexts_def split: if_splits dest: transaction_Inl)
next
  case (Inr u)
  with run update_secrets_Inr [of us c c'] show ?thesis
    by (auto intro!: exI [of _ "fold apply_update us"] simp: fold_apply_other fold_apply_target [OF d])
qed

definition demo_secret :: InstanceSecret where
  "demo_secret = \<lparr>is_InstanceID = ''i1'', is_ServiceName = ''db'', is_EnvName = ''PASSWORD'', is_EncryptedValue = ''old'',
     is_ExposeToCustomer = False, is_CreatedAt = 0\<rparr>"

definition demo_update :: InstanceSecretUpdate where
  "demo_update = \<lparr>isu_InstanceID = ''i1'', isu_ServiceName = ''db'', isu_EnvName = ''PASSWORD'', isu_EncryptedValue = ''new''\<rparr>"

theorem rotation_atomic_witness:
  "st_secrets (tables (effect (UpdateInstanceSecretCiphertexts [demo_update])
      (demo_conn\<lparr>tables := empty_store\<lparr>st_secrets := [demo_secret]\<rparr>\<rparr>))) = [demo_secret\<lparr>is_EncryptedValue := ''new''\<rparr>]"
proof -
  let ?c = "demo_conn\<lparr>tables := empty_store\<lparr>st_secrets := [demo_secret]\<rparr>\<rparr>"
  have run: "run_state (UpdateInstanceSecretCiphertexts [demo_update]) ?c
      = (Inr (), effect (UpdateInstanceSecretCiphertexts [demo_update]) ?c)" by code_simp
  have "update_target demo_update = secret_key demo_secret"
    by (simp add: update_target_def demo_update_def secret_key_def demo_secret_def)
  with rotation_atomic [OF run] show ?thesis by (auto simp: demo_update_def)
qed

section \<open>Updates of a definition\<close>

definition saved_tier :: "(float64 \<Rightarrow> float64 option) \<Rightarrow> string \<Rightarrow> AppTier \<Rightarrow> AppTier" where
  "saved_tier numeric name tier = tier\<lparr>at_AppName := name, at_PriceMonthly := the (numeric (at_PriceMonthly tier))\<rparr>"

lemma insert_tiers_Inr:
  assumes "run_state (insert_tiers numeric name tiers) c = (Inr u, c')"
  shows "tables c' = (tables c)\<lparr>st_tiers := st_tiers (tables c) @ map (saved_tier numeric name) tiers\<rparr>
    \<and> (\<forall>tier \<in> set tiers. numeric (at_PriceMonthly tier) \<noteq> None) \<and> same_clocks c c'"
  using assms
proof (induction tiers arbitrary: c)
  case Nil
  then show ?case by simp
next
  case (Cons tier tiers)
  from Cons.prems obtain c1 where c1: "run_state (insert_tier numeric name tier) c = (Inr (), c1)"
    and rest: "run_state (insert_tiers numeric name tiers) c1 = (Inr u, c')"
    by (auto split: prod.splits sum.splits)
  from c1 have "tables c1 = (tables c)\<lparr>st_tiers := st_tiers (tables c) @ [saved_tier numeric name tier]\<rparr>"
    "numeric (at_PriceMonthly tier) \<noteq> None" "same_clocks c c1"
    by (auto simp: insert_tier_def saved_tier_def dest!: stmt_Inr split: option.splits if_splits)
  with Cons.IH [OF rest] show ?case by (auto intro: same_clocks_trans)
qed

lemma upsert_Inr:
  assumes "run_state (upsert_definition name dn desc yaml) c = (Inr u, c')"
  shows "\<exists>defs. tables c' = (tables c)\<lparr>st_definitions := defs\<rparr>
    \<and> (\<exists>a. find_where (\<lambda>a. ad_Name a = name) defs = Some a \<and> ad_DisplayName a = dn \<and> ad_Description a = desc
        \<and> ad_RawYAML a = yaml \<and> ad_Status a = (case find_where (\<lambda>a. ad_Name a = name) (st_definitions (tables c)) of
            None \<Rightarrow> ''active'' | Some b \<Rightarrow> ad_Status b))
    \<and> filter (\<lambda>a. ad_Name a \<noteq> name) defs = filter (\<lambda>a. ad_Name a \<noteq> name) (st_definitions (tables c))
    \<and> same_clocks c c'"
proof -
  let ?f = "\<lambda>a. a\<lparr>ad_DisplayName := dn, ad_Description := desc, ad_RawYAML := yaml\<rparr>"
  have upd: "find_where (\<lambda>a. ad_Name a = name) (update_where (\<lambda>a. ad_Name a = name) ?f defs)
      = map_option ?f (find_where (\<lambda>a. ad_Name a = name) defs)"
    "filter (\<lambda>a. ad_Name a \<noteq> name) (update_where (\<lambda>a. ad_Name a = name) ?f defs) = filter (\<lambda>a. ad_Name a \<noteq> name) defs"
    for defs by (induction defs) (auto simp: find_where_def)
  have app: "find_where (\<lambda>a. ad_Name a = name) (defs @ [r]) = Some r" if "\<forall>a \<in> set defs. ad_Name a \<noteq> name" "ad_Name r = name" for defs r
    using that by (induction defs) (auto simp: find_where_def)
  show ?thesis
  proof (cases "\<exists>a \<in> set (st_definitions (tables c)). ad_Name a = name")
    case True
    then obtain b where "find_where (\<lambda>a. ad_Name a = name) (st_definitions (tables c)) = Some b"
      using find_where_None by (metis (mono_tags, lifting) not_Some_eq)
    with True exec_Inr [OF assms [unfolded upsert_definition_def]] show ?thesis
      by (intro exI [of _ "update_where (\<lambda>a. ad_Name a = name) ?f (st_definitions (tables c))"] conjI) (simp_all add: upd)
  next
    case False
    then have "find_where (\<lambda>a. ad_Name a = name) (st_definitions (tables c)) = None"
      by (auto simp: find_where_None)
    with False exec_Inr [OF assms [unfolded upsert_definition_def]] show ?thesis
      by (intro exI [of _ "st_definitions (tables c) @ [\<lparr>ad_Name = name, ad_DisplayName = dn,
            ad_Description = desc, ad_RawYAML = yaml, ad_Status = ''active'', ad_Availability = ''available'',
            ad_AvailabilityReason = '''', ad_Revision = 0, ad_Checksum = '''', ad_CreatedAt = db_clock c\<rparr>]"] conjI)
        (simp_all add: app)
  qed
qed

text \<open>
  C31.  Saving a definition and reading it back.  \<^verbatim>\<open>SaveAppDefinition\<close> either fails and changes nothing,
  or afterwards \<^verbatim>\<open>GetAppDefinition\<close> yields the new texts, with the status the definition had before (a
  new one is active), \<^verbatim>\<open>GetAppTiers\<close> yields exactly the given tiers, with prices as the column stores
  them, and the instances of the application that are not being removed are marked for a restart with
  the kind of the update if and only if the YAML of an existing definition changed.  The definitions,
  tiers and instances of other applications are as before.
\<close>

theorem save_definition:
  assumes run: "run_state (SaveAppDefinition numeric name dn desc yaml tiers ut) c = (res, c')"
  shows "(case res of
      Inl _ \<Rightarrow> tables c' = tables c
    | Inr _ \<Rightarrow> (let before = find_where (\<lambda>a. ad_Name a = name) (st_definitions (tables c)) in
        (\<exists>a. find_where (\<lambda>a. ad_Name a = name) (st_definitions (tables c')) = Some a \<and> ad_DisplayName a = dn
           \<and> ad_Description a = desc \<and> ad_RawYAML a = yaml
           \<and> ad_Status a = (case before of None \<Rightarrow> ''active'' | Some b \<Rightarrow> ad_Status b))
        \<and> filter (\<lambda>x. at_AppName x = name) (st_tiers (tables c')) = map (saved_tier numeric name) tiers
        \<and> st_apps (tables c') = (if before \<noteq> None \<and> map_option ad_RawYAML before \<noteq> Some yaml
            then map (\<lambda>a. if needs_restart name a then a\<lparr>ca_NeedRestarting := True, ca_UpdateType := ut,
                   ca_UpdateStartedAt := Some (db_clock c)\<rparr> else a) (st_apps (tables c))
            else st_apps (tables c))
        \<and> filter (\<lambda>a. ad_Name a \<noteq> name) (st_definitions (tables c')) = filter (\<lambda>a. ad_Name a \<noteq> name) (st_definitions (tables c))
        \<and> filter (\<lambda>x. at_AppName x \<noteq> name) (st_tiers (tables c')) = filter (\<lambda>x. at_AppName x \<noteq> name) (st_tiers (tables c))))"
proof (cases res)
  case (Inl e)
  with run show ?thesis unfolding SaveAppDefinition_def by (auto dest: transaction_Inl)
next
  case (Inr u)
  let ?before = "find_where (\<lambda>a. ad_Name a = name) (st_definitions (tables c))"
  let ?changed = "?before \<noteq> None \<and> map_option ad_RawYAML ?before \<noteq> Some yaml"
  from run Inr have call: "run_state (SaveAppDefinition numeric name dn desc yaml tiers ut) c = (Inr (), c')" by simp
  obtain d d1 d2 d3 d4 d' where d: "tables d = tables c" "same_clocks c d" "tables d1 = tables d" "same_clocks d d1"
    and 1: "run_state (upsert_definition name dn desc yaml) d1 = (Inr (), d2)"
    and 2: "run_state (exec (\<lambda>_ d. d\<lparr>st_tiers := delete_where (\<lambda>x. at_AppName x = name) (st_tiers d)\<rparr>)) d2 = (Inr (), d3)"
    and 3: "run_state (insert_tiers numeric name tiers) d3 = (Inr (), d4)"
    and 4: "if ?changed then run_state (mark_restart name ut) d4 = (Inr (), d') else d' = d4"
    and t: "tables c' = tables d'"
    by (rule transaction_Inr [OF call [unfolded SaveAppDefinition_def Let_def]])
      (auto dest!: query_Inr_sym query_Inl split: prod.splits sum.splits if_splits)
  obtain defs where u1: "tables d2 = (tables d1)\<lparr>st_definitions := defs\<rparr>"
    and def: "\<exists>a. find_where (\<lambda>a. ad_Name a = name) defs = Some a \<and> ad_DisplayName a = dn \<and> ad_Description a = desc
        \<and> ad_RawYAML a = yaml \<and> ad_Status a = (case ?before of None \<Rightarrow> ''active'' | Some b \<Rightarrow> ad_Status b)"
    and other: "filter (\<lambda>a. ad_Name a \<noteq> name) defs = filter (\<lambda>a. ad_Name a \<noteq> name) (st_definitions (tables c))"
    and clk: "same_clocks d1 d2"
    using upsert_Inr [OF 1] d by auto
  have d4: "tables d4 = (tables c)\<lparr>st_definitions := defs,
      st_tiers := delete_where (\<lambda>x. at_AppName x = name) (st_tiers (tables c)) @ map (saved_tier numeric name) tiers\<rparr>"
    and clk4: "db_clock d4 = db_clock c"
    using insert_tiers_Inr [OF 3] exec_Inr [OF 2] u1 d clk by (auto simp: same_clocks_def)
  have fin: "tables c' = (tables d4)\<lparr>st_apps := (if ?changed
      then map (\<lambda>a. if needs_restart name a then a\<lparr>ca_NeedRestarting := True, ca_UpdateType := ut,
             ca_UpdateStartedAt := Some (db_clock c)\<rparr> else a) (st_apps (tables c)) else st_apps (tables c))\<rparr>"
    using 4 t d4 clk4
    by (auto simp: mark_restart_def update_apps_def update_where_def dest!: exec_Inr split: if_splits)
  have "at_AppName (saved_tier numeric name x) = name" for x by (simp add: saved_tier_def)
  then show ?thesis
    using def other by (simp add: Inr fin d4 delete_where_def filter_empty_conv)
qed

theorem save_definition_witness:
  "(\<lambda>a. ca_UpdateType a) ` set (st_apps (tables (effect (SaveAppDefinition Some ''wiki'' ''Wiki'' '''' ''v2'' [] ''normal'')
      demo_serving_conn))) = {''normal''}"
proof -
  let ?m = "SaveAppDefinition Some ''wiki'' ''Wiki'' '''' ''v2'' [] ''normal''"
  have run: "run_state ?m demo_serving_conn = (Inr (), effect ?m demo_serving_conn)" by code_simp
  have "find_where (\<lambda>a. ad_Name a = ''wiki'') (st_definitions (tables demo_serving_conn)) = Some demo_definition"
    "st_apps (tables demo_serving_conn) = [demo_app]" "needs_restart ''wiki'' demo_app"
    "ad_RawYAML demo_definition \<noteq> ''v2''"
    by (simp_all add: demo_serving_conn_def demo_serving_def find_where_def demo_definition_def needs_restart_def
        demo_app_def new_app_def)
  then show ?thesis
    using save_definition [OF run] by (simp add: Let_def)
qed

end
