(* ===== verification/Policy.thy ===== *)
theory Policy
  imports Validation Store_Nodes
begin

text \<open>
  The capacity policy: \<^verbatim>\<open>src/internal/database/capacity.go\<close> and the evaluation of nodes in
  \<^verbatim>\<open>src/internal/api/handlers_policy.go\<close>.  Sizes are \<^verbatim>\<open>int64\<close> values that wrap around, ratios are
  \<open>float64\<close>.  The log lines that the functions write (\<^verbatim>\<open>auditEvent\<close>) are not part of the model.
\<close>

section \<open>Sizes and limits\<close>

definition RAMCommitRatio :: rat where "RAMCommitRatio = 80 / 100"
definition DiskSafeNodeRatio :: rat where "DiskSafeNodeRatio = 80 / 100"
definition DiskEmergencyMultiplier :: rat where "DiskEmergencyMultiplier = 120 / 100"
definition RAMHealthCriticalRatio :: rat where "RAMHealthCriticalRatio = 90 / 100"
definition DiskHealthCriticalRatio :: rat where "DiskHealthCriticalRatio = 90 / 100"
definition MetricsStaleAfterSec :: int where "MetricsStaleAfterSec = 180"

text \<open>\<^verbatim>\<open>strings.TrimRight(value, cutset)\<close>; the cases of the switch are tried in order.\<close>

definition size_unit :: "string \<Rightarrow> int \<times> string" where
  "size_unit v = (let lower = ToLower v in
     if HasSuffix lower ''tb'' \<or> HasSuffix lower ''t'' then (2 ^ 40, trim_right (\<lambda>c. c \<in> set ''tbTB'') v)
     else if HasSuffix lower ''gb'' \<or> HasSuffix lower ''g'' then (2 ^ 30, trim_right (\<lambda>c. c \<in> set ''gbGB'') v)
     else if HasSuffix lower ''mb'' \<or> HasSuffix lower ''m'' then (2 ^ 20, trim_right (\<lambda>c. c \<in> set ''mbMB'') v)
     else if HasSuffix lower ''kb'' \<or> HasSuffix lower ''k'' then (2 ^ 10, trim_right (\<lambda>c. c \<in> set ''kbKB'') v)
     else (1, v))"

definition ParseSizeBytes :: "(string \<Rightarrow> float64 option) \<Rightarrow> string \<Rightarrow> int" where
  "ParseSizeBytes parse_float v0 = (let v = TrimSpace v0 in
     if v = '''' then 0
     else let (mult, v) = size_unit v in
       case parse_float (TrimSpace v) of
         None \<Rightarrow> 0
       | Some num \<Rightarrow> if f64_le num (Fin 0) then 0
           else int64_of_f64 (f64_mul num (f64_of_int mult)))"

definition CalculateRAMCommitLimit :: "int \<Rightarrow> int" where
  "CalculateRAMCommitLimit totalRAM =
     int64_of_f64 (f64_mul (f64_of_int totalRAM) (f64_const RAMCommitRatio))"

definition CalculateDiskCommitLimit :: "int \<Rightarrow> int" where
  "CalculateDiskCommitLimit totalDisk =
     int64_of_f64 (f64_div (f64_mul (f64_of_int totalDisk) (f64_const DiskSafeNodeRatio))
       (f64_const DiskEmergencyMultiplier))"

text \<open>\<^verbatim>\<open>fmt.Sprintf("%.1f", x)\<close>: the exact value rounded to one decimal, ties to even.\<close>

definition show_tenths :: "float64 \<Rightarrow> string" where
  "show_tenths f = (case f of
     Fin x \<Rightarrow> (let n = round_even (\<bar>x\<bar> * 10) in
       (if x < 0 then ''-'' else '''') @ show_int (n div 10) @ ''.'' @ show_int (n mod 10))
   | PosInf \<Rightarrow> ''+Inf'' | NegInf \<Rightarrow> ''-Inf'' | NaN \<Rightarrow> ''NaN'')"

definition NodeStorageState :: "int \<Rightarrow> int \<Rightarrow> string \<times> string" where
  "NodeStorageState diskTotal diskUsed = (if diskTotal \<le> 0 then ('''', '''') else
     let pct = f64_mul (f64_div (f64_of_int diskUsed) (f64_of_int diskTotal)) (f64_const 100);
         msg = ''node disk usage at '' @ show_tenths pct @ ''%''
     in if f64_le (f64_const 95) pct then (''critical'', msg)
        else if f64_le (f64_const 90) pct then (''degraded'', msg)
        else if f64_le (f64_const 80) pct then (''warning'', msg)
        else ('''', ''''))"

section \<open>Health and availability of a node\<close>

definition isMetricsFresh :: "int \<Rightarrow> int option \<Rightarrow> bool" where
  "isMetricsFresh t lastMetricsAt = (case lastMetricsAt of
     None \<Rightarrow> False | Some m \<Rightarrow> t - m \<le> seconds MetricsStaleAfterSec)"

definition hasValidNodeMetrics :: "Node \<Rightarrow> bool" where
  "hasValidNodeMetrics node =
     (if n_RAMTotal node \<le> 0 \<or> n_DiskTotal node \<le> 0 then False
      else if n_RAMUsed node < 0 \<or> n_DiskUsed node < 0 then False
      else if n_RAMUsed node > n_RAMTotal node \<or> n_DiskUsed node > n_DiskTotal node then False
      else True)"

definition appendUniqueReason :: "string list \<Rightarrow> string \<Rightarrow> string list" where
  "appendUniqueReason reasons reason =
     (if reason = '''' then reasons else if reason \<in> set reasons then reasons else reasons @ [reason])"

definition normalizeReasons :: "string list \<Rightarrow> string list" where
  "normalizeReasons reasons = remdups_adj (sort reasons)"

definition joinReasons :: "string list \<Rightarrow> string" where
  "joinReasons reasons = join_with '','' (normalizeReasons reasons)"

text \<open>\<^verbatim>\<open>if c { reasons = appendUniqueReason(reasons, reason) }\<close>, one after the other.\<close>

definition reasons_of :: "(bool \<times> string) list \<Rightarrow> string list" where
  "reasons_of cs = fold (\<lambda>(c, r) reasons. if c then appendUniqueReason reasons r else reasons) cs []"

text \<open>A usage ratio at or above the critical ratio.\<close>

definition usage_critical :: "int \<Rightarrow> int \<Rightarrow> rat \<Rightarrow> bool" where
  "usage_critical used total_bytes ratio =
     f64_le (f64_const ratio) (f64_div (f64_of_int used) (f64_of_int total_bytes))"

definition metrics_valid :: "Node \<Rightarrow> bool" where
  "metrics_valid node \<longleftrightarrow> hasValidNodeMetrics node \<and> CalculateRAMCommitLimit (n_RAMTotal node) > 0
     \<and> CalculateDiskCommitLimit (n_DiskTotal node) > 0"

definition health_reasons :: "int \<Rightarrow> Node \<Rightarrow> string list" where
  "health_reasons t node = reasons_of
     [(n_Status node \<noteq> ''active'', ''fleet_offline''),
      (n_ManualDisabled node, ''manual_disabled''),
      (\<not> isMetricsFresh t (n_LastMetricsAt node), ''metrics_stale''),
      (\<not> metrics_valid node, ''invalid_metrics''),
      (metrics_valid node \<and> usage_critical (n_RAMUsed node) (n_RAMTotal node) RAMHealthCriticalRatio,
       ''ram_usage_critical''),
      (metrics_valid node \<and> usage_critical (n_DiskUsed node) (n_DiskTotal node) DiskHealthCriticalRatio,
       ''disk_usage_critical'')]"

definition availability_reasons :: "int \<Rightarrow> Node \<Rightarrow> string list" where
  "availability_reasons t node =
     (let ramCommitLimit = CalculateRAMCommitLimit (n_RAMTotal node);
          diskCommitLimit = CalculateDiskCommitLimit (n_DiskTotal node)
      in reasons_of
     [(n_Status node \<noteq> ''active'', ''fleet_offline''),
      (n_ManualDisabled node, ''manual_disabled''),
      (\<not> isMetricsFresh t (n_LastMetricsAt node), ''metrics_stale''),
      (\<not> metrics_valid node, ''invalid_metrics''),
      (metrics_valid node \<and> usage_critical (n_RAMUsed node) (n_RAMTotal node) RAMHealthCriticalRatio,
       ''ram_usage_critical''),
      (metrics_valid node \<and> usage_critical (n_DiskUsed node) (n_DiskTotal node) DiskHealthCriticalRatio,
       ''disk_usage_critical''),
      (ramCommitLimit \<le> 0 \<or> n_CommittedRAM node \<ge> ramCommitLimit, ''insufficient_ram_commit_capacity''),
      (diskCommitLimit \<le> 0 \<or> n_CommittedDisk node \<ge> diskCommitLimit, ''insufficient_disk_commit_capacity'')])"

definition update_health :: "string \<Rightarrow> string \<Rightarrow> string list \<Rightarrow> string list \<Rightarrow> unit db" where
  "update_health msg nid healthReasons availabilityReasons = wrapped msg
     (UpdateNodeHealth nid (if healthReasons \<noteq> [] then ''unhealthy'' else ''healthy'')
        (joinReasons healthReasons) (availabilityReasons = []) (joinReasons availabilityReasons))"

definition recomputePortalNodePolicy :: "Node \<Rightarrow> unit db" where
  "recomputePortalNodePolicy node = update_health (''update portal node '' @ quoted (n_ID node) @ '' health: '') (n_ID node)
     (reasons_of [(n_Status node \<noteq> ''active'', ''portal_offline''), (n_ManualDisabled node, ''manual_disabled'')])
     (reasons_of [(n_ManualDisabled node, ''manual_disabled'')])"

definition recomputeNodePolicy :: "string \<Rightarrow> unit db" where
  "recomputeNodePolicy nodeID = do {
     r \<leftarrow> GetNode nodeID;
     case r of
       Inl e \<Rightarrow> return (Inl (Wrap (''get node '' @ quoted nodeID @ '' for policy recompute: '') e))
     | Inr None \<Rightarrow> return (Inl (Plain (''node '' @ quoted nodeID @ '' not found for policy recompute'')))
     | Inr (Some node) \<Rightarrow>
         if n_NodeRole node = ''portal'' then recomputePortalNodePolicy node
         else do {
           u \<leftarrow> UpdateNodeCommitLimits nodeID (CalculateRAMCommitLimit (n_RAMTotal node))
                  (CalculateDiskCommitLimit (n_DiskTotal node));
           case u of
             Inl e \<Rightarrow> return (Inl (Wrap (''update commit limits for node '' @ quoted nodeID @ '': '') e))
           | Inr _ \<Rightarrow> do {
               t \<leftarrow> now;
               update_health (''update node '' @ quoted nodeID @ '' health: '') nodeID
                 (health_reasons t node) (availability_reasons t node)
             }
         }
   }"

section \<open>Selection of a node for a tier\<close>

record NodeProvisioningEvaluation =
  ev_NodeID :: string
  ev_Eligible :: bool
  ev_RejectionReasons :: "string list"
  ev_RemainingRAM :: int
  ev_RemainingDisk :: int

record nodeSelectionResult =
  sel_NodeID :: string
  sel_Evaluations :: "NodeProvisioningEvaluation list"

definition effective_limits :: "Node \<Rightarrow> int \<times> int" where
  "effective_limits node =
     (if n_RAMCommitLimit node \<le> 0 then CalculateRAMCommitLimit (n_RAMTotal node) else n_RAMCommitLimit node,
      if n_DiskCommitLimit node \<le> 0 then CalculateDiskCommitLimit (n_DiskTotal node) else n_DiskCommitLimit node)"

definition evaluateNodeForTier :: "int \<Rightarrow> Node \<Rightarrow> int \<Rightarrow> int \<Rightarrow> NodeProvisioningEvaluation" where
  "evaluateNodeForTier t node requestedRAM requestedDisk =
     (let (ramCommitLimit, diskCommitLimit) = effective_limits node;
          ram = wrap64 (n_CommittedRAM node + requestedRAM);
          disk = wrap64 (n_CommittedDisk node + requestedDisk);
          reasons = normalizeReasons (reasons_of
            [(n_NodeRole node = ''admin'' \<or> n_NodeRole node = ''portal'', ''not_a_worker_node''),
             (n_Status node \<noteq> ''active'' \<or> n_HealthStatus node \<noteq> ''healthy'', ''node_unhealthy''),
             (n_ManualDisabled node, ''manual_disabled''),
             (\<not> isMetricsFresh t (n_LastMetricsAt node), ''metrics_stale''),
             (\<not> hasValidNodeMetrics node, ''invalid_metrics''),
             (ramCommitLimit \<le> 0 \<or> ram > ramCommitLimit, ''insufficient_ram_commit_capacity''),
             (diskCommitLimit \<le> 0 \<or> disk > diskCommitLimit, ''insufficient_disk_commit_capacity'')])
      in \<lparr>ev_NodeID = n_ID node, ev_Eligible = (reasons = []), ev_RejectionReasons = reasons,
          ev_RemainingRAM = (if reasons = [] then wrap64 (ramCommitLimit - ram) else 0),
          ev_RemainingDisk = (if reasons = [] then wrap64 (diskCommitLimit - disk) else 0)\<rparr>)"

text \<open>
  The evaluation of the node chosen so far; \<^verbatim>\<open>result.Evaluations[0]\<close> stands in when none carries its
  identifier.
\<close>

definition best_evaluation :: "nodeSelectionResult \<Rightarrow> NodeProvisioningEvaluation" where
  "best_evaluation result = (case find (\<lambda>ev. ev_NodeID ev = sel_NodeID result) (sel_Evaluations result) of
     Some ev \<Rightarrow> ev | None \<Rightarrow> hd (sel_Evaluations result))"

definition consider_evaluation :: "NodeProvisioningEvaluation \<Rightarrow> nodeSelectionResult \<Rightarrow> nodeSelectionResult" where
  "consider_evaluation ev result0 =
     (let result = result0\<lparr>sel_Evaluations := sel_Evaluations result0 @ [ev]\<rparr>;
          chosen = result\<lparr>sel_NodeID := ev_NodeID ev\<rparr>
      in if \<not> ev_Eligible ev then result
         else if sel_NodeID result = '''' then chosen
         else let best = best_evaluation result in
           if ev_RemainingRAM ev > ev_RemainingRAM best
              \<or> ev_RemainingRAM ev = ev_RemainingRAM best \<and> ev_RemainingDisk ev > ev_RemainingDisk best
              \<or> ev_RemainingRAM ev = ev_RemainingRAM best \<and> ev_RemainingDisk ev = ev_RemainingDisk best
                \<and> ev_NodeID ev < sel_NodeID result
           then chosen else result)"

definition candidates :: "string \<Rightarrow> Node list \<Rightarrow> Node list" where
  "candidates requestedNodeID nodes =
     filter (\<lambda>node. requestedNodeID = '''' \<or> n_ID node = requestedNodeID) (sort_key n_ID nodes)"

definition selectNodeForTier ::
  "(string \<Rightarrow> float64 option) \<Rightarrow> AppTier \<Rightarrow> string \<Rightarrow> nodeSelectionResult db" where
  "selectNodeForTier parse_float tier requestedNodeID = do {
     r \<leftarrow> GetNodes;
     t \<leftarrow> now;
     return (case r of
       Inl e \<Rightarrow> Inl e
     | Inr nodes \<Rightarrow>
         let requestedRAM = ParseSizeBytes parse_float (at_Memory tier);
             requestedDisk = ParseSizeBytes parse_float (at_Storage tier)
         in if requestedRAM \<le> 0 \<or> requestedDisk \<le> 0
            then Inl (Plain (''tier '' @ quoted (at_Name tier) @ '' has invalid resource definition''))
            else Inr (fold (\<lambda>node. consider_evaluation (evaluateNodeForTier t node requestedRAM requestedDisk))
                   (candidates requestedNodeID nodes) \<lparr>sel_NodeID = '''', sel_Evaluations = []\<rparr>))
   }"

definition policyRejectedAction :: "TaskAction \<Rightarrow> TaskAction" where
  "policyRejectedAction action =
     (if action = ActionResizeApp then ActionResizePolicyRejected else ActionProvisionPolicyRejected)"

definition refreshNodeEvaluationsForTier ::
  "(string \<Rightarrow> float64 option) \<Rightarrow> AppTier \<Rightarrow> string \<Rightarrow> (store conn, NodeProvisioningEvaluation list) state" where
  "refreshNodeEvaluationsForTier parse_float tier requestedNodeID = do {
     r \<leftarrow> selectNodeForTier parse_float tier requestedNodeID;
     return (case r of Inl _ \<Rightarrow> [] | Inr selection \<Rightarrow> sel_Evaluations selection)
   }"

end
