(* ===== verification/Policy_Props.thy ===== *)
theory Policy_Props
  imports Policy Store_Provision Validation_Accept
begin

text \<open>
  Properties of the capacity policy: the commit limits, the state a recomputation writes, the choice
  of a node, and its agreement with the reservation in the store.
\<close>

section \<open>Reasons\<close>

lemma reasons_append:
  "fold (\<lambda>(c, r) reasons. if c then appendUniqueReason reasons r else reasons) cs rs = [] \<longleftrightarrow>
     rs = [] \<and> (\<forall>(c, r) \<in> set cs. c \<longrightarrow> r = '''')"
proof (induction cs arbitrary: rs)
  case (Cons p cs)
  obtain c r where p: "p = (c, r)" by (cases p)
  show ?case
    by (cases "rs = []") (simp_all add: p Cons.IH appendUniqueReason_def)
qed simp

lemma reasons_of_Nil: "reasons_of cs = [] \<longleftrightarrow> (\<forall>(c, r) \<in> set cs. c \<longrightarrow> r = '''')"
  by (simp add: reasons_of_def reasons_append)

lemma normalizeReasons_Nil [simp]: "normalizeReasons rs = [] \<longleftrightarrow> rs = []"
  by (metis normalizeReasons_def remdups_adj_Nil_iff set_empty set_sort)

lemma health_reasons_Nil:
  "health_reasons t node = [] \<longleftrightarrow> n_Status node = ''active'' \<and> \<not> n_ManualDisabled node
     \<and> isMetricsFresh t (n_LastMetricsAt node) \<and> metrics_valid node
     \<and> \<not> usage_critical (n_RAMUsed node) (n_RAMTotal node) RAMHealthCriticalRatio
     \<and> \<not> usage_critical (n_DiskUsed node) (n_DiskTotal node) DiskHealthCriticalRatio"
  unfolding health_reasons_def reasons_of_Nil by auto

lemma availability_reasons_Nil:
  "availability_reasons t node = [] \<longleftrightarrow> health_reasons t node = []
     \<and> n_CommittedRAM node < CalculateRAMCommitLimit (n_RAMTotal node)
     \<and> n_CommittedDisk node < CalculateDiskCommitLimit (n_DiskTotal node)"
  unfolding health_reasons_Nil availability_reasons_def Let_def reasons_of_Nil
  by (auto simp: metrics_valid_def)

section \<open>Commit limits\<close>

lemma f64_of_int_Fin: "f64_of_int n = Fin (rnd (of_int n))"
  by (simp add: f64_of_int_def)

lemma int64_of_f64_bounds:
  assumes "0 \<le> x" and "x < 2 ^ 63"
  shows "int64_of_f64 (Fin x) = \<lfloor>x\<rfloor>"
proof -
  have "0 \<le> \<lfloor>x\<rfloor>" "\<lfloor>x\<rfloor> < 2 ^ 63" using assms by (simp_all add: floor_less_iff)
  with assms show ?thesis by (simp add: int64_of_f64_def trunc_rat_def Let_def)
qed

lemma ram_ratio: "rnd RAMCommitRatio = 3602879701896397 / 4503599627370496"
  by code_simp

lemma disk_ratio: "rnd DiskSafeNodeRatio = 3602879701896397 / 4503599627370496"
  by code_simp

lemma emergency: "rnd DiskEmergencyMultiplier = 5404319552844595 / 4503599627370496"
  by code_simp


lemma round_even_ge: "of_int n - 1 / 2 < y \<Longrightarrow> n \<le> round_even y"
proof -
  assume "of_int n - 1 / 2 < y"
  moreover have "y \<le> of_int (round_even y) + 1 / 2"
    using round_even_error [of y] by linarith
  ultimately have "(of_int n :: rat) < of_int (round_even y + 1)" by simp
  then show ?thesis by (simp only: of_int_less_iff zless_add1_eq order_le_less)
qed

text \<open>
  A number just below a multiple of \<open>2 ^ k\<close>, or above it, is not rounded below that multiple when
  the spacing of the values around it is not coarser than \<open>2 ^ k\<close>.
\<close>

lemma rnd_ge:
  assumes x: "0 < x" "x < 2 powi (53 + k)" and m: "of_int m * 2 powi k - x < x / 2 ^ 54"
  shows "of_int m * 2 powi k \<le> rnd x"
proof -
  define e where "e = bin_exp x"
  define u :: rat where "u = 2 powi (e - 52)"
  have u: "0 < u" by (simp add: u_def)
  have "2 powi e < (2 :: rat) powi (53 + k)"
    using bin_exp_bounds(1) [OF x(1)] x(2) by (simp add: e_def)
  then have "e < 53 + k"
    using power_int_increasing [of "53 + k" e "2 :: rat"] by (meson not_le one_le_numeral)
  then have e: "0 \<le> k + 52 - e" by simp
  have "x < u * 2 ^ 53"
    using bin_exp_bounds(2) [OF x(1)] by (simp add: u_def e_def power_int_diff power_int_add)
  with m have "of_int m * 2 powi k - x < u / 2" by simp
  then have "(of_int m * 2 powi k - x) / u < 1 / 2" using u by (simp add: divide_less_eq)
  then have "of_int m * 2 powi k / u - 1 / 2 < x / u" unfolding diff_divide_distrib by linarith
  moreover have "(2 :: rat) powi k / u = 2 ^ nat (k + 52 - e)"
  proof -
    have "(2 :: rat) powi k / u = 2 powi (k - (e - 52))" by (simp add: u_def power_int_diff)
    then show ?thesis using e by (simp add: power_int_def algebra_simps)
  qed
  then have mu: "of_int m * 2 powi k / u = of_int (m * 2 ^ nat (k + 52 - e))"
    by (simp flip: times_divide_eq_right)
  ultimately have "m * 2 ^ nat (k + 52 - e) \<le> round_even (x / u)"
    by (intro round_even_ge) simp
  then have "of_int m * 2 powi k / u * u \<le> of_int (round_even (x / u)) * u"
    unfolding mu using u by (intro mult_right_mono) (simp_all only: of_int_le_iff less_imp_le)
  moreover have "rnd x = of_int (round_even (x / u)) * u"
    using x(1) by (simp add: rnd_def u_def e_def Let_def)
  ultimately show ?thesis using u by simp
qed

lemma rnd_ge_int:
  "0 < x \<Longrightarrow> x < 2 ^ 53 \<Longrightarrow> of_int m - x < x / 2 ^ 54 \<Longrightarrow> of_int m \<le> rnd x"
  using rnd_ge [of x 0 m] by simp

lemma rat_le: "a \<le> b \<Longrightarrow> (of_int a :: rat) \<le> of_int b"
  by simp

lemma ram_limit:
  assumes "0 \<le> t" and "t \<le> 2 ^ 50"
  shows "CalculateRAMCommitLimit t = 4 * t div 5"
proof (cases "t = 0")
  case False
  let ?r = "3602879701896397 / 4503599627370496 :: rat"
  define x where "x = of_int t * ?r"
  have t: "0 < (of_int t :: rat)" "(of_int t :: rat) \<le> 2 ^ 50"
    using assms False rat_le [OF assms(2)] by simp_all
  have x: "0 < x" "4 / 5 * of_int t \<le> x" "x \<le> 4 / 5 * of_int t + 1 / 20" "x < 2 ^ 53"
    using t by (simp_all add: x_def)
  have lim: "CalculateRAMCommitLimit t = int64_of_f64 (Fin (rnd x))"
    using assms by (simp add: CalculateRAMCommitLimit_def f64_of_int_Fin f64_const_def ram_ratio rnd_int x_def)
  have up: "rnd x \<le> 4 / 5 * of_int t + 19 / 100"
    using rnd_upper [of x] x t by (simp add: distrib_left)
  define q where "q = 4 * t div 5"
  have q: "5 * q \<le> 4 * t" "4 * t < 5 * q + 5" by (simp_all add: q_def)
  have "of_int q \<le> 4 / 5 * (of_int t :: rat)" 
    using rat_le [OF q(1)] by simp
  then have lo: "of_int q \<le> rnd x"
    using x by (intro rnd_ge_int) simp_all
  have "4 * (of_int t :: rat) + 1 \<le> 5 * of_int q + 5"
    using rat_le [of "4 * t + 1" "5 * q + 5"] q(2) by simp
  with up have "rnd x < of_int q + 1" by linarith
  with lo have "\<lfloor>rnd x\<rfloor> = q" by (simp add: floor_eq_iff)
  moreover have "0 \<le> rnd x" using x by (simp add: rnd_nonneg)
  ultimately show ?thesis
    using up t by (simp add: lim int64_of_f64_bounds q_def)
qed (simp add: CalculateRAMCommitLimit_def f64_of_int_Fin f64_const_def int64_of_f64_def trunc_rat_def)


lemma disk_limit:
  assumes "0 \<le> t" and "t \<le> 2 ^ 50"
  shows "CalculateDiskCommitLimit t = 2 * t div 3"
proof (cases "t = 0")
  case False
  let ?r = "3602879701896397 / 4503599627370496 :: rat"
  let ?e = "5404319552844595 / 4503599627370496 :: rat"
  define x where "x = of_int t * ?r"
  define y where "y = rnd x / ?e"
  have t: "0 < (of_int t :: rat)" "(of_int t :: rat) \<le> 2 ^ 50"
    using assms False rat_le [OF assms(2)] by simp_all
  have x: "0 < x" using t by (simp add: x_def)
  have y: "y \<le> x * (1 + 1 / 2 ^ 53) / ?e" "x * (1 - 1 / 2 ^ 53) / ?e \<le> y"
    using rnd_upper [of x] rnd_lower [of x] x by (simp_all add: y_def divide_right_mono)
  have y': "y \<le> 2 / 3 * of_int t + 4 / 25" "2 / 3 * of_int t - y < y / 2 ^ 54" "0 < y"
    using y t unfolding x_def by simp_all
  have lim: "CalculateDiskCommitLimit t = int64_of_f64 (Fin (rnd y))"
    using assms by (simp add: CalculateDiskCommitLimit_def f64_of_int_Fin f64_const_def disk_ratio emergency
        rnd_int x_def y_def)
  have up: "rnd y \<le> 2 / 3 * of_int t + 3 / 10"
    using rnd_upper [of y] y' t by (simp add: distrib_left)
  define q where "q = 2 * t div 3"
  have q: "3 * q \<le> 2 * t" "2 * t < 3 * q + 3" by (simp_all add: q_def)
  have "of_int q \<le> 2 / 3 * (of_int t :: rat)" 
    using rat_le [OF q(1)] by simp
  then have lo: "of_int q \<le> rnd y"
    using y' t by (intro rnd_ge_int) simp_all
  have "2 * (of_int t :: rat) + 1 \<le> 3 * of_int q + 3"
    using rat_le [of "2 * t + 1" "3 * q + 3"] q(2) by simp
  with up have "rnd y < of_int q + 1" by linarith
  with lo have "\<lfloor>rnd y\<rfloor> = q" by (simp add: floor_eq_iff)
  moreover have "0 \<le> rnd y" using y' by (simp add: rnd_nonneg)
  ultimately show ?thesis
    using up t by (simp add: lim int64_of_f64_bounds q_def)
qed (simp add: CalculateDiskCommitLimit_def f64_of_int_Fin f64_const_def int64_of_f64_def trunc_rat_def emergency)


text \<open>The comparison of a ratio of two sizes with 0.90 is exact.\<close>

lemma critical_ratio: "rnd RAMHealthCriticalRatio = of_int 8106479329266893 * 2 powi (- 53)"
  "DiskHealthCriticalRatio = RAMHealthCriticalRatio"
  by code_simp+

lemma usage_critical_iff:
  assumes "0 \<le> used" and "used \<le> bytes" and "0 < bytes" and "bytes \<le> 2 ^ 50"
  shows "usage_critical used bytes RAMHealthCriticalRatio \<longleftrightarrow> 9 * bytes \<le> 10 * used"
proof -
  define b :: rat where "b = of_int bytes"
  define u :: rat where "u = of_int used"
  define x where "x = u / b"
  have b: "0 < b" "b \<le> 2 ^ 50" "0 \<le> u" "u \<le> b"
    using assms rat_le [OF assms(4)] by (simp_all add: b_def u_def)
  have crit: "usage_critical used bytes RAMHealthCriticalRatio \<longleftrightarrow> of_int 8106479329266893 * 2 powi (- 53) \<le> rnd x"
    using assms by (simp add: usage_critical_def f64_of_int_Fin f64_const_def critical_ratio(1) rnd_int x_def u_def b_def)
  show ?thesis
  proof (cases "9 * bytes \<le> 10 * used")
    case True
    then have 1: "9 / 10 \<le> x" using rat_le [OF True] b by (simp add: x_def u_def b_def field_simps)
    have "of_int 8106479329266893 * 2 powi (- 53) \<le> rnd x"
    proof (cases "x < 1")
      case less: True
      with 1 show ?thesis by (intro rnd_ge) (simp_all add: power_int_minus)
    next
      case False
      with b have "x = 1" by (simp add: x_def)
      then show ?thesis using rnd_int [of 1] by (simp add: power_int_minus)
    qed
    with True show ?thesis by (simp add: crit)
  next
    case False
    then have "10 * u + 1 \<le> 9 * b"
      using rat_le [of "10 * used + 1" "9 * bytes"] by (simp add: u_def b_def)
    then have "10 * x + 1 / b \<le> 9" using b(1) by (simp add: x_def field_simps)
    moreover have "1 / 2 ^ 50 \<le> 1 / b" using b by (simp add: frac_le)
    ultimately have x: "10 * x \<le> 9 - 1 / 2 ^ 50" by simp
    have "rnd x \<le> x * (1 + 1 / 2 ^ 53)" using b by (intro rnd_upper) (simp add: x_def)
    also have "\<dots> < of_int 8106479329266893 * 2 powi (- 53)"
      using x by (simp add: power_int_minus)
    finally show ?thesis using False by (simp add: crit)
  qed
qed


section \<open>What a recomputation writes\<close>

lemma join_with_Nil: "'''' \<notin> set ws \<Longrightarrow> join_with d ws = '''' \<longleftrightarrow> ws = []"
  by (induction d ws rule: join_with.induct) auto

lemma reasons_nonempty:
  "'''' \<notin> set rs \<Longrightarrow>
   '''' \<notin> set (fold (\<lambda>(c, r) reasons. if c then appendUniqueReason reasons r else reasons) cs rs)"
proof (induction cs arbitrary: rs)
  case (Cons p cs)
  obtain c r where p: "p = (c, r)" by (cases p)
  show ?case using Cons.prems by (simp add: p Cons.IH appendUniqueReason_def)
qed simp

lemma joinReasons_Nil: "joinReasons (reasons_of cs) = '''' \<longleftrightarrow> reasons_of cs = []"
proof -
  have "'''' \<notin> set (normalizeReasons (reasons_of cs))"
    using reasons_nonempty [of "[]" cs] by (simp add: normalizeReasons_def reasons_of_def)
  then show ?thesis by (simp add: joinReasons_def join_with_Nil)
qed

lemma update_where_twice:
  "(\<And>r. p r \<Longrightarrow> p (f r)) \<Longrightarrow> update_where p g (update_where p f rows) = update_where p (\<lambda>r. g (f r)) rows"
  by (simp add: update_where_def)

text \<open>
  The specification in integers: a node is healthy when it is active, enabled, has reported within
  180 seconds and uses less than 90% of its memory and of its disk, and has room when one more byte
  keeps the commitments within 80% of the memory and two thirds of the disk.
\<close>

definition node_healthy :: "int \<Rightarrow> Node \<Rightarrow> bool" where
  "node_healthy t n \<longleftrightarrow> n_Status n = ''active'' \<and> \<not> n_ManualDisabled n
     \<and> (case n_LastMetricsAt n of None \<Rightarrow> False | Some m \<Rightarrow> t - m \<le> seconds 180)
     \<and> 2 \<le> n_RAMTotal n \<and> 0 \<le> n_RAMUsed n \<and> 10 * n_RAMUsed n < 9 * n_RAMTotal n
     \<and> 2 \<le> n_DiskTotal n \<and> 0 \<le> n_DiskUsed n \<and> 10 * n_DiskUsed n < 9 * n_DiskTotal n"

definition node_has_room :: "Node \<Rightarrow> bool" where
  "node_has_room n \<longleftrightarrow> 5 * (n_CommittedRAM n + 1) \<le> 4 * n_RAMTotal n \<and> 3 * (n_CommittedDisk n + 1) \<le> 2 * n_DiskTotal n"

definition sizes_ok :: "Node \<Rightarrow> bool" where
  "sizes_ok n \<longleftrightarrow> 0 \<le> n_RAMTotal n \<and> n_RAMTotal n \<le> 2 ^ 50 \<and> 0 \<le> n_DiskTotal n \<and> n_DiskTotal n \<le> 2 ^ 50"

lemma isMetricsFresh_iff:
  "isMetricsFresh t seen \<longleftrightarrow> (case seen of None \<Rightarrow> False | Some m \<Rightarrow> t - m \<le> seconds 180)"
  by (cases seen) (simp_all add: isMetricsFresh_def MetricsStaleAfterSec_def)

lemma healthy_iff:
  assumes "sizes_ok n"
  shows "health_reasons t n = [] \<longleftrightarrow> node_healthy t n"
proof (cases "hasValidNodeMetrics n")
  case True
  then have 1: "0 < n_RAMTotal n" "0 \<le> n_RAMUsed n" "n_RAMUsed n \<le> n_RAMTotal n"
    "0 < n_DiskTotal n" "0 \<le> n_DiskUsed n" "n_DiskUsed n \<le> n_DiskTotal n"
    by (auto simp: hasValidNodeMetrics_def split: if_splits)
  have "0 < 4 * n_RAMTotal n div 5 \<longleftrightarrow> 2 \<le> n_RAMTotal n" "0 < 2 * n_DiskTotal n div 3 \<longleftrightarrow> 2 \<le> n_DiskTotal n"
    by presburger+
  then show ?thesis
    using assms 1 unfolding health_reasons_Nil critical_ratio(2)
    by (auto simp: usage_critical_iff metrics_valid_def True ram_limit disk_limit node_healthy_def sizes_ok_def
        isMetricsFresh_iff)
next
  case False
  then show ?thesis
    by (auto simp: health_reasons_Nil metrics_valid_def node_healthy_def hasValidNodeMetrics_def split: if_splits)
qed

lemma room_iff:
  assumes "sizes_ok n"
  shows "n_CommittedRAM n < CalculateRAMCommitLimit (n_RAMTotal n)
    \<and> n_CommittedDisk n < CalculateDiskCommitLimit (n_DiskTotal n) \<longleftrightarrow> node_has_room n"
proof -
  have "a < 4 * x div 5 \<longleftrightarrow> 5 * (a + 1) \<le> 4 * x" "a < 2 * x div 3 \<longleftrightarrow> 3 * (a + 1) \<le> 2 * x" for a x :: int
    by presburger+
  then show ?thesis using assms by (simp add: ram_limit disk_limit sizes_ok_def node_has_room_def)
qed

definition policy_row :: "int \<Rightarrow> Node \<Rightarrow> Node" where
  "policy_row t n = n\<lparr>n_RAMCommitLimit := CalculateRAMCommitLimit (n_RAMTotal n),
     n_DiskCommitLimit := CalculateDiskCommitLimit (n_DiskTotal n),
     n_HealthStatus := (if health_reasons t n \<noteq> [] then ''unhealthy'' else ''healthy''),
     n_HealthReasonCodes := joinReasons (health_reasons t n),
     n_AvailableForProvisioning := (availability_reasons t n = []),
     n_UnavailableReasonCodes := joinReasons (availability_reasons t n)\<rparr>"

lemma recompute_run:
  assumes ok: "store_ok (tables c)" and n: "n \<in> set (st_nodes (tables c))" and role: "n_NodeRole n \<noteq> ''portal''"
    and run: "run_state (recomputeNodePolicy (n_ID n)) c = (Inr u, c')"
  shows "tables c' = (tables c)\<lparr>st_nodes := update_where (\<lambda>m. m = n) (policy_row (app_clock c)) (st_nodes (tables c))\<rparr>
    \<and> same_clocks c c'"
proof -
  have uniq: "m = n" if "m \<in> set (st_nodes (tables c))" "n_ID m = n_ID n" for m
    using node_unique [OF ok that(1) n that(2)] .
  have "find_where (\<lambda>m. n_ID m = n_ID n) (st_nodes (tables c)) = Some n"
    using n uniq by (cases "find_where (\<lambda>m. n_ID m = n_ID n) (st_nodes (tables c))")
      (auto simp: find_where_None dest: find_where_SomeD)
  then have "tables c' = (tables c)\<lparr>st_nodes := update_where (\<lambda>m. n_ID m = n_ID n)
      (\<lambda>m. m\<lparr>n_RAMCommitLimit := n_RAMCommitLimit (policy_row (app_clock c) n),
        n_DiskCommitLimit := n_DiskCommitLimit (policy_row (app_clock c) n),
        n_HealthStatus := n_HealthStatus (policy_row (app_clock c) n),
        n_HealthReasonCodes := n_HealthReasonCodes (policy_row (app_clock c) n),
        n_AvailableForProvisioning := n_AvailableForProvisioning (policy_row (app_clock c) n),
        n_UnavailableReasonCodes := n_UnavailableReasonCodes (policy_row (app_clock c) n)\<rparr>) (st_nodes (tables c))\<rparr>
      \<and> same_clocks c c'"
    using run role
    by (auto simp: recomputeNodePolicy_def GetNode_def wrapped_def update_health_def UpdateNodeHealth_def
        UpdateNodeCommitLimits_def update_nodes_def update_where_twice policy_row_def same_clocks_def
        dest!: query_Inr_sym query_Inl exec_Inr exec_Inl split: prod.splits sum.splits)
  moreover have "update_where (\<lambda>m. n_ID m = n_ID n)
      (\<lambda>m. m\<lparr>n_RAMCommitLimit := n_RAMCommitLimit (policy_row t n),
        n_DiskCommitLimit := n_DiskCommitLimit (policy_row t n),
        n_HealthStatus := n_HealthStatus (policy_row t n),
        n_HealthReasonCodes := n_HealthReasonCodes (policy_row t n),
        n_AvailableForProvisioning := n_AvailableForProvisioning (policy_row t n),
        n_UnavailableReasonCodes := n_UnavailableReasonCodes (policy_row t n)\<rparr>) (st_nodes (tables c))
    = update_where (\<lambda>m. m = n) (policy_row t) (st_nodes (tables c))" for t
    unfolding update_where_def by (rule map_cong [OF refl]) (auto dest: uniq simp: policy_row_def)
  ultimately show ?thesis by simp
qed


text \<open>
  C32.  What \<^verbatim>\<open>recomputeNodePolicy\<close> writes.  After a successful recomputation for a node that is
  not a portal, the commit limits of its row are the integer parts of 80% of the memory and of two
  thirds of the disk; it is marked healthy exactly when it is healthy by the integer specification at
  the time of the call; it is available for provisioning exactly when it also has room, and its reason
  codes are empty exactly then.  No other column and no other row changes.
\<close>

theorem recompute_exact:
  assumes "store_ok (tables c)" and "n \<in> set (st_nodes (tables c))" and "n_NodeRole n \<noteq> ''portal''"
    and "sizes_ok n" and "run_state (recomputeNodePolicy (n_ID n)) c = (Inr u, c')"
  shows "\<exists>hr ar. tables c' = (tables c)\<lparr>st_nodes := update_where (\<lambda>m. m = n) (\<lambda>m. m\<lparr>
      n_RAMCommitLimit := 4 * n_RAMTotal n div 5, n_DiskCommitLimit := 2 * n_DiskTotal n div 3,
      n_HealthStatus := (if node_healthy (app_clock c) n then ''healthy'' else ''unhealthy''),
      n_HealthReasonCodes := hr,
      n_AvailableForProvisioning := (node_healthy (app_clock c) n \<and> node_has_room n),
      n_UnavailableReasonCodes := ar\<rparr>) (st_nodes (tables c))\<rparr>
    \<and> (hr = '''' \<longleftrightarrow> node_healthy (app_clock c) n)
    \<and> (ar = '''' \<longleftrightarrow> node_healthy (app_clock c) n \<and> node_has_room n)"
proof (intro exI conjI)
  let ?t = "app_clock c"
  have h: "health_reasons ?t n = [] \<longleftrightarrow> node_healthy ?t n"
    by (rule healthy_iff [OF assms(4)])
  have a: "availability_reasons ?t n = [] \<longleftrightarrow> node_healthy ?t n \<and> node_has_room n"
    using h room_iff [OF assms(4)] by (simp add: availability_reasons_Nil)
  show "joinReasons (health_reasons ?t n) = '''' \<longleftrightarrow> node_healthy ?t n"
    unfolding h [symmetric] by (simp add: health_reasons_def joinReasons_Nil)
  show "joinReasons (availability_reasons ?t n) = '''' \<longleftrightarrow> node_healthy ?t n \<and> node_has_room n"
    unfolding a [symmetric] by (simp add: availability_reasons_def Let_def joinReasons_Nil)
  show "tables c' = (tables c)\<lparr>st_nodes := update_where (\<lambda>m. m = n) (\<lambda>m. m\<lparr>
      n_RAMCommitLimit := 4 * n_RAMTotal n div 5, n_DiskCommitLimit := 2 * n_DiskTotal n div 3,
      n_HealthStatus := (if node_healthy ?t n then ''healthy'' else ''unhealthy''),
      n_HealthReasonCodes := joinReasons (health_reasons ?t n),
      n_AvailableForProvisioning := (node_healthy ?t n \<and> node_has_room n),
      n_UnavailableReasonCodes := joinReasons (availability_reasons ?t n)\<rparr>) (st_nodes (tables c))\<rparr>"
    using recompute_run [OF assms(1-3,5)] assms(4)
    by (auto simp: update_where_def policy_row_def h a ram_limit disk_limit sizes_ok_def)
qed


section \<open>The choice of a node\<close>

text \<open>The order of preference: most memory left, then most disk left, then the least identifier.\<close>

definition preference :: "NodeProvisioningEvaluation \<Rightarrow> int \<times> int \<times> string" where
  "preference ev = (- ev_RemainingRAM ev, - ev_RemainingDisk ev, ev_NodeID ev)"

definition preferred :: "NodeProvisioningEvaluation list \<Rightarrow> NodeProvisioningEvaluation \<Rightarrow> bool" where
  "preferred evs b \<longleftrightarrow> b \<in> set evs \<and> ev_Eligible b \<and> (\<forall>ev \<in> set evs. ev_Eligible ev \<longrightarrow> preference b \<le> preference ev)"

definition chosen_ok :: "NodeProvisioningEvaluation list \<Rightarrow> nodeSelectionResult \<Rightarrow> bool" where
  "chosen_ok evs r \<longleftrightarrow> sel_Evaluations r = evs
     \<and> (if \<exists>ev \<in> set evs. ev_Eligible ev then \<exists>b. preferred evs b \<and> sel_NodeID r = ev_NodeID b else sel_NodeID r = '''')"

lemma find_key:
  assumes "distinct (map k xs)" and "x \<in> set xs"
  shows "find (\<lambda>y. k y = k x) xs = Some x"
  using assms by (induction xs) (auto simp: image_iff)

lemma consider_step:
  assumes dist: "distinct (map ev_NodeID (evs @ [ev]))" and ids: "'''' \<notin> set (map ev_NodeID (evs @ [ev]))"
    and r: "chosen_ok evs r"
  shows "chosen_ok (evs @ [ev]) (consider_evaluation ev r)"
proof (cases "ev_Eligible ev")
  case False
  then show ?thesis using r
    by (auto simp: chosen_ok_def consider_evaluation_def Let_def preferred_def split: if_splits)
next
  case el: True
  show ?thesis
  proof (cases "\<exists>ev \<in> set evs. ev_Eligible ev")
    case False
    with r el show ?thesis
      by (auto simp: chosen_ok_def consider_evaluation_def Let_def preferred_def)
  next
    case True
    with r obtain b where b: "preferred evs b" "sel_NodeID r = ev_NodeID b" "sel_Evaluations r = evs"
      by (auto simp: chosen_ok_def)
    then have mem: "b \<in> set (evs @ [ev])" and ne: "sel_NodeID r \<noteq> ''''"
      using ids by (auto simp: preferred_def image_iff)
    then have "best_evaluation (r\<lparr>sel_Evaluations := sel_Evaluations r @ [ev]\<rparr>) = b"
      using find_key [OF dist mem] b by (simp add: best_evaluation_def)
    then have "consider_evaluation ev r = r\<lparr>sel_Evaluations := evs @ [ev],
        sel_NodeID := (if preference ev < preference b then ev_NodeID ev else ev_NodeID b)\<rparr>"
      using el b ne by (auto simp: consider_evaluation_def Let_def preference_def less_prod_def)
    moreover have "preferred (evs @ [ev]) (if preference ev < preference b then ev else b)"
      using b(1) el by (auto simp: preferred_def)
    ultimately show ?thesis using el by (auto simp: chosen_ok_def)
  qed
qed

lemma fold_consider:
  assumes "distinct (map ev_NodeID evs)" and "'''' \<notin> set (map ev_NodeID evs)"
  shows "chosen_ok evs (fold consider_evaluation evs \<lparr>sel_NodeID = '''', sel_Evaluations = []\<rparr>)"
  using assms
proof (induction evs rule: rev_induct)
  case Nil
  then show ?case by (simp add: chosen_ok_def)
next
  case (snoc ev evs)
  then show ?case using consider_step [of evs ev] by simp
qed


text \<open>
  When a node admits a tier, in integers without wrap-around: the sums of a commitment and the
  request fit into 64 bits.
\<close>

definition node_ranges :: "int \<Rightarrow> int \<Rightarrow> Node \<Rightarrow> bool" where
  "node_ranges ram disk n \<longleftrightarrow> 0 \<le> n_CommittedRAM n \<and> int64_ok (n_CommittedRAM n + ram) \<and> int64_ok (n_RAMCommitLimit n)
     \<and> 0 \<le> n_CommittedDisk n \<and> int64_ok (n_CommittedDisk n + disk) \<and> int64_ok (n_DiskCommitLimit n)"

definition tier_admits :: "int \<Rightarrow> int \<Rightarrow> int \<Rightarrow> Node \<Rightarrow> bool" where
  "tier_admits t ram disk n \<longleftrightarrow> n_NodeRole n \<noteq> ''admin'' \<and> n_NodeRole n \<noteq> ''portal''
     \<and> n_Status n = ''active'' \<and> n_HealthStatus n = ''healthy'' \<and> \<not> n_ManualDisabled n
     \<and> isMetricsFresh t (n_LastMetricsAt n) \<and> hasValidNodeMetrics n
     \<and> n_CommittedRAM n + ram \<le> fst (effective_limits n) \<and> n_CommittedDisk n + disk \<le> snd (effective_limits n)"

definition node_rank :: "int \<Rightarrow> int \<Rightarrow> Node \<Rightarrow> int \<times> int \<times> string" where
  "node_rank ram disk n = (n_CommittedRAM n + ram - fst (effective_limits n),
     n_CommittedDisk n + disk - snd (effective_limits n), n_ID n)"

lemma int64_of_f64_ok: "int64_ok (int64_of_f64 f)"
  by (auto simp: int64_of_f64_def int64_ok_def Let_def split: float64.splits)

lemma effective_limits_ok:
  "node_ranges ram disk n \<Longrightarrow> int64_ok (fst (effective_limits n)) \<and> int64_ok (snd (effective_limits n))"
  by (auto simp: effective_limits_def node_ranges_def CalculateRAMCommitLimit_def CalculateDiskCommitLimit_def
      int64_of_f64_ok)

lemma evaluate_exact:
  assumes "node_ranges ram disk n" and "0 < ram" and "0 < disk"
  shows "ev_Eligible (evaluateNodeForTier t n ram disk) \<longleftrightarrow> tier_admits t ram disk n"
    and "tier_admits t ram disk n \<Longrightarrow> preference (evaluateNodeForTier t n ram disk) = node_rank ram disk n"
    and "ev_NodeID (evaluateNodeForTier t n ram disk) = n_ID n"
proof -
  obtain l k where lim: "effective_limits n = (l, k)" by (cases "effective_limits n")
  have w: "wrap64 (n_CommittedRAM n + ram) = n_CommittedRAM n + ram"
    "wrap64 (n_CommittedDisk n + disk) = n_CommittedDisk n + disk"
    using assms(1) by (simp_all add: node_ranges_def)
  show el: "ev_Eligible (evaluateNodeForTier t n ram disk) \<longleftrightarrow> tier_admits t ram disk n"
    using assms unfolding evaluateNodeForTier_def lim Let_def w
    by (auto simp: reasons_of_Nil tier_admits_def lim node_ranges_def)
  show "ev_NodeID (evaluateNodeForTier t n ram disk) = n_ID n"
    by (simp add: evaluateNodeForTier_def Let_def split: prod.splits)
  assume adm: "tier_admits t ram disk n"
  have "int64_ok (l - (n_CommittedRAM n + ram))" "int64_ok (k - (n_CommittedDisk n + disk))"
    using adm assms effective_limits_ok [OF assms(1)]
    by (auto simp: tier_admits_def lim int64_ok_def node_ranges_def)
  with adm el show "preference (evaluateNodeForTier t n ram disk) = node_rank ram disk n"
    unfolding evaluateNodeForTier_def lim Let_def w
    by (simp add: preference_def node_rank_def lim)
qed

lemma join_token_columns:
  obtains k a b e where "join_token tks n = n\<lparr>n_TokenType := k, n_TokenStatus := a, n_TokenIdentifier := b, n_TokenExpiresAt := e\<rparr>"
proof (cases "join_token tks n = n")
  case True
  then have "join_token tks n = n\<lparr>n_TokenType := n_TokenType n, n_TokenStatus := n_TokenStatus n, n_TokenIdentifier := n_TokenIdentifier n,
      n_TokenExpiresAt := n_TokenExpiresAt n\<rparr>" by simp
  with that show ?thesis by blast
next
  case False
  with that show ?thesis by (auto simp: join_token_def Let_def split: option.splits if_splits)
qed

lemma join_token_keeps [simp]:
  "n_ID (join_token tks n) = n_ID n" "n_NodeRole (join_token tks n) = n_NodeRole n"
  "n_Status (join_token tks n) = n_Status n" "n_HealthStatus (join_token tks n) = n_HealthStatus n"
  "n_ManualDisabled (join_token tks n) = n_ManualDisabled n"
  "n_LastMetricsAt (join_token tks n) = n_LastMetricsAt n"
  "n_CommittedRAM (join_token tks n) = n_CommittedRAM n" "n_CommittedDisk (join_token tks n) = n_CommittedDisk n"
  "effective_limits (join_token tks n) = effective_limits n"
  "hasValidNodeMetrics (join_token tks n) = hasValidNodeMetrics n"
  by (rule join_token_columns [of tks n]; simp add: effective_limits_def hasValidNodeMetrics_def)+

lemma evaluate_join [simp]: "evaluateNodeForTier t (join_token tks n) ram disk = evaluateNodeForTier t n ram disk"
  unfolding evaluateNodeForTier_def join_token_keeps by (rule refl)

lemma image_candidates:
  fixes f :: "Node \<Rightarrow> 'a" and g :: "Node \<Rightarrow> Node"
  assumes "\<And>n. f (g n) = f n" and "\<And>n. n_ID (g n) = n_ID n"
  shows "set (map f (candidates req (map g ns))) = f ` {n \<in> set ns. req = '''' \<or> n_ID n = req}"
proof -
  have "set (candidates req (map g ns)) = g ` {n \<in> set ns. req = '''' \<or> n_ID n = req}"
    using assms(2) by (auto simp: candidates_def)
  then show ?thesis by (simp add: image_image assms(1))
qed

lemma distinct_candidates:
  assumes "distinct (map n_ID ns)" and "\<And>n. n_ID (g n) = n_ID n"
  shows "distinct (map n_ID (candidates req (map g ns)))"
proof -
  have "distinct (map n_ID (map g ns))" using assms by (simp add: comp_def)
  then have "distinct (map n_ID (sort_key n_ID (map g ns)))" by (simp only: distinct_map distinct_sort set_sort)
  then show ?thesis unfolding candidates_def by (rule distinct_map_filter)
qed

definition evaluations :: "int \<Rightarrow> int \<Rightarrow> int \<Rightarrow> string \<Rightarrow> store \<Rightarrow> NodeProvisioningEvaluation list" where
  "evaluations t ram disk req d = map (\<lambda>n. evaluateNodeForTier t n ram disk)
     (candidates req (map (join_token (st_tokens d)) (sort_key n_CreatedAt (st_nodes d))))"

lemma select_run:
  assumes "run_state (selectNodeForTier pf tier req) c = (Inr sel, c')"
    and "ram = ParseSizeBytes pf (at_Memory tier)" and "disk = ParseSizeBytes pf (at_Storage tier)"
  shows "tables c' = tables c \<and> same_clocks c c' \<and> 0 < ram \<and> 0 < disk
    \<and> sel = fold consider_evaluation (evaluations (app_clock c) ram disk req (tables c)) \<lparr>sel_NodeID = '''', sel_Evaluations = []\<rparr>"
  using assms
  by (auto simp: selectNodeForTier_def GetNodes_def wrapped_def evaluations_def fold_map comp_def Let_def
      same_clocks_def dest!: query_Inr_sym query_Inl split: prod.splits sum.splits if_splits)

lemma evaluations_ok:
  assumes "store_ok d" and "\<forall>n \<in> set (st_nodes d). node_ranges ram disk n" and "0 < ram" and "0 < disk"
  shows "distinct (map ev_NodeID (evaluations t ram disk req d))"
    and "set (evaluations t ram disk req d)
      = (\<lambda>n. evaluateNodeForTier t n ram disk) ` {n \<in> set (st_nodes d). req = '''' \<or> n_ID n = req}"
proof -
  let ?ns = "sort_key n_CreatedAt (st_nodes d)"
  have "ev_NodeID (evaluateNodeForTier t n ram disk) = n_ID n" for n
    by (simp add: evaluateNodeForTier_def Let_def split: prod.splits)
  moreover have "distinct (map n_ID ?ns)"
    using assms(1) by (simp add: store_ok_def node_keys_ok_def distinct_map)
  ultimately show "distinct (map ev_NodeID (evaluations t ram disk req d))"
    using distinct_candidates [of ?ns "join_token (st_tokens d)" req] by (simp add: evaluations_def comp_def)
  show "set (evaluations t ram disk req d)
      = (\<lambda>n. evaluateNodeForTier t n ram disk) ` {n \<in> set (st_nodes d). req = '''' \<or> n_ID n = req}"
    unfolding evaluations_def
    using image_candidates [of "\<lambda>n. evaluateNodeForTier t n ram disk" "join_token (st_tokens d)" req ?ns] by simp
qed

definition admitted :: "int \<Rightarrow> int \<Rightarrow> int \<Rightarrow> string \<Rightarrow> store \<Rightarrow> Node set" where
  "admitted t ram disk req d = {n \<in> set (st_nodes d). (req = '''' \<or> n_ID n = req) \<and> tier_admits t ram disk n}"

lemma select_optimal:
  assumes ok: "store_ok (tables c)" and ids: "'''' \<notin> n_ID ` set (st_nodes (tables c))"
    and size: "ram = ParseSizeBytes pf (at_Memory tier)" "disk = ParseSizeBytes pf (at_Storage tier)"
    and ranges: "\<forall>n \<in> set (st_nodes (tables c)). node_ranges ram disk n"
    and run: "run_state (selectNodeForTier pf tier req) c = (Inr sel, c')"
  shows "tables c' = tables c \<and> same_clocks c c' \<and> 0 < ram \<and> 0 < disk \<and>
    (if admitted (app_clock c) ram disk req (tables c) = {} then sel_NodeID sel = ''''
     else \<exists>n \<in> admitted (app_clock c) ram disk req (tables c). sel_NodeID sel = n_ID n
       \<and> (\<forall>m \<in> admitted (app_clock c) ram disk req (tables c). node_rank ram disk n \<le> node_rank ram disk m))"
proof -
  let ?A = "admitted (app_clock c) ram disk req (tables c)"
  let ?e = "\<lambda>n. evaluateNodeForTier (app_clock c) n ram disk"
  let ?evs = "evaluations (app_clock c) ram disk req (tables c)"
  note r = select_run [OF run size]
  then have pos: "0 < ram" "0 < disk" by auto
  note ev = evaluations_ok [OF ok ranges pos]
  have exact: "ev_NodeID (?e n) = n_ID n" "ev_Eligible (?e n) \<longleftrightarrow> tier_admits (app_clock c) ram disk n"
    "tier_admits (app_clock c) ram disk n \<Longrightarrow> preference (?e n) = node_rank ram disk n"
    if "n \<in> set (st_nodes (tables c))" for n
    using evaluate_exact [OF bspec [OF ranges that] pos] by auto
  have "'''' \<notin> set (map ev_NodeID ?evs)"
    using ids by (auto simp: ev(2) exact(1) image_iff)
  with r ev(1) have ch: "chosen_ok ?evs sel" using fold_consider by blast
  have some: "(\<exists>x \<in> set ?evs. ev_Eligible x) \<longleftrightarrow> ?A \<noteq> {}"
    by (auto simp: ev(2) exact admitted_def)
  have "\<exists>n \<in> ?A. sel_NodeID sel = n_ID n \<and> (\<forall>m \<in> ?A. node_rank ram disk n \<le> node_rank ram disk m)"
    if "preferred ?evs b" "sel_NodeID sel = ev_NodeID b" for b
  proof -
    from that(1) have b: "b \<in> set ?evs" "ev_Eligible b" by (auto simp: preferred_def)
    then obtain n where "n \<in> set (st_nodes (tables c))" "req = '''' \<or> n_ID n = req" "b = ?e n"
      unfolding ev(2) by blast
    with b(2) have n: "n \<in> ?A" "b = ?e n" by (simp_all add: admitted_def exact)
    have "node_rank ram disk n \<le> node_rank ram disk m" if "m \<in> ?A" for m
    proof -
      have "?e m \<in> set ?evs" "ev_Eligible (?e m)" using that by (auto simp: ev(2) admitted_def exact)
      with \<open>preferred ?evs b\<close> have "preference b \<le> preference (?e m)" by (auto simp: preferred_def)
      then show ?thesis using n that by (simp add: admitted_def exact)
    qed
    with n that(2) show ?thesis by (auto simp: admitted_def exact)
  qed
  with ch r pos show ?thesis unfolding chosen_ok_def some by (auto split: if_splits)
qed


text \<open>
  C33.  \<^verbatim>\<open>selectNodeForTier\<close> picks the best node.  The call changes nothing.  When its requested
  sizes do not overflow with any commitment it answers with no node exactly when no candidate admits
  the tier, and otherwise with a candidate that admits it and that no other such candidate surpasses
  in memory left, then in disk left, then by the lesser identifier.
\<close>

theorem node_selection_optimal:
  assumes "store_ok (tables c)" and "'''' \<notin> n_ID ` set (st_nodes (tables c))"
    and "ram = ParseSizeBytes pf (at_Memory tier)" and "disk = ParseSizeBytes pf (at_Storage tier)"
    and "\<forall>n \<in> set (st_nodes (tables c)). node_ranges ram disk n"
    and "run_state (selectNodeForTier pf tier req) c = (Inr sel, c')"
  shows "tables c' = tables c \<and>
    (if admitted (app_clock c) ram disk req (tables c) = {} then sel_NodeID sel = ''''
     else \<exists>n \<in> admitted (app_clock c) ram disk req (tables c). sel_NodeID sel = n_ID n
       \<and> (\<forall>m \<in> admitted (app_clock c) ram disk req (tables c). node_rank ram disk n \<le> node_rank ram disk m))"
  using select_optimal [OF assms] by simp

section \<open>Selection and reservation agree\<close>

text \<open>Recomputing the policy of any worker now would change nothing.\<close>

definition policy_current :: "store conn \<Rightarrow> bool" where
  "policy_current c \<longleftrightarrow> (\<forall>n \<in> set (st_nodes (tables c)). n_NodeRole n \<noteq> ''portal'' \<longrightarrow>
     tables (snd (run_state (recomputeNodePolicy (n_ID n)) c)) = tables c)"

lemma recompute_succeeds:
  assumes "store_ok (tables c)" and "n \<in> set (st_nodes (tables c))" and "n_NodeRole n \<noteq> ''portal''" and "faults c = []"
  obtains c' where "run_state (recomputeNodePolicy (n_ID n)) c = (Inr (), c')"
proof -
  have "find_where (\<lambda>m. n_ID m = n_ID n) (st_nodes (tables c)) = Some n"
    using assms(2) node_unique [OF assms(1) _ assms(2)]
    by (cases "find_where (\<lambda>m. n_ID m = n_ID n) (st_nodes (tables c))")
      (auto simp: find_where_None dest: find_where_SomeD)
  then have "fst (run_state (recomputeNodePolicy (n_ID n)) c) = Inr ()"
    using assms(3,4) by (simp add: recomputeNodePolicy_def GetNode_def wrapped_def update_health_def
        UpdateNodeHealth_def UpdateNodeCommitLimits_def update_nodes_def run_ok)
  with that show ?thesis by (metis prod.collapse)
qed

lemma policy_current_row:
  assumes "policy_current c" and "store_ok (tables c)" and "faults c = []"
    and n: "n \<in> set (st_nodes (tables c))" "n_NodeRole n \<noteq> ''portal''"
  shows "policy_row (app_clock c) n = n"
proof -
  obtain c' where run: "run_state (recomputeNodePolicy (n_ID n)) c = (Inr (), c')"
    using recompute_succeeds [OF assms(2) n assms(3)] .
  with assms(1) n have "tables c' = tables c" by (auto simp: policy_current_def)
  with recompute_run [OF assms(2) n run]
  have "st_nodes (tables c) = update_where (\<lambda>m. m = n) (policy_row (app_clock c)) (st_nodes (tables c))"
    by (metis store.select_convs(1) store.surjective store.update_convs(1))
  then have "map (\<lambda>m. if m = n then policy_row (app_clock c) m else m) (st_nodes (tables c)) = map (\<lambda>m. m) (st_nodes (tables c))"
    by (simp add: update_where_def)
  then show ?thesis using n(1) unfolding map_eq_conv by (metis (full_types))
qed

text \<open>A worker that is current and admits a tier can be reserved for it.\<close>

lemma admitted_reservable:
  assumes "policy_row t n = n" and "tier_admits t ram disk n" and "0 < ram" and "0 < disk"
  shows "reservable (n_ID n) n \<and> fits ram disk n"
proof -
  have h: "n_HealthStatus n = (if health_reasons t n \<noteq> [] then ''unhealthy'' else ''healthy'')"
    and a: "n_AvailableForProvisioning n = (availability_reasons t n = [])"
    and l: "n_RAMCommitLimit n = CalculateRAMCommitLimit (n_RAMTotal n)"
      "n_DiskCommitLimit n = CalculateDiskCommitLimit (n_DiskTotal n)"
    by (subst assms(1) [symmetric], simp add: policy_row_def)+
  from assms(2) have adm: "n_HealthStatus n = ''healthy''" "n_Status n = ''active''"
    "n_CommittedRAM n + ram \<le> n_RAMCommitLimit n" "n_CommittedDisk n + disk \<le> n_DiskCommitLimit n"
    using l by (auto simp: tier_admits_def effective_limits_def split: if_splits)
  from adm(1) h have hr: "health_reasons t n = []" by (auto split: if_splits)
  then have "0 < n_RAMCommitLimit n" "0 < n_DiskCommitLimit n"
    using l by (simp_all add: health_reasons_Nil metrics_valid_def)
  moreover have "n_AvailableForProvisioning n"
    using a hr adm l assms(3,4) by (auto simp: availability_reasons_Nil)
  ultimately show ?thesis using adm by (simp add: reservable_def fits_def)
qed

lemma reserve_granted:
  assumes "store_ok (tables c)" and "faults c = []" and "n \<in> set (st_nodes (tables c))"
    and "int64_ok (n_CommittedRAM n + ram)" and "int64_ok (n_CommittedDisk n + disk)"
    and "reservable (n_ID n) n \<and> fits ram disk n"
  shows "fst (run_state (ReserveNodeCapacity (n_ID n) ram disk) c) = Inr ()"
  using reserve_body [OF assms(1-5)] assms(2,6)
  by (simp add: ReserveNodeCapacity_def transaction_def run_ok)

text \<open>
  C34.  Selection and reservation agree.  When the policy of the nodes is current, a node that
  \<^verbatim>\<open>selectNodeForTier\<close> has chosen passes every condition that \<^verbatim>\<open>ReserveNodeCapacity\<close> checks again
  inside its transaction: with no change in between and no failing statement the reservation of the
  tier's sizes on that node succeeds.
\<close>

theorem selected_node_reservable:
  assumes ok: "store_ok (tables c)" and ids: "'''' \<notin> n_ID ` set (st_nodes (tables c))"
    and size: "ram = ParseSizeBytes pf (at_Memory tier)" "disk = ParseSizeBytes pf (at_Storage tier)"
    and ranges: "\<forall>n \<in> set (st_nodes (tables c)). node_ranges ram disk n"
    and cur: "policy_current c" and fs: "faults c = []"
    and run: "run_state (selectNodeForTier pf tier req) c = (Inr sel, c')" and sel: "sel_NodeID sel \<noteq> ''''"
  shows "fst (run_state (ReserveNodeCapacity (sel_NodeID sel) ram disk) c') = Inr ()"
proof -
  note opt = select_optimal [OF ok ids size ranges run]
  with sel obtain n where n: "n \<in> set (st_nodes (tables c))" "tier_admits (app_clock c) ram disk n" "sel_NodeID sel = n_ID n"
    by (auto simp: admitted_def split: if_splits)
  have "faults c' = []"
    using run fs by (auto simp: selectNodeForTier_def GetNodes_def wrapped_def run_ok split: sum.splits if_splits)
  moreover have "policy_row (app_clock c) n = n"
    using n by (intro policy_current_row [OF cur ok fs]) (auto simp: tier_admits_def)
  then have "reservable (n_ID n) n \<and> fits ram disk n"
    using admitted_reservable n(2) opt by blast
  moreover have "int64_ok (n_CommittedRAM n + ram)" "int64_ok (n_CommittedDisk n + disk)"
    using bspec [OF ranges n(1)] by (auto simp: node_ranges_def)
  ultimately show ?thesis
    using reserve_granted [of c' n ram disk] ok n opt by simp
qed


section \<open>Units\<close>

lemma digit_facts: "is_digit x \<Longrightarrow> \<not> is_space x \<and> \<not> re_space x \<and> x \<noteq> CHR ''.''"
  by (auto simp: is_digit_def in_range_def byte_of_def is_space_def re_space_def)

lemma gibi_trim:
  assumes "n \<noteq> []" and "\<forall>x \<in> set n. is_digit x"
  shows "TrimSpace n = n" and "TrimSpace (n @ ''Gi'') = n @ ''Gi''"
    and "ToLower (n @ ''Gi'') = ToLower n @ ''gi''"
proof -
  have "\<not> is_space (hd n)" "\<not> is_space (last n)" using assms digit_facts by (meson hd_in_set last_in_set)+
  moreover have "\<not> is_space CHR ''i''" by (simp add: is_space_def)
  ultimately show "TrimSpace n = n" "TrimSpace (n @ ''Gi'') = n @ ''Gi''"
    using assms(1) by (auto intro!: TrimSpace_id simp: trimmed_def)
  show "ToLower (n @ ''Gi'') = ToLower n @ ''gi''"
  proof -
    have "ToLower ''Gi'' = ''gi''" by code_simp
    then show ?thesis by (simp add: ToLower_append)
  qed
qed

lemma gibi_suffix:
  "HasSuffix (s @ ''gi'') [a, CHR ''i''] \<longleftrightarrow> CHR ''g'' = a"
  "x \<noteq> CHR ''i'' \<Longrightarrow> \<not> HasSuffix (s @ ''gi'') [x]"
  "x \<noteq> CHR ''i'' \<Longrightarrow> \<not> HasSuffix (s @ ''gi'') [a, x]"
  "x \<noteq> CHR ''i'' \<Longrightarrow> \<not> HasSuffix (s @ ''gi'') [b, a, x]"
  by (simp_all add: HasSuffix_def)

lemma gibi_valid:
  assumes "n \<noteq> []" and "\<forall>x \<in> set n. is_digit x"
  shows "isValidStorageFormat (n @ ''Gi'')"
proof -
  have d: "\<not> is_digit CHR ''G''" "\<not> re_space CHR ''G''" "ToLower ''Gi'' = ''gi''" "''gi'' \<in> set storage_units"
    by code_simp+
  have "dropWhile is_digit (n @ ''Gi'') = ''Gi''" using assms(2) d(1) by simp
  then show ?thesis
    using assms d by (simp add: isValidStorageFormat_def gibi_trim validStorageUnit_def Let_def)
qed

lemma gibi_validated:
  assumes "n \<noteq> []" and "\<forall>x \<in> set n. is_digit x" and "pf n = Some (Fin (of_int k))" and "0 < k" and "k \<le> 2 ^ 20"
  shows "parseStorageBytes pf (n @ ''Gi'') = k * 2 ^ 30"
proof -
  have "rnd (1024 * 1024 * 1024) = 1024 * 1024 * 1024" using rnd_int [of "1024 * 1024 * 1024"] by simp
  moreover have "k * 2 ^ 30 \<le> 2 ^ 20 * 2 ^ 30" using assms(5) by (intro mult_right_mono) simp_all
  then have "rnd (of_int k * (1024 * 1024 * 1024)) = of_int (k * 2 ^ 30)"
    using rnd_int [of "k * 2 ^ 30"] assms(4) by simp
  moreover have "int64_of_f64 (Fin (of_int (k * 2 ^ 30))) = k * 2 ^ 30"
    using assms(4,5) by (simp only: int64_of_f64_def trunc_rat_def floor_of_int of_int_0_le_iff float64.case Let_def) simp
  moreover have "\<not> of_int k \<le> (0 :: rat)" using assms(4) by simp
  ultimately show ?thesis
    using assms(1-3) by (simp add: parseStorageBytes_def gibi_trim gibi_suffix drop_last_def f64_of_int_def)
qed

lemma gibi_unsized:
  assumes "n \<noteq> []" and "\<forall>x \<in> set n. is_digit x" and "pf (n @ ''Gi'') = None"
  shows "ParseSizeBytes pf (n @ ''Gi'') = 0"
proof -
  have "size_unit (n @ ''Gi'') = (1, n @ ''Gi'')"
    unfolding size_unit_def gibi_trim(3) [OF assms(1,2)] Let_def by (simp add: gibi_suffix)
  then show ?thesis
    unfolding ParseSizeBytes_def gibi_trim(2) [OF assms(1,2)] Let_def by (simp add: gibi_trim(2) [OF assms(1,2)] assms(3))
qed


section \<open>An example\<close>

definition demo_worker :: Node where
  "demo_worker = demo_node\<lparr>n_RAMTotal := 17179869184, n_RAMUsed := 0, n_DiskTotal := 107374182400, n_DiskUsed := 0,
     n_RAMCommitLimit := 13743895347, n_DiskCommitLimit := 71582788266, n_LastMetricsAt := Some 0\<rparr>"

definition demo_fleet :: "store conn" where
  "demo_fleet = \<lparr>tables = empty_store\<lparr>st_nodes := [demo_worker]\<rparr>, db_clock = 0, app_clock = 0, faults = []\<rparr>"

definition demo_tier :: AppTier where
  "demo_tier = \<lparr>at_AppName = ''wiki'', at_Name = ''small'', at_CPU = Fin 1, at_Memory = ''2G'', at_Storage = ''10GB'',
     at_PriceMonthly = Fin 0, at_Free = True, at_Environment = [], at_BackupPolicyJSON = ''''\<rparr>"

definition demo_parse :: "string \<Rightarrow> float64 option" where
  "demo_parse s = (if s = ''2'' then Some (Fin 2) else if s = ''10'' then Some (Fin 10) else None)"

lemma demo_sizes:
  "ParseSizeBytes demo_parse (at_Memory demo_tier) = 2147483648"
  "ParseSizeBytes demo_parse (at_Storage demo_tier) = 10737418240"
  by code_simp+

lemma demo_fleet_ok: "store_ok (tables demo_fleet)"
  by (simp add: store_ok_defs demo_fleet_def empty_store_def demo_worker_def demo_node_def new_node_def refers_def Store_Inv.keyed_def)

lemma demo_worker_healthy: "node_healthy 0 demo_worker" "node_has_room demo_worker" "sizes_ok demo_worker"
  by code_simp+

lemma demo_reasons: "health_reasons 0 demo_worker = []" "availability_reasons 0 demo_worker = []"
  using healthy_iff [OF demo_worker_healthy(3), of 0] room_iff [OF demo_worker_healthy(3)] demo_worker_healthy
  by (simp_all add: availability_reasons_Nil)

lemma demo_current: "policy_row 0 demo_worker = demo_worker"
proof -
  have "CalculateRAMCommitLimit (n_RAMTotal demo_worker) = 13743895347"
    "CalculateDiskCommitLimit (n_DiskTotal demo_worker) = 71582788266"
    by (simp_all add: demo_worker_def ram_limit disk_limit)
  then show ?thesis
    unfolding policy_row_def demo_reasons by (simp add: demo_worker_def demo_node_def new_node_def joinReasons_def normalizeReasons_def)
qed

lemma demo_select:
  obtains sel where "run_state (selectNodeForTier demo_parse demo_tier '''') demo_fleet = (Inr sel, demo_fleet)"
  by (rule that) (simp add: selectNodeForTier_def GetNodes_def wrapped_def run_ok demo_fleet_def demo_sizes)

lemma demo_ranges:
  "'''' \<notin> n_ID ` set (st_nodes (tables demo_fleet))"
  "\<forall>n \<in> set (st_nodes (tables demo_fleet)). node_ranges 2147483648 10737418240 n"
  by (simp_all add: demo_fleet_def demo_worker_def demo_node_def new_node_def node_ranges_def int64_ok_def)

lemma demo_admitted: "admitted (app_clock demo_fleet) 2147483648 10737418240 '''' (tables demo_fleet) = {demo_worker}"
proof -
  have "tier_admits 0 2147483648 10737418240 demo_worker" by code_simp
  then show ?thesis by (auto simp: admitted_def demo_fleet_def)
qed

theorem recompute_exact_witness:
  "map n_AvailableForProvisioning (st_nodes (tables (snd (run_state (recomputeNodePolicy ''n1'') demo_fleet)))) = [True]"
proof -
  have n: "demo_worker \<in> set (st_nodes (tables demo_fleet))" "n_NodeRole demo_worker \<noteq> ''portal''"
    "n_ID demo_worker = ''n1''" "faults demo_fleet = []" "app_clock demo_fleet = 0"
    "st_nodes (tables demo_fleet) = [demo_worker]"
    by (simp_all add: demo_fleet_def demo_worker_def demo_node_def new_node_def)
  obtain c' where run: "run_state (recomputeNodePolicy (n_ID demo_worker)) demo_fleet = (Inr (), c')"
    using recompute_succeeds [OF demo_fleet_ok n(1,2,4)] .
  from recompute_exact [OF demo_fleet_ok n(1,2) demo_worker_healthy(3) this] run
  show ?thesis using demo_worker_healthy by (auto simp: n)
qed

theorem node_selection_optimal_witness:
  "sel_NodeID (projr (fst (run_state (selectNodeForTier demo_parse demo_tier '''') demo_fleet))) = ''n1''"
proof -
  obtain sel where run: "run_state (selectNodeForTier demo_parse demo_tier '''') demo_fleet = (Inr sel, demo_fleet)"
    by (rule demo_select)
  from node_selection_optimal [OF demo_fleet_ok demo_ranges(1) demo_sizes(1) [symmetric] demo_sizes(2) [symmetric] demo_ranges(2) run]
  show ?thesis by (simp add: run demo_admitted) (simp add: demo_worker_def demo_node_def new_node_def)
qed

theorem selected_node_reservable_witness:
  "fst (run_state (ReserveNodeCapacity (sel_NodeID (projr (fst (run_state (selectNodeForTier demo_parse demo_tier '''') demo_fleet))))
     2147483648 10737418240) demo_fleet) = Inr ()"
proof -
  obtain sel where run: "run_state (selectNodeForTier demo_parse demo_tier '''') demo_fleet = (Inr sel, demo_fleet)"
    by (rule demo_select)
  have n: "demo_worker \<in> set (st_nodes (tables demo_fleet))" "n_NodeRole demo_worker \<noteq> ''portal''"
    "faults demo_fleet = []" "app_clock demo_fleet = 0" "st_nodes (tables demo_fleet) = [demo_worker]"
    by (simp_all add: demo_fleet_def demo_worker_def demo_node_def new_node_def)
  obtain c' where rec: "run_state (recomputeNodePolicy (n_ID demo_worker)) demo_fleet = (Inr (), c')"
    using recompute_succeeds [OF demo_fleet_ok n(1-3)] .
  have "policy_current demo_fleet"
    using recompute_run [OF demo_fleet_ok n(1,2) rec] rec
    by (simp add: policy_current_def n demo_current)
  moreover have "sel_NodeID sel \<noteq> ''''"
    using select_optimal [OF demo_fleet_ok demo_ranges(1) demo_sizes(1) [symmetric] demo_sizes(2) [symmetric] demo_ranges(2) run]
    by (simp add: demo_admitted) (simp add: demo_worker_def demo_node_def new_node_def)
  ultimately show ?thesis
    using selected_node_reservable [OF demo_fleet_ok demo_ranges(1) demo_sizes(1) [symmetric] demo_sizes(2) [symmetric]
        demo_ranges(2) _ n(3) run]
    by (simp add: run)
qed



end
