(* ===== verification/Task_Env.thy ===== *)
theory Task_Env
  imports Types "HOL-Library.List_Lexorder" "HOL-Library.Char_ord"
begin

text \<open>
  What a task carries to a node: environments, secrets, volumes and backup targets.  The pure
  functions of \<^verbatim>\<open>src/internal/api/tier_env.go\<close>, \<^verbatim>\<open>backup_services.go\<close> and \<^verbatim>\<open>handlers_tasks.go\<close>.  A Go
  map is the list of its entries in the order in which \<^verbatim>\<open>range\<close> visits them; parsing of URLs
  (\<^verbatim>\<open>net/url\<close>) and of YAML are the parameters \<open>url_host\<close> and \<open>yaml\<close>.
\<close>

type_synonym secret_map = "(string \<times> strmap) list"

section \<open>References to variables\<close>

definition is_name_head :: "char \<Rightarrow> bool" where
  "is_name_head c \<longleftrightarrow> in_range CHR ''A'' CHR ''Z'' c \<or> c = CHR ''_''"

definition is_name_char :: "char \<Rightarrow> bool" where
  "is_name_char c \<longleftrightarrow> is_name_head c \<or> in_range CHR ''0'' CHR ''9'' c"

text \<open>A match of \<^verbatim>\<open>\$\{([A-Z_][A-Z0-9_]*)\}\<close> at the start of a string: the name and what follows.\<close>

definition match_ref :: "string \<Rightarrow> (string \<times> string) option" where
  "match_ref s = (case s of
     a # b # c # cs \<Rightarrow>
       if a = CHR ''$'' \<and> b = CHR ''{'' \<and> is_name_head c then
         (case dropWhile is_name_char cs of
            d # rest \<Rightarrow> if d = CHR ''}'' then Some (c # takeWhile is_name_char cs, rest) else None
          | [] \<Rightarrow> None)
       else None
   | _ \<Rightarrow> None)"

datatype piece = Lit char | Ref string

lemma match_ref_shorter: "match_ref s = Some (name, rest) \<Longrightarrow> length rest < length s"
proof -
  have "length (dropWhile is_name_char cs) \<le> length cs" for cs by (rule length_dropWhile_le)
  then show "match_ref s = Some (name, rest) \<Longrightarrow> length rest < length s"
    by (auto simp: match_ref_def split: list.splits if_splits)
      (metis le_imp_less_Suc length_Cons less_SucI not_less_eq order_less_le_trans)
qed

text \<open>The text cut at the successive leftmost matches, as \<^verbatim>\<open>ReplaceAllStringFunc\<close> sees it.\<close>

function env_pieces :: "string \<Rightarrow> piece list" where
  "env_pieces s = (case match_ref s of
     Some (name, rest) \<Rightarrow> Ref name # env_pieces rest
   | None \<Rightarrow> (case s of [] \<Rightarrow> [] | c # cs \<Rightarrow> Lit c # env_pieces cs))"
  by pat_completeness auto
termination
  by (relation "measure length") (auto dest: match_ref_shorter)

declare env_pieces.simps [simp del]

definition ref_text :: "string \<Rightarrow> string" where
  "ref_text name = ''${'' @ name @ ''}''"

section \<open>Layers of an environment\<close>

definition mergeEnvironmentMaps :: "strmap list \<Rightarrow> strmap" where
  "mergeEnvironmentMaps maps = fold (\<lambda>m result. fold (\<lambda>(k, v). put k v) m result) maps []"

definition filterProtectedVars :: "strmap \<Rightarrow> strmap" where
  "filterProtectedVars m = filter (\<lambda>(k, v). \<not> HasPrefix k ''ADMIRAL_'') m"

record env_scope =
  es_base :: strmap
  es_layer :: strmap
  es_svcSecrets :: strmap
  es_globalSecrets :: strmap

definition base_or :: "env_scope \<Rightarrow> string \<Rightarrow> string" where
  "base_or x name = (if has (es_base x) name then get '''' (es_base x) name else ref_text name)"

text \<open>
  \<^verbatim>\<open>resolveValue\<close> on the pieces of a value.  \<open>busy\<close> are the keys marked in \<^verbatim>\<open>resolving\<close>: a call marks
  its key, and clears the mark when it returns, so the marks of a call are those of its caller and
  its own.  \<open>m\<close> is \<^verbatim>\<open>resolvedLayer\<close>, threaded through the calls.
\<close>

function (sequential) resolveValue ::
  "env_scope \<Rightarrow> string list \<Rightarrow> string \<Rightarrow> piece list \<Rightarrow> strmap \<Rightarrow> string \<times> strmap" where
  "resolveValue x busy currentKey [] m = ([], m)"
| "resolveValue x busy currentKey (Lit c # ps) m =
     (let (w, m') = resolveValue x busy currentKey ps m in (c # w, m'))"
| "resolveValue x busy currentKey (Ref name # ps) m =
     (let (v, m1) =
        (if has (es_svcSecrets x) name then (get '''' (es_svcSecrets x) name, m)
         else if has (es_globalSecrets x) name then (get '''' (es_globalSecrets x) name, m)
         else if has m name then (get '''' m name, m)
         else if name = currentKey then (base_or x name, m)
         else if name \<in> set busy then (ref_text name, m)
         else if \<not> has (es_layer x) name then (base_or x name, m)
         else (let (v, m') = resolveValue x (name # busy) name (env_pieces (get '''' (es_layer x) name)) m
               in (v, put name v m')));
          (w, m2) = resolveValue x busy currentKey ps m1
      in (v @ w, m2))"
  by pat_completeness auto
termination
proof (relation "measures [\<lambda>(x, busy, _, _, _). card (set (map fst (es_layer x)) - set busy),
    \<lambda>(_, _, _, ps, _). length ps]", goal_cases)
  case (3 x busy cur name ps m)
  then have "set (map fst (es_layer x)) - set (name # busy) \<subset> set (map fst (es_layer x)) - set busy"
    by (auto simp: has_def)
  then show ?case by (simp add: psubset_card_mono del: set_map)
qed auto

definition resolve_key :: "env_scope \<Rightarrow> string \<times> string \<Rightarrow> strmap \<Rightarrow> strmap" where
  "resolve_key x = (\<lambda>(k, v) m. let (w, m') = resolveValue x [k] k (env_pieces v) m in put k w m')"

definition resolveEnvLayer :: "strmap \<Rightarrow> strmap \<Rightarrow> strmap \<Rightarrow> strmap \<Rightarrow> strmap" where
  "resolveEnvLayer baseEnv layerEnv svcSecrets globalSecrets =
     (if layerEnv = [] then mergeEnvironmentMaps [baseEnv]
      else let x = \<lparr>es_base = baseEnv, es_layer = layerEnv, es_svcSecrets = svcSecrets, es_globalSecrets = globalSecrets\<rparr>
           in mergeEnvironmentMaps [baseEnv, fold (resolve_key x) layerEnv []])"

definition admiralEnvironment ::
  "(string \<Rightarrow> string option) \<Rightarrow> string \<Rightarrow> string \<Rightarrow> string \<Rightarrow> string \<Rightarrow> string \<Rightarrow> strmap" where
  "admiralEnvironment url_host appCode tierCode instanceID tenantID publicBaseURL =
     [(''ADMIRAL_APP_CODE'', appCode), (''ADMIRAL_TIER_CODE'', tierCode), (''ADMIRAL_INSTANCE_ID'', instanceID),
      (''ADMIRAL_TENANT_ID'', tenantID), (''ADMIRAL_ENVIRONMENT'', ''production'')]
     @ (if publicBaseURL = '''' then [] else
         (''ADMIRAL_PUBLIC_URL'', publicBaseURL) #
         (case url_host publicBaseURL of
            Some host \<Rightarrow> if host \<noteq> '''' then [(''ADMIRAL_PUBLIC_HOSTNAME'', host)] else []
          | None \<Rightarrow> []))"

section \<open>Services and volumes of a task\<close>

definition serviceSharedVolumes :: "AppDefinitionPayload \<Rightarrow> string \<Rightarrow> ServiceSharedVolumeMount list" where
  "serviceSharedVolumes payload serviceName =
     [\<lparr>svm_Name = fst p, svm_Mount = shv_Mount (snd p), svm_UID = shv_UID (snd p), svm_GID = shv_GID (snd p)\<rparr>.
        p \<leftarrow> sort_key fst (app_SharedVolumes payload), serviceName \<in> set (shv_Services (snd p))]"

definition buildSharedVolumeInfos :: "AppDefinitionPayload \<Rightarrow> SharedVolumeInfo list" where
  "buildSharedVolumeInfos payload =
     map (\<lambda>(name, volume). \<lparr>sv_Name = name, sv_Mount = shv_Mount volume, sv_Services = shv_Services volume,
            sv_UID = shv_UID volume, sv_GID = shv_GID volume\<rparr>)
       (sort_key fst (app_SharedVolumes payload))"

definition service_env ::
  "(string \<Rightarrow> string option) \<Rightarrow> AppDefinitionPayload \<Rightarrow> string \<Rightarrow> strmap \<Rightarrow> string \<Rightarrow> string \<Rightarrow> string \<Rightarrow> secret_map
   \<Rightarrow> string \<times> YAMLService \<Rightarrow> strmap" where
  "service_env url_host payload tierName tierEnvironment instanceID customerID publicBaseURL secretValues = (\<lambda>(name, svc).
     let own = get [] secretValues name;
         shared = get [] secretValues ''__global__'';
         env = mergeEnvironmentMaps [admiralEnvironment url_host (app_Name payload) tierName instanceID customerID publicBaseURL];
         env = resolveEnvLayer env (filterProtectedVars (app_Environment payload)) own shared;
         env = resolveEnvLayer env (filterProtectedVars (svc_Env svc)) own shared
     in resolveEnvLayer env (filterProtectedVars tierEnvironment) own shared)"

definition buildServiceInfos ::
  "(string \<Rightarrow> string option) \<Rightarrow> AppDefinitionPayload \<Rightarrow> string \<Rightarrow> strmap \<Rightarrow> string \<Rightarrow> string \<Rightarrow> string \<Rightarrow> secret_map
   \<Rightarrow> ServiceInfo list" where
  "buildServiceInfos url_host payload tierName tierEnvironment instanceID customerID publicBaseURL secretValues =
     map (\<lambda>(name, svc).
       \<lparr>si_Name = name, si_Image = svc_Image svc, si_Port = svc_Port svc, si_Volume = svc_Volume svc,
        si_DependsOn = svc_DependsOn svc, si_Requires = svc_Requires svc,
        si_SharedVolumes = serviceSharedVolumes payload name,
        si_Command = svc_Command svc, si_SetupCommand = svc_SetupCommand svc, si_SetupTimeout = svc_SetupTimeout svc,
        si_NotifyOnSetup = svc_NotifyOnSetup svc,
        si_Env = service_env url_host payload tierName tierEnvironment instanceID customerID publicBaseURL secretValues (name, svc),
        si_Secrets = get [] secretValues name,
        si_HealthCheck = svc_HealthCheck svc, si_HealthCheckWaitSecs = svc_HealthCheckWaitSecs svc,
        si_Registry = map_option (\<lambda>r. \<lparr>rc_Server = reg_Server r, rc_Username = reg_Username r, rc_Password = reg_Password r\<rparr>)
          (svc_Registry svc),
        si_User = svc_User svc\<rparr>)
     (app_Services payload)"

definition hasSetupCommand :: "AppDefinitionPayload \<Rightarrow> bool" where
  "hasSetupCommand payload = (\<exists>(name, svc) \<in> set (app_Services payload). TrimSpace (svc_SetupCommand svc) \<noteq> '''')"

definition maxSetupTimeoutSeconds :: "(string \<Rightarrow> AppDefinitionPayload option) \<Rightarrow> string \<Rightarrow> int" where
  "maxSetupTimeoutSeconds yaml rawYAML = (if rawYAML = '''' then 0 else case yaml rawYAML of
     None \<Rightarrow> 0
   | Some payload \<Rightarrow> fold (\<lambda>(name, svc) maxTimeout.
       if TrimSpace (svc_SetupCommand svc) = '''' then maxTimeout
       else if svc_SetupTimeout svc > maxTimeout then svc_SetupTimeout svc else maxTimeout) (app_Services payload) 0)"

section \<open>Backup targets\<close>

record serviceBackupTarget =
  bt_ServiceName :: string
  bt_Service :: YAMLService
  bt_Backup :: YAMLServiceBackup

definition backupTargetsByType :: "AppDefinitionPayload \<Rightarrow> string \<Rightarrow> serviceBackupTarget list" where
  "backupTargetsByType payload backupType = concat (map (\<lambda>(name, svc). case svc_Backup svc of
     None \<Rightarrow> []
   | Some b \<Rightarrow> if bak_Type b \<noteq> backupType then [] else [\<lparr>bt_ServiceName = name, bt_Service = svc, bt_Backup = b\<rparr>])
     (app_Services payload))"

definition resolveBackupTarget :: "AppDefinitionPayload \<Rightarrow> string \<Rightarrow> err + serviceBackupTarget" where
  "resolveBackupTarget payload serviceName =
     (if serviceName = '''' then Inl (Plain ''service is required for backup actions'')
      else case map_of (app_Services payload) serviceName of
        None \<Rightarrow> Inl (Plain (''service '' @ quoted serviceName @ '' is not defined''))
      | Some svc \<Rightarrow> (case svc_Backup svc of
          None \<Rightarrow> Inl (Plain (''service '' @ quoted serviceName @ '' does not declare backup settings''))
        | Some b \<Rightarrow> if bak_Type b = ''none''
            then Inl (Plain (''service '' @ quoted serviceName @ '' declares backup type none''))
            else Inr \<lparr>bt_ServiceName = serviceName, bt_Service = svc, bt_Backup = b\<rparr>))"

definition resolveRestoreTarget :: "AppDefinitionPayload \<Rightarrow> string \<Rightarrow> string \<Rightarrow> err + serviceBackupTarget" where
  "resolveRestoreTarget payload backupType serviceName =
     (if serviceName = '''' then
        (case backupTargetsByType payload backupType of
           [] \<Rightarrow> Inl (Plain (''no service found for backup type '' @ quoted backupType))
         | target # _ \<Rightarrow> Inr target)
      else and_then (resolveBackupTarget payload serviceName) (\<lambda>target.
        if bak_Type (bt_Backup target) \<noteq> backupType
        then Inl (Plain (''service '' @ quoted serviceName @ '' declares backup type '' @
               quoted (bak_Type (bt_Backup target)) @ '', not '' @ quoted backupType))
        else Inr target))"

definition buildTaskBackupInfo :: "serviceBackupTarget \<Rightarrow> BackupInfo" where
  "buildTaskBackupInfo target = (let b = bt_Backup target in
     \<lparr>bi_Type = bak_Type b, bi_Engine = bak_Engine b, bi_Service = bt_ServiceName target,
      bi_DatabaseType = (if bak_Engine b = '''' \<and> bak_Type b = ''volume'' then ''none'' else bak_Engine b),
      bi_DatabaseEnv = bak_DatabaseEnv b, bi_UsernameEnv = bak_UsernameEnv b, bi_PasswordEnv = bak_PasswordEnv b\<rparr>)"

section \<open>Secrets of a task\<close>

definition deprovisionSecretNames :: "AppDefinitionPayload \<Rightarrow> secret_map" where
  "deprovisionSecretNames payload =
     map (\<lambda>(serviceName, service). (serviceName, map (\<lambda>(secretName, _). (secretName, '''')) (svc_Secrets service)))
       (filter (\<lambda>(_, service). svc_Secrets service \<noteq> []) (app_Services payload))"

definition actionRequiresSecrets :: "TaskAction \<Rightarrow> bool" where
  "actionRequiresSecrets action \<longleftrightarrow> action \<in> set [ActionProvisionApp, ActionRestoreBackup, ActionStartApp,
     ActionResumeApp, ActionReactivateApp, ActionResizeApp, ActionBackupDatabase]"

definition retryableAction :: "TaskAction \<Rightarrow> TaskAction \<times> string \<times> bool" where
  "retryableAction action =
     (if action = ActionProvisionApp then (ActionProvisionApp, ''provisioning'', True)
      else if action \<in> set [ActionStartApp, ActionResumeApp, ActionReactivateApp] then (action, ''running'', True)
      else if action \<in> set [ActionStopApp, ActionPauseApp] then (action, ''stopped'', True)
      else if action = ActionResizeApp then (ActionResizeApp, ''running'', True)
      else if action = ActionDeprovisionApp then (ActionDeprovisionApp, ''deprovisioning'', True)
      else ('''', '''', False))"

definition cloneSecretMap :: "secret_map \<Rightarrow> secret_map" where
  "cloneSecretMap m = map (\<lambda>(serviceName, serviceSecrets). (serviceName, map (\<lambda>(k, v). (k, v)) serviceSecrets)) m"

definition scopeBackupSecrets :: "AppDefinitionPayload \<Rightarrow> secret_map \<Rightarrow> string \<Rightarrow> secret_map" where
  "scopeBackupSecrets payload secretValues serviceName = (case resolveBackupTarget payload serviceName of
     Inl _ \<Rightarrow> []
   | Inr target \<Rightarrow>
       if bak_Type (bt_Backup target) \<noteq> ''database'' then []
       else let serviceSecrets = get [] secretValues (bt_ServiceName target);
                required = [bak_DatabaseEnv (bt_Backup target), bak_UsernameEnv (bt_Backup target), bak_PasswordEnv (bt_Backup target)];
                filtered = filter (\<lambda>(name, value). name \<in> set required) serviceSecrets
            in if filtered = [] then [] else [(bt_ServiceName target, filtered)])"

definition scopeTaskSecrets :: "TaskAction \<Rightarrow> AppDefinitionPayload \<Rightarrow> secret_map \<Rightarrow> string \<Rightarrow> secret_map" where
  "scopeTaskSecrets action payload secretValues serviceName =
     (if action \<in> set [ActionProvisionApp, ActionRestoreBackup, ActionStartApp, ActionResumeApp,
          ActionReactivateApp, ActionResizeApp] then cloneSecretMap secretValues
      else if action = ActionBackupDatabase then scopeBackupSecrets payload secretValues serviceName
      else [])"

end
