(* ===== verification/Task_Env_Props.thy ===== *)
theory Task_Env_Props
  imports Task_Env
begin

text \<open>
  Properties of the environments that tasks carry: which variables a layer can define, what its
  references are replaced by, and when the order of a Go map does not matter.
\<close>

section \<open>Maps\<close>

lemma has_map_of: "has m k \<longleftrightarrow> map_of m k \<noteq> None"
  by (simp add: has_def map_of_eq_None_iff)

lemma get_map_of: "map_of m k = Some v \<Longrightarrow> get z m k = v"
  by (simp add: get_def)

lemma map_of_has: "map_of m k = (if has m k then Some (get z m k) else None)"
  by (simp add: has_map_of get_def split: option.splits)

lemma map_of_fold_put:
  "map_of (fold (\<lambda>(k, v). put k v) m result) = map_of result ++ map_of (rev m)"
proof (induction m arbitrary: result)
  case (Cons p m)
  obtain k v where p: "p = (k, v)" by (cases p)
  show ?case by (simp add: p Cons.IH map_of_put fun_eq_iff map_add_def split: option.splits)
qed simp

lemma distinct_fold_put:
  "distinct (map fst result) \<Longrightarrow> distinct (map fst (fold (\<lambda>(k, v). put k v) m result))"
proof (induction m arbitrary: result)
  case (Cons p m)
  then show ?case by (cases p) (simp add: put_keys)
qed simp

lemma map_of_rev: "distinct (map fst m) \<Longrightarrow> map_of (rev m) = map_of m"
  by (metis distinct_rev map_of_eqI map_of_SomeD rev_map set_map set_rev map_of_inject_set rev_rev_ident)

lemma merge_one: "distinct (map fst m) \<Longrightarrow> map_of (mergeEnvironmentMaps [m]) = map_of m"
  by (simp add: mergeEnvironmentMaps_def map_of_fold_put map_of_rev)

lemma merge_two:
  "distinct (map fst m) \<Longrightarrow> distinct (map fst m') \<Longrightarrow>
   map_of (mergeEnvironmentMaps [m, m']) = map_of m ++ map_of m'"
  by (simp add: mergeEnvironmentMaps_def map_of_fold_put map_of_rev)

lemma merge_distinct: "distinct (map fst (mergeEnvironmentMaps ms))"
proof -
  have "distinct (map fst r) \<Longrightarrow> distinct (map fst (fold (\<lambda>m. fold (\<lambda>(k, v). put k v) m) ms r))" for r
    by (induction ms arbitrary: r) (simp_all add: distinct_fold_put)
  then show ?thesis by (simp add: mergeEnvironmentMaps_def)
qed

section \<open>What a layer defines\<close>

text \<open>The value of one reference, and the rest of the value after it.\<close>

definition resolve_ref :: "env_scope \<Rightarrow> string list \<Rightarrow> string \<Rightarrow> string \<Rightarrow> strmap \<Rightarrow> string \<times> strmap" where
  "resolve_ref x busy currentKey name m =
     (if has (es_svcSecrets x) name then (get '''' (es_svcSecrets x) name, m)
      else if has (es_globalSecrets x) name then (get '''' (es_globalSecrets x) name, m)
      else if has m name then (get '''' m name, m)
      else if name = currentKey then (base_or x name, m)
      else if name \<in> set busy then (ref_text name, m)
      else if \<not> has (es_layer x) name then (base_or x name, m)
      else (let (v, m') = resolveValue x (name # busy) name (env_pieces (get '''' (es_layer x) name)) m
            in (v, put name v m')))"

lemma resolveValue_Ref:
  "resolveValue x busy cur (Ref name # ps) m =
     (let (v, m1) = resolve_ref x busy cur name m; (w, m2) = resolveValue x busy cur ps m1 in (v @ w, m2))"
  by (simp add: resolve_ref_def)

lemma resolve_induct [case_names Nil Lit Ref]:
  assumes "\<And>x busy cur m. P x busy cur [] m"
    and "\<And>x busy cur c ps m. P x busy cur ps m \<Longrightarrow> P x busy cur (Lit c # ps) m"
    and "\<And>x busy cur name ps m.
      (name \<notin> set busy \<Longrightarrow> name \<noteq> cur \<Longrightarrow> has (es_layer x) name \<Longrightarrow> \<not> has (es_svcSecrets x) name \<Longrightarrow>
        \<not> has (es_globalSecrets x) name \<Longrightarrow> \<not> has m name \<Longrightarrow>
        P x (name # busy) name (env_pieces (get '''' (es_layer x) name)) m) \<Longrightarrow>
      (\<And>v m1. resolve_ref x busy cur name m = (v, m1) \<Longrightarrow> P x busy cur ps m1) \<Longrightarrow> P x busy cur (Ref name # ps) m"
  shows "P x busy cur ps m"
proof (induction x busy cur ps m rule: resolveValue.induct)
  case (3 x busy cur name ps m)
  show ?case
  proof (rule assms(3))
    fix v m1
    assume "resolve_ref x busy cur name m = (v, m1)"
    then show "P x busy cur ps m1"
      using 3(2) [OF refl, of v m1] by (simp only: resolve_ref_def)
  qed (use 3(1) in blast)
qed (use assms(1,2) in auto)

lemma resolveValue_keys:
  assumes "resolveValue x busy cur ps m = (v, m')"
  shows "(distinct (map fst m) \<longrightarrow> distinct (map fst m')) \<and> (\<forall>k. has m' k \<longrightarrow> has m k \<or> has (es_layer x) k)"
  using assms
proof (induction x busy cur ps m arbitrary: v m' rule: resolve_induct)
  case (Lit x busy cur c ps m)
  then show ?case by (auto split: prod.splits)
next
  case (Ref x busy cur name ps m)
  obtain u m1 where u: "resolve_ref x busy cur name m = (u, m1)" by fastforce
  obtain w m2 where w: "resolveValue x busy cur ps m1 = (w, m2)" by fastforce
  have "(distinct (map fst m) \<longrightarrow> distinct (map fst m1)) \<and> (\<forall>k. has m1 k \<longrightarrow> has m k \<or> has (es_layer x) k)"
    using u Ref.IH(1) unfolding resolve_ref_def
    by (auto simp: put_keys split: prod.splits if_splits)
  moreover have "m' = m2" using Ref.prems u w by (simp only: resolveValue_Ref) simp
  ultimately show ?case using Ref.IH(2) [OF u w] by blast
qed simp


lemma resolve_layer_keys:
  assumes "set ps \<subseteq> set (es_layer x)" and "distinct (map fst m)"
  shows "distinct (map fst (fold (resolve_key x) ps m))
    \<and> (\<forall>k. has (fold (resolve_key x) ps m) k \<longrightarrow> has m k \<or> has (es_layer x) k)"
  using assms
proof (induction ps arbitrary: m)
  case (Cons p ps)
  obtain k v where p: "p = (k, v)" by (cases p)
  obtain w m' where w: "resolveValue x [k] k (env_pieces v) m = (w, m')" by fastforce
  have step: "resolve_key x p m = put k w m'" by (simp add: resolve_key_def p w)
  have k: "has (es_layer x) k" using Cons.prems(1) by (auto simp: p has_mem)
  have "distinct (map fst (put k w m'))" "\<forall>j. has (put k w m') j \<longrightarrow> has m j \<or> has (es_layer x) j"
    using resolveValue_keys [OF w] Cons.prems(2) k by (auto simp: put_keys)
  with Cons.IH [of "put k w m'"] Cons.prems(1) show ?case by (auto simp: step)
qed simp

lemma layer_outside:
  assumes "distinct (map fst base)" and "\<not> has layer k"
  shows "map_of (resolveEnvLayer base layer svc glob) k = map_of base k"
proof (cases "layer = []")
  case True
  then show ?thesis using assms by (simp add: resolveEnvLayer_def merge_one)
next
  case False
  let ?x = "\<lparr>es_base = base, es_layer = layer, es_svcSecrets = svc, es_globalSecrets = glob\<rparr>"
  let ?m = "fold (resolve_key ?x) layer []"
  have "distinct (map fst ?m)" and "\<not> has ?m k"
    using resolve_layer_keys [of layer ?x "[]"] assms(2) by (auto simp: has_def)
  then have "distinct (map fst ?m)" "map_of ?m k = None" by (simp_all only: has_map_of not_not)
  then show ?thesis
    using assms False by (simp add: resolveEnvLayer_def merge_two map_add_def)
qed

lemma layer_distinct: "distinct (map fst (resolveEnvLayer base layer svc glob))"
  by (simp add: resolveEnvLayer_def merge_distinct Let_def)

lemma not_protected: "HasPrefix k ''ADMIRAL_'' \<Longrightarrow> \<not> has (filterProtectedVars m) k"
  by (auto simp: has_mem filterProtectedVars_def)

lemma admiral_distinct: "distinct (map fst (admiralEnvironment url_host app tier inst tenant base))"
  by (simp add: admiralEnvironment_def split: option.splits)

text \<open>
  C36.  The variables of the system are protected.  In the environment of every service of a task the
  variables whose name begins with \<^verbatim>\<open>ADMIRAL_\<close> are exactly those of \<^verbatim>\<open>admiralEnvironment\<close>, with its
  values, whatever the definition, the service, the tier and the secrets say: none is overridden,
  removed or added.
\<close>

theorem admiral_vars_protected:
  assumes "si \<in> set (buildServiceInfos url_host payload tierName tierEnv inst customer publicURL secretValues)"
    and "HasPrefix k ''ADMIRAL_''"
  shows "map_of (si_Env si) k = map_of (admiralEnvironment url_host (app_Name payload) tierName inst customer publicURL) k"
proof -
  from assms(1) obtain name svc where
    "si_Env si = service_env url_host payload tierName tierEnv inst customer publicURL secretValues (name, svc)"
    by (auto simp: buildServiceInfos_def)
  then show ?thesis
    using not_protected [OF assms(2)]
    by (simp add: service_env_def Let_def layer_outside layer_distinct merge_distinct merge_one admiral_distinct)
qed

section \<open>What references are replaced by\<close>

text \<open>
  The specification.  A name stands for the secret of the service, else for the shared secret, else
  for the value \<open>m\<close> gives a variable of the layer, else for the value of the layers below, and
  otherwise for the text of the reference.
\<close>

definition env_lookup :: "env_scope \<Rightarrow> strmap \<Rightarrow> string \<Rightarrow> string" where
  "env_lookup x m name =
     (if has (es_svcSecrets x) name then get '''' (es_svcSecrets x) name
      else if has (es_globalSecrets x) name then get '''' (es_globalSecrets x) name
      else if has (es_layer x) name then get '''' m name else base_or x name)"

definition env_expand :: "env_scope \<Rightarrow> strmap \<Rightarrow> piece list \<Rightarrow> string" where
  "env_expand x m ps = concat (map (\<lambda>p. case p of Lit c \<Rightarrow> [c] | Ref name \<Rightarrow> env_lookup x m name) ps)"

text \<open>A variable of the layer depends on the variables of the layer that its value refers to.\<close>

definition in_layer :: "env_scope \<Rightarrow> string \<Rightarrow> bool" where
  "in_layer x name \<longleftrightarrow> has (es_layer x) name \<and> \<not> has (es_svcSecrets x) name \<and> \<not> has (es_globalSecrets x) name"

definition depends :: "env_scope \<Rightarrow> (string \<times> string) set" where
  "depends x = {(a, b). has (es_layer x) a \<and> in_layer x b \<and> Ref b \<in> set (env_pieces (get '''' (es_layer x) a))}"

definition refs_in :: "env_scope \<Rightarrow> strmap \<Rightarrow> piece list \<Rightarrow> bool" where
  "refs_in x m ps \<longleftrightarrow> (\<forall>b. Ref b \<in> set ps \<longrightarrow> in_layer x b \<longrightarrow> has m b)"

definition env_inv :: "env_scope \<Rightarrow> strmap \<Rightarrow> bool" where
  "env_inv x m \<longleftrightarrow> (\<forall>k. has m k \<longrightarrow> has (es_layer x) k
     \<and> refs_in x m (env_pieces (get '''' (es_layer x) k))
     \<and> get '''' m k = env_expand x m (env_pieces (get '''' (es_layer x) k)))"

definition env_grows :: "strmap \<Rightarrow> strmap \<Rightarrow> bool" where
  "env_grows m m' \<longleftrightarrow> (\<forall>k. has m k \<longrightarrow> has m' k \<and> get '''' m' k = get '''' m k)"

lemma env_grows_refl: "env_grows m m"
  by (simp add: env_grows_def)

lemma env_grows_trans: "env_grows m m' \<Longrightarrow> env_grows m' m'' \<Longrightarrow> env_grows m m''"
  by (simp add: env_grows_def)

lemma refs_in_grows: "refs_in x m ps \<Longrightarrow> env_grows m m' \<Longrightarrow> refs_in x m' ps"
  by (auto simp: refs_in_def env_grows_def)

lemma env_expand_grows: "refs_in x m ps \<Longrightarrow> env_grows m m' \<Longrightarrow> env_expand x m' ps = env_expand x m ps"
  unfolding env_expand_def
  by (intro arg_cong [where f = concat] map_cong refl)
    (auto simp: env_lookup_def refs_in_def in_layer_def env_grows_def split: piece.splits)

lemma env_inv_put:
  assumes "env_inv x m" and "has (es_layer x) k" and "refs_in x m (env_pieces (get '''' (es_layer x) k))"
    and "v = env_expand x m (env_pieces (get '''' (es_layer x) k))"
  shows "env_inv x (put k v m) \<and> env_grows m (put k v m)"
proof -
  have g: "env_grows m (put k v m)"
    using assms by (auto simp: env_grows_def env_inv_def)
  have "has (es_layer x) j \<and> refs_in x (put k v m) (env_pieces (get '''' (es_layer x) j))
      \<and> get '''' (put k v m) j = env_expand x (put k v m) (env_pieces (get '''' (es_layer x) j))"
    if "has (put k v m) j" for j
  proof -
    have 1: "has (es_layer x) j \<and> refs_in x m (env_pieces (get '''' (es_layer x) j))
        \<and> get '''' (put k v m) j = env_expand x m (env_pieces (get '''' (es_layer x) j))"
      using that assms by (cases "j = k") (auto simp: env_inv_def)
    then show ?thesis using refs_in_grows [OF _ g] env_expand_grows [OF _ g] by metis
  qed
  with g show ?thesis by (simp add: env_inv_def)
qed


lemma env_expand_Cons:
  "env_expand x m (Lit c # ps) = c # env_expand x m ps"
  "env_expand x m (Ref name # ps) = env_lookup x m name @ env_expand x m ps"
  "env_expand x m [] = []"
  by (simp_all add: env_expand_def)

lemma refs_in_Cons:
  "refs_in x m (Lit c # ps) \<longleftrightarrow> refs_in x m ps"
  "refs_in x m (Ref name # ps) \<longleftrightarrow> (in_layer x name \<longrightarrow> has m name) \<and> refs_in x m ps"
  "refs_in x m []"
  by (auto simp: refs_in_def)

text \<open>
  The heart of the argument: below keys on a path of dependencies, the last of which is the current
  key, no reference meets a marked key unless the dependencies have a cycle.
\<close>

lemma resolveValue_expands:
  assumes "resolveValue x busy cur ps m = (v, m')" and "acyclic (depends x)" and "env_inv x m"
    and "\<forall>b \<in> set (cur # busy). has (es_layer x) b \<and> (b, cur) \<in> (depends x)\<^sup>*"
    and "\<forall>b. Ref b \<in> set ps \<longrightarrow> in_layer x b \<longrightarrow> (cur, b) \<in> depends x"
  shows "env_inv x m' \<and> env_grows m m' \<and> refs_in x m' ps \<and> v = env_expand x m' ps"
  using assms
proof (induction x busy cur ps m arbitrary: v m' rule: resolve_induct)
  case (Nil x busy cur m)
  then show ?case by (simp add: env_grows_refl env_expand_Cons refs_in_Cons)
next
  case (Lit x busy cur c ps m)
  then show ?case by (auto simp: env_expand_Cons refs_in_Cons split: prod.splits)
next
  case (Ref x busy cur name ps m)
  obtain u m1 where u: "resolve_ref x busy cur name m = (u, m1)" by fastforce
  obtain w m2 where w: "resolveValue x busy cur ps m1 = (w, m2)" by fastforce
  have v: "v = u @ w" "m' = m2" using Ref.prems(1) u w by (simp_all only: resolveValue_Ref) simp_all
  have 1: "env_inv x m1 \<and> env_grows m m1 \<and> (in_layer x name \<longrightarrow> has m1 name) \<and> u = env_lookup x m1 name"
  proof (cases "in_layer x name \<and> \<not> has m name")
    case False
    then have "m1 = m" "u = env_lookup x m name"
      using u Ref.prems(3,4)
      by (auto simp: resolve_ref_def env_lookup_def in_layer_def env_inv_def split: if_splits prod.splits)
    with False Ref.prems(3) show ?thesis by (auto simp: env_grows_refl)
  next
    case True
    then have dep: "(cur, name) \<in> depends x" using Ref.prems(5) by simp
    then have "name \<notin> set (cur # busy)"
      using Ref.prems(2,4) by (meson acyclic_def rtrancl_into_trancl1)
    then have fresh: "name \<notin> set busy" "name \<noteq> cur" by auto
    from True have lay: "has (es_layer x) name" "\<not> has (es_svcSecrets x) name" "\<not> has (es_globalSecrets x) name" "\<not> has m name"
      by (simp_all add: in_layer_def)
    let ?ps = "env_pieces (get '''' (es_layer x) name)"
    obtain z n where z: "resolveValue x (name # busy) name ?ps m = (z, n)" by fastforce
    have "\<forall>b \<in> set (name # name # busy). has (es_layer x) b \<and> (b, name) \<in> (depends x)\<^sup>*"
      using Ref.prems(4) dep lay(1) by (auto intro: rtrancl_into_rtrancl)
    moreover have "\<forall>b. Ref b \<in> set ?ps \<longrightarrow> in_layer x b \<longrightarrow> (name, b) \<in> depends x"
      using lay(1) by (simp add: depends_def)
    ultimately have n: "env_inv x n" "env_grows m n" "refs_in x n ?ps" "z = env_expand x n ?ps"
      using Ref.IH(1) [OF fresh lay z Ref.prems(2,3)] by blast+
    have "m1 = put name z n" "u = z" using u z lay fresh by (auto simp: resolve_ref_def)
    then show ?thesis
      using env_inv_put [OF n(1) lay(1) n(3,4)] env_grows_trans [OF n(2)] lay by (simp add: env_lookup_def)
  qed
  have 2: "env_inv x m2 \<and> env_grows m1 m2 \<and> refs_in x m2 ps \<and> w = env_expand x m2 ps"
    using Ref.prems 1 by (intro Ref.IH(2) [OF u w]) auto
  have "env_lookup x m1 name = env_lookup x m2 name"
    using 1 2 by (auto simp: env_lookup_def in_layer_def env_grows_def)
  with 1 2 v show ?case
    by (auto simp: env_expand_Cons refs_in_Cons env_grows_def intro: env_grows_trans)
qed


lemma resolve_layer_expands:
  assumes "acyclic (depends x)" and "distinct (map fst (es_layer x))"
    and "set ps \<subseteq> set (es_layer x)" and "env_inv x m"
  shows "env_inv x (fold (resolve_key x) ps m) \<and> env_grows m (fold (resolve_key x) ps m)
    \<and> (\<forall>p \<in> set ps. has (fold (resolve_key x) ps m) (fst p))"
  using assms(3,4)
proof (induction ps arbitrary: m)
  case (Cons p ps)
  obtain k v where p: "p = (k, v)" by (cases p)
  from Cons.prems(1) have kv: "(k, v) \<in> set (es_layer x)" by (simp add: p)
  then have k: "has (es_layer x) k" "get '''' (es_layer x) k = v"
    using assms(2) by (auto simp: has_mem get_mem)
  obtain w m' where w: "resolveValue x [k] k (env_pieces v) m = (w, m')" by fastforce
  have 1: "env_inv x m' \<and> env_grows m m' \<and> refs_in x m' (env_pieces v) \<and> w = env_expand x m' (env_pieces v)"
    using k Cons.prems(2) by (intro resolveValue_expands [OF w assms(1)]) (auto simp: depends_def)
  then have 2: "env_inv x (put k w m') \<and> env_grows m' (put k w m')"
    using env_inv_put [of x m' k w] k by simp
  have step: "resolve_key x p m = put k w m'" by (simp add: resolve_key_def p w)
  let ?r = "fold (resolve_key x) ps (put k w m')"
  have 3: "env_inv x ?r \<and> env_grows (put k w m') ?r \<and> (\<forall>p \<in> set ps. has ?r (fst p))"
    using Cons.IH [of "put k w m'"] Cons.prems(1) 2 by simp
  have "env_grows m ?r" "has ?r k" using 1 2 3 by (auto simp: env_grows_def)
  with 3 show ?case using step p by simp
qed (simp add: env_grows_refl)

text \<open>The specification in terms of the environment that \<^verbatim>\<open>resolveEnvLayer\<close> returns.\<close>

definition env_scope_of :: "strmap \<Rightarrow> strmap \<Rightarrow> strmap \<Rightarrow> strmap \<Rightarrow> env_scope" where
  "env_scope_of base layer svc glob =
     \<lparr>es_base = base, es_layer = layer, es_svcSecrets = svc, es_globalSecrets = glob\<rparr>"

lemma layer_resolved:
  assumes base: "distinct (map fst base)" and layer: "distinct (map fst layer)" and "x = env_scope_of base layer svc glob"
    and acyc: "acyclic (depends x)" and "r = resolveEnvLayer base layer svc glob"
  shows "has r k \<longleftrightarrow> has base k \<or> has layer k"
    and "has layer k \<Longrightarrow> get '''' r k = env_expand x r (env_pieces (get '''' layer k))"
    and "\<not> has layer k \<Longrightarrow> map_of r k = map_of base k"
proof -
  let ?m = "fold (resolve_key x) layer []"
  have lay: "es_layer x = layer" by (simp add: assms(3) env_scope_of_def)
  have "env_inv x []" by (simp add: env_inv_def has_def)
  then have inv: "env_inv x ?m" and "\<forall>p \<in> set layer. has ?m (fst p)"
    using resolve_layer_expands [OF acyc, of layer "[]"] layer by (simp_all add: lay)
  then have "has layer j \<Longrightarrow> has ?m j" for j unfolding has_def [of layer] by auto
  with inv have keys: "has ?m j \<longleftrightarrow> has layer j" for j by (auto simp: env_inv_def lay)
  have dist: "distinct (map fst ?m)"
    using resolve_layer_keys [of layer x "[]"] by (simp add: lay)
  have r: "map_of r = map_of base ++ map_of ?m"
    using assms(3,5) base dist
    by (cases "layer = []") (simp_all add: resolveEnvLayer_def env_scope_of_def merge_two merge_one Let_def)
  show "has r k \<longleftrightarrow> has base k \<or> has layer k"
    unfolding keys [symmetric] by (auto simp: has_map_of r map_add_None)
  show "\<not> has layer k \<Longrightarrow> map_of r k = map_of base k"
    unfolding keys [symmetric] by (simp add: has_map_of r map_add_def)
  have val: "get '''' r j = get '''' ?m j" if "has layer j" for j
    using that unfolding keys [symmetric] by (auto simp: has_map_of r get_def map_add_def)
  assume k: "has layer k"
  have "env_expand x r ps = env_expand x ?m ps" for ps
    unfolding env_expand_def by (intro arg_cong [where f = concat] map_cong refl)
      (auto simp: env_lookup_def lay val split: piece.splits)
  then show "get '''' r k = env_expand x r (env_pieces (get '''' layer k))"
    using k inv keys by (simp add: val env_inv_def lay)
qed


text \<open>Without cycles the equations have one solution.\<close>

lemma env_solution_unique:
  assumes "acyclic (depends x)" and "finite (depends x)"
    and r: "\<And>k. has (es_layer x) k \<Longrightarrow> get '''' r k = env_expand x r (env_pieces (get '''' (es_layer x) k))"
    and s: "\<And>k. has (es_layer x) k \<Longrightarrow> get '''' s k = env_expand x s (env_pieces (get '''' (es_layer x) k))"
  shows "has (es_layer x) k \<Longrightarrow> get '''' r k = get '''' s k"
  using finite_acyclic_wf_converse [OF assms(2,1)]
proof (induction k rule: wf_induct_rule)
  case (less k)
  have "env_lookup x r b = env_lookup x s b" if "Ref b \<in> set (env_pieces (get '''' (es_layer x) k))" for b
    using less that by (auto simp: env_lookup_def depends_def in_layer_def)
  then have "env_expand x r (env_pieces (get '''' (es_layer x) k)) = env_expand x s (env_pieces (get '''' (es_layer x) k))"
    unfolding env_expand_def by (intro arg_cong [where f = concat] map_cong refl) (auto split: piece.splits)
  then show ?case using r s less.prems by simp
qed

lemma finite_depends: "finite (depends x)"
proof (rule finite_subset)
  show "depends x \<subseteq> set (map fst (es_layer x)) \<times> set (map fst (es_layer x))"
    by (auto simp: depends_def in_layer_def has_def)
qed simp

lemma env_scope_cong:
  assumes "map_of layer = map_of layer'"
  shows "depends (env_scope_of base layer svc glob) = depends (env_scope_of base layer' svc glob)"
    and "env_expand (env_scope_of base layer svc glob) = env_expand (env_scope_of base layer' svc glob)"
    and "has layer = has layer'" and "get z layer = get z layer'"
proof -
  show 1: "has layer = has layer'" by (simp add: fun_eq_iff has_map_of assms)
  show 2: "get z layer = get z layer'" for z by (simp add: fun_eq_iff get_def assms)
  show "depends (env_scope_of base layer svc glob) = depends (env_scope_of base layer' svc glob)"
    unfolding depends_def in_layer_def by (simp add: env_scope_of_def 1 2)
  show "env_expand (env_scope_of base layer svc glob) = env_expand (env_scope_of base layer' svc glob)"
  proof -
    have look: "env_lookup (env_scope_of base layer svc glob) = env_lookup (env_scope_of base layer' svc glob)"
      by (intro ext) (simp add: env_lookup_def base_or_def env_scope_of_def 1)
    show ?thesis by (intro ext) (unfold env_expand_def look, rule refl)
  qed
qed

text \<open>
  C37.  The resolution of a layer ends, means what it should and does not depend on the order of a Go
  map.  When the variables of a layer do not refer to each other in a circle (in particular not to
  themselves), \<^verbatim>\<open>resolveEnvLayer\<close> keeps the variables of the layers below that the layer does not
  define, defines those of the layer, and gives each the value in which every reference is replaced
  by the secret, the resolved variable of the layer, or the variable below that it names.  Every
  order in which the entries of the layer are visited yields the same environment.
\<close>

theorem env_layer_resolved:
  assumes "distinct (map fst base)" and "distinct (map fst layer)" and "distinct (map fst layer')"
    and "set layer' = set layer" and "acyclic (depends (env_scope_of base layer svc glob))"
  shows "(\<forall>k. has (resolveEnvLayer base layer svc glob) k \<longleftrightarrow> has base k \<or> has layer k)
    \<and> (\<forall>k. \<not> has layer k \<longrightarrow> map_of (resolveEnvLayer base layer svc glob) k = map_of base k)
    \<and> (\<forall>k. has layer k \<longrightarrow> get '''' (resolveEnvLayer base layer svc glob) k =
         env_expand (env_scope_of base layer svc glob) (resolveEnvLayer base layer svc glob) (env_pieces (get '''' layer k)))
    \<and> map_of (resolveEnvLayer base layer' svc glob) = map_of (resolveEnvLayer base layer svc glob)"
proof -
  let ?x = "env_scope_of base layer svc glob"
  let ?r = "resolveEnvLayer base layer svc glob"
  let ?s = "resolveEnvLayer base layer' svc glob"
  have maps: "map_of layer = map_of layer'"
    using assms(2-4) by (metis map_of_inject_set)
  note c = env_scope_cong [OF maps]
  note r = layer_resolved [OF assms(1,2) refl assms(5) refl]
  note s = layer_resolved [OF assms(1,3) refl assms(5) [unfolded c(1)] refl, folded c]
  have lay: "es_layer ?x = layer" by (simp add: env_scope_of_def)
  have "map_of ?s k = map_of ?r k" for k
  proof (cases "has layer k")
    case True
    have "get '''' ?s k = get '''' ?r k"
      using r(2) s(2) True c(3,4) by (intro env_solution_unique [OF assms(5) finite_depends]) (simp_all add: lay)
    then show ?thesis using r(1) s(1) True by (simp add: map_of_has [where z = "''''"])
  next
    case False
    then show ?thesis using r(3) s(3) by simp
  qed
  then show ?thesis using r by blast
qed


text \<open>
  The hypothesis that no variable refers to itself cannot be dropped.  A variable that extends the
  value below it (\<^verbatim>\<open>PATH=${PATH}:/x\<close>) and that another variable of the layer uses is extended once
  when it is visited first and twice when the other is.
\<close>

theorem self_reference_order_dependent:
  "get '''' (resolveEnvLayer [(''PATH'', ''/bin'')] [(''PATH'', ''${PATH}:/x''), (''TOOL'', ''${PATH}/t'')] [] []) ''PATH'' = ''/bin:/x''
   \<and> get '''' (resolveEnvLayer [(''PATH'', ''/bin'')] [(''TOOL'', ''${PATH}/t''), (''PATH'', ''${PATH}:/x'')] [] []) ''PATH'' = ''/bin:/x:/x''"
  by code_simp

section \<open>Examples\<close>

definition demo_service :: YAMLService where
  "demo_service = \<lparr>svc_Image = ''wiki:1'', svc_Port = 80, svc_Public = True, svc_Volume = '''', svc_DependsOn = [],
     svc_Requires = [], svc_Command = '''', svc_SetupCommand = '''', svc_SetupTimeout = 0, svc_NotifyOnSetup = [],
     svc_Env = [(''ADMIRAL_INSTANCE_ID'', ''forged''), (''URL'', ''${HOST}:80'')], svc_Secrets = [], svc_HealthCheck = None,
     svc_HealthCheckWaitSecs = 0, svc_Backup = None, svc_Registry = None, svc_User = ''''\<rparr>"

definition demo_payload :: AppDefinitionPayload where
  "demo_payload = \<lparr>app_Name = ''wiki'', app_DisplayName = ''Wiki'', app_Description = '''', app_Environment = [(''HOST'', ''db'')],
     app_Services = [(''web'', demo_service)], app_SharedVolumes = [], app_Secrets = [], app_Tiers = []\<rparr>"

definition demo_infos :: "ServiceInfo list" where
  "demo_infos = buildServiceInfos (\<lambda>_. None) demo_payload ''small'' [] ''i1'' ''c1'' '''' []"

theorem admiral_vars_protected_witness:
  "map_of (si_Env (hd demo_infos)) ''ADMIRAL_INSTANCE_ID'' = Some ''i1''"
proof -
  have "hd demo_infos \<in> set demo_infos" by (simp add: demo_infos_def buildServiceInfos_def demo_payload_def)
  then have "map_of (si_Env (hd demo_infos)) ''ADMIRAL_INSTANCE_ID''
      = map_of (admiralEnvironment (\<lambda>_. None) (app_Name demo_payload) ''small'' ''i1'' ''c1'' '''') ''ADMIRAL_INSTANCE_ID''"
    unfolding demo_infos_def by (rule admiral_vars_protected) simp
  then show ?thesis by (simp add: admiralEnvironment_def)
qed

lemma demo_acyclic:
  "acyclic (depends (env_scope_of [(''C'', ''z'')] [(''A'', ''${B}-${C}''), (''B'', ''y'')] [] []))"
proof (rule acyclic_subset)
  have "env_pieces ''${B}-${C}'' = [Ref ''B'', Lit CHR ''-'', Ref ''C'']" "env_pieces ''y'' = [Lit CHR ''y'']"
    by code_simp+
  then show "depends (env_scope_of [(''C'', ''z'')] [(''A'', ''${B}-${C}''), (''B'', ''y'')] [] []) \<subseteq> {(''A'', ''B'')}"
    by (auto simp: depends_def in_layer_def env_scope_of_def has_def get_def split: if_splits)
qed (simp add: acyclic_insert, simp add: acyclic_def)

theorem env_layer_resolved_witness:
  "get '''' (resolveEnvLayer [(''C'', ''z'')] [(''A'', ''${B}-${C}''), (''B'', ''y'')] [] []) ''A'' = ''y-z''
   \<and> map_of (resolveEnvLayer [(''C'', ''z'')] [(''B'', ''y''), (''A'', ''${B}-${C}'')] [] [])
     = map_of (resolveEnvLayer [(''C'', ''z'')] [(''A'', ''${B}-${C}''), (''B'', ''y'')] [] [])"
proof -
  have "map_of (resolveEnvLayer [(''C'', ''z'')] [(''B'', ''y''), (''A'', ''${B}-${C}'')] [] [])
     = map_of (resolveEnvLayer [(''C'', ''z'')] [(''A'', ''${B}-${C}''), (''B'', ''y'')] [] [])"
    using env_layer_resolved [of "[(''C'', ''z'')]" "[(''A'', ''${B}-${C}''), (''B'', ''y'')]"
        "[(''B'', ''y''), (''A'', ''${B}-${C}'')]" "[]" "[]"] demo_acyclic
    by (simp add: insert_commute)
  moreover have "get '''' (resolveEnvLayer [(''C'', ''z'')] [(''A'', ''${B}-${C}''), (''B'', ''y'')] [] []) ''A'' = ''y-z''"
    by code_simp
  ultimately show ?thesis by blast
qed

end
