(* ===== verification/Api.thy ===== *)
theory Api
  imports Queue Store_Catalog
begin

text \<open>
  The control plane's handlers run against two databases: the store (\<^verbatim>\<open>h.db\<close>) and the task queue
  (\<^verbatim>\<open>h.publisher\<close>).  A handler is a computation over both connections that ends with the response it
  writes.  A request is what the handler reads of it: the method, the decoded body (\<open>None\<close> when it does
  not decode) and the identity of the node that the middleware has put into the context.
\<close>

record api =
  api_db :: "store conn"
  api_queue :: "queue conn"

type_synonym 'a api_io = "(api, 'a) state"

text \<open>\<^verbatim>\<open>w.WriteHeader(code)\<close>, \<^verbatim>\<open>writeError(w, code, message)\<close> and \<^verbatim>\<open>writeJSON(w, code, value)\<close>.\<close>

datatype 'a response = WriteHeader int | writeError int string | writeJSON int 'a | Panicked

text \<open>
  A panic is an error that ends the handler, where it would only log any other error; \<open>Panicked\<close> is the
  response of a handler that it ends.
\<close>

definition is_panic :: "err \<Rightarrow> bool" where
  "is_panic e = (case e of Panic _ \<Rightarrow> True | _ \<Rightarrow> False)"

definition only_panic :: "err + 'a \<Rightarrow> err + unit" where
  "only_panic r = (case r of Inl e \<Rightarrow> if is_panic e then Inl e else Inr () | Inr _ \<Rightarrow> Inr ())"

definition on_db :: "(store conn, 'a) state \<Rightarrow> 'a api_io" where
  "on_db m = State (\<lambda>s. case run_state m (api_db s) of (x, c) \<Rightarrow> (x, s\<lparr>api_db := c\<rparr>))"

definition on_queue :: "(queue conn, 'a) state \<Rightarrow> 'a api_io" where
  "on_queue m = State (\<lambda>s. case run_state m (api_queue s) of (x, c) \<Rightarrow> (x, s\<lparr>api_queue := c\<rparr>))"

lemma run_on_db [simp]:
  "run_state (on_db m) s = (x, s') \<longleftrightarrow> (\<exists>c. run_state m (api_db s) = (x, c) \<and> s' = s\<lparr>api_db := c\<rparr>)"
  by (auto simp: on_db_def split: prod.splits)

lemma run_on_queue [simp]:
  "run_state (on_queue m) s = (x, s') \<longleftrightarrow> (\<exists>c. run_state m (api_queue s) = (x, c) \<and> s' = s\<lparr>api_queue := c\<rparr>)"
  by (auto simp: on_queue_def split: prod.splits)

text \<open>\<^verbatim>\<open>generateID\<close>: the random bytes are an argument.\<close>

definition generateID :: "string \<Rightarrow> byte list \<Rightarrow> string" where
  "generateID prefix b = prefix @ ''_'' @ hex_EncodeToString b"

end
