(* ===== verification/Secrets.thy ===== *)
theory Secrets
  imports Api
begin

text \<open>
  Encryption of instance secrets and the rotation of its keys: \<^verbatim>\<open>src/internal/secrets/secrets.go\<close> and
  \<^verbatim>\<open>src/internal/api/handlers_secrets_rotation.go\<close>.  AES-GCM, base64 and SHA-256 of Go's library and
  HKDF of \<^verbatim>\<open>golang.org/x/crypto\<close> are the fields of \<open>secret_codec\<close>; the random bytes that a call reads
  are arguments.
\<close>

record secret_codec = codec +
  sha256 :: "string \<Rightarrow> byte list"
  hkdf :: "string \<Rightarrow> string \<Rightarrow> string option"

record secret_entropy =
  se_salt :: "string option"
  se_nonce :: "string option"

definition saltLen :: nat where "saltLen = 16"

record Manager =
  currentKey :: string
  previous :: "string list"

definition NewManagerWithKeys :: "string \<Rightarrow> string list \<Rightarrow> Manager" where
  "NewManagerWithKeys current old =
     \<lparr>currentKey = current, previous = map TrimSpace (filter (\<lambda>key. TrimSpace key \<noteq> '''') old)\<rparr>"

definition NewManager :: "string \<Rightarrow> Manager" where
  "NewManager masterKey = NewManagerWithKeys masterKey []"

definition keyID :: "secret_codec \<Rightarrow> string \<Rightarrow> string" where
  "keyID c key = hex_EncodeToString (take 8 (sha256 c key))"

definition deriveKey :: "secret_codec \<Rightarrow> string \<Rightarrow> string \<Rightarrow> err + string" where
  "deriveKey c masterKey salt = (case hkdf c masterKey salt of
     None \<Rightarrow> Inl (Wrap ''derive key: '' (Plain ''hkdf: entropy limit reached'')) | Some key \<Rightarrow> Inr key)"

definition encryptWithKey :: "secret_codec \<Rightarrow> string option \<Rightarrow> string \<Rightarrow> string \<Rightarrow> err + string" where
  "encryptWithKey c nonce key plaintext =
     (if \<not> aes_key_ok key then Inl (Wrap ''create cipher: '' (Plain ''crypto/aes: invalid key size''))
      else case nonce of
        None \<Rightarrow> Inl (Wrap ''generate nonce: '' (Plain ''entropy source failed''))
      | Some n \<Rightarrow> Inr (n @ gcm_seal c key n plaintext))"

definition decryptWithKey :: "secret_codec \<Rightarrow> string \<Rightarrow> string \<Rightarrow> err + string" where
  "decryptWithKey c key data =
     (if \<not> aes_key_ok key then Inl (Wrap ''create cipher: '' (Plain ''crypto/aes: invalid key size''))
      else if length data < gcm_nonce_size then Inl (Plain ''ciphertext too short'')
      else case gcm_open c key (take gcm_nonce_size data) (drop gcm_nonce_size data) of
        None \<Rightarrow> Inl (Wrap ''decrypt secret: '' (Plain ''cipher: message authentication failed''))
      | Some plaintext \<Rightarrow> Inr plaintext)"

definition Encrypt :: "secret_codec \<Rightarrow> Manager \<Rightarrow> secret_entropy \<Rightarrow> string \<Rightarrow> err + string" where
  "Encrypt c m ent plaintext = (case se_salt ent of
     None \<Rightarrow> Inl (Wrap ''generate salt: '' (Plain ''entropy source failed''))
   | Some salt \<Rightarrow>
       and_then (deriveKey c (currentKey m) salt) (\<lambda>key.
       and_then (encryptWithKey c (se_nonce ent) key plaintext) (\<lambda>ct.
       Inr (''v2:'' @ keyID c (currentKey m) @ '':'' @ base64_encode c (salt @ ct)))))"

definition decryptPayload :: "secret_codec \<Rightarrow> string \<Rightarrow> string \<Rightarrow> err + string" where
  "decryptPayload c encoded key = (case base64_decode c encoded of
     None \<Rightarrow> Inl (Wrap ''decode ciphertext: '' (Plain ''illegal base64 data''))
   | Some data \<Rightarrow>
       if data = [] then Inl (Plain ''ciphertext too short'')
       else if length data \<le> saltLen
       then Inl (Plain ''ciphertext too short for current encryption format; data may be from a removed legacy format'')
       else and_then (deriveKey c key (take saltLen data)) (\<lambda>derivedKey.
              decryptWithKey c derivedKey (drop saltLen data)))"

text \<open>\<^verbatim>\<open>strings.SplitN(s, sep, n)\<close> for a separator of one byte and \<open>n > 0\<close>.\<close>

fun SplitN :: "char \<Rightarrow> nat \<Rightarrow> string \<Rightarrow> string list" where
  "SplitN d 0 s = []"
| "SplitN d (Suc 0) s = [s]"
| "SplitN d (Suc (Suc n)) s = (case dropWhile (\<lambda>x. x \<noteq> d) s of
     [] \<Rightarrow> [s] | _ # rest \<Rightarrow> takeWhile (\<lambda>x. x \<noteq> d) s # SplitN d (Suc n) rest)"

text \<open>The loop over the keys for a ciphertext without a key identifier: the last error is returned.\<close>

fun try_keys :: "secret_codec \<Rightarrow> string \<Rightarrow> err + string \<Rightarrow> string list \<Rightarrow> err + string" where
  "try_keys c encoded lastErr [] = lastErr"
| "try_keys c encoded lastErr (key # keys) = (case decryptPayload c encoded key of
     Inr plain \<Rightarrow> Inr plain | Inl e \<Rightarrow> try_keys c encoded (Inl e) keys)"

definition Decrypt :: "secret_codec \<Rightarrow> Manager \<Rightarrow> string \<Rightarrow> err + string" where
  "Decrypt c m encoded =
     (if HasPrefix encoded ''v2:'' then
        (case SplitN CHR '':'' 3 encoded of
           [_, kid, payload] \<Rightarrow>
             if kid = '''' \<or> payload = '''' then Inl (Plain ''invalid versioned ciphertext'')
             else (case find (\<lambda>key. keyID c key = kid) (currentKey m # previous m) of
                 Some key \<Rightarrow> decryptPayload c payload key
               | None \<Rightarrow> Inl (Plain (''ciphertext key '' @ quoted kid @ '' is not configured'')))
         | _ \<Rightarrow> Inl (Plain ''invalid versioned ciphertext''))
      else try_keys c encoded (Inr '''') (currentKey m # previous m))"

definition IsCurrent :: "secret_codec \<Rightarrow> Manager \<Rightarrow> string \<Rightarrow> bool" where
  "IsCurrent c m encoded = (case SplitN CHR '':'' 3 encoded of
     [v, kid, _] \<Rightarrow> v = ''v2'' \<and> kid = keyID c (currentKey m) | _ \<Rightarrow> False)"

definition Reencrypt :: "secret_codec \<Rightarrow> Manager \<Rightarrow> secret_entropy \<Rightarrow> string \<Rightarrow> err + string" where
  "Reencrypt c m ent encoded =
     (if IsCurrent c m encoded then Inr encoded
      else and_then (Decrypt c m encoded) (\<lambda>plaintext. Encrypt c m ent plaintext))"

section \<open>Rotation of the stored secrets\<close>

definition rotate_row ::
  "secret_codec \<Rightarrow> Manager \<Rightarrow> (InstanceSecret \<Rightarrow> secret_entropy) \<Rightarrow> InstanceSecret
   \<Rightarrow> InstanceSecretUpdate list \<times> nat \<Rightarrow> string + InstanceSecretUpdate list \<times> nat" where
  "rotate_row c m ent row = (\<lambda>(updates, alreadyCurrent).
     if IsCurrent c m (is_EncryptedValue row) then Inr (updates, alreadyCurrent + 1)
     else case Reencrypt c m (ent row) (is_EncryptedValue row) of
       Inl _ \<Rightarrow> Inl ''Secret rotation could not decrypt all stored values''
     | Inr rotated \<Rightarrow> Inr (updates @ [\<lparr>isu_InstanceID = is_InstanceID row, isu_ServiceName = is_ServiceName row,
           isu_EnvName = is_EnvName row, isu_EncryptedValue = rotated\<rparr>], alreadyCurrent))"

text \<open>The response counts the migrated values, those already current, and all of them.\<close>

definition HandleSecretRotation ::
  "secret_codec \<Rightarrow> Manager \<Rightarrow> (InstanceSecret \<Rightarrow> secret_entropy) \<Rightarrow> string \<Rightarrow> (store conn, (nat \<times> nat \<times> nat) response) state" where
  "HandleSecretRotation c m ent meth =
     (if meth \<noteq> ''POST'' then return (WriteHeader 405)
      else do {
        r \<leftarrow> GetAllInstanceSecrets;
        case r of
          Inl _ \<Rightarrow> return (writeError 500 ''Failed to prepare secret rotation'')
        | Inr rows \<Rightarrow> (case for_each (rotate_row c m ent) rows ([], 0) of
            Inl msg \<Rightarrow> return (writeError 409 msg)
          | Inr (updates, alreadyCurrent) \<Rightarrow> do {
              u \<leftarrow> UpdateInstanceSecretCiphertexts updates;
              return (case u of
                Inl _ \<Rightarrow> writeError 500 ''Failed to persist secret rotation''
              | Inr _ \<Rightarrow> writeJSON 200 (length updates, alreadyCurrent, length rows))
            })
      })"

end
