(* ===== verification/Secrets_Props.thy ===== *)
theory Secrets_Props
  imports Secrets Queue_Nodes Store_Limits
begin

text \<open>
  Rotation of keys: what was encrypted can be decrypted, and a rotation of all stored secrets makes
  the previous keys superfluous without changing any secret.
\<close>

text \<open>
  What the code relies on: base64 and AES-GCM invert themselves, base64 of some data is not empty,
  SHA-256 yields 32 bytes, and a derived key has 32 bytes.
\<close>

definition secret_laws :: "secret_codec \<Rightarrow> bool" where
  "secret_laws c \<longleftrightarrow> (\<forall>x. base64_decode c (base64_encode c x) = Some x)
     \<and> (\<forall>x. x \<noteq> [] \<longrightarrow> base64_encode c x \<noteq> [])
     \<and> (\<forall>k n x. gcm_open c k n (gcm_seal c k n x) = Some x)
     \<and> (\<forall>k. length (sha256 c k) = 32) \<and> (\<forall>k s d. hkdf c k s = Some d \<longrightarrow> length d = 32)"

text \<open>The reader of random bytes fills the buffers it gets.\<close>

definition entropy_ok :: "secret_entropy \<Rightarrow> bool" where
  "entropy_ok ent \<longleftrightarrow> (\<forall>s. se_salt ent = Some s \<longrightarrow> length s = saltLen)
     \<and> (\<forall>n. se_nonce ent = Some n \<longrightarrow> length n = gcm_nonce_size)"

lemma hex_no_colon: "CHR '':'' \<notin> set (hex_EncodeToString bs)"
proof -
  have "list_all (\<lambda>n. hex_digit n \<noteq> CHR '':'') [0..<16]" by code_simp
  then have "hex_digit n \<noteq> CHR '':''" if "n < 16" for n
    using that by (simp add: list_all_iff)
  moreover have "unat (drop_bit 4 b) < 16" "unat (b AND 15) < 16" for b :: byte
    by (simp_all add: low_nibble high_nibble)
  ultimately have "CHR '':'' \<notin> set (hex_byte b)" for b
    by (simp add: hex_byte_def) metis
  then show ?thesis by (auto simp: hex_EncodeToString_def)
qed

lemma SplitN_v2:
  assumes "CHR '':'' \<notin> set kid"
  shows "SplitN CHR '':'' 3 (''v2:'' @ kid @ '':'' @ payload) = [''v2'', kid, payload]"
proof -
  have "takeWhile (\<lambda>x. x \<noteq> CHR '':'') (kid @ '':'' @ payload) = kid"
    "dropWhile (\<lambda>x. x \<noteq> CHR '':'') (kid @ '':'' @ payload) = '':'' @ payload"
    using assms by (auto simp: takeWhile_append dropWhile_append)
  then show ?thesis by (simp add: numeral_3_eq_3)
qed


lemma Decrypt_Encrypt:
  assumes laws: "secret_laws c" and ent: "entropy_ok ent" and enc: "Encrypt c m ent plain = Inr ct"
    and key: "currentKey m' = currentKey m"
  shows "Decrypt c m' ct = Inr plain" and "IsCurrent c m' ct"
proof -
  from enc obtain salt n k where k: "se_salt ent = Some salt" "se_nonce ent = Some n" "hkdf c (currentKey m) salt = Some k"
    and ct: "ct = ''v2:'' @ keyID c (currentKey m) @ '':'' @ base64_encode c (salt @ n @ gcm_seal c k n plain)"
    by (auto simp: Encrypt_def deriveKey_def encryptWithKey_def split: option.splits if_splits)
  have len: "length salt = saltLen" "length n = gcm_nonce_size" "aes_key_ok k"
    using ent k laws by (auto simp: entropy_ok_def secret_laws_def aes_key_ok_def)
  have split: "SplitN CHR '':'' 3 ct = [''v2'', keyID c (currentKey m), base64_encode c (salt @ n @ gcm_seal c k n plain)]"
    unfolding ct by (rule SplitN_v2) (simp add: keyID_def hex_no_colon)
  then show "IsCurrent c m' ct" by (simp add: IsCurrent_def key)
  have "length (take 8 (sha256 c (currentKey m))) = 8" using laws by (simp add: secret_laws_def)
  then have "keyID c (currentKey m) \<noteq> ''''"
    by (cases "take 8 (sha256 c (currentKey m))") (auto simp: keyID_def hex_EncodeToString_def hex_byte_def)
  moreover have "salt \<noteq> []" using len by (auto simp: saltLen_def)
  then have "base64_encode c (salt @ n @ gcm_seal c k n plain) \<noteq> ''''" using laws by (simp add: secret_laws_def)
  moreover have "decryptPayload c (base64_encode c (salt @ n @ gcm_seal c k n plain)) (currentKey m) = Inr plain"
    using laws len k \<open>salt \<noteq> []\<close>
    by (simp add: decryptPayload_def secret_laws_def deriveKey_def decryptWithKey_def and_then_def gcm_nonce_size_def)
  moreover have "HasPrefix ct ''v2:''" by (simp add: ct)
  ultimately show "Decrypt c m' ct = Inr plain"
    unfolding Decrypt_def split by (simp add: key)
qed

lemma Decrypt_current:
  assumes "IsCurrent c m ct" and "currentKey m' = currentKey m"
  shows "Decrypt c m' ct = Decrypt c m ct"
proof -
  from assms(1) obtain p where p: "SplitN CHR '':'' 3 ct = [''v2'', keyID c (currentKey m), p]"
    by (auto simp: IsCurrent_def split: list.splits)
  have "HasPrefix ct ''v2:''"
  proof -
    from p obtain x r where r: "dropWhile (\<lambda>x. x \<noteq> CHR '':'') ct = x # r" "takeWhile (\<lambda>x. x \<noteq> CHR '':'') ct = ''v2''"
      by (auto simp: numeral_3_eq_3 split: list.splits)
    then have "x = CHR '':''" by (simp add: dropWhile_eq_Cons_conv)
    with r have "ct = ''v2'' @ CHR '':'' # r" by (metis takeWhile_dropWhile_id)
    then show ?thesis by (simp add: HasPrefix_iff)
  qed
  then show ?thesis unfolding Decrypt_def p using assms(2) by simp
qed

text \<open>What a rotation makes of the value of a row.\<close>

definition rotated_value ::
  "secret_codec \<Rightarrow> Manager \<Rightarrow> (InstanceSecret \<Rightarrow> secret_entropy) \<Rightarrow> InstanceSecret \<Rightarrow> string \<Rightarrow> bool" where
  "rotated_value c m ent row v \<longleftrightarrow> (if IsCurrent c m (is_EncryptedValue row) then v = is_EncryptedValue row
     else \<exists>p. Decrypt c m (is_EncryptedValue row) = Inr p \<and> Encrypt c m (ent row) p = Inr v)"

lemma rotated_value_ok:
  assumes "secret_laws c" and "entropy_ok (ent row)" and "rotated_value c m ent row v" and "currentKey m' = currentKey m"
  shows "Decrypt c m' v = Decrypt c m (is_EncryptedValue row)" and "IsCurrent c m' v"
proof -
  have cur: "IsCurrent c m' = IsCurrent c m" unfolding IsCurrent_def [abs_def] assms(4) by (rule refl)
  have "Decrypt c m' v = Decrypt c m (is_EncryptedValue row) \<and> IsCurrent c m' v"
  proof (cases "IsCurrent c m (is_EncryptedValue row)")
    case True
    with assms(3) have "v = is_EncryptedValue row" by (simp add: rotated_value_def)
    with True show ?thesis using Decrypt_current [OF True assms(4)] by (simp add: cur)
  next
    case False
    with assms(3) obtain p where "Decrypt c m (is_EncryptedValue row) = Inr p" "Encrypt c m (ent row) p = Inr v"
      by (auto simp: rotated_value_def)
    then show ?thesis using Decrypt_Encrypt [OF assms(1,2) _ assms(4)] by simp
  qed
  then show "Decrypt c m' v = Decrypt c m (is_EncryptedValue row)" "IsCurrent c m' v" by auto
qed

definition rotation_update ::
  "secret_codec \<Rightarrow> Manager \<Rightarrow> (InstanceSecret \<Rightarrow> secret_entropy) \<Rightarrow> InstanceSecret \<Rightarrow> InstanceSecretUpdate" where
  "rotation_update c m ent row = \<lparr>isu_InstanceID = is_InstanceID row, isu_ServiceName = is_ServiceName row,
     isu_EnvName = is_EnvName row, isu_EncryptedValue = projr (Reencrypt c m (ent row) (is_EncryptedValue row))\<rparr>"

abbreviation outdated :: "secret_codec \<Rightarrow> Manager \<Rightarrow> InstanceSecret \<Rightarrow> bool" where
  "outdated c m row \<equiv> \<not> IsCurrent c m (is_EncryptedValue row)"

lemma for_each_rotate:
  assumes "for_each (rotate_row c m ent) rows (us, k) = Inr (us', k')"
  shows "us' = us @ map (rotation_update c m ent) (filter (outdated c m) rows)
    \<and> k' = k + length (filter (\<lambda>r. \<not> outdated c m r) rows)
    \<and> (\<forall>r \<in> set rows. outdated c m r \<longrightarrow> (\<exists>v. Reencrypt c m (ent r) (is_EncryptedValue r) = Inr v))"
  using assms
proof (induction rows arbitrary: us k)
  case (Cons r rows)
  from Cons.prems obtain vs l where step: "rotate_row c m ent r (us, k) = Inr (vs, l)"
    and rest: "for_each (rotate_row c m ent) rows (vs, l) = Inr (us', k')"
    by (auto split: sum.splits)
  from step have "if outdated c m r
      then vs = us @ [rotation_update c m ent r] \<and> l = k \<and> (\<exists>v. Reencrypt c m (ent r) (is_EncryptedValue r) = Inr v)
      else vs = us \<and> l = k + 1"
    by (auto simp: rotate_row_def rotation_update_def split: sum.splits if_splits)
  with Cons.IH [OF rest] show ?case by (cases "outdated c m r") simp_all
qed simp

lemma rotated_row:
  assumes "distinct (map secret_key rows)" and "set us = rotation_update c m ent ` set (filter (outdated c m) rows)"
    and "distinct (map update_target us)" and r: "r \<in> set rows"
    and "outdated c m r \<longrightarrow> (\<exists>v. Reencrypt c m (ent r) (is_EncryptedValue r) = Inr v)"
  shows "\<exists>v. fold apply_update us r = r\<lparr>is_EncryptedValue := v\<rparr> \<and> rotated_value c m ent r v"
proof -
  have key: "update_target (rotation_update c m ent q) = secret_key q" for q
    by (simp add: update_target_def rotation_update_def secret_key_def)
  have inj: "q = r" if "q \<in> set rows" "secret_key q = secret_key r" for q
    using assms(1) r that by (auto simp: distinct_map dest: inj_onD)
  show ?thesis
  proof (cases "outdated c m r")
    case True
    with assms(5) obtain v where v: "Reencrypt c m (ent r) (is_EncryptedValue r) = Inr v" by blast
    have "fold apply_update us r = r\<lparr>is_EncryptedValue := isu_EncryptedValue (rotation_update c m ent r)\<rparr>"
      using True r assms(2) by (intro fold_apply_target [OF assms(3)]) (auto simp: key)
    moreover have "rotated_value c m ent r v"
      using v True by (simp add: rotated_value_def Reencrypt_def)
    ultimately show ?thesis using v by (auto simp: rotation_update_def)
  next
    case False
    have "\<forall>u \<in> set us. update_target u \<noteq> secret_key r"
      unfolding assms(2) using False inj by (auto simp: key)
    then have "fold apply_update us r = r\<lparr>is_EncryptedValue := is_EncryptedValue r\<rparr>"
      by (simp add: fold_apply_other)
    with False show ?thesis by (auto simp: rotated_value_def)
  qed
qed


lemma rotation_run:
  assumes "run_state (HandleSecretRotation c m ent meth) s = (resp, s')"
  shows "(\<exists>rows us k. resp = writeJSON 200 (length us, k, length rows) \<and> rows = sort_key secret_key (st_secrets (tables s))
      \<and> for_each (rotate_row c m ent) rows ([], 0) = Inr (us, k)
      \<and> (\<exists>d. tables d = tables s \<and> run_state (UpdateInstanceSecretCiphertexts us) d = (Inr (), s')))
    \<or> (\<forall>x. resp \<noteq> writeJSON 200 x) \<and> tables s' = tables s"
proof (cases "meth = ''POST''")
  case True
  obtain r d where r: "run_state GetAllInstanceSecrets s = (r, d)" by fastforce
  have d: "tables d = tables s" "\<And>rows. r = Inr rows \<Longrightarrow> rows = sort_key secret_key (st_secrets (tables s))"
    using r by (auto simp: GetAllInstanceSecrets_def wrapped_def dest!: query_Inr query_Inl split: prod.splits sum.splits)
  show ?thesis
  proof (cases r)
    case (Inl e)
    with assms True r d show ?thesis by (auto simp: HandleSecretRotation_def)
  next
    case (Inr rows)
    show ?thesis
    proof (cases "for_each (rotate_row c m ent) rows ([], 0)")
      case (Inl e)
      with assms True r d Inr show ?thesis by (auto simp: HandleSecretRotation_def)
    next
      case fe: (Inr x)
      obtain us k where x: "x = (us, k)" by (cases x)
      obtain u d' where u: "run_state (UpdateInstanceSecretCiphertexts us) d = (u, d')" by fastforce
      have run: "resp = (case u of Inl _ \<Rightarrow> writeError 500 ''Failed to persist secret rotation''
          | Inr _ \<Rightarrow> writeJSON 200 (length us, k, length rows))" "s' = d'"
        using assms True r Inr fe x u by (auto simp: HandleSecretRotation_def)
      show ?thesis
      proof (cases u)
        case (Inl e)
        then have "tables d' = tables d"
          using u by (auto simp: UpdateInstanceSecretCiphertexts_def split: if_splits dest: transaction_Inl)
        with Inl run d show ?thesis by auto
      next
        case u': (Inr y)
        with run u d fe x Inr show ?thesis by auto
      qed
    qed
  qed
qed (use assms in \<open>auto simp: HandleSecretRotation_def\<close>)

text \<open>
  C40.  A rotation makes the previous keys superfluous and changes no secret.  When
  \<^verbatim>\<open>HandleSecretRotation\<close> answers with status 200, every stored secret is encrypted under the current
  key, and a manager that knows this key and no other decrypts each of them to exactly what the old
  manager decrypted it to; only the ciphertexts have changed, and the counts of the answer add up.  With
  any other answer nothing has changed.
\<close>

theorem secret_rotation_complete:
  assumes "secret_laws c" and "\<forall>row. entropy_ok (ent row)" and "store_ok (tables s)"
    and "run_state (HandleSecretRotation c m ent meth) s = (resp, s')"
  shows "(\<exists>migrated current n. resp = writeJSON 200 (migrated, current, n) \<and> migrated + current = n
      \<and> n = length (st_secrets (tables s))
      \<and> (\<exists>f. tables s' = (tables s)\<lparr>st_secrets := map (\<lambda>r. r\<lparr>is_EncryptedValue := f r\<rparr>) (st_secrets (tables s))\<rparr>
          \<and> (\<forall>r \<in> set (st_secrets (tables s)). IsCurrent c m (f r)
               \<and> Decrypt c (m\<lparr>previous := []\<rparr>) (f r) = Decrypt c m (is_EncryptedValue r))))
    \<or> (\<forall>x. resp \<noteq> writeJSON 200 x) \<and> tables s' = tables s"
proof -
  let ?rows = "sort_key secret_key (st_secrets (tables s))"
  have dist: "distinct (map secret_key ?rows)"
    using assms(3) by (simp add: store_ok_def other_keys_ok_def distinct_map)
  consider (rotated) us k d where "resp = writeJSON 200 (length us, k, length ?rows)"
      "for_each (rotate_row c m ent) ?rows ([], 0) = Inr (us, k)" "tables d = tables s"
      "run_state (UpdateInstanceSecretCiphertexts us) d = (Inr (), s')"
    | (failed) "\<forall>x. resp \<noteq> writeJSON 200 x" "tables s' = tables s"
    using rotation_run [OF assms(4)] by blast
  then show ?thesis
  proof cases
    case rotated
    note fe = for_each_rotate [OF rotated(2)]
    have us: "us = map (rotation_update c m ent) (filter (outdated c m) ?rows)" using fe by simp
    have targets: "map update_target us = map secret_key (filter (outdated c m) ?rows)"
      by (simp add: us update_target_def rotation_update_def secret_key_def)
    have du: "distinct (map update_target us)" unfolding targets using dist by (rule distinct_map_filter)
    have "\<exists>v. fold apply_update us r = r\<lparr>is_EncryptedValue := v\<rparr> \<and> rotated_value c m ent r v"
      if "r \<in> set (st_secrets (tables s))" for r
      using rotated_row [OF dist _ du, of c m ent r] that fe by (simp add: us)
    then obtain f where f: "\<And>r. r \<in> set (st_secrets (tables s)) \<Longrightarrow>
        fold apply_update us r = r\<lparr>is_EncryptedValue := f r\<rparr> \<and> rotated_value c m ent r (f r)" by metis
    then have "tables s' = (tables s)\<lparr>st_secrets := map (\<lambda>r. r\<lparr>is_EncryptedValue := f r\<rparr>) (st_secrets (tables s))\<rparr>"
      using update_secrets_Inr [OF rotated(4)] rotated(3) by (simp cong: map_cong)
    moreover have "length us + k = length ?rows"
      using fe sum_length_filter_compl [of "outdated c m" ?rows] by (simp add: us)
    moreover have "IsCurrent c m (f r) \<and> Decrypt c (m\<lparr>previous := []\<rparr>) (f r) = Decrypt c m (is_EncryptedValue r)"
      if "r \<in> set (st_secrets (tables s))" for r
    proof -
      from f [OF that] have v: "rotated_value c m ent r (f r)" by simp
      have e: "entropy_ok (ent r)" using assms(2) by simp
      show ?thesis
        using rotated_value_ok [OF assms(1) e v, of m] rotated_value_ok [OF assms(1) e v, of "m\<lparr>previous := []\<rparr>"] by simp
    qed
    ultimately show ?thesis
      using rotated(1) by (intro disjI1) (auto intro!: exI [of _ f])
  qed blast
qed


section \<open>An example\<close>

definition demo_crypto :: secret_codec where
  "demo_crypto = codec.extend demo_codec
     \<lparr>sha256 = (\<lambda>k. take 32 (map of_char k @ replicate 32 0)), hkdf = (\<lambda>_ _. Some (replicate 32 CHR ''k''))\<rparr>"

definition demo_random :: secret_entropy where
  "demo_random = \<lparr>se_salt = Some (replicate 16 CHR ''s''), se_nonce = Some (replicate 12 CHR ''n'')\<rparr>"

definition demo_vault :: "store conn" where
  "demo_vault = \<lparr>tables = empty_store\<lparr>st_nodes := [], st_definitions := [demo_definition],
     st_apps := [new_app ''i1'' ''c1'' ''wiki'' ''small'' None '''' '''' 0],
     st_secrets := [\<lparr>is_InstanceID = ''i1'', is_ServiceName = ''db'', is_EnvName = ''PASSWORD'',
        is_EncryptedValue = projr (Encrypt demo_crypto (NewManager ''old'') demo_random ''hunter2''),
        is_ExposeToCustomer = False, is_CreatedAt = 0\<rparr>]\<rparr>, db_clock = 0, app_clock = 0, faults = []\<rparr>"


lemma demo_laws: "secret_laws demo_crypto" "entropy_ok demo_random"
  by (simp_all add: secret_laws_def demo_crypto_def demo_codec_def codec.defs entropy_ok_def demo_random_def
      saltLen_def gcm_nonce_size_def min_def)

lemma demo_vault_ok: "store_ok (tables demo_vault)"
  by (simp add: store_ok_defs demo_vault_def empty_store_def refers_def Store_Inv.keyed_def demo_definition_def new_app_def)

lemma demo_rotation:
  "fst (run_state (HandleSecretRotation demo_crypto (NewManagerWithKeys ''new'' [''old'']) (\<lambda>_. demo_random) ''POST'') demo_vault)
     = writeJSON 200 (1, 0, 1)"
  "map (\<lambda>r. Decrypt demo_crypto (NewManagerWithKeys ''new'' [''old'']) (is_EncryptedValue r)) (st_secrets (tables demo_vault))
     = [Inr ''hunter2'']"
  by code_simp+

theorem secret_rotation_complete_witness:
  "map (\<lambda>r. Decrypt demo_crypto (NewManager ''new'') (is_EncryptedValue r))
     (st_secrets (tables (snd (run_state (HandleSecretRotation demo_crypto (NewManagerWithKeys ''new'' [''old''])
        (\<lambda>_. demo_random) ''POST'') demo_vault)))) = [Inr ''hunter2'']"
proof -
  let ?m = "NewManagerWithKeys ''new'' [''old'']"
  obtain resp s' where run: "run_state (HandleSecretRotation demo_crypto ?m (\<lambda>_. demo_random) ''POST'') demo_vault = (resp, s')"
    by fastforce
  have m: "?m\<lparr>previous := []\<rparr> = NewManager ''new''" by (simp add: NewManagerWithKeys_def NewManager_def)
  have "resp = writeJSON 200 (1, 0, 1)" using demo_rotation(1) by (simp add: run)
  with secret_rotation_complete [OF demo_laws(1) _ demo_vault_ok run] demo_laws(2) obtain f where
    "tables s' = (tables demo_vault)\<lparr>st_secrets := map (\<lambda>r. r\<lparr>is_EncryptedValue := f r\<rparr>) (st_secrets (tables demo_vault))\<rparr>"
    "\<forall>r \<in> set (st_secrets (tables demo_vault)). Decrypt demo_crypto (?m\<lparr>previous := []\<rparr>) (f r) = Decrypt demo_crypto ?m (is_EncryptedValue r)"
    by auto
  then show ?thesis using demo_rotation(2) by (simp add: run m cong: map_cong)
qed

end
