(* ===== verification/Caddy.thy ===== *)
theory Caddy
  imports Store_Catalog
begin

text \<open>
  The configuration of the reverse proxy: \<^verbatim>\<open>src/internal/networking/caddy.go\<close>.  The proxy itself is a service
  outside the program.  What its administration interface answers at a given time is a parameter, as
  are \<^verbatim>\<open>url.Parse\<close> and the two environment variables that the routes depend on.
\<close>

datatype json = JNull | JBool bool | JNum int | JStr string | JArr "json list" | JObj "(string \<times> json) list"

type_synonym json_map = "(string \<times> json) list"

text \<open>\<open>GetConfig\<close> yields \<open>None\<close> for the \<^verbatim>\<open>nil\<close> map that the document \<^verbatim>\<open>null\<close> decodes to.\<close>

record CaddyAdminClient =
  caddy_config :: "int \<Rightarrow> err + json_map option"
  caddy_load :: "int \<Rightarrow> json_map \<Rightarrow> err option"
  url_parse :: "string \<Rightarrow> (string \<times> string) option"
  env_TLS_CA_FILE :: string
  env_DEV_MODE :: string

record RouteConfig =
  rc_ServerName :: string
  rc_AdminHostname :: string
  rc_PortalHostname :: string
  rc_AppsHostname :: string
  rc_AppsRedirectTo :: string
  rc_TLSCertFile :: string
  rc_TLSKeyFile :: string
  rc_RemovedHostname :: string

definition WithRemovedHostname :: "RouteConfig \<Rightarrow> string \<Rightarrow> RouteConfig" where
  "WithRemovedHostname r hostname = r\<lparr>rc_RemovedHostname := hostname\<rparr>"

section \<open>The shape of the document\<close>

text \<open>\<^verbatim>\<open>m[k].(map[string]interface{})\<close>, when it is one.\<close>

definition obj_at :: "string \<Rightarrow> json_map \<Rightarrow> json_map option" where
  "obj_at k m = (case map_of m k of Some (JObj x) \<Rightarrow> Some x | _ \<Rightarrow> None)"

definition obj_or_new :: "string \<Rightarrow> json_map \<Rightarrow> json_map" where
  "obj_or_new k m = (case obj_at k m of Some x \<Rightarrow> x | None \<Rightarrow> [])"

definition ensureManagedServer :: "json_map \<Rightarrow> json_map" where
  "ensureManagedServer cfg =
     (let apps = obj_or_new ''apps'' cfg; httpApps = obj_or_new ''http'' apps; servers = obj_or_new ''servers'' httpApps
      in put ''apps'' (JObj (put ''http'' (JObj (put ''servers'' (JObj servers) httpApps)) apps)) cfg)"

definition apps_of :: "json_map \<Rightarrow> json_map" where
  "apps_of cfg = obj_or_new ''apps'' cfg"

definition servers_of :: "json_map \<Rightarrow> json_map" where
  "servers_of cfg = obj_or_new ''servers'' (obj_or_new ''http'' (apps_of cfg))"

text \<open>The document with another map of servers.\<close>

definition with_servers :: "json_map \<Rightarrow> json_map \<Rightarrow> json_map" where
  "with_servers servers cfg = (let apps = apps_of cfg; httpApps = obj_or_new ''http'' apps in
     put ''apps'' (JObj (put ''http'' (JObj (put ''servers'' (JObj servers) httpApps)) apps)) cfg)"

definition empty_server :: json where
  "empty_server = JObj [(''listen'', JArr [JStr '':443'']),
     (''automatic_https'', JObj [(''disable_redirects'', JBool False)]), (''routes'', JArr [])]"

definition load_files :: "RouteConfig \<Rightarrow> json" where
  "load_files routeCfg = JObj [(''load_files'', JArr [JObj [(''certificate'', JStr (rc_TLSCertFile routeCfg)),
     (''key'', JStr (rc_TLSKeyFile routeCfg))]])]"

text \<open>The type assertion on \<^verbatim>\<open>apps["tls"]\<close> panics when another kind of value is there.\<close>

definition ensure_tls :: "RouteConfig \<Rightarrow> json_map \<Rightarrow> err + json_map" where
  "ensure_tls routeCfg apps0 =
     (let apps = (if has apps0 ''tls'' then apps0
                  else put ''tls'' (JObj [(''automation'', JObj [(''policies'', JArr [])])]) apps0)
      in if rc_TLSCertFile routeCfg = '''' \<or> rc_TLSKeyFile routeCfg = '''' then Inr apps
         else case obj_at ''tls'' apps of
           None \<Rightarrow> Inl (Panic ''interface conversion'')
         | Some tlsApp \<Rightarrow> Inr (put ''tls'' (JObj (put ''certificates'' (load_files routeCfg) tlsApp)) apps))"

definition ensureBootstrapConfig :: "json_map option \<Rightarrow> RouteConfig \<Rightarrow> err + json_map" where
  "ensureBootstrapConfig cfg0 routeCfg = (case cfg0 of
     None \<Rightarrow> Inl (Panic ''assignment to entry in nil map'')
   | Some m \<Rightarrow> (let cfg = ensureManagedServer m in
       and_then (ensure_tls routeCfg (apps_of cfg)) (\<lambda>apps.
         let cfg = put ''apps'' (JObj apps) cfg in
         Inr (if has (servers_of cfg) (rc_ServerName routeCfg) then cfg
              else with_servers (put (rc_ServerName routeCfg) empty_server (servers_of cfg)) cfg))))"

definition bootstrapConfig :: "RouteConfig \<Rightarrow> string \<Rightarrow> err + json_map" where
  "bootstrapConfig routeCfg email = and_then (ensureBootstrapConfig (Some []) routeCfg) (\<lambda>cfg0.
     let cfg = put ''admin'' (JObj [(''listen'', JStr ''127.0.0.1:2019'')]) cfg0 in
     case obj_at ''tls'' (apps_of cfg) of
       None \<Rightarrow> Inl (Panic ''interface conversion'')
     | Some tlsApps \<Rightarrow> Inr (put ''apps'' (JObj (put ''tls'' (JObj (put ''automation'' (JObj [(''policies'',
         JArr [JObj [(''issuers'', JArr [JObj [(''module'', JStr ''acme''), (''email'', JStr email)]])]])]) tlsApps))
         (apps_of cfg))) cfg))"

section \<open>Routes\<close>

definition caddy_route :: "string \<Rightarrow> json_map \<Rightarrow> json" where
  "caddy_route hostname handle = JObj [(''match'', JArr [JObj [(''host'', JArr [JStr hostname])]]),
     (''handle'', JArr [JObj handle]), (''terminal'', JBool True)]"

definition staticResponseRoute :: "string \<Rightarrow> string \<Rightarrow> json" where
  "staticResponseRoute hostname body = caddy_route hostname
     [(''handler'', JStr ''static_response''), (''status_code'', JNum 200), (''body'', JStr body)]"

definition redirectRoute :: "string \<Rightarrow> string \<Rightarrow> json" where
  "redirectRoute hostname location = caddy_route hostname
     [(''handler'', JStr ''static_response''), (''status_code'', JNum 308),
      (''headers'', JObj (if location \<noteq> '''' then [(''Location'', JArr [JStr location])] else []))]"

text \<open>The address to dial and the scheme of an upstream.\<close>

definition dial_of :: "CaddyAdminClient \<Rightarrow> string \<Rightarrow> string \<times> string" where
  "dial_of c upstream = (case url_parse c upstream of
     Some (scheme, host) \<Rightarrow> if host \<noteq> '''' then (host, scheme)
       else if HasPrefix upstream ''http://'' then (drop 7 upstream, ''http'')
       else if HasPrefix upstream ''https://'' then (drop 8 upstream, ''https'') else (upstream, '''')
   | None \<Rightarrow>
       if HasPrefix upstream ''http://'' then (drop 7 upstream, ''http'')
       else if HasPrefix upstream ''https://'' then (drop 8 upstream, ''https'') else (upstream, ''''))"

definition tls_transport :: "CaddyAdminClient \<Rightarrow> json" where
  "tls_transport c = JObj [(''protocol'', JStr ''http''), (''tls'', JObj
     (if env_TLS_CA_FILE c \<noteq> ''''
      then [(''ca'', JObj [(''provider'', JStr ''file''), (''pem_files'', JArr [JStr (env_TLS_CA_FILE c)])])]
      else [(''insecure_skip_verify'', JBool (env_DEV_MODE c = ''true''))]))]"

definition reverseProxyRoute :: "CaddyAdminClient \<Rightarrow> string \<Rightarrow> string \<Rightarrow> json" where
  "reverseProxyRoute c hostname upstream = caddy_route hostname
     ([(''handler'', JStr ''reverse_proxy''),
       (''upstreams'', JArr (if upstream = '''' then [] else [JObj [(''dial'', JStr (fst (dial_of c upstream)))]])),
       (''headers'', JObj [(''request'', JObj [(''set'', JObj [(''X-Forwarded-Proto'', JArr [JStr ''{http.request.scheme}''])])])])]
      @ (if upstream \<noteq> '''' \<and> snd (dial_of c upstream) = ''https'' then [(''transport'', tls_transport c)] else []))"

definition target_of :: "PublicRoute \<Rightarrow> string" where
  "target_of route =
     (if r_TargetHost route \<noteq> '''' \<and> r_TargetPort route > 0
      then ''http://'' @ r_TargetHost route @ '':'' @ show_int (r_TargetPort route)
      else if HasPrefix (r_TargetURL route) ''http://'' \<or> HasPrefix (r_TargetURL route) ''https://''
      then r_TargetURL route else '''')"

definition buildCaddyRoute :: "CaddyAdminClient \<Rightarrow> PublicRoute \<Rightarrow> RouteConfig \<Rightarrow> json" where
  "buildCaddyRoute c route cfg = (let hostname = r_Hostname route; target = target_of route; kind = r_RouteKind route in
     if r_Status route = ''disabled'' then caddy_route hostname
       [(''handler'', JStr ''static_response''), (''status_code'', JNum 503), (''body'', JStr ''route disabled'')]
     else if kind = ''admin'' then
       (if target \<noteq> '''' then reverseProxyRoute c hostname target else staticResponseRoute hostname ''Admiral admin placeholder'')
     else if kind = ''portal'' then
       (if target \<noteq> '''' then reverseProxyRoute c hostname target else staticResponseRoute hostname ''Admiral portal placeholder'')
     else if kind = ''flagship'' \<or> kind = ''cockpit'' then
       (if target \<noteq> '''' then reverseProxyRoute c hostname target else staticResponseRoute hostname ''Service placeholder'')
     else if kind = ''apps_root'' then redirectRoute hostname (rc_AppsRedirectTo cfg)
     else reverseProxyRoute c hostname (if r_TargetURL route \<noteq> '''' then r_TargetURL route else target))"

definition served :: "RouteConfig \<Rightarrow> PublicRoute \<Rightarrow> bool" where
  "served cfg route \<longleftrightarrow> r_Hostname route \<noteq> rc_RemovedHostname cfg
     \<and> r_Status route \<noteq> ''deleting'' \<and> r_Status route \<noteq> ''deleted''"

definition buildServerConfig :: "CaddyAdminClient \<Rightarrow> PublicRoute list \<Rightarrow> RouteConfig \<Rightarrow> json" where
  "buildServerConfig c routes cfg = JObj [(''listen'', JArr [JStr '':443'']),
     (''automatic_https'', JObj [(''disable_redirects'', JBool False)]),
     (''routes'', JArr (map (\<lambda>route. buildCaddyRoute c route cfg) (filter (served cfg) routes)))]"

definition httpRedirectServer :: json where
  "httpRedirectServer = JObj [(''listen'', JArr [JStr '':80'']), (''routes'', JArr [JObj
     [(''handle'', JArr [JObj [(''handler'', JStr ''static_response''),
        (''headers'', JObj [(''Location'', JArr [JStr ''https://{host}{uri}''])]), (''status_code'', JNum 308)]]),
      (''terminal'', JBool True)]])]"

section \<open>Calls of the client\<close>

text \<open>\<open>synced_config\<close> is the document that \<^verbatim>\<open>SyncRoutes\<close> sends.\<close>

definition synced_config :: "CaddyAdminClient \<Rightarrow> json_map option \<Rightarrow> PublicRoute list \<Rightarrow> RouteConfig \<Rightarrow> err + json_map" where
  "synced_config c current routes cfg = and_then (ensureBootstrapConfig current cfg) (\<lambda>merged.
     Inr (with_servers (put ''admiral-http-redirect'' httpRedirectServer
       (put (rc_ServerName cfg) (buildServerConfig c routes cfg) (servers_of merged))) merged))"

definition SyncRoutes :: "CaddyAdminClient \<Rightarrow> int \<Rightarrow> PublicRoute list \<Rightarrow> RouteConfig \<Rightarrow> err option" where
  "SyncRoutes c t routes cfg = (case caddy_config c t of
     Inl e \<Rightarrow> Some e
   | Inr current \<Rightarrow> (case synced_config c current routes cfg of Inl e \<Rightarrow> Some e | Inr merged \<Rightarrow> caddy_load c t merged))"

definition ApplyRoute :: "CaddyAdminClient \<Rightarrow> int \<Rightarrow> PublicRoute \<Rightarrow> RouteConfig \<Rightarrow> err option" where
  "ApplyRoute c t route cfg = SyncRoutes c t [route] cfg"

definition RemoveRoute :: "CaddyAdminClient \<Rightarrow> int \<Rightarrow> string \<Rightarrow> RouteConfig \<Rightarrow> err option" where
  "RemoveRoute c t hostname cfg = SyncRoutes c t [] (WithRemovedHostname cfg hostname)"

text \<open>\<open>waited\<close> is what \<^verbatim>\<open>waitForAdminAPI\<close> yields: the first answer of the interface, or the error after the last retry.\<close>

definition Bootstrap :: "CaddyAdminClient \<Rightarrow> int \<Rightarrow> err + json_map option \<Rightarrow> RouteConfig \<Rightarrow> string \<Rightarrow> err option" where
  "Bootstrap c t waited cfg email = (case waited of
     Inl e \<Rightarrow> Some (Wrap ''wait for caddy admin API during bootstrap: '' e)
   | Inr current \<Rightarrow>
       if (case current of None \<Rightarrow> False | Some m \<Rightarrow> m \<noteq> []) then None
       else case bootstrapConfig cfg email of Inl e \<Rightarrow> Some e | Inr b \<Rightarrow> caddy_load c t b)"

end
