(* ===== verification/Networking.thy ===== *)
theory Networking
  imports Caddy Api
begin

text \<open>
  The public routes of the platform: \<^verbatim>\<open>src/internal/networking/manager.go\<close>.  A mutex makes the calls that change
  routes exclusive, so each is one computation over the store.  The certificate report, which reads a
  file and logs, is not part of the model.
\<close>

section \<open>The manager\<close>

record Config =
  cfg_NetworkingAdminHost :: string
  cfg_NetworkingAdminTarget :: string
  cfg_NetworkingPortalHost :: string
  cfg_NetworkingPortalTarget :: string
  cfg_NetworkingAppsDomain :: string
  cfg_NetworkingAppsRedirect :: string
  cfg_NetworkingFlagshipHost :: string
  cfg_NetworkingFlagshipTarget :: string
  cfg_NetworkingCockpitHost :: string
  cfg_NetworkingCockpitTarget :: string
  cfg_NetworkingTLSCertFile :: string
  cfg_NetworkingTLSKeyFile :: string
  cfg_NetworkingTLSEmail :: string

text \<open>
  \<open>nm_local\<close>: a single node or the development mode.  \<open>nm_probe t host path\<close> is the status of
  \<^verbatim>\<open>GET https://host/path\<close> at time \<open>t\<close>, or the error of the request.
\<close>

record net_manager =
  nm_Caddy :: "CaddyAdminClient option"
  nm_Config :: Config
  nm_local :: bool
  nm_yaml :: "string \<Rightarrow> AppDefinitionPayload option"
  nm_error_text :: "err \<Rightarrow> string"
  nm_probe :: "int \<Rightarrow> string \<Rightarrow> string \<Rightarrow> err + int"

text \<open>The string that Go has for a column that may be null.\<close>

definition or_empty :: "string option \<Rightarrow> string" where
  "or_empty x = (case x of None \<Rightarrow> '''' | Some s \<Rightarrow> s)"

definition runtimeNodeAddress :: "net_manager \<Rightarrow> Node \<Rightarrow> err + string" where
  "runtimeNodeAddress m node =
     (if nm_local m then Inr ''127.0.0.1''
      else if n_WireguardIP node = ''''
      then Inl (Plain (''node '' @ quoted (n_ID node) @ '' has no WireGuard address; refusing public or general-interface routing''))
      else Inr (n_WireguardIP node))"

definition appDefinitionForInstance :: "net_manager \<Rightarrow> string \<Rightarrow> AppDefinitionPayload db" where
  "appDefinitionForInstance m instanceID = do {
     i \<leftarrow> GetCustomerApp instanceID;
     case i of
       Inl e \<Rightarrow> return (Inl e)
     | Inr None \<Rightarrow> return (Inl (Plain (''instance '' @ quoted instanceID @ '' not found'')))
     | Inr (Some inst) \<Rightarrow> do {
         let name = ca_AppDefinitionName (av_App inst);
         d \<leftarrow> GetAppDefinition name;
         return (case d of
           Inl e \<Rightarrow> Inl e
         | Inr None \<Rightarrow> Inl (Plain (''app definition '' @ quoted name @ '' not found''))
         | Inr (Some ad) \<Rightarrow> (case nm_yaml m (ad_RawYAML ad) of
             None \<Rightarrow> Inl (Wrap (''parse app definition '' @ quoted (ad_Name ad) @ '': '') (Plain ''yaml''))
           | Some payload \<Rightarrow> Inr payload))
       }
   }"

section \<open>Migrations\<close>

definition instanceMigrationActive :: "string \<Rightarrow> bool db" where
  "instanceMigrationActive instanceID = (if instanceID = '''' then return (Inr False) else do {
     r \<leftarrow> GetRunningOperationsByInstance instanceID;
     return (case r of Inl e \<Rightarrow> Inl e | Inr ops \<Rightarrow> Inr (\<exists>op \<in> set ops. op_Action op = ''migrate''))
   })"

definition rejectRouteChangeDuringMigration :: "PublicRoute \<Rightarrow> unit db" where
  "rejectRouteChangeDuringMigration route = do {
     r \<leftarrow> instanceMigrationActive (or_empty (r_AppInstanceID route));
     return (case r of
       Inl e \<Rightarrow> Inl (Wrap ''check route migration: '' e)
     | Inr active \<Rightarrow> if active
         then Inl (Plain (''route '' @ quoted (r_Hostname route) @ '' cannot change during instance migration'')) else Inr ())
   }"

text \<open>A running migration keeps the routes of its instance disabled, except in its last steps.\<close>

definition in_maintenance :: "Operation \<Rightarrow> bool" where
  "in_maintenance op \<longleftrightarrow> op_Action op = ''migrate''
     \<and> (case op_Metadata op of None \<Rightarrow> '''' | Some md \<Rightarrow> om_MigrationStep md)
         \<notin> set [''enabling_target_routes'', ''rollback_routes'', ''deprovisioning_source'', ''cleanup_source_failed'', ''completed'']"

text \<open>The instances in maintenance; each is looked up at its first route.\<close>

fun maintained :: "PublicRoute list \<Rightarrow> string list \<Rightarrow> string list \<Rightarrow> string list db" where
  "maintained [] checked maintenance = return (Inr maintenance)"
| "maintained (route # routes) checked maintenance = (let instanceID = or_empty (r_AppInstanceID route) in
     if instanceID = '''' \<or> instanceID \<in> set checked then maintained routes checked maintenance
     else do {
       r \<leftarrow> GetRunningOperationsByInstance instanceID;
       case r of
         Inl e \<Rightarrow> return (Inl (Wrap (''check migration maintenance for instance '' @ quoted instanceID @ '': '') e))
       | Inr ops \<Rightarrow> maintained routes (instanceID # checked)
           (if \<exists>op \<in> set ops. in_maintenance op then instanceID # maintenance else maintenance)
     })"

section \<open>Reconciliation with the proxy\<close>

definition health_target :: "AppDefinitionPayload option \<Rightarrow> string \<Rightarrow> string \<times> int" where
  "health_target appDef service =
     (let hc = (case appDef of None \<Rightarrow> None | Some payload \<Rightarrow> (case map_of (app_Services payload) service of
             None \<Rightarrow> None | Some svc \<Rightarrow> (case svc_HealthCheck svc of None \<Rightarrow> None
               | Some x \<Rightarrow> if ToLower (hc_Type x) = ''http'' then Some x else None)));
          path = (case hc of None \<Rightarrow> ''/'' | Some x \<Rightarrow> if TrimSpace (hc_Path x) \<noteq> '''' then hc_Path x else ''/'');
          status = (case hc of None \<Rightarrow> 200 | Some x \<Rightarrow> if hc_ExpectedStatus x > 0 then hc_ExpectedStatus x else 200)
      in (if HasPrefix path ''/'' then path else CHR ''/'' # path, status))"

definition checkRouteHealth :: "net_manager \<Rightarrow> int \<Rightarrow> PublicRoute \<Rightarrow> AppDefinitionPayload option \<Rightarrow> string \<times> string" where
  "checkRouteHealth m t route appDef =
     (if r_Status route = ''disabled'' then (''disabled'', '''')
      else if r_RouteKind route \<in> set [''admin'', ''portal'', ''apps_root'', ''flagship'', ''cockpit''] then (''healthy'', '''')
      else if r_TargetURL route = '''' \<and> \<not> (r_TargetHost route \<noteq> '''' \<and> r_TargetPort route > 0)
      then (''unhealthy'', ''missing target'')
      else let (path, expected) = health_target appDef (r_ServiceName route) in
        case nm_probe m t (r_Hostname route) path of
          Inl e \<Rightarrow> (''unhealthy'', nm_error_text m e)
        | Inr code \<Rightarrow> if code = expected then (''healthy'', '''')
            else (''unhealthy'', ''backend returned HTTP '' @ show_int code @ '', expected '' @ show_int expected))"

definition checked_route :: "net_manager \<Rightarrow> int \<Rightarrow> PublicRoute \<Rightarrow> err + AppDefinitionPayload option \<Rightarrow> PublicRoute" where
  "checked_route m t route appDef = (case appDef of
     Inl e \<Rightarrow> route\<lparr>r_LastHealthCheckedAt := Some t, r_LastHealthStatus := ''unhealthy'',
       r_LastError := ''load app definition: '' @ nm_error_text m e\<rparr>
   | Inr payload \<Rightarrow> (let (health, lastErr) = checkRouteHealth m t route payload in
       route\<lparr>r_LastHealthCheckedAt := Some t, r_LastHealthStatus := health, r_LastError := lastErr,
         r_Status := (if r_Status route = ''pending'' \<and> health = ''healthy'' then ''active'' else r_Status route)\<rparr>))"

definition route_definition :: "net_manager \<Rightarrow> PublicRoute \<Rightarrow> AppDefinitionPayload option db" where
  "route_definition m route =
     (if r_RouteKind route = ''app_instance'' \<and> or_empty (r_AppInstanceID route) \<noteq> '''' then do {
        r \<leftarrow> appDefinitionForInstance m (or_empty (r_AppInstanceID route));
        return (case r of Inl e \<Rightarrow> Inl e | Inr payload \<Rightarrow> Inr (Some payload))
      }
      else return (Inr None))"

fun check_routes :: "net_manager \<Rightarrow> PublicRoute list \<Rightarrow> (store conn, unit) state" where
  "check_routes m [] = return ()"
| "check_routes m (route # routes) = do {
     d \<leftarrow> route_definition m route;
     t \<leftarrow> now;
     _ \<leftarrow> UpdatePublicRoute (Some (checked_route m t route d));
     check_routes m routes
   }"

fun mark_unavailable :: "string \<Rightarrow> PublicRoute list \<Rightarrow> (store conn, unit) state" where
  "mark_unavailable msg [] = return ()"
| "mark_unavailable msg (route # routes) = do {
     t \<leftarrow> now;
     _ \<leftarrow> UpdatePublicRoute (Some (route\<lparr>r_LastError := msg, r_LastHealthStatus := ''unavailable'', r_LastHealthCheckedAt := Some t\<rparr>));
     mark_unavailable msg routes
   }"

definition route_config :: "Config \<Rightarrow> RouteConfig" where
  "route_config cfg = \<lparr>rc_ServerName = ''admiral-public'', rc_AdminHostname = cfg_NetworkingAdminHost cfg,
     rc_PortalHostname = cfg_NetworkingPortalHost cfg, rc_AppsHostname = cfg_NetworkingAppsDomain cfg,
     rc_AppsRedirectTo = cfg_NetworkingAppsRedirect cfg, rc_TLSCertFile = cfg_NetworkingTLSCertFile cfg,
     rc_TLSKeyFile = cfg_NetworkingTLSKeyFile cfg, rc_RemovedHostname = ''''\<rparr>"

text \<open>What the proxy is told: the routes of the table, disabled for the instances in maintenance.\<close>

definition caddy_routes :: "string list \<Rightarrow> PublicRoute list \<Rightarrow> PublicRoute list" where
  "caddy_routes maintenance routes = map (\<lambda>route.
     if or_empty (r_AppInstanceID route) \<in> set maintenance then route\<lparr>r_Status := ''disabled''\<rparr> else route) routes"

definition syncLocked :: "net_manager \<Rightarrow> unit db" where
  "syncLocked m = do {
     r \<leftarrow> GetPublicRoutes;
     case r of
       Inl e \<Rightarrow> return (Inl e)
     | Inr routes \<Rightarrow> (case nm_Caddy m of
         None \<Rightarrow> return (Inr ())
       | Some caddy \<Rightarrow> do {
           x \<leftarrow> maintained routes [] [];
           case x of
             Inl e \<Rightarrow> return (Inl e)
           | Inr maintenance \<Rightarrow> do {
               let watched = filter (\<lambda>route. r_Status route \<noteq> ''deleted'' \<and> or_empty (r_AppInstanceID route) \<notin> set maintenance) routes;
               t \<leftarrow> now;
               case SyncRoutes caddy t (caddy_routes maintenance routes) (route_config (nm_Config m)) of
                 Some e \<Rightarrow>
                   if is_panic e then return (Inl e)
                   else do { _ \<leftarrow> mark_unavailable (nm_error_text m e) watched; return (Inl e) }
               | None \<Rightarrow> do { _ \<leftarrow> check_routes m watched; return (Inr ()) }
             }
         })
   }"

definition Sync :: "net_manager \<Rightarrow> unit db" where
  "Sync m = syncLocked m"

fun update_routes_each :: "PublicRoute list \<Rightarrow> unit db" where
  "update_routes_each [] = return (Inr ())"
| "update_routes_each (route # routes) = do {
     r \<leftarrow> UpdatePublicRoute (Some route);
     case r of Inl e \<Rightarrow> return (Inl e) | Inr _ \<Rightarrow> update_routes_each routes
   }"

text \<open>\<open>m1\<close>, then \<open>m2\<close> unless \<open>m1\<close> fails.\<close>

definition then_do :: "unit db \<Rightarrow> unit db \<Rightarrow> unit db" where
  "then_do m1 m2 = do { r \<leftarrow> m1; case r of Inl e \<Rightarrow> return (Inl e) | Inr _ \<Rightarrow> m2 }"

definition UpdateRoutesAndSync :: "net_manager \<Rightarrow> PublicRoute list \<Rightarrow> unit db" where
  "UpdateRoutesAndSync m routes = then_do (update_routes_each routes) (syncLocked m)"

section \<open>Routes of an instance\<close>

text \<open>The row that an activation writes for a route, given its node.\<close>

definition activated_route ::
  "net_manager \<Rightarrow> AppDefinitionPayload \<Rightarrow> (string \<times> int) list \<Rightarrow> PublicRoute \<Rightarrow> Node option \<Rightarrow> PublicRoute" where
  "activated_route m appDef hostPorts route node0 = (let failed = (\<lambda>msg. route\<lparr>r_Status := ''failed'', r_LastError := msg\<rparr>) in
     case node0 of
       None \<Rightarrow> failed ''node not found''
     | Some node \<Rightarrow> (case map_of (app_Services appDef) (r_ServiceName route) of
         None \<Rightarrow> failed ''public service unavailable''
       | Some svc \<Rightarrow>
           if \<not> svc_Public svc \<or> svc_Port svc \<le> 0 then failed ''public service unavailable''
           else (case runtimeNodeAddress m node of
             Inl e \<Rightarrow> failed (nm_error_text m e)
           | Inr targetHost \<Rightarrow>
               (let targetPort = (case map_of hostPorts (r_ServiceName route) of None \<Rightarrow> svc_Port svc
                      | Some p \<Rightarrow> if p > 0 then p else svc_Port svc)
                in route\<lparr>r_NodeID := Some (n_ID node), r_TargetHost := targetHost, r_TargetPort := targetPort,
                     r_TargetURL := ''http://'' @ targetHost @ '':'' @ show_int targetPort, r_TargetScheme := ''http'',
                     r_Status := ''active'', r_LastError := ''''\<rparr>))))"

fun activate_routes_each ::
  "net_manager \<Rightarrow> AppDefinitionPayload \<Rightarrow> (string \<times> int) list \<Rightarrow> PublicRoute list \<Rightarrow> unit db" where
  "activate_routes_each m appDef hostPorts [] = return (Inr ())"
| "activate_routes_each m appDef hostPorts (route # routes) = do {
     n \<leftarrow> GetNode (or_empty (r_NodeID route));
     case n of
       Inl e \<Rightarrow> return (Inl e)
     | Inr node \<Rightarrow> then_do (UpdatePublicRoute (Some (activated_route m appDef hostPorts route node)))
         (activate_routes_each m appDef hostPorts routes)
   }"

definition ActivateInstanceRoutes :: "net_manager \<Rightarrow> string \<Rightarrow> (string \<times> int) list \<Rightarrow> unit db" where
  "ActivateInstanceRoutes m instanceID hostPorts = do {
     a \<leftarrow> instanceMigrationActive instanceID;
     case a of
       Inl e \<Rightarrow> return (Inl e)
     | Inr True \<Rightarrow> return (Inr ())
     | Inr False \<Rightarrow> do {
         r \<leftarrow> GetPublicRoutes;
         case r of
           Inl e \<Rightarrow> return (Inl e)
         | Inr routes \<Rightarrow> do {
             d \<leftarrow> appDefinitionForInstance m instanceID;
             case d of
               Inl e \<Rightarrow> return (Inl e)
             | Inr appDef \<Rightarrow> then_do (activate_routes_each m appDef hostPorts (filter (\<lambda>route.
                   or_empty (r_AppInstanceID route) = instanceID \<and> r_RouteKind route = ''app_instance''
                   \<and> r_Status route \<noteq> ''disabled'') routes)) (syncLocked m)
           }
       }
   }"

text \<open>\<open>change_route\<close>: look a route up, refuse during a migration, then go on with it.\<close>

definition change_route :: "string \<Rightarrow> unit db \<Rightarrow> (PublicRoute \<Rightarrow> unit db) \<Rightarrow> unit db" where
  "change_route hostname absent change = do {
     r \<leftarrow> GetPublicRoute hostname;
     case r of
       Inl e \<Rightarrow> return (Inl e)
     | Inr None \<Rightarrow> absent
     | Inr (Some route) \<Rightarrow> then_do (rejectRouteChangeDuringMigration route) (change route)
   }"

definition no_route :: "string \<Rightarrow> unit db" where
  "no_route hostname = return (Inl (Plain (''route '' @ quoted hostname @ '' not found'')))"

definition DisableRoute :: "net_manager \<Rightarrow> string \<Rightarrow> unit db" where
  "DisableRoute m hostname = change_route hostname (no_route hostname)
     (\<lambda>route. then_do (UpdatePublicRoute (Some (route\<lparr>r_Status := ''disabled''\<rparr>))) (syncLocked m))"

definition EnableRoute :: "net_manager \<Rightarrow> string \<Rightarrow> unit db" where
  "EnableRoute m hostname = change_route hostname (no_route hostname)
     (\<lambda>route. then_do (UpdatePublicRoute (Some (route\<lparr>r_Status := ''active''\<rparr>))) (syncLocked m))"

definition DeleteRoute :: "net_manager \<Rightarrow> string \<Rightarrow> unit db" where
  "DeleteRoute m hostname = change_route hostname (return (Inr ()))
     (\<lambda>route. then_do (UpdatePublicRoute (Some (route\<lparr>r_Status := ''deleting''\<rparr>)))
        (then_do (syncLocked m) (DeletePublicRoute hostname)))"

fun delete_routes_each :: "net_manager \<Rightarrow> PublicRoute list \<Rightarrow> unit db" where
  "delete_routes_each m [] = return (Inr ())"
| "delete_routes_each m (route # routes) = then_do (DeleteRoute m (r_Hostname route)) (delete_routes_each m routes)"

definition DeleteInstanceRoutes :: "net_manager \<Rightarrow> string \<Rightarrow> unit db" where
  "DeleteInstanceRoutes m instanceID = do {
     r \<leftarrow> GetPublicRoutes;
     case r of
       Inl e \<Rightarrow> return (Inl e)
     | Inr routes \<Rightarrow> delete_routes_each m (filter (\<lambda>route. or_empty (r_AppInstanceID route) = instanceID) routes)
   }"

section \<open>New routes\<close>

definition appCodePattern :: "string \<Rightarrow> bool" where
  "appCodePattern s = (case s of
     [] \<Rightarrow> False
   | x # xs \<Rightarrow> x \<in> set ''abcdefghijklmnopqrstuvwxyz'' \<and> list_all (\<lambda>y. y \<in> set ''abcdefghijklmnopqrstuvwxyz0123456789-'') xs)"

text \<open>The attempts of \<^verbatim>\<open>randomDigits(6)\<close> are an argument; \<open>None\<close> is a failure of the random source.\<close>

fun free_hostname :: "net_manager \<Rightarrow> string \<Rightarrow> string option list \<Rightarrow> string db" where
  "free_hostname m appCode [] = return (Inl (Plain ''failed to generate unique hostname after retries''))"
| "free_hostname m appCode (digits # attempts) = (case digits of
     None \<Rightarrow> return (Inl (Wrap ''generate random digit: '' (Plain ''entropy source failed'')))
   | Some suffix \<Rightarrow> do {
       let hostname = appCode @ suffix @ ''.'' @ cfg_NetworkingAppsDomain (nm_Config m);
       r \<leftarrow> GetPublicRoute hostname;
       case r of
         Inl e \<Rightarrow> return (Inl e)
       | Inr None \<Rightarrow> return (Inr hostname)
       | Inr (Some _) \<Rightarrow> free_hostname m appCode attempts
     })"

definition generateHostname :: "net_manager \<Rightarrow> string \<Rightarrow> (nat \<Rightarrow> string option) \<Rightarrow> string db" where
  "generateHostname m appCode digits =
     (if \<not> appCodePattern appCode then return (Inl (Plain (''invalid app code '' @ quoted appCode)))
      else free_hostname m appCode (map digits [0 ..< 20]))"

text \<open>\<open>digits\<close>: the eight digits, or \<open>None\<close> when the random source fails and the clock is used.\<close>

definition generatePublicRouteID :: "int \<Rightarrow> string option \<Rightarrow> string" where
  "generatePublicRouteID t digits = ''route_'' @ (case digits of None \<Rightarrow> show_int (t * 1000) | Some ds \<Rightarrow> ds)"

text \<open>The public service is the first in the order of the map, which Go leaves open.\<close>

definition CreateInstanceRoutes ::
  "net_manager \<Rightarrow> (nat \<Rightarrow> string option) \<Rightarrow> string option \<Rightarrow> string \<Rightarrow> AppDefinitionPayload \<Rightarrow> string \<Rightarrow> PublicRoute list db" where
  "CreateInstanceRoutes m digits idDigits instanceID appDef nodeID =
     (if cfg_NetworkingAppsDomain (nm_Config m) = '''' then return (Inr [])
      else do {
        n \<leftarrow> GetNode nodeID;
        case n of
          Inl e \<Rightarrow> return (Inl e)
        | Inr None \<Rightarrow> return (Inl (Plain (''node '' @ quoted nodeID @ '' not found for public routes'')))
        | Inr (Some node) \<Rightarrow> (case find (\<lambda>(_, svc). svc_Public svc) (app_Services appDef) of
            None \<Rightarrow> return (Inr [])
          | Some (service, svc) \<Rightarrow>
              if service = '''' then return (Inr [])
              else (case runtimeNodeAddress m node of
                Inl e \<Rightarrow> return (Inl e)
              | Inr targetHost \<Rightarrow> do {
                  g \<leftarrow> generateHostname m (app_Name appDef) digits;
                  case g of
                    Inl e \<Rightarrow> return (Inl e)
                  | Inr hostname \<Rightarrow> do {
                      t \<leftarrow> now;
                      let route = \<lparr>r_ID = generatePublicRouteID t idDigits, r_Hostname = hostname, r_PublicID = instanceID,
                        r_AppInstanceID = Some instanceID, r_AppTemplateCode = app_Name appDef, r_NodeID = Some (n_ID node),
                        r_ServiceName = service, r_TargetScheme = ''http'', r_TargetHost = targetHost, r_TargetPort = svc_Port svc,
                        r_TargetURL = ''http://'' @ targetHost @ '':'' @ show_int (svc_Port svc), r_RouteKind = ''app_instance'',
                        r_TLSMode = ''auto'', r_Status = ''pending'', r_LastError = '''', r_LastHealthStatus = '''',
                        r_LastHealthCheckedAt = None, r_CreatedAt = 0, r_UpdatedAt = 0\<rparr>;
                      c \<leftarrow> CreatePublicRoute route;
                      return (case c of Inl e \<Rightarrow> Inl e | Inr _ \<Rightarrow> Inr [route])
                    }
                }))
      })"

section \<open>Static routes\<close>

definition defaultLocalPortalTarget :: string where
  "defaultLocalPortalTarget = ''https://127.0.0.1:5001''"

definition staticRoute :: "string \<Rightarrow> string \<Rightarrow> string \<Rightarrow> string \<Rightarrow> string \<Rightarrow> PublicRoute" where
  "staticRoute rid hostname kind serviceName target = \<lparr>r_ID = rid, r_Hostname = hostname, r_PublicID = kind,
     r_AppInstanceID = None, r_AppTemplateCode = kind, r_NodeID = None, r_ServiceName = serviceName, r_TargetScheme = ''respond'',
     r_TargetHost = '''', r_TargetPort = 0, r_TargetURL = target, r_RouteKind = kind, r_TLSMode = ''auto'', r_Status = ''active'',
     r_LastError = '''', r_LastHealthStatus = ''healthy'', r_LastHealthCheckedAt = None, r_CreatedAt = 0, r_UpdatedAt = 0\<rparr>"

text \<open>The configured routes, each with a host and a target; \<open>ids\<close> gives the identifier for a kind.\<close>

definition static_routes :: "(string \<Rightarrow> string) \<Rightarrow> Config \<Rightarrow> PublicRoute list" where
  "static_routes ids cfg = map (\<lambda>(kind, service, host, target). staticRoute (ids kind) host kind service target)
     (filter (\<lambda>(_, _, host, target). host \<noteq> '''' \<and> target \<noteq> '''')
       [(''admin'', ''admin'', cfg_NetworkingAdminHost cfg, cfg_NetworkingAdminTarget cfg),
        (''portal'', ''portal'', cfg_NetworkingPortalHost cfg, cfg_NetworkingPortalTarget cfg),
        (''apps_root'', ''apps'', cfg_NetworkingAppsDomain cfg, cfg_NetworkingAppsRedirect cfg),
        (''flagship'', ''flagship'', cfg_NetworkingFlagshipHost cfg, cfg_NetworkingFlagshipTarget cfg),
        (''cockpit'', ''cockpit'', cfg_NetworkingCockpitHost cfg, cfg_NetworkingCockpitTarget cfg)])"

definition shouldReplaceSeededStaticRoute :: "PublicRoute \<Rightarrow> PublicRoute \<Rightarrow> bool" where
  "shouldReplaceSeededStaticRoute existing desired =
     (if r_RouteKind existing \<noteq> r_RouteKind desired then True
      else if r_RouteKind desired \<noteq> ''portal'' then False
      else if TrimSpace (r_TargetURL desired) = '''' \<or> r_TargetURL desired = r_TargetURL existing then False
      else r_TargetURL existing = '''' \<or> r_TargetURL existing = defaultLocalPortalTarget)"

fun drop_stale :: "PublicRoute list \<Rightarrow> (store conn, unit) state" where
  "drop_stale [] = return ()"
| "drop_stale (route # routes) = do { _ \<leftarrow> DeletePublicRouteByKindAndNotHostname (r_RouteKind route) (r_Hostname route); drop_stale routes }"

fun drop_kinds :: "string list \<Rightarrow> (store conn, unit) state" where
  "drop_kinds [] = return ()"
| "drop_kinds (kind # kinds) = do { _ \<leftarrow> DeletePublicRouteByKind kind; drop_kinds kinds }"

definition seed_route :: "PublicRoute \<Rightarrow> unit db" where
  "seed_route route = do {
     r \<leftarrow> GetPublicRoute (r_Hostname route);
     case r of
       Inl e \<Rightarrow> return (Inl e)
     | Inr None \<Rightarrow> CreatePublicRoute route
     | Inr (Some existing) \<Rightarrow>
         if \<not> shouldReplaceSeededStaticRoute existing route
            \<and> (HasPrefix (r_TargetURL existing) ''http://'' \<or> HasPrefix (r_TargetURL existing) ''https://''
               \<or> r_TargetHost existing \<noteq> '''' \<and> r_TargetPort existing > 0)
         then return (Inr ())
         else UpdatePublicRoute (Some (existing\<lparr>r_PublicID := r_PublicID route, r_AppInstanceID := r_AppInstanceID route,
           r_AppTemplateCode := r_AppTemplateCode route, r_ServiceName := r_ServiceName route,
           r_TargetScheme := r_TargetScheme route, r_TargetHost := r_TargetHost route, r_TargetPort := r_TargetPort route,
           r_TargetURL := r_TargetURL route, r_RouteKind := r_RouteKind route, r_TLSMode := r_TLSMode route,
           r_Status := r_Status route\<rparr>))
   }"

fun seed_routes :: "PublicRoute list \<Rightarrow> unit db" where
  "seed_routes [] = return (Inr ())"
| "seed_routes (route # routes) = then_do (seed_route route) (seed_routes routes)"

definition SeedStaticRoutes :: "net_manager \<Rightarrow> err + json_map option \<Rightarrow> (string \<Rightarrow> string) \<Rightarrow> unit db" where
  "SeedStaticRoutes m waited ids = do {
     t \<leftarrow> now;
     let cfg = nm_Config m;
     let routes = static_routes ids cfg;
     case (case nm_Caddy m of None \<Rightarrow> None | Some c \<Rightarrow> Bootstrap c t waited
             ((route_config cfg)\<lparr>rc_AdminHostname := '''', rc_PortalHostname := '''', rc_AppsHostname := '''', rc_AppsRedirectTo := ''''\<rparr>)
             (cfg_NetworkingTLSEmail cfg)) of
       Some e \<Rightarrow> return (Inl e)
     | None \<Rightarrow> do {
         _ \<leftarrow> drop_stale routes;
         _ \<leftarrow> drop_kinds (filter (\<lambda>kind. kind \<notin> set (map r_RouteKind routes))
                [''admin'', ''portal'', ''apps_root'', ''flagship'', ''cockpit'']);
         then_do (seed_routes routes) (Sync m)
       }
   }"

end
