(* ===== verification/Networking_Props.thy ===== *)
theory Networking_Props
  imports Networking Store_Props
begin

text \<open>
  What the proxy serves: the document that a reconciliation loads follows the table of routes and the
  running migrations, and leaves everything else in the proxy's configuration alone.
\<close>

section \<open>Reading the document\<close>

definition server_routes :: "string \<Rightarrow> json_map \<Rightarrow> json list" where
  "server_routes name doc = (case obj_at name (servers_of doc) of
     None \<Rightarrow> [] | Some server \<Rightarrow> (case map_of server ''routes'' of Some (JArr routes) \<Rightarrow> routes | _ \<Rightarrow> []))"

text \<open>The host that a route matches, its handler, the fixed status it answers, the addresses it forwards to.\<close>

definition elems_at :: "string \<Rightarrow> json \<Rightarrow> json list" where
  "elems_at k j = (case j of JObj x \<Rightarrow> (case map_of x k of Some (JArr js) \<Rightarrow> js | _ \<Rightarrow> []) | _ \<Rightarrow> [])"

definition field :: "string \<Rightarrow> json \<Rightarrow> json option" where
  "field k j = (case j of JObj x \<Rightarrow> map_of x k | _ \<Rightarrow> None)"

definition route_hosts :: "json \<Rightarrow> json list" where
  "route_hosts j = concat (map (elems_at ''host'') (elems_at ''match'' j))"

definition route_status :: "json \<Rightarrow> json option list" where
  "route_status j = map (field ''status_code'') (elems_at ''handle'' j)"

definition route_dials :: "json \<Rightarrow> json option list" where
  "route_dials j = concat (map (\<lambda>handle. map (field ''dial'') (elems_at ''upstreams'' handle)) (elems_at ''handle'' j))"

lemmas reading = route_hosts_def route_status_def route_dials_def elems_at_def field_def caddy_route_def

section \<open>Building the document\<close>

lemma obj_at_put [simp]: "obj_at k (put k (JObj x) m) = Some x" "k \<noteq> k' \<Longrightarrow> obj_at k (put k' v m) = obj_at k m"
  by (simp_all add: obj_at_def)

lemma obj_or_new_put [simp]: "obj_or_new k (put k (JObj x) m) = x" "k \<noteq> k' \<Longrightarrow> obj_or_new k (put k' v m) = obj_or_new k m"
  by (simp_all add: obj_or_new_def)

lemma servers_with [simp]: "servers_of (with_servers s m) = s"
  by (simp add: servers_of_def apps_of_def with_servers_def Let_def)

lemma with_servers_frame:
  "k \<noteq> ''apps'' \<Longrightarrow> map_of (with_servers s m) k = map_of m k"
  "k \<noteq> ''http'' \<Longrightarrow> map_of (apps_of (with_servers s m)) k = map_of (apps_of m) k"
  "k \<noteq> ''servers'' \<Longrightarrow> map_of (obj_or_new ''http'' (apps_of (with_servers s m))) k = map_of (obj_or_new ''http'' (apps_of m)) k"
  by (simp_all add: apps_of_def with_servers_def Let_def)

lemma build_hosts: "route_hosts (buildCaddyRoute c r cfg) = [JStr (r_Hostname r)]"
  by (auto simp: buildCaddyRoute_def staticResponseRoute_def redirectRoute_def reverseProxyRoute_def reading Let_def)

lemma build_disabled:
  "r_Status r = ''disabled'' \<Longrightarrow> route_status (buildCaddyRoute c r cfg) = [Some (JNum 503)] \<and> route_dials (buildCaddyRoute c r cfg) = []"
  by (auto simp: buildCaddyRoute_def reading Let_def)

lemma build_instance:
  "r_Status r \<noteq> ''disabled'' \<Longrightarrow> r_RouteKind r = ''app_instance'' \<Longrightarrow> r_TargetURL r \<noteq> '''' \<Longrightarrow>
   route_status (buildCaddyRoute c r cfg) = [None] \<and> route_dials (buildCaddyRoute c r cfg) = [Some (JStr (fst (dial_of c (r_TargetURL r))))]"
  by (auto simp: buildCaddyRoute_def reverseProxyRoute_def reading Let_def)

text \<open>\<open>same_elsewhere\<close>: nothing but the two servers of Admiral, and the certificates, differs.\<close>

definition same_elsewhere :: "RouteConfig \<Rightarrow> json_map \<Rightarrow> json_map \<Rightarrow> bool" where
  "same_elsewhere cfg old doc \<longleftrightarrow>
     (\<forall>k. k \<noteq> ''apps'' \<longrightarrow> map_of doc k = map_of old k)
     \<and> (\<forall>k. k \<noteq> ''http'' \<longrightarrow> k \<noteq> ''tls'' \<longrightarrow> map_of (apps_of doc) k = map_of (apps_of old) k)
     \<and> (\<forall>k. k \<noteq> ''servers'' \<longrightarrow> map_of (obj_or_new ''http'' (apps_of doc)) k = map_of (obj_or_new ''http'' (apps_of old)) k)
     \<and> (\<forall>k. k \<noteq> rc_ServerName cfg \<longrightarrow> k \<noteq> ''admiral-http-redirect'' \<longrightarrow> map_of (servers_of doc) k = map_of (servers_of old) k)"

lemma ensure_tls_frame:
  assumes "ensure_tls cfg apps = Inr apps'"
  shows "\<forall>k. k \<noteq> ''tls'' \<longrightarrow> map_of apps' k = map_of apps k"
  using assms by (auto simp: ensure_tls_def Let_def split: if_splits option.splits)

lemma ensure_managed:
  "apps_of (ensureManagedServer m) = put ''http'' (JObj (put ''servers'' (JObj (servers_of m)) (obj_or_new ''http'' (apps_of m)))) (apps_of m)"
  "k \<noteq> ''apps'' \<Longrightarrow> map_of (ensureManagedServer m) k = map_of m k"
  by (simp_all add: ensureManagedServer_def apps_of_def servers_of_def Let_def)

lemma synced_frame:
  assumes "synced_config c (Some old) routes cfg = Inr doc"
  shows "same_elsewhere cfg old doc"
proof -
  from assms obtain apps where t: "ensure_tls cfg (apps_of (ensureManagedServer old)) = Inr apps"
    by (auto simp: synced_config_def ensureBootstrapConfig_def and_then_def Let_def split: sum.splits)
  let ?cfg = "put ''apps'' (JObj apps) (ensureManagedServer old)"
  have h: "obj_at ''http'' apps = Some (put ''servers'' (JObj (servers_of old)) (obj_or_new ''http'' (apps_of old)))"
    using ensure_tls_frame [OF t] by (simp add: obj_at_def ensure_managed)
  have s: "servers_of ?cfg = servers_of old"
    by (simp add: servers_of_def [of ?cfg] apps_of_def h obj_or_new_def [of "''http''"])
  let ?m = "if has (servers_of ?cfg) (rc_ServerName cfg) then ?cfg
    else with_servers (put (rc_ServerName cfg) empty_server (servers_of ?cfg)) ?cfg"
  have doc: "doc = with_servers (put ''admiral-http-redirect'' httpRedirectServer
      (put (rc_ServerName cfg) (buildServerConfig c routes cfg) (servers_of ?m))) ?m"
    using assms t by (simp add: synced_config_def ensureBootstrapConfig_def and_then_def Let_def del: if_split)
  have "same_elsewhere cfg old ?cfg"
    using ensure_tls_frame [OF t] h s by (auto simp: same_elsewhere_def ensure_managed apps_of_def [of ?cfg] obj_or_new_def [of "''http''" apps])
  then show ?thesis
    unfolding doc by (simp add: same_elsewhere_def with_servers_frame s)
qed

lemma synced_routes:
  assumes "synced_config c (Some old) routes cfg = Inr doc" and "rc_ServerName cfg \<noteq> ''admiral-http-redirect''"
  shows "server_routes (rc_ServerName cfg) doc = map (\<lambda>r. buildCaddyRoute c r cfg) (filter (served cfg) routes)"
  using assms
  by (auto simp: synced_config_def and_then_def server_routes_def obj_at_def buildServerConfig_def split: sum.splits)

section \<open>The reconciliation\<close>

text \<open>A running migration, outside its last steps, takes the routes of its instance down.\<close>

definition migrating :: "store \<Rightarrow> string \<Rightarrow> bool" where
  "migrating d i \<longleftrightarrow> i \<noteq> '''' \<and> (\<exists>op \<in> set (st_operations d). op_InstanceID op = Some i \<and> op_Status op = ''running'' \<and> in_maintenance op)"

lemma GetRunning_run:
  assumes "run_state (GetRunningOperationsByInstance i) c = (Inr ops, c')"
  shows "tables c' = tables c \<and> same_clocks c c' \<and> ops = filter (\<lambda>x. op_InstanceID x = Some i \<and> op_Status x = ''running'') (st_operations (tables c))"
  using assms by (auto simp: GetRunningOperationsByInstance_def wrapped_def dest!: query_Inr split: prod.splits sum.splits)

lemma maintained_run:
  assumes "run_state (maintained routes checked acc) c = (Inr ms, c')"
    and "set acc = {i \<in> set checked. migrating (tables c) i}"
  shows "tables c' = tables c \<and> same_clocks c c'
    \<and> set ms = {i \<in> set checked \<union> set (map (\<lambda>r. or_empty (r_AppInstanceID r)) routes). migrating (tables c) i}"
  using assms
proof (induction routes arbitrary: checked acc c)
  case (Cons r routes)
  let ?i = "or_empty (r_AppInstanceID r)"
  show ?case
  proof (cases "?i = '''' \<or> ?i \<in> set checked")
    case True
    with Cons.prems have "run_state (maintained routes checked acc) c = (Inr ms, c')" by (simp add: Let_def)
    from Cons.IH [OF this Cons.prems(2)] True show ?thesis by (auto simp: migrating_def)
  next
    case False
    obtain x c1 where g: "run_state (GetRunningOperationsByInstance ?i) c = (x, c1)" by fastforce
    with Cons.prems(1) False obtain ops where x: "x = Inr ops" by (cases x) (auto simp: Let_def)
    note f = GetRunning_run [OF g [unfolded x]]
    let ?acc = "if \<exists>op \<in> set ops. in_maintenance op then ?i # acc else acc"
    have run: "run_state (maintained routes (?i # checked) ?acc) c1 = (Inr ms, c')"
      using Cons.prems(1) False g x by (simp add: Let_def)
    have "(\<exists>op \<in> set ops. in_maintenance op) \<longleftrightarrow> migrating (tables c) ?i"
      using f False by (auto simp: migrating_def)
    then have "set ?acc = {i \<in> set (?i # checked). migrating (tables c1) i}"
      using Cons.prems(2) f by auto
    from Cons.IH [OF run this] f show ?thesis by (auto intro: same_clocks_trans)
  qed
qed simp

text \<open>
  \<open>published c d r j\<close>: the entry \<open>j\<close> serves the route \<open>r\<close>.  A route that is disabled or whose instance is
  being migrated answers 503 and forwards nowhere; that of an instance forwards to its target.
\<close>

definition published :: "CaddyAdminClient \<Rightarrow> store \<Rightarrow> PublicRoute \<Rightarrow> json \<Rightarrow> bool" where
  "published c d r j \<longleftrightarrow> route_hosts j = [JStr (r_Hostname r)]
     \<and> (if r_Status r = ''disabled'' \<or> migrating d (or_empty (r_AppInstanceID r))
        then route_status j = [Some (JNum 503)] \<and> route_dials j = []
        else r_RouteKind r = ''app_instance'' \<and> r_TargetURL r \<noteq> ''''
          \<longrightarrow> route_status j = [None] \<and> route_dials j = [Some (JStr (fst (dial_of c (r_TargetURL r))))])"

definition visible :: "store \<Rightarrow> PublicRoute \<Rightarrow> bool" where
  "visible d r \<longleftrightarrow> r_Hostname r \<noteq> ''''
     \<and> (migrating d (or_empty (r_AppInstanceID r)) \<or> r_Status r \<notin> {''deleting'', ''deleted''})"

definition taken_down :: "string list \<Rightarrow> PublicRoute \<Rightarrow> PublicRoute" where
  "taken_down ms r = (if or_empty (r_AppInstanceID r) \<in> set ms then r\<lparr>r_Status := ''disabled''\<rparr> else r)"

lemma published_taken_down:
  assumes "or_empty (r_AppInstanceID r) \<in> set ms \<longleftrightarrow> migrating d (or_empty (r_AppInstanceID r))"
  shows "published c d r (buildCaddyRoute c (taken_down ms r) cfg)"
    and "rc_RemovedHostname cfg = '''' \<Longrightarrow> served cfg (taken_down ms r) \<longleftrightarrow> visible d r"
proof -
  have "r_Hostname (taken_down ms r) = r_Hostname r" "r_RouteKind (taken_down ms r) = r_RouteKind r"
    "r_TargetURL (taken_down ms r) = r_TargetURL r"
    "r_Status (taken_down ms r) = (if migrating d (or_empty (r_AppInstanceID r)) then ''disabled'' else r_Status r)"
    using assms by (simp_all add: taken_down_def)
  then show "published c d r (buildCaddyRoute c (taken_down ms r) cfg)"
    and "rc_RemovedHostname cfg = '''' \<Longrightarrow> served cfg (taken_down ms r) \<longleftrightarrow> visible d r"
    using build_hosts [of c "taken_down ms r" cfg] build_disabled [of "taken_down ms r" c cfg] build_instance [of "taken_down ms r" c cfg]
    by (auto simp: published_def served_def visible_def split: if_splits)
qed

lemma published_routes:
  assumes "\<And>r. r \<in> set routes \<Longrightarrow> or_empty (r_AppInstanceID r) \<in> set ms \<longleftrightarrow> migrating d (or_empty (r_AppInstanceID r))"
    and "rc_RemovedHostname cfg = ''''"
  shows "list_all2 (published c d) (filter (visible d) routes)
    (map (\<lambda>r. buildCaddyRoute c r cfg) (filter (served cfg) (caddy_routes ms routes)))"
  using assms(1)
proof (induction routes)
  case (Cons r routes)
  have "list_all2 (published c d) (filter (visible d) routes)
      (map (\<lambda>r. buildCaddyRoute c r cfg) (filter (served cfg) (caddy_routes ms routes)))"
    using Cons.prems by (intro Cons.IH) simp
  moreover have "or_empty (r_AppInstanceID r) \<in> set ms \<longleftrightarrow> migrating d (or_empty (r_AppInstanceID r))"
    using Cons.prems by simp
  note published_taken_down [OF this]
  moreover have "caddy_routes ms (r # routes) = taken_down ms r # caddy_routes ms routes"
    by (simp add: caddy_routes_def taken_down_def)
  ultimately show ?case using assms(2) by simp
qed (simp add: caddy_routes_def)


definition demo_caddy :: CaddyAdminClient where
  "demo_caddy = \<lparr>caddy_config = (\<lambda>_. Inr (Some [(''logging'', JNull)])), caddy_load = (\<lambda>_ _. None),
     url_parse = (\<lambda>_. None), env_TLS_CA_FILE = '''', env_DEV_MODE = ''''\<rparr>"

definition demo_net :: net_manager where
  "demo_net = \<lparr>nm_Caddy = Some demo_caddy, nm_Config = \<lparr>cfg_NetworkingAdminHost = '''', cfg_NetworkingAdminTarget = '''',
       cfg_NetworkingPortalHost = '''', cfg_NetworkingPortalTarget = '''', cfg_NetworkingAppsDomain = ''apps.example'',
       cfg_NetworkingAppsRedirect = '''', cfg_NetworkingFlagshipHost = '''', cfg_NetworkingFlagshipTarget = '''',
       cfg_NetworkingCockpitHost = '''', cfg_NetworkingCockpitTarget = '''', cfg_NetworkingTLSCertFile = '''',
       cfg_NetworkingTLSKeyFile = '''', cfg_NetworkingTLSEmail = ''''\<rparr>, nm_local = False, nm_yaml = (\<lambda>_. None),
     nm_error_text = (\<lambda>_. ''error''), nm_probe = (\<lambda>_ _ _. Inr 200)\<rparr>"

definition demo_routed :: "store conn" where
  "demo_routed = demo_serving_conn\<lparr>tables := demo_serving\<lparr>st_routes :=
     [(staticRoute ''r1'' ''wiki1.apps.example'' ''app_instance'' ''web'' ''http://10.0.0.1:80'')\<lparr>r_AppInstanceID := Some ''i1''\<rparr>,
      (staticRoute ''r2'' ''wiki2.apps.example'' ''app_instance'' ''web'' ''http://10.0.0.1:81'')
         \<lparr>r_AppInstanceID := Some ''i1'', r_Status := ''disabled''\<rparr>]\<rparr>\<rparr>"

lemma demo_sync: "fst (run_state (Sync demo_net) demo_routed) = Inr ()"
  by code_simp


section \<open>A proxy without a configuration\<close>

lemma maintained_ok: "faults c = [] \<Longrightarrow> \<exists>ms. run_state (maintained routes checked acc) c = (Inr ms, c)"
proof (induction routes arbitrary: checked acc)
  case (Cons r routes)
  then show ?case by (simp add: Let_def GetRunningOperationsByInstance_def wrapped_def run_ok)
qed simp

text \<open>
  A proxy that has lost its configuration answers with the document \<^verbatim>\<open>null\<close>.  The reconciliation then does not
  restore the configuration but panics, in \<^verbatim>\<open>ensureManagedServer\<close>, without a trace in the store.
\<close>

theorem null_config_panics:
  assumes "nm_Caddy m = Some caddy" and "caddy_config caddy (app_clock c) = Inr None" and "faults c = []"
  shows "run_state (Sync m) c = (Inl (Panic ''assignment to entry in nil map''), c)"
proof -
  let ?routes = "sort_key r_CreatedAt (st_routes (tables c))"
  obtain ms where ms: "run_state (maintained ?routes [] []) c = (Inr ms, c)" using maintained_ok [OF assms(3)] by blast
  have "SyncRoutes caddy (app_clock c) routes cfg = Some (Panic ''assignment to entry in nil map'')" for routes cfg
    using assms(2) by (simp add: SyncRoutes_def synced_config_def ensureBootstrapConfig_def and_then_def)
  moreover have "run_state GetPublicRoutes c = (Inr ?routes, c)"
    using assms(3) by (simp add: GetPublicRoutes_def wrapped_def run_ok)
  ultimately show ?thesis using assms(1) ms by (simp add: Sync_def syncLocked_def Let_def is_panic_def)
qed

end
