(* ===== verification/Tasks.thy ===== *)
theory Tasks
  imports Secrets Task_Env Policy Store_Access Networking
begin

text \<open>
  How the control plane turns an operation into a task of the queue:
  \<^verbatim>\<open>src/internal/api/handlers_tasks.go\<close> and the rejected workloads of \<^verbatim>\<open>handlers_policy.go\<close>.  Log lines
  are not part of the model; where the source only logs an error, the model drops it, unless it is a panic.
\<close>

section \<open>The handlers' surroundings\<close>

text \<open>
  The fields of \<open>handlers\<close> other than the queue's, the secrets' and the network's managers stand for
  parsing and printing: YAML, JSON, URLs, numbers, times and the texts of errors.
\<close>

record blockedProvisioningAuditDetail =
  bd_Code :: string
  bd_Message :: string
  bd_Detail :: string
  bd_Action :: string
  bd_RequestedAppDefinition :: string
  bd_RequestedTier :: string
  bd_RequestedNodeID :: string
  bd_CustomerID :: string
  bd_Operator :: string
  bd_NodeEvaluations :: "NodeProvisioningEvaluation list"

text \<open>What a node reports in the metadata of a callback.\<close>

record setupCallbackMetadata =
  sm_HasSetup :: bool
  sm_SetupFailed :: bool
  sm_SetupError :: string

record restartImageEvidence =
  ie_DefinedImage :: string
  ie_ImageRef :: string
  ie_ImageID :: string
  ie_ContainerID :: string

record backup_callback =
  bc_BackupID :: string
  bc_StorageBackend :: string
  bc_StorageKey :: string
  bc_SizeBytes :: int
  bc_ChecksumSHA256 :: string
  bc_CompletedAt :: string

text \<open>
  The decoders of that metadata yield \<open>None\<close> when \<^verbatim>\<open>json.Unmarshal\<close> fails; \<open>h_meta_backup\<close> yields
  the struct as the call leaves it.
\<close>

record handlers =
  h_codec :: secret_codec
  h_publisher :: Publisher
  h_secrets :: Manager
  h_networking :: "net_manager option"
  h_yaml :: "string \<Rightarrow> AppDefinitionPayload option"
  h_url_host :: "string \<Rightarrow> string option"
  h_parse_float :: "string \<Rightarrow> float64 option"
  h_rfc3339 :: "int \<Rightarrow> string"
  h_time_of_rfc3339 :: "string \<Rightarrow> int option"
  h_json_of_tier :: "AppTier \<Rightarrow> string option"
  h_tier_of_json :: "string \<Rightarrow> AppTier option"
  h_json_of_detail :: "blockedProvisioningAuditDetail \<Rightarrow> string option"
  h_error_text :: "err \<Rightarrow> string"
  h_meta_host_ports :: "string \<Rightarrow> (string \<times> int) list option"
  h_meta_setup :: "string \<Rightarrow> setupCallbackMetadata option"
  h_meta_images :: "string \<Rightarrow> (string \<times> restartImageEvidence) list option"
  h_meta_backup :: "string \<Rightarrow> backup_callback"
  h_meta_resize :: "string \<Rightarrow> (string \<times> TierInfo) option"

abbreviation queue_codec :: "handlers \<Rightarrow> codec" where
  "queue_codec h \<equiv> codec.truncate (h_codec h)"

text \<open>\<^verbatim>\<open>Operation.InstanceID\<close>: the column or the empty string.\<close>

definition op_instance :: "Operation \<Rightarrow> string" where
  "op_instance op = (case op_InstanceID op of None \<Rightarrow> '''' | Some i \<Rightarrow> i)"

definition tier_info :: "AppTier \<Rightarrow> TierInfo" where
  "tier_info tier = \<lparr>ti_Name = at_Name tier, ti_CPU = at_CPU tier, ti_Memory = at_Memory tier,
     ti_Storage = at_Storage tier, ti_Environment = at_Environment tier\<rparr>"

definition zero_metadata :: OperationMetadata where
  "zero_metadata = \<lparr>om_TargetNodeID = '''', om_ResizeTargetTier = None, om_SourceNodeID = '''',
     om_LogicalInstanceID = '''', om_MigrationStep = '''', om_MigrationRoutes = [], om_HostPorts = [],
     om_BackupRecordIDs = [], om_NewInstanceID = '''', om_SourceAction = '''', om_ImageDefinitions = []\<rparr>"

section \<open>Operations and instances of a task\<close>

definition isMigrationSuboperation :: "Operation option \<Rightarrow> bool" where
  "isMigrationSuboperation op = (case op of None \<Rightarrow> False | Some x \<Rightarrow>
     (case op_Metadata x of None \<Rightarrow> False | Some md \<Rightarrow> TrimSpace (om_MigrationStep md) \<noteq> ''''))"

definition operationMetadataForAction :: "TaskAction \<Rightarrow> AppTier \<Rightarrow> OperationMetadata option" where
  "operationMetadataForAction action tier =
     (if action \<noteq> ActionResizeApp then None else Some (zero_metadata\<lparr>om_ResizeTargetTier := Some tier\<rparr>))"

definition createActionOperation ::
  "string \<Rightarrow> string \<Rightarrow> string \<Rightarrow> TaskAction \<Rightarrow> string \<Rightarrow> AppTier \<Rightarrow> unit db" where
  "createActionOperation oid instanceID nodeID action adminUser tier =
     (case operationMetadataForAction action tier of
        Some metadata \<Rightarrow> CreateOperationWithMetadata oid instanceID nodeID action ''pending_dispatch'' adminUser (Some metadata)
      | None \<Rightarrow> CreateOperation oid instanceID nodeID action ''pending_dispatch'' adminUser)"

definition failInstanceForTask :: "string \<Rightarrow> string \<Rightarrow> unit db" where
  "failInstanceForTask opID instID = do {
     r \<leftarrow> GetOperation opID;
     case r of
       Inl e \<Rightarrow> return (Inl e)
     | Inr op \<Rightarrow> if isMigrationSuboperation op then return (Inr ())
         else UpdateCustomerAppStatus instID '''' ''failed''
   }"

text \<open>The operation and its instance fail with a message, and the error is returned.\<close>

definition fail_task :: "string \<Rightarrow> string \<Rightarrow> string \<Rightarrow> err \<Rightarrow> unit db" where
  "fail_task opID instID msg e = do {
     _ \<leftarrow> UpdateOperation opID ''failed'' msg;
     _ \<leftarrow> failInstanceForTask opID instID;
     return (Inl e)
   }"

definition fail_operation :: "string \<Rightarrow> string \<Rightarrow> err \<Rightarrow> unit db" where
  "fail_operation opID msg e = do { _ \<leftarrow> UpdateOperation opID ''failed'' msg; return (Inl e) }"

definition decrypt_row ::
  "handlers \<Rightarrow> InstanceSecret \<Rightarrow> secret_map \<Rightarrow> err + secret_map" where
  "decrypt_row h row result = and_then (Decrypt (h_codec h) (h_secrets h) (is_EncryptedValue row)) (\<lambda>plain.
     Inr (put (is_ServiceName row) (put (is_EnvName row) plain (get [] result (is_ServiceName row))) result))"

definition decryptedSecretMap :: "handlers \<Rightarrow> string \<Rightarrow> secret_map db" where
  "decryptedSecretMap h instanceID = do {
     r \<leftarrow> GetInstanceSecrets instanceID;
     return (case r of Inl e \<Rightarrow> Inl e | Inr rows \<Rightarrow> for_each (decrypt_row h) rows [])
   }"

definition publicBaseURLForInstance :: "string \<Rightarrow> (store conn, string) state" where
  "publicBaseURLForInstance instanceID = do {
     r \<leftarrow> GetRoutesByInstance instanceID;
     return (case r of
       Inl _ \<Rightarrow> ''''
     | Inr routes \<Rightarrow> (case find (\<lambda>route. r_Hostname route \<noteq> '''') routes of
         None \<Rightarrow> ''''
       | Some route \<Rightarrow> ''https://'' @ trim_right (\<lambda>x. x = CHR ''/'') (r_Hostname route) @ ''/''))
   }"

section \<open>Building a task\<close>

definition task_secrets ::
  "handlers \<Rightarrow> AppDefinitionPayload \<Rightarrow> TaskAction \<Rightarrow> string \<Rightarrow> string \<Rightarrow> secret_map db" where
  "task_secrets h payload action instID backupService =
     (if action = ActionDeprovisionApp then return (Inr (deprovisionSecretNames payload))
      else if actionRequiresSecrets action then do {
        r \<leftarrow> decryptedSecretMap h instID;
        return (case r of Inl e \<Rightarrow> Inl e | Inr values \<Rightarrow> Inr (scopeTaskSecrets action payload values backupService))
      }
      else return (Inr []))"

definition service_infos ::
  "handlers \<Rightarrow> AppDefinitionPayload \<Rightarrow> AppTier \<Rightarrow> string \<Rightarrow> string \<Rightarrow> secret_map \<Rightarrow> (store conn, ServiceInfo list) state" where
  "service_infos h payload tier instID tenantID secretValues = do {
     url \<leftarrow> publicBaseURLForInstance instID;
     return (buildServiceInfos (h_url_host h) payload (at_Name tier) (at_Environment tier) instID tenantID url secretValues)
   }"

text \<open>
  The restart check: an instance that needs a restart gets its images verified, and the expected
  images are kept with the operation.
\<close>

definition verify_images :: "string \<Rightarrow> string \<Rightarrow> FleetTask \<Rightarrow> FleetTask db" where
  "verify_images opID instID task = do {
     r \<leftarrow> GetCustomerApp instID;
     case r of
       Inl e \<Rightarrow> do { _ \<leftarrow> UpdateOperation opID ''failed'' ''failed to load restart state''; return (Inl (Wrap ''load restart state: '' e)) }
     | Inr inst \<Rightarrow>
         (let verify = (case inst of None \<Rightarrow> False | Some v \<Rightarrow> ca_NeedRestarting (av_App v));
              task = task\<lparr>ft_VerifyImages := verify\<rparr>;
              definitions = fold (\<lambda>si. put (si_Name si) (si_Image si))
                (filter (\<lambda>si. TrimSpace (si_SetupCommand si) = '''') (ft_Services task)) []
          in if \<not> verify then return (Inr task)
             else do {
               r2 \<leftarrow> GetOperation opID;
               (case r2 of
                  Inr (Some op) \<Rightarrow> do {
                    _ \<leftarrow> UpdateOperationMetadata opID
                      (Some ((case op_Metadata op of None \<Rightarrow> zero_metadata | Some md \<Rightarrow> md)\<lparr>om_ImageDefinitions := definitions\<rparr>));
                    return (Inr task) }
                | _ \<Rightarrow> return (Inr task))
             })
   }"

definition setup_state :: "string \<Rightarrow> FleetTask \<Rightarrow> (store conn, FleetTask) state" where
  "setup_state instID task = do {
     r \<leftarrow> GetCustomerApp instID;
     return (case r of Inr (Some v) \<Rightarrow> task\<lparr>ft_SetupCompleted := ca_SetupCompleted (av_App v)\<rparr> | _ \<Rightarrow> task)
   }"

definition backup_storage ::
  "handlers \<Rightarrow> string \<Rightarrow> string \<Rightarrow> string \<Rightarrow> TaskAction \<Rightarrow> string \<Rightarrow> string \<Rightarrow> (store conn, StorageConfig) state" where
  "backup_storage h opID instID nodeID action backupID backupService = do {
     r \<leftarrow> GetActiveBackupStorageConfig (h_rfc3339 h);
     return (case r of
       Inr (Some cfg) \<Rightarrow>
         \<lparr>sto_Backend = sc_Backend cfg,
          sto_Key = sc_Prefix cfg @ ''/'' @ nodeID @ ''/'' @ instID @ ''/'' @ backupService @ ''-'' @
            (if action = ActionBackupVolumes then ''volumes'' else ''database'') @ ''-'' @ opID,
          sto_BackupID = backupID, sto_Endpoint = sc_Endpoint cfg, sto_Region = sc_Region cfg, sto_Bucket = sc_Bucket cfg,
          sto_Prefix = sc_Prefix cfg, sto_ForcePathStyle = sc_ForcePathStyle cfg, sto_AccessKeyEnv = sc_AccessKeyEnv cfg,
          sto_SecretKeyEnv = sc_SecretKeyEnv cfg, sto_SessionTokenEnv = sc_SessionTokenEnv cfg\<rparr>
     | _ \<Rightarrow>
         \<lparr>sto_Backend = ''local'', sto_Key = ''/var/lib/admiral/backups/'' @ instID @ ''/'' @ opID, sto_BackupID = backupID,
          sto_Endpoint = '''', sto_Region = '''', sto_Bucket = '''', sto_Prefix = '''', sto_ForcePathStyle = False,
          sto_AccessKeyEnv = '''', sto_SecretKeyEnv = '''', sto_SessionTokenEnv = ''''\<rparr>)
   }"

definition base_task ::
  "string \<Rightarrow> string \<Rightarrow> string \<Rightarrow> string \<Rightarrow> AppDefinitionPayload \<Rightarrow> AppTier \<Rightarrow> TaskAction \<Rightarrow> ServiceInfo list \<Rightarrow> FleetTask" where
  "base_task taskID opID instID nodeID payload tier action services = zero_task\<lparr>ft_TaskID := taskID, ft_OperationID := opID,
     ft_NodeID := nodeID, ft_Action := action, ft_InstanceID := instID,
     ft_App := \<lparr>ai_Name = app_Name payload, ai_Version = ''latest''\<rparr>, ft_Tier := tier_info tier, ft_Services := services,
     ft_SharedVolumes := buildSharedVolumeInfos payload\<rparr>"


section \<open>Handing a task to the queue\<close>

text \<open>The last steps, which every way to enqueue a task shares: the task is recorded with its operation,
  published, and the operation marked as queued.  \<open>on_fail\<close> is what a failure does to the store.\<close>

definition publish_step ::
  "handlers \<Rightarrow> entropy \<Rightarrow> FleetTask \<Rightarrow> (err \<Rightarrow> unit db) \<Rightarrow> (err \<Rightarrow> unit db) \<Rightarrow> (unit db) \<Rightarrow> (err + unit) api_io" where
  "publish_step h ent task on_no_id on_unpublished mark = do {
     r \<leftarrow> on_db (UpdateOperationTaskID (ft_OperationID task) (ft_TaskID task));
     case r of
       Inl e \<Rightarrow> on_db (on_no_id e)
     | Inr _ \<Rightarrow> do {
         p \<leftarrow> on_queue (PublishTask (queue_codec h) (h_publisher h) ent task);
         case p of
           Inl e \<Rightarrow> if is_panic e then return (Inl e) else on_db (on_unpublished e)
         | Inr _ \<Rightarrow> on_db mark
       }
   }"

definition dispatch_task :: "handlers \<Rightarrow> entropy \<Rightarrow> string \<Rightarrow> string \<Rightarrow> FleetTask \<Rightarrow> (err + unit) api_io" where
  "dispatch_task h ent opID instID task = publish_step h ent task
     (\<lambda>e. fail_task opID instID ''failed to persist task ID'' (Wrap ''persist task ID: '' e))
     (\<lambda>e. fail_task opID instID (h_error_text h e) (Wrap ''persist task to queue: '' e))
     (do { _ \<leftarrow> MarkOperationQueuedIfPendingDispatch opID; return (Inr ()) })"

definition add_backup ::
  "handlers \<Rightarrow> AppDefinitionPayload \<Rightarrow> string \<Rightarrow> string \<Rightarrow> TaskAction \<Rightarrow> string \<Rightarrow> FleetTask \<Rightarrow> FleetTask db" where
  "add_backup h payload opID instID action backupService task =
     (if action = ActionBackupDatabase \<or> action = ActionBackupVolumes then
        (case resolveBackupTarget payload backupService of
           Inl e \<Rightarrow> do { _ \<leftarrow> fail_task opID instID (h_error_text h e) e; return (Inl (Wrap ''resolve backup target: '' e)) }
         | Inr target \<Rightarrow> return (Inr (task\<lparr>ft_Backup := Some (buildTaskBackupInfo target)\<rparr>)))
      else return (Inr task))"

text \<open>The store's part of \<^verbatim>\<open>enqueueTaskWithID\<close>: the finished task, or the error it returns.\<close>

definition build_task ::
  "handlers \<Rightarrow> string \<Rightarrow> string \<Rightarrow> string \<Rightarrow> string \<Rightarrow> string \<Rightarrow> string \<Rightarrow> AppTier \<Rightarrow> TaskAction \<Rightarrow> string \<Rightarrow> string
   \<Rightarrow> FleetTask db" where
  "build_task h taskID opID instID nodeID tenantID rawYAML tier action backupID backupService =
     (case h_yaml h rawYAML of
        None \<Rightarrow> do {
          _ \<leftarrow> fail_task opID instID ''invalid stored app definition'' (Plain '''');
          return (Inl (Wrap ''parse app definition for task dispatch: '' (Plain ''yaml''))) }
      | Some payload \<Rightarrow> do {
          s \<leftarrow> task_secrets h payload action instID backupService;
          case s of
            Inl e \<Rightarrow> do {
              _ \<leftarrow> fail_task opID instID ''failed to prepare task secrets'' e;
              return (Inl (Wrap ''prepare task secrets: '' e)) }
          | Inr secretValues \<Rightarrow> do {
              services \<leftarrow> service_infos h payload tier instID tenantID secretValues;
              let task = base_task taskID opID instID nodeID payload tier action services;
              v \<leftarrow> (if action = ActionStartApp \<or> action = ActionResumeApp \<or> action = ActionReactivateApp
                   then verify_images opID instID task else return (Inr task));
              case v of
                Inl e \<Rightarrow> return (Inl e)
              | Inr task \<Rightarrow> do {
                  task \<leftarrow> (if action = ActionProvisionApp then setup_state instID task else return task);
                  b \<leftarrow> add_backup h payload opID instID action backupService task;
                  case b of
                    Inl e \<Rightarrow> return (Inl e)
                  | Inr task \<Rightarrow>
                      if backupID = '''' then return (Inr task)
                      else do {
                        storage \<leftarrow> backup_storage h opID instID nodeID action backupID backupService;
                        return (Inr (task\<lparr>ft_Storage := Some storage\<rparr>))
                      }
                }
            }
        })"

definition enqueueTaskWithID ::
  "handlers \<Rightarrow> entropy \<Rightarrow> string \<Rightarrow> string \<Rightarrow> string \<Rightarrow> string \<Rightarrow> string \<Rightarrow> string \<Rightarrow> AppTier \<Rightarrow> TaskAction \<Rightarrow> string \<Rightarrow> string
   \<Rightarrow> (err + unit) api_io" where
  "enqueueTaskWithID h ent taskID opID instID nodeID tenantID rawYAML tier action backupID backupService = do {
     r \<leftarrow> on_db (build_task h taskID opID instID nodeID tenantID rawYAML tier action backupID backupService);
     case r of
       Inl e \<Rightarrow> return (Inl e)
     | Inr task \<Rightarrow> dispatch_task h ent opID instID task
   }"

definition enqueueTask ::
  "handlers \<Rightarrow> entropy \<Rightarrow> byte list \<Rightarrow> string \<Rightarrow> string \<Rightarrow> string \<Rightarrow> string \<Rightarrow> string \<Rightarrow> AppTier \<Rightarrow> TaskAction \<Rightarrow> string \<Rightarrow> string
   \<Rightarrow> (err + unit) api_io" where
  "enqueueTask h ent bytes opID instID nodeID tenantID rawYAML tier action backupID backupService = do {
     r \<leftarrow> enqueueTaskWithID h ent (generateID ''task'' bytes) opID instID nodeID tenantID rawYAML tier action backupID backupService;
     return (only_panic r)
   }"

definition dispatchTask ::
  "handlers \<Rightarrow> entropy \<Rightarrow> byte list \<Rightarrow> string \<Rightarrow> string \<Rightarrow> string \<Rightarrow> string \<Rightarrow> string \<Rightarrow> AppTier \<Rightarrow> TaskAction \<Rightarrow> (err + unit) api_io" where
  "dispatchTask h ent bytes opID instID nodeID tenantID rawYAML tier action =
     enqueueTask h ent bytes opID instID nodeID tenantID rawYAML tier action '''' ''''"

definition enqueueRawTaskWithErr :: "handlers \<Rightarrow> entropy \<Rightarrow> FleetTask \<Rightarrow> (err + unit) api_io" where
  "enqueueRawTaskWithErr h ent task = (let opID = ft_OperationID task in publish_step h ent task
     (\<lambda>e. return (Inl (Wrap (''persist task id for operation '' @ quoted opID @ '': '') e)))
     (\<lambda>e. fail_operation opID (h_error_text h e) (Wrap (''publish raw task '' @ quoted (ft_TaskID task) @ '': '') e))
     (do { r \<leftarrow> MarkOperationQueuedIfPendingDispatch opID;
           return (case r of Inl e \<Rightarrow> Inl (Wrap (''mark operation '' @ quoted opID @ '' queued: '') e) | Inr _ \<Rightarrow> Inr ()) }))"

definition enqueueRawTask :: "handlers \<Rightarrow> entropy \<Rightarrow> FleetTask \<Rightarrow> (err + unit) api_io" where
  "enqueueRawTask h ent task = do { r \<leftarrow> enqueueRawTaskWithErr h ent task; return (only_panic r) }"

definition restore_storage :: "handlers \<Rightarrow> string \<Rightarrow> (store conn, StorageConfig option) state" where
  "restore_storage h srcType = (if srcType \<noteq> ''s3'' then return None else do {
     r \<leftarrow> GetActiveBackupStorageConfig (h_rfc3339 h);
     return (case r of
       Inr (Some cfg) \<Rightarrow> if sc_Backend cfg \<noteq> ''s3'' then None else Some
         \<lparr>sto_Backend = sc_Backend cfg, sto_Key = '''', sto_BackupID = '''', sto_Endpoint = sc_Endpoint cfg,
          sto_Region = sc_Region cfg, sto_Bucket = sc_Bucket cfg, sto_Prefix = sc_Prefix cfg,
          sto_ForcePathStyle = sc_ForcePathStyle cfg, sto_AccessKeyEnv = sc_AccessKeyEnv cfg,
          sto_SecretKeyEnv = sc_SecretKeyEnv cfg, sto_SessionTokenEnv = ''''\<rparr>
     | _ \<Rightarrow> None)
   })"

definition restore_info :: "BackupRecord \<Rightarrow> string \<Rightarrow> string \<Rightarrow> RestoreInfo" where
  "restore_info bk srcType service = \<lparr>ri_BackupID = br_ID bk, ri_StorageBackend = srcType, ri_StorageKey = br_StorageKey bk,
     ri_BackupType = br_BackupType bk, ri_DatabaseType = br_DatabaseType bk, ri_Service = service,
     ri_ChecksumSHA256 = br_ChecksumSHA256 bk, ri_VerifyChecksum = True, ri_TrustedSourceIP = '''',
     ri_TrustedSourceOrigin = '''', ri_TrustedSourcePathPrefix = '''', ri_TrustedSourceIPs = []\<rparr>"

definition build_restore_task ::
  "handlers \<Rightarrow> byte list \<Rightarrow> string \<Rightarrow> string \<Rightarrow> string \<Rightarrow> string \<Rightarrow> AppTier \<Rightarrow> BackupRecord \<Rightarrow> FleetTask db" where
  "build_restore_task h bytes opID instID nodeID rawYAML tier bk = (case h_yaml h rawYAML of
     None \<Rightarrow> do { _ \<leftarrow> UpdateOperation opID ''failed'' ''invalid stored app definition''; return (Inl (Plain ''yaml'')) }
   | Some payload \<Rightarrow> do {
       s \<leftarrow> decryptedSecretMap h instID;
       case s of
         Inl e \<Rightarrow> do { _ \<leftarrow> UpdateOperation opID ''failed'' ''failed to prepare restore secrets''; return (Inl e) }
       | Inr secretValues \<Rightarrow> do {
           services \<leftarrow> service_infos h payload tier instID '''' secretValues;
           let srcType0 = ToLower (TrimSpace (br_StorageBackend bk));
           let srcType = (if srcType0 = '''' \<or> srcType0 = ''local'' then ''local_path'' else srcType0);
           case resolveRestoreTarget payload (br_BackupType bk) (br_Service bk) of
             Inl e \<Rightarrow> do { _ \<leftarrow> UpdateOperation opID ''failed'' (h_error_text h e); return (Inl e) }
           | Inr target \<Rightarrow> do {
               storage \<leftarrow> restore_storage h srcType;
               return (Inr ((base_task (generateID ''task'' bytes) opID instID nodeID payload tier ActionRestoreBackup services)
                 \<lparr>ft_Backup := Some (buildTaskBackupInfo target),
                  ft_Restore := Some (restore_info bk srcType (bt_ServiceName target)), ft_Storage := storage\<rparr>))
             }
         }
     })"

definition enqueueRestoreTask ::
  "handlers \<Rightarrow> entropy \<Rightarrow> byte list \<Rightarrow> string \<Rightarrow> string \<Rightarrow> string \<Rightarrow> string \<Rightarrow> AppTier \<Rightarrow> BackupRecord \<Rightarrow> (err + unit) api_io" where
  "enqueueRestoreTask h ent bytes opID instID nodeID rawYAML tier bk = do {
     r \<leftarrow> on_db (build_restore_task h bytes opID instID nodeID rawYAML tier bk);
     case r of
       Inl _ \<Rightarrow> return (Inr ())
     | Inr task \<Rightarrow> enqueueRawTask h ent task
   }"

section \<open>Rejected workloads\<close>

definition provisioningBlockedCode :: string where
  "provisioningBlockedCode = ''no_node_available_for_requested_tier''"

definition provisioningBlockedMessage :: string where
  "provisioningBlockedMessage = ''No hay nodos disponibles con capacidad suficiente para este tier.''"

definition persistRejectedTask ::
  "handlers \<Rightarrow> entropy \<Rightarrow> byte list \<Rightarrow> string \<Rightarrow> string \<Rightarrow> string \<Rightarrow> TaskAction \<Rightarrow> AppTier \<Rightarrow> blockedProvisioningAuditDetail
   \<Rightarrow> (err + string) api_io" where
  "persistRejectedTask h ent bytes operationID instanceID nodeID taskAction tier detail = (case h_json_of_detail h detail of
     None \<Rightarrow> return (Inl (Wrap ''marshal rejected task payload: '' (Plain ''json'')))
   | Some payload \<Rightarrow> (let taskID = generateID ''task'' bytes;
       task = zero_task\<lparr>ft_TaskID := taskID, ft_OperationID := operationID, ft_NodeID := nodeID, ft_Action := taskAction,
         ft_InstanceID := instanceID, ft_Tier := tier_info tier,
         ft_App := \<lparr>ai_Name = bd_RequestedAppDefinition detail, ai_Version = ''policy-rejected''\<rparr>\<rparr>
     in do {
       r \<leftarrow> on_db (UpdateOperationTaskID operationID taskID);
       case r of
         Inl e \<Rightarrow> return (Inl (Wrap ''persist rejected task id on operation: '' e))
       | Inr _ \<Rightarrow> do {
           p \<leftarrow> on_queue (PublishRejectedTask (queue_codec h) (h_publisher h) ent task (bd_Detail detail) payload);
           return (case p of Inl e \<Rightarrow> Inl (if is_panic e then e else Wrap ''persist rejected queue task: '' e) | Inr _ \<Rightarrow> Inr taskID)
         }
     }))"

text \<open>The response carries the detail, the operation and the task.\<close>

definition recordBlockedWorkloadAttempt ::
  "handlers \<Rightarrow> entropy \<Rightarrow> byte list \<Rightarrow> byte list \<Rightarrow> string \<Rightarrow> TaskAction \<Rightarrow> string \<Rightarrow> string \<Rightarrow> string \<Rightarrow> string \<Rightarrow> AppTier
   \<Rightarrow> NodeProvisioningEvaluation list \<Rightarrow> (err + (blockedProvisioningAuditDetail \<times> string \<times> string) response) api_io" where
  "recordBlockedWorkloadAttempt h ent rndOp rndTask operator action instanceID appDefinitionName customerID requestedNodeID
     tier evaluations = (let operationID = generateID ''op'' rndOp;
       detail = \<lparr>bd_Code = provisioningBlockedCode, bd_Message = provisioningBlockedMessage,
         bd_Detail = provisioningBlockedMessage @ '' La politica de capacidad impide asignar mas workloads al nodo evaluado.'',
         bd_Action = action, bd_RequestedAppDefinition = appDefinitionName, bd_RequestedTier = at_Name tier,
         bd_RequestedNodeID = requestedNodeID, bd_CustomerID = customerID, bd_Operator = operator,
         bd_NodeEvaluations = evaluations\<rparr>
     in do {
       r \<leftarrow> on_db (CreateOperation operationID instanceID requestedNodeID action ''failed'' operator);
       case r of
         Inl e \<Rightarrow> return (Inl (Wrap ''create blocked workload operation: '' e))
       | Inr _ \<Rightarrow> (case h_json_of_detail h detail of
           None \<Rightarrow> return (Inl (Wrap ''marshal blocked workload detail: '' (Plain ''json'')))
         | Some payload \<Rightarrow> do {
             u \<leftarrow> on_db (UpdateOperation operationID ''failed'' payload);
             case u of
               Inl e \<Rightarrow> return (Inl (Wrap ''update blocked workload operation: '' e))
             | Inr _ \<Rightarrow> do {
                 p \<leftarrow> persistRejectedTask h ent rndTask operationID instanceID requestedNodeID (policyRejectedAction action) tier detail;
                 return (case p of Inl e \<Rightarrow> Inl e | Inr taskID \<Rightarrow> Inr (writeJSON 503 (detail, operationID, taskID)))
               }
           })
     })"

end
