(* ===== verification/Fleet.thy ===== *)
theory Fleet
  imports Tasks
begin

text \<open>
  The protocol with the nodes: \<^verbatim>\<open>src/internal/api/handlers_fleet.go\<close>.  A node claims tasks, reports
  that it runs them, renews or discards them, and reports their results.
\<close>

section \<open>Claiming a task\<close>

definition terminal :: "string \<Rightarrow> bool" where
  "terminal status \<longleftrightarrow> status = ''succeeded'' \<or> status = ''failed'' \<or> status = ''cancelled''"

definition staleTaskReason :: "FleetTask option \<Rightarrow> Operation option \<Rightarrow> string \<Rightarrow> string" where
  "staleTaskReason task0 op0 nodeID = (case task0 of
     None \<Rightarrow> ''task payload is missing''
   | Some task \<Rightarrow> (case op0 of
       None \<Rightarrow> ''operation no longer exists''
     | Some op \<Rightarrow>
         if terminal (op_Status op) then ''operation is terminal: '' @ op_Status op
         else if op_instance op \<noteq> ft_InstanceID task then ''task instance does not match operation''
         else if op_NodeID op \<noteq> '''' \<and> op_NodeID op \<noteq> nodeID then ''operation is assigned to another node''
         else if ft_NodeID task \<noteq> '''' \<and> ft_NodeID task \<noteq> nodeID then ''task is assigned to another node''
         else if op_Action op \<noteq> ft_Action task then ''task action does not match operation''
         else if TrimSpace (op_TaskID op) = '''' then ''operation task ID is missing''
         else if TrimSpace (ft_TaskID task) = '''' then ''claimed task ID is missing''
         else if op_TaskID op \<noteq> ft_TaskID task then ''task was replaced by a newer operation task''
         else ''''))"

definition stale_instance :: "FleetTask \<Rightarrow> AppView option \<Rightarrow> string" where
  "stale_instance task inst = (case inst of
     None \<Rightarrow> ''instance no longer exists''
   | Some v \<Rightarrow> if ca_TechnicalStatus (av_App v) = ''deprovisioned'' \<and> ft_Action task \<noteq> ActionDeleteBackup
       then ''instance is already deprovisioned'' else '''')"

text \<open>Why a claimed task must not be delivered (empty when it may), or the error of a lookup.\<close>

definition stale_reason :: "FleetTask \<Rightarrow> string \<Rightarrow> (store conn, string + string) state" where
  "stale_reason task nodeID = do {
     r \<leftarrow> GetOperation (ft_OperationID task);
     case r of
       Inl _ \<Rightarrow> return (Inl ''task operation state unavailable'')
     | Inr op \<Rightarrow> (let reason = staleTaskReason (Some task) op nodeID in
         if reason = '''' \<and> ft_Action task \<noteq> ActionTestStorage then do {
           i \<leftarrow> GetCustomerApp (ft_InstanceID task);
           return (case i of Inl _ \<Rightarrow> Inl ''task instance state unavailable'' | Inr inst \<Rightarrow> Inr (stale_instance task inst))
         }
         else return (Inr reason))
   }"

record claim_reply =
  cr_command_id :: string
  cr_task :: FleetTask
  cr_attempt_count :: int
  cr_max_attempts :: int

text \<open>The loop of at most 128 claims; each round that discards a stale task goes on with one less.\<close>

fun claim_loop :: "handlers \<Rightarrow> string \<Rightarrow> nat \<Rightarrow> claim_reply response api_io" where
  "claim_loop h nodeID 0 = return (WriteHeader 204)"
| "claim_loop h nodeID (Suc n) = do {
     r \<leftarrow> on_queue (ClaimTask (queue_codec h) (h_publisher h) nodeID);
     case r of
       Inl e \<Rightarrow> return (if errors_is e ErrNoCommandAvailable then WriteHeader 204 else writeError 500 ''task claim failed'')
     | Inr (task, commandID, attemptCount, maxAttempts) \<Rightarrow> do {
         s \<leftarrow> on_db (stale_reason task nodeID);
         case s of
           Inl msg \<Rightarrow> return (writeError 503 msg)
         | Inr reason \<Rightarrow>
             if reason \<noteq> '''' then do {
               k \<leftarrow> on_queue (CancelCommandForNode commandID nodeID reason);
               case k of
                 Inl _ \<Rightarrow> return (writeError 500 ''stale task cancellation failed'')
               | Inr _ \<Rightarrow> claim_loop h nodeID n
             }
             else return (writeJSON 200 \<lparr>cr_command_id = commandID, cr_task = task, cr_attempt_count = attemptCount,
                    cr_max_attempts = maxAttempts\<rparr>)
       }
   }"

definition maxDiscardedTerminalTasks :: nat where "maxDiscardedTerminalTasks = 128"

definition HandleTaskClaim :: "handlers \<Rightarrow> string \<Rightarrow> string option \<Rightarrow> string option \<Rightarrow> claim_reply response api_io" where
  "HandleTaskClaim h meth body auth =
     (if meth \<noteq> ''POST'' then return (WriteHeader 405)
      else case body of
        None \<Rightarrow> return (writeError 400 ''Invalid JSON payload'')
      | Some nodeID \<Rightarrow>
          if nodeID = '''' then return (writeError 400 ''node_id is required'')
          else if auth \<noteq> Some nodeID then return (writeError 403 ''node_id does not match authenticated node'')
          else claim_loop h nodeID maxDiscardedTerminalTasks)"

section \<open>Reports on a claimed task\<close>

fun index_of :: "string \<Rightarrow> string \<Rightarrow> nat option" where
  "index_of [] t = (if t = [] then Some 0 else None)"
| "index_of (c # cs) t = (if HasPrefix (c # cs) t then Some 0 else map_option Suc (index_of cs t))"

definition TrimPrefix :: "string \<Rightarrow> string \<Rightarrow> string" where
  "TrimPrefix s p = (if HasPrefix s p then drop (length p) s else s)"

definition extractPathParam :: "string \<Rightarrow> string \<Rightarrow> string \<Rightarrow> string" where
  "extractPathParam path prefix suffix = (let s = TrimPrefix path prefix in
     case index_of s suffix of Some i \<Rightarrow> if i > 0 then take i s else '''' | None \<Rightarrow> '''')"

text \<open>The three handlers differ in the last part of the path and in the call they make.\<close>

definition command_handler ::
  "string \<Rightarrow> string \<Rightarrow> (string \<Rightarrow> string \<Rightarrow> unit queue_io) \<Rightarrow> string \<Rightarrow> string \<Rightarrow> string option \<Rightarrow> unit response api_io" where
  "command_handler suffix failure call meth path auth =
     (if meth \<noteq> ''POST'' then return (WriteHeader 405)
      else let commandID = extractPathParam path ''/api/v1/fleet/tasks/'' suffix in
        if commandID = '''' then return (writeError 400 ''missing command id'')
        else case auth of
          None \<Rightarrow> return (writeError 403 ''missing node identity'')
        | Some nodeID \<Rightarrow> do {
            r \<leftarrow> on_queue (call commandID nodeID);
            return (case r of
              Inl e \<Rightarrow> if errors_is e ErrCommandNotOwned then writeError 403 ''command does not belong to node''
                  else writeError 500 failure
            | Inr _ \<Rightarrow> writeJSON 200 ())
          })"

definition HandleTaskRunning :: "string \<Rightarrow> string \<Rightarrow> string option \<Rightarrow> unit response api_io" where
  "HandleTaskRunning = command_handler ''/running'' ''failed to mark task running'' MarkRunningForNode"

definition HandleTaskRenewLease :: "string \<Rightarrow> string \<Rightarrow> string option \<Rightarrow> unit response api_io" where
  "HandleTaskRenewLease = command_handler ''/renew-lease'' ''failed to renew lease'' RenewLeaseForNode"

text \<open>The reason is empty when the body does not decode.\<close>

definition HandleTaskDiscard :: "string \<Rightarrow> string \<Rightarrow> string option \<Rightarrow> string \<Rightarrow> unit response api_io" where
  "HandleTaskDiscard meth path auth reason = command_handler ''/discard'' ''failed to discard task''
     (\<lambda>commandID nodeID. DiscardCommandForNode commandID nodeID reason) meth path auth"

section \<open>Images for a node\<close>

definition add_images :: "handlers \<Rightarrow> string set \<Rightarrow> AppDefinition \<Rightarrow> string list \<Rightarrow> string list" where
  "add_images h appNames app images =
     (if ad_Status app \<noteq> ''active'' then images
      else if appNames \<noteq> {} \<and> ad_Name app \<notin> appNames then images
      else case h_yaml h (ad_RawYAML app) of
        None \<Rightarrow> images
      | Some payload \<Rightarrow> images @ filter (\<lambda>image. image \<noteq> '''') (map (\<lambda>(_, svc). TrimSpace (svc_Image svc)) (app_Services payload)))"

definition HandleOCIImages ::
  "handlers \<Rightarrow> string \<Rightarrow> string \<Rightarrow> string option \<Rightarrow> (store conn, string list response) state" where
  "HandleOCIImages h meth queryNodeID auth =
     (if meth \<noteq> ''GET'' then return (WriteHeader 405)
      else case auth of
        None \<Rightarrow> return (writeError 403 ''missing node identity'')
      | Some nodeID \<Rightarrow>
          if TrimSpace nodeID = '''' then return (writeError 403 ''missing node identity'')
          else let requested = TrimSpace queryNodeID in
            if requested \<noteq> '''' \<and> requested \<noteq> nodeID then return (writeError 403 ''node_id does not match authenticated node'')
            else do {
              a \<leftarrow> GetAppDefinitions;
              case a of
                Inl _ \<Rightarrow> return (writeError 500 ''failed to list OCI images'')
              | Inr apps \<Rightarrow> do {
                  i \<leftarrow> GetCustomerApps '''';
                  return (case i of
                    Inl _ \<Rightarrow> writeError 500 ''failed to list node OCI images''
                  | Inr instances \<Rightarrow>
                      (let appNames = set (map (\<lambda>v. ca_AppDefinitionName (av_App v))
                         (filter (\<lambda>v. ca_NodeID (av_App v) = Some nodeID \<and> ca_TechnicalStatus (av_App v) \<noteq> ''deprovisioned'') instances))
                       in writeJSON 200 (sort (remdups (fold (add_images h appNames) apps [])))))
                }
            })"

end
