(* ===== verification/Fleet_Callback.thy ===== *)
theory Fleet_Callback
  imports Fleet
begin

text \<open>
  The result of a task: \<^verbatim>\<open>HandleFleetCallback\<close> of \<^verbatim>\<open>src/internal/api/handlers_fleet.go\<close> and the functions it
  calls.  The errors that the source only logs are dropped.
\<close>

section \<open>What the node reports\<close>

definition parseHostPortsFromMetadata :: "handlers \<Rightarrow> string \<Rightarrow> (string \<times> int) list" where
  "parseHostPortsFromMetadata h metadata = (case h_meta_host_ports h metadata of None \<Rightarrow> [] | Some ports \<Rightarrow> ports)"

definition parseSetupMetadata :: "handlers \<Rightarrow> string \<Rightarrow> setupCallbackMetadata" where
  "parseSetupMetadata h metadata = (let zero = \<lparr>sm_HasSetup = False, sm_SetupFailed = False, sm_SetupError = ''''\<rparr> in
     if metadata = '''' then zero else case h_meta_setup h metadata of None \<Rightarrow> zero | Some d \<Rightarrow> d)"

text \<open>The images that the services of an instance must run, from the operation or else the definition.\<close>

definition expected_images :: "handlers \<Rightarrow> Operation \<Rightarrow> AppView \<Rightarrow> strmap db" where
  "expected_images h op inst =
     (let kept = (case op_Metadata op of None \<Rightarrow> [] | Some md \<Rightarrow> om_ImageDefinitions md);
          name = ca_AppDefinitionName (av_App inst)
      in if kept \<noteq> [] then return (Inr kept)
         else do {
           r \<leftarrow> GetAppDefinition name;
           return (case r of
             Inl e \<Rightarrow> Inl (Wrap ''load app definition for image verification: '' e)
           | Inr None \<Rightarrow> Inl (Plain (''app definition '' @ quoted name @ '' not found for image verification''))
           | Inr (Some ad) \<Rightarrow> (case h_yaml h (ad_RawYAML ad) of
               None \<Rightarrow> Inl (Wrap ''parse app definition for image verification: '' (Plain ''yaml''))
             | Some payload \<Rightarrow> Inr (map (\<lambda>(n, svc). (n, svc_Image svc))
                 (filter (\<lambda>(_, svc). TrimSpace (svc_SetupCommand svc) = '''') (app_Services payload)))))
         })"

definition check_image :: "(string \<times> restartImageEvidence) list \<Rightarrow> string \<times> string \<Rightarrow> unit \<Rightarrow> err + unit" where
  "check_image images expected _ = (case expected of (name, expectedImage) \<Rightarrow> (case map_of images name of
     None \<Rightarrow> Inl (Plain (''Fleet did not verify image for service '' @ quoted name))
   | Some evidence \<Rightarrow>
       if \<not> ImageReferencesEqual (ie_ImageRef evidence) expectedImage
       then Inl (Plain (''service '' @ quoted name @ '' started with image '' @ quoted (ie_ImageRef evidence) @
              '', expected '' @ quoted expectedImage))
       else if \<not> HasPrefix (TrimSpace (ie_ImageID evidence)) ''sha256:''
       then Inl (Plain (''service '' @ quoted name @ '' did not report an immutable image ID''))
       else if TrimSpace (ie_ContainerID evidence) = ''''
       then Inl (Plain (''service '' @ quoted name @ '' did not report a container ID''))
       else Inr ()))"

text \<open>The services are checked in the order of the list; the order only decides which error is reported.\<close>

definition validateRestartImageEvidence :: "handlers \<Rightarrow> Operation \<Rightarrow> string \<Rightarrow> unit db" where
  "validateRestartImageEvidence h op metadata = do {
     r \<leftarrow> GetCustomerApp (op_instance op);
     case r of
       Inl e \<Rightarrow> return (Inl (Wrap ''load instance restart state: '' e))
     | Inr None \<Rightarrow> return (Inr ())
     | Inr (Some inst) \<Rightarrow>
         if \<not> ca_NeedRestarting (av_App inst) then return (Inr ())
         else (case h_meta_images h metadata of
           None \<Rightarrow> return (Inl (Wrap ''parse image verification metadata: '' (Plain ''json'')))
         | Some images \<Rightarrow>
             if images = [] then return (Inl (Plain ''Fleet did not provide image verification metadata''))
             else do {
               x \<leftarrow> expected_images h op inst;
               return (case x of Inl e \<Rightarrow> Inl e | Inr expected \<Rightarrow> for_each (check_image images) expected ())
             })
   }"

section \<open>Backups\<close>

definition pending_backup :: "BackupRecord list \<Rightarrow> BackupRecord option" where
  "pending_backup recs = find (\<lambda>r. br_Status r = ''pending'') recs"

definition backup_of_callback :: "handlers \<Rightarrow> Operation \<Rightarrow> backup_callback \<Rightarrow> (store conn, string) state" where
  "backup_of_callback h op cb = (if bc_BackupID cb \<noteq> '''' then return (bc_BackupID cb) else do {
     r \<leftarrow> GetBackupRecords (h_rfc3339 h) (op_instance op);
     return (case r of Inl _ \<Rightarrow> '''' | Inr recs \<Rightarrow> (case pending_backup recs of None \<Rightarrow> '''' | Some b \<Rightarrow> br_ID b))
   })"

definition completed_backup :: "handlers \<Rightarrow> int \<Rightarrow> backup_callback \<Rightarrow> BackupRecord \<Rightarrow> BackupRecord" where
  "completed_backup h t cb b = (let cleaned = Clean (bc_StorageKey cb) in
     b\<lparr>br_Status := ''succeeded'', br_SizeBytes := bc_SizeBytes cb, br_ChecksumSHA256 := bc_ChecksumSHA256 cb,
       br_StorageBackend := (if bc_StorageBackend cb \<noteq> '''' then bc_StorageBackend cb else br_StorageBackend b),
       br_StorageKey := (if bc_StorageKey cb \<noteq> '''' \<and> bc_StorageBackend cb = ''local''
           \<and> \<not> (IsAbs cleaned \<or> HasPrefix cleaned ''..'') then bc_StorageKey cb else br_StorageKey b),
       br_CompletedAt := h_rfc3339 h t, br_ExpiresAt := h_rfc3339 h (t + seconds (30 * 24 * 3600))\<rparr>)"

definition handleBackupCallback :: "handlers \<Rightarrow> Operation \<Rightarrow> TaskResult \<Rightarrow> bool \<Rightarrow> (store conn, unit) state" where
  "handleBackupCallback h op res success = (if success then
     (let cb = h_meta_backup h (tr_Metadata res) in do {
        bkID \<leftarrow> backup_of_callback h op cb;
        if bkID = '''' then return ()
        else do {
          r \<leftarrow> GetBackupRecord (h_rfc3339 h) bkID;
          case r of
            Inr (Some b) \<Rightarrow> do {
              t \<leftarrow> now;
              _ \<leftarrow> UpdateBackupRecord (h_time_of_rfc3339 h) (completed_backup h t cb b);
              return () }
          | _ \<Rightarrow> return ()
        }
      })
   else do {
     r \<leftarrow> GetBackupRecords (h_rfc3339 h) (op_instance op);
     case r of
       Inl _ \<Rightarrow> return ()
     | Inr recs \<Rightarrow> (case pending_backup recs of
         None \<Rightarrow> return ()
       | Some b \<Rightarrow> do {
           _ \<leftarrow> UpdateBackupRecord (h_time_of_rfc3339 h) (b\<lparr>br_Status := ''failed''\<rparr>);
           return () })
   })"

section \<open>Capacity and routes\<close>

definition maxInt64 :: "int \<Rightarrow> int \<Rightarrow> int" where
  "maxInt64 v least = (if v < least then least else v)"

definition release_and_recompute :: "string \<Rightarrow> int \<Rightarrow> int \<Rightarrow> (store conn, unit) state" where
  "release_and_recompute nodeID ram disk = do {
     r \<leftarrow> ReleaseNodeCommitment nodeID ram disk;
     case r of
       Inl _ \<Rightarrow> return ()
     | Inr _ \<Rightarrow> do { _ \<leftarrow> recomputeNodePolicy nodeID; return () }
   }"

text \<open>What an instance occupies on its node is given back, when its tier can be read.\<close>

definition release_instance :: "handlers \<Rightarrow> AppView \<Rightarrow> (store conn, unit) state" where
  "release_instance h inst = (case ca_NodeID (av_App inst) of
     None \<Rightarrow> return ()
   | Some nodeID \<Rightarrow> (case h_tier_of_json h (ca_TierSnapshotJSON (av_App inst)) of
       None \<Rightarrow> return ()
     | Some tier \<Rightarrow> (let ram = ParseSizeBytes (h_parse_float h) (at_Memory tier);
           disk = ParseSizeBytes (h_parse_float h) (at_Storage tier)
         in if ram > 0 \<and> disk > 0 then release_and_recompute nodeID ram disk else return ())))"

fun fail_routes :: "string \<Rightarrow> string \<Rightarrow> PublicRoute list \<Rightarrow> (store conn, unit) state" where
  "fail_routes instanceID errMsg [] = return ()"
| "fail_routes instanceID errMsg (route # routes) =
     (if or_empty (r_AppInstanceID route) \<noteq> instanceID then fail_routes instanceID errMsg routes
      else do {
        t \<leftarrow> now;
        _ \<leftarrow> UpdatePublicRoute (Some (route\<lparr>r_Status := ''failed'', r_LastError := errMsg,
          r_LastHealthCheckedAt := Some t, r_LastHealthStatus := ''unhealthy''\<rparr>));
        fail_routes instanceID errMsg routes
      })"

definition releaseCapacityAndFailRoutes :: "handlers \<Rightarrow> string \<Rightarrow> string \<Rightarrow> unit db" where
  "releaseCapacityAndFailRoutes h instanceID errMsg = do {
     i \<leftarrow> GetCustomerApp instanceID;
     _ \<leftarrow> (case i of Inr (Some inst) \<Rightarrow> release_instance h inst | _ \<Rightarrow> return ());
     case h_networking h of
       None \<Rightarrow> return (Inr ())
     | Some net \<Rightarrow> do {
         r \<leftarrow> GetPublicRoutes;
         _ \<leftarrow> (case r of Inl _ \<Rightarrow> return () | Inr routes \<Rightarrow> fail_routes instanceID errMsg routes);
         s \<leftarrow> Sync net;
         return (only_panic s)
       }
   }"

section \<open>Resizing\<close>

definition zero_tier :: AppTier where
  "zero_tier = \<lparr>at_AppName = '''', at_Name = '''', at_CPU = Fin 0, at_Memory = '''', at_Storage = '''',
     at_PriceMonthly = Fin 0, at_Free = False, at_Environment = [], at_BackupPolicyJSON = ''''\<rparr>"

definition parseResizeTargetTier :: "handlers \<Rightarrow> string \<Rightarrow> AppTier option" where
  "parseResizeTargetTier h metadata =
     (if TrimSpace metadata = '''' then None
      else case h_meta_resize h metadata of
        None \<Rightarrow> None
      | Some (action, target) \<Rightarrow>
          if action \<noteq> ActionResizeApp \<or> ti_Name target = '''' then None
          else Some (zero_tier\<lparr>at_Name := ti_Name target, at_CPU := ti_CPU target, at_Memory := ti_Memory target,
                 at_Storage := ti_Storage target, at_Environment := ti_Environment target\<rparr>))"

text \<open>\<open>resize_snapshot\<close> is \<^verbatim>\<open>op.Metadata.ResizeTargetTier\<close>, when there is one.\<close>

definition resize_snapshot :: "Operation \<Rightarrow> AppTier option" where
  "resize_snapshot op = (case op_Metadata op of None \<Rightarrow> None | Some md \<Rightarrow> om_ResizeTargetTier md)"

definition resolvedResizeTargetTier :: "Operation \<Rightarrow> AppTier \<Rightarrow> AppTier list \<Rightarrow> AppTier option" where
  "resolvedResizeTargetTier op callbackTier currentTiers = (case resize_snapshot op of
     Some target \<Rightarrow> if at_Name target \<noteq> at_Name callbackTier then None else Some target
   | None \<Rightarrow> map_option (\<lambda>tier. tier\<lparr>at_CPU := at_CPU callbackTier, at_Memory := at_Memory callbackTier,
       at_Storage := at_Storage callbackTier, at_Environment := at_Environment callbackTier\<rparr>)
       (find (\<lambda>tier. at_Name tier = at_Name callbackTier) currentTiers))"

definition currentTierFromInstance :: "handlers \<Rightarrow> CustomerApp \<Rightarrow> AppTier" where
  "currentTierFromInstance h app =
     (if TrimSpace (ca_TierSnapshotJSON app) = '''' then zero_tier
      else case h_tier_of_json h (ca_TierSnapshotJSON app) of None \<Rightarrow> zero_tier | Some tier \<Rightarrow> tier)"

definition release_difference :: "string \<Rightarrow> int \<Rightarrow> int \<Rightarrow> (store conn, unit) state" where
  "release_difference nodeID ram disk = (if ram > 0 \<or> disk > 0
     then release_and_recompute nodeID (maxInt64 ram 0) (maxInt64 disk 0) else return ())"

definition resize_succeeded :: "handlers \<Rightarrow> Operation \<Rightarrow> CustomerApp \<Rightarrow> string \<Rightarrow> AppTier \<Rightarrow> (store conn, unit) state" where
  "resize_succeeded h op inst nodeID callbackTier = do {
     t \<leftarrow> (if resize_snapshot op = None then GetAppTiers (ca_AppDefinitionName inst) else return (Inr []));
     case t of
       Inl _ \<Rightarrow> return ()
     | Inr currentTiers \<Rightarrow> (case resolvedResizeTargetTier op callbackTier currentTiers of
         None \<Rightarrow> return ()
       | Some target \<Rightarrow> (let size = ParseSizeBytes (h_parse_float h); current = currentTierFromInstance h inst in do {
           _ \<leftarrow> (case h_json_of_tier h target of
                  None \<Rightarrow> return (Inr ())
                | Some json \<Rightarrow> UpdateCustomerAppTier (op_instance op) (at_Name target) json);
           release_difference nodeID (wrap64 (size (at_Memory current) - size (at_Memory target)))
             (wrap64 (size (at_Storage current) - size (at_Storage target)))
         }))
   }"

definition handleResizeCallback :: "handlers \<Rightarrow> Operation \<Rightarrow> TaskResult \<Rightarrow> bool \<Rightarrow> (store conn, unit) state" where
  "handleResizeCallback h op res success = (case parseResizeTargetTier h (tr_Metadata res) of
     None \<Rightarrow> return ()
   | Some target \<Rightarrow> do {
       r \<leftarrow> GetCustomerApp (op_instance op);
       case r of
         Inr (Some inst) \<Rightarrow> (case ca_NodeID (av_App inst) of
           None \<Rightarrow> return ()
         | Some nodeID \<Rightarrow>
             if success then resize_succeeded h op (av_App inst) nodeID target
             else (let size = ParseSizeBytes (h_parse_float h); current = currentTierFromInstance h (av_App inst) in
               release_difference nodeID (wrap64 (size (at_Memory target) - size (at_Memory current)))
                 (wrap64 (size (at_Storage target) - size (at_Storage current)))))
       | _ \<Rightarrow> return ()
     })"

section \<open>Cleaning up after a failed setup\<close>

text \<open>\<open>fresh\<close> are the random bytes for the cleanup's operation and task, and the entropy of its publication.\<close>

record fresh =
  fr_op :: "byte list"
  fr_task :: "byte list"
  fr_entropy :: entropy

definition cleanup_target :: "handlers \<Rightarrow> Operation \<Rightarrow> (CustomerApp \<times> string \<times> AppDefinition) db" where
  "cleanup_target h op = do {
     i \<leftarrow> GetCustomerApp (op_instance op);
     case i of
       Inl e \<Rightarrow> return (Inl (Wrap ''load instance for setup cleanup: '' e))
     | Inr None \<Rightarrow> return (Inl (Plain (''instance '' @ quoted (op_instance op) @ '' not found for setup cleanup'')))
     | Inr (Some inst) \<Rightarrow> (let nodeID = (case ca_NodeID (av_App inst) of None \<Rightarrow> '''' | Some n \<Rightarrow> n);
           name = ca_AppDefinitionName (av_App inst)
         in if nodeID = '''' then return (Inl (Plain (''instance '' @ quoted (op_instance op) @ '' has no node assigned for setup cleanup'')))
            else do {
              d \<leftarrow> GetAppDefinition name;
              return (case d of
                Inl e \<Rightarrow> Inl (Wrap ''load app definition for setup cleanup: '' e)
              | Inr None \<Rightarrow> Inl (Plain (''app definition '' @ quoted name @ '' not found for setup cleanup''))
              | Inr (Some ad) \<Rightarrow> (case h_yaml h (ad_RawYAML ad) of
                  None \<Rightarrow> Inl (Wrap ''parse app definition for setup cleanup: '' (Plain ''yaml''))
                | Some _ \<Rightarrow> Inr (av_App inst, nodeID, ad)))
            })
   }"

definition enqueueSetupFailureCleanup :: "handlers \<Rightarrow> fresh \<Rightarrow> Operation \<Rightarrow> (err + unit) api_io" where
  "enqueueSetupFailureCleanup h fr op = do {
     x \<leftarrow> on_db (cleanup_target h op);
     case x of
       Inl e \<Rightarrow> return (Inl e)
     | Inr (inst, nodeID, ad) \<Rightarrow>
         (let current = currentTierFromInstance h inst;
              tier = (if at_Name current = '''' then zero_tier\<lparr>at_Name := ca_TierName inst\<rparr> else current);
              cleanupOpID = generateID ''op'' (fr_op fr)
          in do {
            r \<leftarrow> on_db (CreateOperation cleanupOpID (op_instance op) nodeID ActionDeprovisionApp ''pending_dispatch'' ''system'');
            case r of
              Inl e \<Rightarrow> return (Inl (Wrap ''create setup cleanup operation: '' e))
            | Inr _ \<Rightarrow> do {
                enqueueTask h (fr_entropy fr) (fr_task fr) cleanupOpID (op_instance op) nodeID (ca_CustomerID inst)
                  (ad_RawYAML ad) tier ActionDeprovisionApp '''' ''''
              }
          })
   }"

section \<open>The callback\<close>

definition failFleetCallbackTask :: "string \<Rightarrow> string \<Rightarrow> unit api_io" where
  "failFleetCallbackTask taskID reason = (if taskID = '''' then return () else do {
     _ \<leftarrow> on_queue (CompleteTask taskID False reason);
     return ()
   })"

text \<open>A callback that does not fit its operation fails both.\<close>

definition reject_callback :: "Operation \<Rightarrow> string \<Rightarrow> string \<Rightarrow> bool response api_io" where
  "reject_callback op reason msg = do {
     _ \<leftarrow> failFleetCallbackTask (op_TaskID op) reason;
     _ \<leftarrow> on_db (UpdateOperation (op_ID op) ''failed'' reason);
     return (writeError 403 msg)
   }"

definition settle_duplicate :: "Operation \<Rightarrow> TaskResult \<Rightarrow> bool response api_io" where
  "settle_duplicate op res = do {
     _ \<leftarrow> on_queue (if op_Status op = ''succeeded'' then AcknowledgeTaskForNode (tr_TaskID res) (tr_NodeID res)
            else CancelTaskForNode (tr_TaskID res) (tr_NodeID res) (''operation is terminal: '' @ op_Status op));
     return (writeJSON 200 True)
   }"

text \<open>A reported success counts as a failure when the images are wrong or the ports cannot be kept.\<close>

definition verify_result :: "handlers \<Rightarrow> Operation \<Rightarrow> TaskResult \<Rightarrow> (store conn, TaskResult) state" where
  "verify_result h op res =
     (if tr_Success res \<and> (op_Action op = ActionStartApp \<or> op_Action op = ActionResumeApp \<or> op_Action op = ActionReactivateApp)
      then do {
        v \<leftarrow> validateRestartImageEvidence h op (tr_Metadata res);
        return (case v of Inl e \<Rightarrow> res\<lparr>tr_Success := False, tr_Error := h_error_text h e\<rparr> | Inr _ \<Rightarrow> res)
      }
      else return res)"

definition keep_ports :: "handlers \<Rightarrow> Operation \<Rightarrow> TaskResult \<Rightarrow> (store conn, TaskResult) state" where
  "keep_ports h op res = (case op_Metadata op of
     None \<Rightarrow> return res
   | Some md \<Rightarrow>
       if tr_Success res \<and> isMigrationSuboperation (Some op) \<and> (op_Action op = ActionStartApp \<or> op_Action op = ActionResumeApp)
       then do {
         u \<leftarrow> UpdateOperationMetadata (op_ID op) (Some (md\<lparr>om_HostPorts := parseHostPortsFromMetadata h (tr_Metadata res)\<rparr>));
         return (case u of
           Inl _ \<Rightarrow> res\<lparr>tr_Success := False, tr_Error := ''failed to persist migration target ports''\<rparr>
         | Inr _ \<Rightarrow> res)
       }
       else return res)"

text \<open>From here on, the result of a step is an error only when it panics.\<close>

definition activate_routes :: "handlers \<Rightarrow> Operation \<Rightarrow> TaskResult \<Rightarrow> unit db" where
  "activate_routes h op res = (case h_networking h of
     None \<Rightarrow> return (Inr ())
   | Some net \<Rightarrow>
       if isMigrationSuboperation (Some op) then return (Inr ())
       else do { r \<leftarrow> ActivateInstanceRoutes net (op_instance op) (parseHostPortsFromMetadata h (tr_Metadata res)); return (only_panic r) })"

definition deprovisioned :: "handlers \<Rightarrow> Operation \<Rightarrow> unit db" where
  "deprovisioned h op = do {
     i \<leftarrow> GetCustomerApp (op_instance op);
     let inst = (case i of Inl _ \<Rightarrow> None | Inr x \<Rightarrow> x);
     let preserveSetupFailed = (case inst of None \<Rightarrow> False | Some v \<Rightarrow> ca_TechnicalStatus (av_App v) = ''setup_failed'');
     _ \<leftarrow> UpdateCustomerAppStatus (op_instance op) ''cancelled'' (if preserveSetupFailed then '''' else ''deprovisioned'');
     _ \<leftarrow> (case inst of Some v \<Rightarrow> if preserveSetupFailed then return () else release_instance h v | None \<Rightarrow> return ());
     case h_networking h of
       None \<Rightarrow> return (Inr ())
     | Some net \<Rightarrow> do { r \<leftarrow> DeleteInstanceRoutes net (op_instance op); return (only_panic r) }
   }"

text \<open>The effects of a success; the result is the instance's next technical status.\<close>

definition callback_succeeded :: "handlers \<Rightarrow> Operation \<Rightarrow> TaskResult \<Rightarrow> string db" where
  "callback_succeeded h op res = (let action = op_Action op; sub = isMigrationSuboperation (Some op);
       status = (\<lambda>s r. case r of Inl e \<Rightarrow> Inl e | Inr _ \<Rightarrow> Inr s) in
     if action = ActionProvisionApp then do {
       _ \<leftarrow> (if sm_HasSetup (parseSetupMetadata h (tr_Metadata res)) \<and> \<not> sub then SetSetupCompleted (op_instance op) else return (Inr ()));
       r \<leftarrow> activate_routes h op res;
       return (status ''running'' r) }
     else if action = ActionStartApp \<or> action = ActionResumeApp \<or> action = ActionReactivateApp then do {
       _ \<leftarrow> (if sub then return (Inr ()) else ClearCustomerAppRestartRequired (op_instance op));
       r \<leftarrow> activate_routes h op res;
       return (status ''running'' r) }
     else if action = ActionStopApp \<or> action = ActionPauseApp then return (Inr ''stopped'')
     else if action = ActionPauseAppStorage then return (Inr ''paused_for_storage'')
     else if action = ActionResizeApp then do { _ \<leftarrow> handleResizeCallback h op res True; return (Inr ''running'') }
     else if action = ActionDeprovisionApp then
       (if sub then return (Inr '''') else do { r \<leftarrow> deprovisioned h op; return (status '''' r) })
     else if action = ActionRestoreBackup then return (Inr ''paused'')
     else if action = ActionInspectApp then do {
       _ \<leftarrow> (if tr_Metadata res \<noteq> '''' then UpdateCustomerAppInspectData (op_instance op) (tr_Metadata res) else return (Inr ()));
       return (Inr '''') }
     else if action = ActionBackupDatabase \<or> action = ActionBackupVolumes then do {
       _ \<leftarrow> handleBackupCallback h op res True;
       return (Inr ''running'') }
     else return (Inr ''''))"

definition provision_failed :: "handlers \<Rightarrow> fresh \<Rightarrow> Operation \<Rightarrow> TaskResult \<Rightarrow> (err + string) api_io" where
  "provision_failed h fr op res =
     (if sm_SetupFailed (parseSetupMetadata h (tr_Metadata res)) then do {
        _ \<leftarrow> on_db (UpdateCustomerAppStatus (op_instance op) ''cancelled'' '''');
        c \<leftarrow> enqueueSetupFailureCleanup h fr op;
        case only_panic c of
          Inl e \<Rightarrow> return (Inl e)
        | Inr _ \<Rightarrow> do {
            r \<leftarrow> on_db (releaseCapacityAndFailRoutes h (op_instance op) (tr_Error res));
            return (case r of Inl e \<Rightarrow> Inl e | Inr _ \<Rightarrow> Inr ''setup_failed'') } }
      else do {
        r \<leftarrow> on_db (releaseCapacityAndFailRoutes h (op_instance op) (tr_Error res));
        return (case r of Inl e \<Rightarrow> Inl e | Inr _ \<Rightarrow> Inr ''failed'') })"

definition callback_failed :: "handlers \<Rightarrow> fresh \<Rightarrow> Operation \<Rightarrow> TaskResult \<Rightarrow> (err + string) api_io" where
  "callback_failed h fr op res = (let action = op_Action op; sub = isMigrationSuboperation (Some op) in
     if action = ActionBackupDatabase \<or> action = ActionBackupVolumes then do {
       _ \<leftarrow> on_db (handleBackupCallback h op res False);
       return (Inr (if sub then '''' else ''running'')) }
     else if action = ActionRestoreBackup then return (Inr (if sub then '''' else ''paused''))
     else if action = ActionProvisionApp \<and> \<not> sub then provision_failed h fr op res
     else do {
       _ \<leftarrow> (if action = ActionResizeApp then on_db (handleResizeCallback h op res False) else return ());
       return (Inr (if sub then '''' else ''failed'')) })"

text \<open>The status and the effects of a result, after the operation has been closed.\<close>

definition settle_effects :: "handlers \<Rightarrow> fresh \<Rightarrow> Operation \<Rightarrow> TaskResult \<Rightarrow> bool response api_io" where
  "settle_effects h fr op res = do {
     x \<leftarrow> (if tr_Success res then on_db (callback_succeeded h op res) else callback_failed h fr op res);
     case x of
       Inl _ \<Rightarrow> return Panicked
     | Inr nextTechStatus \<Rightarrow> do {
         _ \<leftarrow> (if nextTechStatus \<noteq> '''' \<and> op_Action op \<noteq> ActionDeprovisionApp \<and> \<not> isMigrationSuboperation (Some op)
              then on_db (UpdateCustomerAppStatus (op_instance op) '''' nextTechStatus) else return (Inr ()));
         return (writeJSON 200 False)
       }
   }"

definition settle :: "handlers \<Rightarrow> fresh \<Rightarrow> Operation \<Rightarrow> TaskResult \<Rightarrow> bool response api_io" where
  "settle h fr op res0 = do {
     res1 \<leftarrow> on_db (verify_result h op res0);
     res \<leftarrow> on_db (keep_ports h op res1);
     _ \<leftarrow> on_queue (CompleteTask (tr_TaskID res) (tr_Success res) (tr_Error res));
     _ \<leftarrow> on_db (UpdateOperation (tr_OperationID res) (if tr_Success res then ''succeeded'' else ''failed'') (tr_Error res));
     settle_effects h fr op res
   }"

text \<open>The reply of a success says whether the callback was a duplicate.\<close>

definition HandleFleetCallback ::
  "handlers \<Rightarrow> fresh \<Rightarrow> string \<Rightarrow> TaskResult option \<Rightarrow> string option \<Rightarrow> bool response api_io" where
  "HandleFleetCallback h fr meth body auth =
     (if meth \<noteq> ''POST'' then return (WriteHeader 405)
      else case body of
        None \<Rightarrow> return (writeError 400 ''Invalid JSON payload'')
      | Some res \<Rightarrow>
          if (case auth of None \<Rightarrow> False | Some n \<Rightarrow> n = '''' \<or> tr_NodeID res \<noteq> n) then do {
            _ \<leftarrow> failFleetCallbackTask (tr_TaskID res) ''callback node_id does not match authenticated node'';
            return (writeError 403 ''Callback node_id does not match authenticated node'') }
          else do {
            r \<leftarrow> on_db (GetOperation (tr_OperationID res));
            case (case r of Inl _ \<Rightarrow> None | Inr x \<Rightarrow> x) of
              None \<Rightarrow> do {
                _ \<leftarrow> failFleetCallbackTask (tr_TaskID res) ''callback references an unknown operation'';
                return (writeError 404 ''Operation not found for callback'') }
            | Some op \<Rightarrow>
                if terminal (op_Status op) then settle_duplicate op res
                else if op_NodeID op \<noteq> '''' \<and> op_NodeID op \<noteq> tr_NodeID res
                then reject_callback op ''callback node_id does not match operation'' ''Callback node_id does not match operation''
                else if op_TaskID op \<noteq> '''' \<and> op_TaskID op \<noteq> tr_TaskID res
                then reject_callback op ''callback task_id does not match operation'' ''Callback task_id does not match operation''
                else settle h fr op res
          })"

end
