(* ===== verification/Fleet_Props.thy ===== *)
theory Fleet_Props
  imports Fleet Queue_Nodes Secrets_Props
begin

text \<open>
  Properties of the protocol with the nodes: which tasks a claim delivers, and that the result of an
  operation takes effect once.
\<close>

section \<open>Calls and lookups\<close>

lemma on_db_eq: "run_state m (api_db s) = (x, c) \<Longrightarrow> run_state (on_db m) s = (x, s\<lparr>api_db := c\<rparr>)"
  by simp

lemma on_queue_eq: "run_state m (api_queue s) = (x, c) \<Longrightarrow> run_state (on_queue m) s = (x, s\<lparr>api_queue := c\<rparr>)"
  by simp

lemma api_swap: "s\<lparr>api_queue := q, api_db := d\<rparr> = s\<lparr>api_db := d, api_queue := q\<rparr>"
  by simp

lemma GetOperation_run:
  assumes "run_state (GetOperation oid) c = (r, c')"
  shows "tables c' = tables c \<and> same_clocks c c' \<and> (\<forall>op. r = Inr op \<longrightarrow> op = find_where (\<lambda>x. op_ID x = oid) (st_operations (tables c)))"
  using assms by (auto simp: GetOperation_def wrapped_def dest!: query_Inr query_Inl split: prod.splits sum.splits)

lemma app_rows_App: "v \<in> set (app_rows t d ca) \<Longrightarrow> av_App v = ca"
  by (auto simp: app_rows_def app_view_def split: list.splits)

lemma GetCustomerApp_run:
  assumes "run_state (GetCustomerApp aid) c = (r, c')"
  shows "tables c' = tables c \<and> same_clocks c c'
    \<and> (\<forall>v. r = Inr (Some v) \<longrightarrow> av_App v \<in> set (st_apps (tables c)) \<and> ca_ID (av_App v) = aid)"
proof -
  have "av_App v \<in> set (st_apps d) \<and> ca_ID (av_App v) = aid"
    if "concat (map (app_rows t d) (filter (\<lambda>a. ca_ID a = aid) (st_apps d))) = v # vs" for t d v vs
  proof -
    from that have "v \<in> set (concat (map (app_rows t d) (filter (\<lambda>a. ca_ID a = aid) (st_apps d))))" by simp
    then show ?thesis by (auto dest: app_rows_App)
  qed
  then show ?thesis
    using assms by (auto simp: GetCustomerApp_def wrapped_def dest!: query_Inr_sym query_Inl
        split: prod.splits sum.splits list.splits)
qed

section \<open>Claims\<close>

text \<open>
  What the store must say for a task to be handed to a node: its operation is still open and expects
  this very task, for this instance, action and node, and there is an instance to work on.
\<close>

definition deliverable :: "store \<Rightarrow> string \<Rightarrow> FleetTask \<Rightarrow> bool" where
  "deliverable d nodeID task \<longleftrightarrow>
     (\<exists>op \<in> set (st_operations d). op_ID op = ft_OperationID task \<and> \<not> terminal (op_Status op)
        \<and> op_instance op = ft_InstanceID task \<and> op_Action op = ft_Action task \<and> op_TaskID op = ft_TaskID task
        \<and> TrimSpace (op_TaskID op) \<noteq> '''' \<and> op_NodeID op \<in> {'''', nodeID} \<and> ft_NodeID task \<in> {'''', nodeID})
     \<and> (ft_Action task = ActionTestStorage
        \<or> (\<exists>a \<in> set (st_apps d). ca_ID a = ft_InstanceID task
             \<and> (ca_TechnicalStatus a \<noteq> ''deprovisioned'' \<or> ft_Action task = ActionDeleteBackup)))"

lemma staleTaskReason_empty:
  "staleTaskReason (Some task) op0 nodeID = '''' \<longleftrightarrow> (\<exists>op. op0 = Some op \<and> \<not> terminal (op_Status op)
     \<and> op_instance op = ft_InstanceID task \<and> op_Action op = ft_Action task \<and> op_TaskID op = ft_TaskID task
     \<and> TrimSpace (op_TaskID op) \<noteq> '''' \<and> op_NodeID op \<in> {'''', nodeID} \<and> ft_NodeID task \<in> {'''', nodeID})"
  by (cases op0) (auto simp: staleTaskReason_def)

lemma stale_reason_run:
  assumes "run_state (stale_reason task nodeID) c = (r, c')"
  shows "tables c' = tables c \<and> (r = Inr '''' \<longrightarrow> deliverable (tables c) nodeID task)"
proof -
  from assms obtain ro d where op: "run_state (GetOperation (ft_OperationID task)) c = (ro, d)" by fastforce
  note f = GetOperation_run [OF op]
  show ?thesis
  proof (cases ro)
    case (Inl e)
    with assms op f show ?thesis by (auto simp: stale_reason_def)
  next
    case (Inr op0)
    note ro = this
    let ?reason = "staleTaskReason (Some task) op0 nodeID"
    have mem: "op \<in> set (st_operations (tables c)) \<and> op_ID op = ft_OperationID task" if "op0 = Some op" for op
      using f ro that find_where_SomeD by (metis (mono_tags, lifting))
    show ?thesis
    proof (cases "?reason = '''' \<and> ft_Action task \<noteq> ActionTestStorage")
      case False
      with assms op ro have r: "r = Inr ?reason" "c' = d" by (auto simp: stale_reason_def Let_def)
      have "deliverable (tables c) nodeID task" if "?reason = ''''"
        using that False mem unfolding deliverable_def staleTaskReason_empty by blast
      with r f show ?thesis by simp
    next
      case True
      with assms op ro obtain ri where inst: "run_state (GetCustomerApp (ft_InstanceID task)) d = (ri, c')"
        and r: "r = (case ri of Inl _ \<Rightarrow> Inl ''task instance state unavailable'' | Inr inst \<Rightarrow> Inr (stale_instance task inst))"
        by (auto simp: stale_reason_def Let_def split: prod.splits)
      note g = GetCustomerApp_run [OF inst]
      have "deliverable (tables c) nodeID task" if "r = Inr ''''"
      proof -
        from that r obtain v where "ri = Inr (Some v)"
          "ca_TechnicalStatus (av_App v) \<noteq> ''deprovisioned'' \<or> ft_Action task = ActionDeleteBackup"
          by (auto simp: stale_instance_def split: sum.splits option.splits if_splits)
        with g f True mem show ?thesis unfolding deliverable_def staleTaskReason_empty by auto
      qed
      with f g show ?thesis by simp
    qed
  qed
qed

text \<open>A claim either leaves the store's rows alone, or hands out the command it has leased.\<close>

lemma claim_leases:
  assumes "queue_inv (tables s)" and "run_state (ClaimTask c p n) s = (Inr (task, cid, a, m), s')"
  shows "\<exists>row \<in> set (tables s'). fc_id row = cid \<and> fc_node_id row = n \<and> fc_status row = CommandLeased
    \<and> fc_attempt_count row = a \<and> fc_max_attempts row = m \<and> a \<le> m
    \<and> (\<exists>task0. decode_command c p (fc_payload row) = Inr task0 \<and> task = stamped row task0)"
proof -
  from assms(2) obtain r task0 where
    r: "next_command (db_clock s) n (reset_expired (db_clock s) n (tables s)) = Some r"
    "cid = fc_id r" "a = fc_attempt_count r + 1" "m = fc_max_attempts r"
    "decode_command c p (fc_payload r) = Inr task0" "task = stamped r task0"
    "tables s' = update_where (\<lambda>x. fc_id x = fc_id r) (lease (db_clock s) (consumer_of n s)) (reset_expired (db_clock s) n (tables s))"
    by (rule ClaimTask_Inr)
  from next_command_SomeD [OF r(1)] have "r \<in> set (reset_expired (db_clock s) n (tables s))" "claimable (db_clock s) n r" by auto
  with r show ?thesis
    by (intro bexI [of _ "lease (db_clock s) (consumer_of n s) r"])
      (auto simp: claimable_def stamped_def set_update_where)
qed

lemma claim_loop_delivers:
  assumes "run_state (claim_loop h n k) s = (writeJSON code r, s')" and "queue_inv (tables (api_queue s))"
  shows "code = 200 \<and> tables (api_db s') = tables (api_db s) \<and> deliverable (tables (api_db s)) n (cr_task r)
    \<and> filter (\<lambda>x. fc_node_id x \<noteq> n) (tables (api_queue s')) = filter (\<lambda>x. fc_node_id x \<noteq> n) (tables (api_queue s))
    \<and> (\<exists>row \<in> set (tables (api_queue s')). fc_id row = cr_command_id r \<and> fc_node_id row = n \<and> fc_status row = CommandLeased
        \<and> fc_attempt_count row = cr_attempt_count r \<and> fc_max_attempts row = cr_max_attempts r
        \<and> cr_attempt_count r \<le> cr_max_attempts r
        \<and> (\<exists>task0. decode_command (queue_codec h) (h_publisher h) (fc_payload row) = Inr task0 \<and> cr_task r = stamped row task0))"
  using assms
proof (induction k arbitrary: s)
  case 0
  then show ?case by simp
next
  case (Suc k)
  obtain x q1 where cl: "run_state (ClaimTask (queue_codec h) (h_publisher h) n) (api_queue s) = (x, q1)" by fastforce
  have "x \<noteq> Inl e" for e
    using Suc.prems(1) cl by (auto simp: on_queue_eq split: if_splits)
  then obtain task cid a m where x: "x = Inr (task, cid, a, m)" by (metis prod_cases4 sum.exhaust)
  note cl = cl [unfolded x]
  have inv: "queue_inv (tables q1)"
    using queue_step_inv [OF step_claim Suc.prems(2)] cl by (metis snd_conv)
  have others: "filter (\<lambda>x. fc_node_id x \<noteq> n) (tables q1) = filter (\<lambda>x. fc_node_id x \<noteq> n) (tables (api_queue s))"
    using isolated_claim [OF Suc.prems(2)] cl unfolding others_def by (metis snd_conv)
  obtain y d1 where st: "run_state (stale_reason task n) (api_db s) = (y, d1)" by fastforce
  note fields = stale_reason_run [OF st]
  show ?case
  proof (cases "y = Inr ''''")
    case True
    with Suc.prems(1) cl st have "code = 200" "s' = s\<lparr>api_queue := q1, api_db := d1\<rparr>"
      "r = \<lparr>cr_command_id = cid, cr_task = task, cr_attempt_count = a, cr_max_attempts = m\<rparr>"
      by (auto simp: on_queue_eq on_db_eq)
    with claim_leases [OF Suc.prems(2) cl] fields True others show ?thesis by simp
  next
    case False
    obtain z q2 where ca: "run_state (CancelCommandForNode cid n (projr y)) q1 = (z, q2)" by fastforce
    have "queue_inv (tables q2)" using queue_step_inv [OF step_cancel inv] ca by (metis snd_conv)
    moreover have "filter (\<lambda>x. fc_node_id x \<noteq> n) (tables q2) = filter (\<lambda>x. fc_node_id x \<noteq> n) (tables q1)"
      using isolatedD [OF isolated_node_updates(4)] ca unfolding others_def by (metis snd_conv)
    moreover from False Suc.prems(1) cl st ca
    have "run_state (claim_loop h n k) (s\<lparr>api_queue := q2, api_db := d1\<rparr>) = (writeJSON code r, s')"
      by (cases y; cases z) (auto simp: on_queue_eq on_db_eq api_swap)
    ultimately show ?thesis using Suc.IH [of "s\<lparr>api_queue := q2, api_db := d1\<rparr>"] fields others by simp
  qed
qed

text \<open>
  C38.  A node only receives current work.  When \<^verbatim>\<open>HandleTaskClaim\<close> delivers a task, the request was a
  \<^verbatim>\<open>POST\<close> for the authenticated node; the task belongs to an operation of the store that has not ended,
  expects exactly this task and agrees with it on instance, action and node; and its instance exists and
  is not deprovisioned (unless the action needs neither).  The command in the reply is leased to the
  node, holds this task, and counts the attempt that the reply reports.  The store and the commands of
  all other nodes are unchanged.
\<close>

theorem claim_delivers_current:
  assumes "queue_inv (tables (api_queue s))"
    and "run_state (HandleTaskClaim h meth body auth) s = (writeJSON code r, s')"
  shows "meth = ''POST'' \<and> code = 200 \<and> (\<exists>n. body = Some n \<and> auth = Some n \<and> n \<noteq> ''''
    \<and> deliverable (tables (api_db s)) n (cr_task r)
    \<and> (\<exists>row \<in> set (tables (api_queue s')). fc_id row = cr_command_id r \<and> fc_node_id row = n
        \<and> fc_status row = CommandLeased \<and> fc_attempt_count row = cr_attempt_count r
        \<and> fc_max_attempts row = cr_max_attempts r \<and> cr_attempt_count r \<le> cr_max_attempts r
        \<and> (\<exists>task0. decode_command (queue_codec h) (h_publisher h) (fc_payload row) = Inr task0 \<and> cr_task r = stamped row task0))
    \<and> filter (\<lambda>x. fc_node_id x \<noteq> n) (tables (api_queue s')) = filter (\<lambda>x. fc_node_id x \<noteq> n) (tables (api_queue s)))
    \<and> tables (api_db s') = tables (api_db s)"
proof -
  from assms(2) obtain n where n: "meth = ''POST''" "body = Some n" "n \<noteq> ''''" "auth = Some n"
    and run: "run_state (claim_loop h n maxDiscardedTerminalTasks) s = (writeJSON code r, s')"
    by (auto simp: HandleTaskClaim_def split: option.splits if_splits)
  from claim_loop_delivers [OF run assms(1)] n show ?thesis by simp
qed

definition demo_handlers :: handlers where
  "demo_handlers = \<lparr>h_codec = demo_crypto, h_publisher = demo_publisher, h_secrets = NewManager ''k'', h_networking = None,
     h_yaml = (\<lambda>_. None), h_url_host = (\<lambda>_. None), h_parse_float = (\<lambda>_. None), h_rfc3339 = (\<lambda>_. ''''),
     h_time_of_rfc3339 = (\<lambda>_. None), h_json_of_tier = (\<lambda>_. None), h_tier_of_json = (\<lambda>_. None),
     h_json_of_detail = (\<lambda>_. None), h_error_text = (\<lambda>_. ''error''), h_meta_host_ports = (\<lambda>_. None),
     h_meta_setup = (\<lambda>_. None), h_meta_images = (\<lambda>_. None),
     h_meta_backup = (\<lambda>_. \<lparr>bc_BackupID = '''', bc_StorageBackend = '''', bc_StorageKey = '''', bc_SizeBytes = 0,
        bc_ChecksumSHA256 = '''', bc_CompletedAt = ''''\<rparr>), h_meta_resize = (\<lambda>_. None)\<rparr>"

text \<open>The operation expects task \<^verbatim>\<open>t2\<close>; the older command for \<^verbatim>\<open>t1\<close> is stale.\<close>

definition demo_api :: api where
  "demo_api = \<lparr>api_db = demo_serving_conn\<lparr>tables := demo_serving\<lparr>st_operations :=
      [new_operation ''op1'' (Some ''i1'') ''n1'' ''t2'' ActionStartApp ''queued'' ''admin'' None 0]\<rparr>\<rparr>,
     api_queue = Queue_Props.demo_conn [demo_row ''c1'' ''t1'' CommandPending None 0, demo_row ''c2'' ''t2'' CommandPending None 0] 100\<rparr>"

lemma demo_api_claim:
  "fst (run_state (HandleTaskClaim demo_handlers ''POST'' (Some ''n1'') (Some ''n1'')) demo_api)
     = writeJSON 200 \<lparr>cr_command_id = ''c2'', cr_task = (demo_task ''t2'')\<lparr>ft_TaskSignature := ''ab'', ft_SignedAt := 1\<rparr>,
         cr_attempt_count = 1, cr_max_attempts = 5\<rparr>"
  by code_simp

lemma demo_api_inv: "queue_inv (tables (api_queue demo_api))"
  by (simp add: demo_api_def Queue_Props.demo_conn_def demo_row_def command_row_def demo_task_def queue_inv_def command_ok_def holds_lease_def)

theorem claim_delivers_current_witness:
  "deliverable (tables (api_db demo_api)) ''n1'' ((demo_task ''t2'')\<lparr>ft_TaskSignature := ''ab'', ft_SignedAt := 1\<rparr>)"
proof -
  obtain y s' where run: "run_state (HandleTaskClaim demo_handlers ''POST'' (Some ''n1'') (Some ''n1'')) demo_api = (y, s')"
    by fastforce
  with demo_api_claim have "y = writeJSON 200 \<lparr>cr_command_id = ''c2'',
      cr_task = (demo_task ''t2'')\<lparr>ft_TaskSignature := ''ab'', ft_SignedAt := 1\<rparr>, cr_attempt_count = 1, cr_max_attempts = 5\<rparr>" by simp
  from claim_delivers_current [OF demo_api_inv run [unfolded this]] show ?thesis by simp
qed

end
