(* ===== verification/Callback_Props.thy ===== *)
theory Callback_Props
  imports Fleet_Callback Fleet_Props
begin

text \<open>
  The result of an operation takes effect once.  The first half is a frame: nothing that
  follows the closing of an operation touches its row.
\<close>

section \<open>The rows of one operation\<close>

definition ops :: "string \<Rightarrow> store \<Rightarrow> Operation list" where
  "ops oid d = filter (\<lambda>x. op_ID x = oid) (st_operations d)"

lemma find_ops: "find_where (\<lambda>x. op_ID x = oid) (st_operations d) = (case ops oid d of [] \<Rightarrow> None | x # _ \<Rightarrow> Some x)"
proof -
  have "find p xs = (case filter p xs of [] \<Rightarrow> None | x # _ \<Rightarrow> Some x)" for p and xs :: "Operation list"
    by (induction xs) auto
  then show ?thesis by (simp add: find_where_def ops_def)
qed

lemma ops_update:
  "(\<And>x. p x \<Longrightarrow> op_ID (f x) = op_ID x) \<Longrightarrow>
   ops oid (d\<lparr>st_operations := update_where p f (st_operations d)\<rparr>) = update_where p f (ops oid d)"
proof -
  assume "\<And>x. p x \<Longrightarrow> op_ID (f x) = op_ID x"
  then have "filter (\<lambda>x. op_ID x = oid) (update_where p f xs) = update_where p f (filter (\<lambda>x. op_ID x = oid) xs)" for xs
    by (induction xs) (auto simp: update_where_def)
  then show ?thesis by (simp add: ops_def)
qed

lemma ops_update_other:
  assumes "\<And>x. p x \<Longrightarrow> op_ID x \<noteq> oid \<and> op_ID (f x) \<noteq> oid"
  shows "ops oid (d\<lparr>st_operations := update_where p f (st_operations d)\<rparr>) = ops oid d"
proof -
  have "filter (\<lambda>x. op_ID x = oid) (update_where p f xs) = filter (\<lambda>x. op_ID x = oid) xs" for xs
    using assms by (induction xs) (auto simp: update_where_def)
  then show ?thesis by (simp add: ops_def)
qed

interpretation ko: table_contract "\<lambda>_ d d'. ops oid d' = ops oid d" for oid
  by unfold_locales auto

abbreviation keeps_op :: "string \<Rightarrow> (store conn, 'a) state \<Rightarrow> bool" where
  "keeps_op oid \<equiv> state_io_rel (conn_rel (\<lambda>_ d d'. ops oid d' = ops oid d))"

named_theorems frame

lemma keeps_op_wrapped [frame]: "keeps_op oid m \<Longrightarrow> keeps_op oid (wrapped msg m)"
  unfolding wrapped_def by (intro ko.conn_rules)

lemma keeps_op_tables [frame]:
  "keeps_op oid (update_apps p fa)" "keeps_op oid (update_nodes pn fn)" "keeps_op oid (update_routes pr fr)"
  "keeps_op oid (delete_routes pr)" "keeps_op oid (update_backups bid fb)" "keeps_op oid (commit_update nid ram disk)"
  unfolding update_apps_def update_nodes_def update_routes_def delete_routes_def update_backups_def commit_update_def
  by (intro ko.conn_rules; auto simp: ops_def split: if_splits)+

lemma keeps_op_operations:
  "oid' \<noteq> oid \<Longrightarrow> keeps_op oid (UpdateOperation oid' status msg)"
  "oid' \<noteq> oid \<Longrightarrow> keeps_op oid (UpdateOperationMetadata oid' md)"
  "oid' \<noteq> oid \<Longrightarrow> keeps_op oid (UpdateOperationTaskID oid' tid)"
  "oid' \<noteq> oid \<Longrightarrow> keeps_op oid (MarkOperationQueuedIfPendingDispatch oid')"
  unfolding UpdateOperation_def UpdateOperationMetadata_def UpdateOperationTaskID_def
    MarkOperationQueuedIfPendingDispatch_def update_operations_def
  by (intro frame ko.conn_rules ops_update_other; simp)+

lemma keeps_op_reads [frame]:
  "keeps_op oid (GetOperation x)" "keeps_op oid (GetCustomerApp x)" "keeps_op oid (GetAppDefinition x)"
  "keeps_op oid (GetAppTiers x)" "keeps_op oid GetPublicRoutes" "keeps_op oid (GetPublicRoute x)"
  "keeps_op oid (GetRoutesByInstance x)" "keeps_op oid (GetRunningOperationsByInstance x)" "keeps_op oid (GetNode x)"
  "keeps_op oid (GetBackupRecord render x)" "keeps_op oid (GetInstanceSecrets x)"
  "keeps_op oid (GetActiveBackupStorageConfig render)"
  unfolding GetOperation_def GetCustomerApp_def GetAppDefinition_def GetAppTiers_def GetPublicRoutes_def GetPublicRoute_def
    GetRoutesByInstance_def GetRunningOperationsByInstance_def GetNode_def GetBackupRecord_def GetInstanceSecrets_def
    GetActiveBackupStorageConfig_def
  by (intro frame ko.conn_rules)+

lemma keeps_op_writes [frame]:
  "keeps_op oid (UpdateCustomerAppStatus a cs ts)" "keeps_op oid (SetSetupCompleted a)"
  "keeps_op oid (ClearCustomerAppRestartRequired a)" "keeps_op oid (UpdateCustomerAppTier a tn j)"
  "keeps_op oid (UpdateCustomerAppInspectData a j)" "keeps_op oid (ReleaseNodeCommitment n r k)"
  "keeps_op oid (DeletePublicRoute x)" "keeps_op oid (UpdateBackupRecord parse b)"
  unfolding UpdateCustomerAppStatus_def SetSetupCompleted_def ClearCustomerAppRestartRequired_def UpdateCustomerAppTier_def
    UpdateCustomerAppInspectData_def ReleaseNodeCommitment_def DeletePublicRoute_def UpdateBackupRecord_def
  by (intro frame ko.conn_rules)+

lemma keeps_op_pages [frame]: "keeps_op oid (GetBackupRecords render x)"
  unfolding GetBackupRecords_def GetBackupRecordsPage_def counted_page_def
  by (intro frame ko.conn_rules) (auto split: if_splits)

lemma keeps_op_route [frame]: "keeps_op oid (UpdatePublicRoute r)"
  unfolding UpdatePublicRoute_def
  by (intro ko.conn_rules) (auto simp: ops_def Let_def split: if_splits option.splits)

text \<open>The network's part of a callback.\<close>

lemma keeps_op_then [frame]: "keeps_op oid m \<Longrightarrow> keeps_op oid n \<Longrightarrow> keeps_op oid (then_do m n)"
  unfolding then_do_def by (intro ko.conn_rules)

lemma keeps_op_bool [frame]: "keeps_op oid m \<Longrightarrow> keeps_op oid n \<Longrightarrow> keeps_op oid (case b of True \<Rightarrow> m | False \<Rightarrow> n)"
  by (cases b) auto

lemma keeps_op_definition [frame]: "keeps_op oid (appDefinitionForInstance m i)" "keeps_op oid (route_definition m r)"
proof -
  show 1: "keeps_op oid (appDefinitionForInstance m i)" for i
    unfolding appDefinitionForInstance_def by (intro frame ko.conn_rules)
  show "keeps_op oid (route_definition m r)" unfolding route_definition_def by (intro 1 ko.conn_rules)
qed

lemma keeps_op_maintained [frame]: "keeps_op oid (maintained routes checked acc)"
proof (induction routes arbitrary: checked acc)
  case (Cons route routes)
  show ?case unfolding maintained.simps by (intro Cons.IH frame ko.conn_rules)
qed (simp add: ko.io_return)

lemma keeps_op_checks [frame]: "keeps_op oid (check_routes m routes)" "keeps_op oid (mark_unavailable msg routes)"
  by (induction routes) (auto intro!: frame ko.conn_rules)

lemma keeps_op_sync [frame]: "keeps_op oid (syncLocked m)"
  unfolding syncLocked_def by (intro frame ko.conn_rules)

lemma keeps_op_activate [frame]: "keeps_op oid (activate_routes_each m a hp routes)"
  by (induction routes) (auto intro!: frame ko.conn_rules)

lemma keeps_op_migration [frame]: "keeps_op oid (instanceMigrationActive i)" "keeps_op oid (rejectRouteChangeDuringMigration r)"
proof -
  show 1: "keeps_op oid (instanceMigrationActive i)" for i
    unfolding instanceMigrationActive_def by (intro frame ko.conn_rules)
  show "keeps_op oid (rejectRouteChangeDuringMigration r)"
    unfolding rejectRouteChangeDuringMigration_def by (intro 1 ko.conn_rules)
qed

lemma keeps_op_networking [frame]:
  "keeps_op oid (ActivateInstanceRoutes m i hp)" "keeps_op oid (DeleteRoute m hn)" "keeps_op oid (Sync m)"
  unfolding ActivateInstanceRoutes_def DeleteRoute_def change_route_def Sync_def
  by (intro frame ko.conn_rules)+

lemma keeps_op_delete [frame]: "keeps_op oid (DeleteInstanceRoutes m i)"
proof -
  have "keeps_op oid (delete_routes_each m routes)" for routes
    by (induction routes) (auto intro!: frame ko.conn_rules)
  then show ?thesis unfolding DeleteInstanceRoutes_def by (intro frame ko.conn_rules)
qed

section \<open>The effects of a result\<close>

lemma keeps_op_policy [frame]: "keeps_op oid (recomputeNodePolicy n)"
  unfolding recomputeNodePolicy_def recomputePortalNodePolicy_def update_health_def UpdateNodeHealth_def
    UpdateNodeCommitLimits_def Let_def
  by (intro frame ko.conn_rules)

lemma keeps_op_release [frame]:
  "keeps_op oid (release_and_recompute n r k)" "keeps_op oid (release_instance h v)" "keeps_op oid (release_difference n r k)"
  unfolding release_instance_def release_difference_def release_and_recompute_def
  by (intro frame ko.conn_rules)+

lemma keeps_op_fail_routes [frame]: "keeps_op oid (fail_routes i msg routes)"
proof (induction routes)
  case (Cons route routes)
  show ?case unfolding fail_routes.simps by (intro Cons.IH frame ko.conn_rules)
qed (simp add: ko.io_return)

lemma keeps_op_backup [frame]: "keeps_op oid (handleBackupCallback h op res success)"
  unfolding handleBackupCallback_def backup_of_callback_def by (intro frame ko.conn_rules)

lemma keeps_op_resize [frame]: "keeps_op oid (handleResizeCallback h op res success)"
  unfolding handleResizeCallback_def resize_succeeded_def by (intro frame ko.conn_rules)

lemma keeps_op_fail_provision [frame]: "keeps_op oid (releaseCapacityAndFailRoutes h i msg)"
  unfolding releaseCapacityAndFailRoutes_def by (intro frame ko.conn_rules)

lemma keeps_op_succeeded [frame]: "keeps_op oid (callback_succeeded h op res)"
  unfolding callback_succeeded_def activate_routes_def deprovisioned_def by (intro frame ko.conn_rules)

lemma keeps_op_cleanup_target [frame]: "keeps_op oid (cleanup_target h op)"
  unfolding cleanup_target_def by (intro frame ko.conn_rules)

lemma keeps_op_secrets [frame]: "keeps_op oid (decryptedSecretMap h i)"
  unfolding decryptedSecretMap_def by (intro frame ko.conn_rules)

lemma keeps_op_build_task [frame]:
  assumes "opID \<noteq> oid"
  shows "keeps_op oid (build_task h taskID opID instID nodeID tenantID rawYAML tier action backupID backupService)"
  unfolding build_task_def fail_task_def failInstanceForTask_def task_secrets_def service_infos_def publicBaseURLForInstance_def
    verify_images_def setup_state_def add_backup_def backup_storage_def
  by (intro frame keeps_op_operations [OF assms] ko.conn_rules)

section \<open>Both databases\<close>

text \<open>The frame for computations over both databases.\<close>

interpretation ka: io_contract "\<lambda>s s'. conn_rel (\<lambda>_ d d'. ops oid d' = ops oid d) (api_db s) (api_db s')" for oid
  by unfold_locales (auto simp: conn_rel_def)

abbreviation api_keeps :: "string \<Rightarrow> 'a api_io \<Rightarrow> bool" where
  "api_keeps oid \<equiv> state_io_rel (\<lambda>s s'. conn_rel (\<lambda>_ d d'. ops oid d' = ops oid d) (api_db s) (api_db s'))"

lemma api_keeps_db: "keeps_op oid m \<Longrightarrow> api_keeps oid (on_db m)"
  by (auto simp: state_io_rel_def on_db_def split: prod.splits) (metis snd_conv)

lemma api_keeps_queue: "api_keeps oid (on_queue m)"
  by (auto simp: state_io_rel_def on_queue_def conn_rel_def split: prod.splits)

text \<open>The task that is built belongs to the operation it is built for.\<close>

lemma task_step_id:
  "run_state (verify_images opID instID task) c = (Inr t, c') \<Longrightarrow> ft_OperationID t = ft_OperationID task"
  "run_state (setup_state instID task) c = (t, c') \<Longrightarrow> ft_OperationID t = ft_OperationID task"
  "run_state (add_backup h payload opID instID action bs task) c = (Inr t, c') \<Longrightarrow> ft_OperationID t = ft_OperationID task"
  by (auto simp: verify_images_def setup_state_def add_backup_def Let_def
      split: prod.splits sum.splits option.splits if_splits)

lemma build_task_id:
  assumes "run_state (build_task h taskID opID instID nodeID tenantID rawYAML tier action backupID bs) c = (Inr task, c')"
  shows "ft_OperationID task = opID"
proof -
  from assms obtain payload where y: "h_yaml h rawYAML = Some payload"
    by (auto simp: build_task_def Let_def split: option.splits prod.splits)
  obtain sv c1 where "run_state (task_secrets h payload action instID bs) c = (sv, c1)" by fastforce
  with assms y obtain secretValues where s: "run_state (task_secrets h payload action instID bs) c = (Inr secretValues, c1)"
    by (cases sv) (auto simp: build_task_def Let_def split: prod.splits)
  obtain services c2 where i: "run_state (service_infos h payload tier instID tenantID secretValues) c1 = (services, c2)" by fastforce
  let ?t = "base_task taskID opID instID nodeID payload tier action services"
  obtain v c3 where v: "run_state (if action = ActionStartApp \<or> action = ActionResumeApp \<or> action = ActionReactivateApp
      then verify_images opID instID ?t else return (Inr ?t)) c2 = (v, c3)" by fastforce
  from assms y s i v obtain t1 where t1: "v = Inr t1"
    by (cases v) (auto simp: build_task_def Let_def split: prod.splits)
  have id1: "ft_OperationID t1 = opID"
    using v [unfolded t1] by (auto simp: base_task_def dest: task_step_id split: if_splits)
  obtain t2 c4 where t2: "run_state (if action = ActionProvisionApp then setup_state instID t1 else return t1) c3 = (t2, c4)" by fastforce
  then have id2: "ft_OperationID t2 = opID" using id1 by (auto dest: task_step_id split: if_splits)
  obtain b c5 where b: "run_state (add_backup h payload opID instID action bs t2) c4 = (b, c5)" by fastforce
  from assms y s i v t1 t2 b obtain t3 where t3: "b = Inr t3"
    by (cases b) (auto simp: build_task_def Let_def split: prod.splits)
  have "ft_OperationID t3 = opID" using b id2 by (auto simp: t3 dest: task_step_id)
  with assms y s i v t1 t2 b t3 show ?thesis
    by (auto simp: build_task_def Let_def split: if_splits prod.splits)
qed

lemma api_keeps_enqueue:
  assumes "opID \<noteq> oid"
  shows "api_keeps oid (enqueueTask h ent bytes opID instID nodeID tenantID rawYAML tier action backupID bs)"
proof -
  let ?b = "build_task h (generateID ''task'' bytes) opID instID nodeID tenantID rawYAML tier action backupID bs"
  have d: "api_keeps oid (dispatch_task h ent opID instID task)" if "ft_OperationID task = opID" for task
    unfolding dispatch_task_def publish_step_def fail_task_def failInstanceForTask_def that
    by (intro ka.io_rules api_keeps_db api_keeps_queue frame keeps_op_operations [OF assms] ko.conn_rules)
  have "api_keeps oid (enqueueTaskWithID h ent (generateID ''task'' bytes) opID instID nodeID tenantID rawYAML tier action backupID bs)"
  proof (rule state_io_relI)
    fix a s u
    assume run: "run_state (enqueueTaskWithID h ent (generateID ''task'' bytes) opID instID nodeID tenantID rawYAML tier action backupID bs) s = (a, u)"
    obtain r c where b: "run_state ?b (api_db s) = (r, c)" by fastforce
    have 1: "conn_rel (\<lambda>_ d d'. ops oid d' = ops oid d) (api_db s) c"
      using keeps_op_build_task [OF assms] b by (rule state_io_relD)
    show "conn_rel (\<lambda>_ d d'. ops oid d' = ops oid d) (api_db s) (api_db u)"
    proof (cases r)
      case (Inl e)
      with run b 1 show ?thesis by (auto simp: enqueueTaskWithID_def on_db_eq)
    next
      case (Inr task)
      with run b have "run_state (dispatch_task h ent opID instID task) (s\<lparr>api_db := c\<rparr>) = (a, u)"
        by (auto simp: enqueueTaskWithID_def on_db_eq)
      from state_io_relD [OF d [OF build_task_id [OF b [unfolded Inr]]] this]
      show ?thesis using 1 by (auto simp: conn_rel_def)
    qed
  qed
  then show ?thesis unfolding enqueueTask_def by (intro ka.io_rules)
qed

text \<open>For an operation that exists, the identifier of the cleanup is either another one or refused.\<close>

interpretation kx: io_contract
  "\<lambda>s s'. ops oid (tables (api_db s)) \<noteq> [] \<longrightarrow> ops oid (tables (api_db s')) = ops oid (tables (api_db s))" for oid
  by unfold_locales auto

abbreviation api_keeps_existing :: "string \<Rightarrow> 'a api_io \<Rightarrow> bool" where
  "api_keeps_existing oid \<equiv> state_io_rel
     (\<lambda>s s'. ops oid (tables (api_db s)) \<noteq> [] \<longrightarrow> ops oid (tables (api_db s')) = ops oid (tables (api_db s)))"

lemma existing_weaken: "api_keeps oid m \<Longrightarrow> api_keeps_existing oid m"
  by (auto simp: state_io_rel_def conn_rel_def)

lemma existing_db: "keeps_op oid m \<Longrightarrow> api_keeps_existing oid (on_db m)"
  by (rule existing_weaken [OF api_keeps_db])

lemma CreateOperation_other: "oid' \<noteq> oid \<Longrightarrow> keeps_op oid (CreateOperation oid' i n a st u)"
  unfolding CreateOperation_def insert_operation_def
  by (intro frame ko.conn_rules) (auto simp: ops_def new_operation_def split: if_splits)

lemma CreateOperation_taken:
  assumes "run_state (CreateOperation oid i n a st u) c = (r, c')" and "ops oid (tables c) \<noteq> []"
  shows "(\<exists>e. r = Inl e) \<and> tables c' = tables c"
  using assms by (auto simp: CreateOperation_def wrapped_def insert_operation_def ops_def filter_empty_conv new_operation_def
      dest!: stmt_Inl stmt_Inr split: prod.splits sum.splits if_splits)

lemma existing_cleanup: "api_keeps_existing oid (enqueueSetupFailureCleanup h fr op)"
proof (cases "generateID ''op'' (fr_op fr) = oid")
  case False
  then have "api_keeps oid (enqueueSetupFailureCleanup h fr op)"
    unfolding enqueueSetupFailureCleanup_def Let_def
    by (intro ka.io_rules api_keeps_db api_keeps_enqueue CreateOperation_other frame)
  then show ?thesis by (rule existing_weaken)
next
  case True
  show ?thesis
  proof (rule state_io_relI, rule impI)
    fix a s u
    assume run: "run_state (enqueueSetupFailureCleanup h fr op) s = (a, u)" and ex: "ops oid (tables (api_db s)) \<noteq> []"
    obtain x c where t: "run_state (cleanup_target h op) (api_db s) = (x, c)" by fastforce
    have 1: "ops oid (tables c) = ops oid (tables (api_db s))"
      using state_io_relD [OF keeps_op_cleanup_target t] by (auto simp: conn_rel_def)
    show "ops oid (tables (api_db u)) = ops oid (tables (api_db s))"
    proof (cases x)
      case (Inl e)
      with run t 1 show ?thesis by (auto simp: enqueueSetupFailureCleanup_def on_db_eq)
    next
      case (Inr y)
      obtain inst nodeID ad where y: "y = (inst, nodeID, ad)" by (cases y)
      obtain r c' where k: "run_state (CreateOperation oid (op_instance op) nodeID ActionDeprovisionApp
          ''pending_dispatch'' ''system'') c = (r, c')" by fastforce
      from CreateOperation_taken [OF k] ex 1 obtain e where "r = Inl e" "tables c' = tables c" by auto
      with run t 1 k show ?thesis by (auto simp: enqueueSetupFailureCleanup_def on_db_eq Inr y True Let_def)
    qed
  qed
qed

lemma existing_effects: "api_keeps_existing oid (settle_effects h fr op res)"
  unfolding settle_effects_def callback_failed_def provision_failed_def
  by (intro kx.io_rules existing_db existing_cleanup frame)

section \<open>Closing an operation\<close>

text \<open>A connection without faults stays without faults.\<close>

interpretation nf: io_contract "\<lambda>c c'. faults c = [] \<longrightarrow> faults c' = []"
  by unfold_locales auto

lemma no_faults_stmt: "state_io_rel (\<lambda>c c'. faults c = [] \<longrightarrow> faults c' = []) (stmt f)"
  by (rule state_io_relI) (auto simp: run_stmt_ok split: prod.splits sum.splits)

lemma no_faults_verify:
  "state_io_rel (\<lambda>c c'. faults c = [] \<longrightarrow> faults c' = []) (verify_result h op res)"
  "state_io_rel (\<lambda>c c'. faults c = [] \<longrightarrow> faults c' = []) (keep_ports h op res)"
  unfolding verify_result_def keep_ports_def validateRestartImageEvidence_def expected_images_def GetCustomerApp_def
    GetAppDefinition_def UpdateOperationMetadata_def update_operations_def wrapped_def query_def exec_def
  by (intro nf.io_rules no_faults_stmt)+

lemma keeps_op_verify: "keeps_op oid (verify_result h op res)"
  unfolding verify_result_def validateRestartImageEvidence_def expected_images_def by (intro frame ko.conn_rules)

lemma verify_result_id:
  "run_state (verify_result h op res) c = (res', c') \<Longrightarrow>
   tr_OperationID res' = tr_OperationID res \<and> (tr_Success res' \<longrightarrow> tr_Success res)"
  by (auto simp: verify_result_def split: if_splits prod.splits sum.splits)

lemma keep_ports_id:
  "run_state (keep_ports h op res) c = (res', c') \<Longrightarrow>
   tr_OperationID res' = tr_OperationID res \<and> (tr_Success res' \<longrightarrow> tr_Success res)"
  by (auto simp: keep_ports_def split: if_splits prod.splits sum.splits option.splits)

interpretation ke: table_contract "\<lambda>_ d d'. ops oid d \<noteq> [] \<longrightarrow> ops oid d' \<noteq> []" for oid
  by unfold_locales auto

lemma keep_ports_existing: "state_io_rel (conn_rel (\<lambda>_ d d'. ops oid d \<noteq> [] \<longrightarrow> ops oid d' \<noteq> [])) (keep_ports h op res)"
  unfolding keep_ports_def UpdateOperationMetadata_def update_operations_def wrapped_def
  by (intro ke.conn_rules) (simp add: ops_update, simp add: update_where_def)

lemma UpdateOperation_closes:
  assumes "run_state (UpdateOperation oid status msg) c = (r, c')" and "faults c = []" and "ops oid (tables c) \<noteq> []"
  shows "\<exists>op rest. ops oid (tables c') = op # rest \<and> op_Status op = status"
proof -
  let ?f = "\<lambda>x. x\<lparr>op_Status := status, op_ErrorMessage := (if msg = '''' then None else Some msg), op_UpdatedAt := db_clock c\<rparr>"
  have "tables c' = (tables c)\<lparr>st_operations := update_where (\<lambda>x. op_ID x = oid) ?f (st_operations (tables c))\<rparr>"
    using assms(1,2) by (auto simp: UpdateOperation_def update_operations_def wrapped_def run_ok)
  then have e: "ops oid (tables c') = update_where (\<lambda>x. op_ID x = oid) ?f (ops oid (tables c))"
    by (simp add: ops_update)
  have "\<forall>x \<in> set (ops oid (tables c)). op_ID x = oid" by (simp add: ops_def)
  with e assms(3) show ?thesis by (cases "ops oid (tables c)") (auto simp: update_where_def)
qed

lemma settle_closes:
  assumes "run_state (settle h fr op res) s = (r, s')" and "faults (api_db s) = []"
    and "ops (tr_OperationID res) (tables (api_db s)) \<noteq> []"
  shows "\<exists>op' rest. ops (tr_OperationID res) (tables (api_db s')) = op' # rest
    \<and> op_Status op' \<in> {''succeeded'', ''failed''} \<and> (op_Status op' = ''succeeded'' \<longrightarrow> tr_Success res)"
proof -
  let ?oid = "tr_OperationID res"
  obtain res1 c1 where v: "run_state (verify_result h op res) (api_db s) = (res1, c1)" by fastforce
  obtain res2 c2 where k: "run_state (keep_ports h op res1) c1 = (res2, c2)" by fastforce
  let ?st = "if tr_Success res2 then ''succeeded'' else ''failed''"
  obtain x q where q: "run_state (CompleteTask (tr_TaskID res2) (tr_Success res2) (tr_Error res2)) (api_queue s) = (x, q)" by fastforce
  obtain y c3 where u: "run_state (UpdateOperation ?oid ?st (tr_Error res2)) c2 = (y, c3)" by fastforce
  have id: "tr_OperationID res2 = ?oid" "tr_Success res2 \<longrightarrow> tr_Success res"
    using verify_result_id [OF v] keep_ports_id [OF k] by auto
  have f: "faults c2 = []"
    using state_io_relD [OF no_faults_verify(1) v] state_io_relD [OF no_faults_verify(2) k] assms(2) by simp
  have e: "ops ?oid (tables c2) \<noteq> []"
    using state_io_relD [OF keeps_op_verify v] state_io_relD [OF keep_ports_existing k] assms(3) by (auto simp: conn_rel_def)
  from UpdateOperation_closes [OF u f e] obtain op' rest where
    c: "ops ?oid (tables c3) = op' # rest" "op_Status op' = ?st" by auto
  let ?s = "s\<lparr>api_queue := q, api_db := c3\<rparr>"
  have "run_state (settle_effects h fr op res2) ?s = (r, s')"
    using assms(1) v k q u id by (simp add: settle_def on_db_eq on_queue_eq)
  from state_io_relD [OF existing_effects this] c have "ops ?oid (tables (api_db s')) = op' # rest" by simp
  with c(2) id(2) show ?thesis by auto
qed

text \<open>No call on a closed operation changes the store.\<close>

lemma fail_task_keeps_db:
  "run_state (failFleetCallbackTask tid reason) s = (x, s') \<Longrightarrow> api_db s' = api_db s"
  by (auto simp: failFleetCallbackTask_def on_queue_def split: if_splits prod.splits)

lemma duplicate_keeps_db:
  "run_state (settle_duplicate op res) s = (x, s') \<Longrightarrow> api_db s' = api_db s"
  by (auto simp: settle_duplicate_def on_queue_def split: prod.splits)

lemma closed_keeps_store:
  assumes "find_where (\<lambda>x. op_ID x = tr_OperationID res) (st_operations (tables (api_db s))) = Some op"
    and "terminal (op_Status op)"
    and run: "run_state (HandleFleetCallback h fr meth (Some res) auth) s = (r, s')"
  shows "tables (api_db s') = tables (api_db s)"
proof (cases "meth \<noteq> ''POST'' \<or> (case auth of None \<Rightarrow> False | Some n \<Rightarrow> n = '''' \<or> tr_NodeID res \<noteq> n)")
  case True
  with run show ?thesis
    by (auto simp: HandleFleetCallback_def dest!: fail_task_keeps_db split: prod.splits if_splits)
next
  case False
  obtain ro c where g: "run_state (GetOperation (tr_OperationID res)) (api_db s) = (ro, c)" by fastforce
  have t: "tables c = tables (api_db s)" "ro = Inr x \<longrightarrow> x = Some op" for x
    using GetOperation_run [OF g] assms(1) by auto
  have "api_db s' = c"
  proof (cases ro)
    case (Inl e)
    with run False g show ?thesis
      by (auto simp: HandleFleetCallback_def on_db_eq dest!: fail_task_keeps_db split: prod.splits)
  next
    case (Inr x)
    with t have "ro = Inr (Some op)" by blast
    with run False g assms(2) show ?thesis
      by (auto simp: HandleFleetCallback_def on_db_eq dest!: duplicate_keeps_db)
  qed
  with t(1) show ?thesis by simp
qed

lemma accepted_settles:
  assumes run: "run_state (HandleFleetCallback h fr meth (Some res) auth) s = (r, s')"
    and r: "r = writeJSON 200 False \<or> r = Panicked"
  shows "\<exists>op c. meth = ''POST'' \<and> (auth = None \<or> auth = Some (tr_NodeID res))
    \<and> find_where (\<lambda>x. op_ID x = tr_OperationID res) (st_operations (tables (api_db s))) = Some op
    \<and> \<not> terminal (op_Status op) \<and> op_NodeID op \<in> {'''', tr_NodeID res} \<and> op_TaskID op \<in> {'''', tr_TaskID res}
    \<and> tables c = tables (api_db s) \<and> (faults (api_db s) = [] \<longrightarrow> faults c = [])
    \<and> run_state (settle h fr op res) (s\<lparr>api_db := c\<rparr>) = (r, s')"
proof -
  have m: "meth = ''POST''" and a: "\<not> (case auth of None \<Rightarrow> False | Some n \<Rightarrow> n = '''' \<or> tr_NodeID res \<noteq> n)"
    using run r by (auto simp: HandleFleetCallback_def split: if_splits prod.splits)
  obtain ro c where g: "run_state (GetOperation (tr_OperationID res)) (api_db s) = (ro, c)" by fastforce
  have nf: "faults (api_db s) = [] \<longrightarrow> faults c = []"
    using g by (auto simp: GetOperation_def wrapped_def run_ok split: prod.splits)
  have "\<exists>op. ro = Inr (Some op)"
    using run r m a g by (cases ro; cases "projr ro") (auto simp: HandleFleetCallback_def on_db_eq split: prod.splits)
  then obtain op where ro: "ro = Inr (Some op)" ..
  have run': "run_state (if terminal (op_Status op) then settle_duplicate op res
      else if op_NodeID op \<noteq> '''' \<and> op_NodeID op \<noteq> tr_NodeID res
      then reject_callback op ''callback node_id does not match operation'' ''Callback node_id does not match operation''
      else if op_TaskID op \<noteq> '''' \<and> op_TaskID op \<noteq> tr_TaskID res
      then reject_callback op ''callback task_id does not match operation'' ''Callback task_id does not match operation''
      else settle h fr op res) (s\<lparr>api_db := c\<rparr>) = (r, s')"
    using run m a g ro by (simp add: HandleFleetCallback_def on_db_eq)
  have "\<not> terminal (op_Status op)"
    using run' r by (auto simp: settle_duplicate_def split: prod.splits)
  moreover have "op_NodeID op \<in> {'''', tr_NodeID res}" "op_TaskID op \<in> {'''', tr_TaskID res}"
    using run' r calculation by (auto simp: reject_callback_def split: prod.splits if_splits)
  ultimately show ?thesis
    using run' m a nf GetOperation_run [OF g] ro
    by (intro exI [of _ op] exI [of _ c]) (auto split: option.splits)
qed

text \<open>
  C39.  The result of an operation takes effect once.  When \<^verbatim>\<open>HandleFleetCallback\<close> accepts a result
  (the reply does not say duplicate, or the handler panics on the way) and the store reports no failure,
  the operation was open and expected this node and task, and afterwards it has ended: with success only
  if the node reported success.  From then on no callback for that operation, whatever its content, its
  sender, the handlers and the failures on the way, changes anything in the store.
\<close>

theorem callback_settles_once:
  assumes "run_state (HandleFleetCallback h fr meth (Some res) auth) s = (r, s')"
    and "r = writeJSON 200 False \<or> r = Panicked" and "faults (api_db s) = []"
  shows "(\<exists>op. find_where (\<lambda>x. op_ID x = tr_OperationID res) (st_operations (tables (api_db s))) = Some op
      \<and> \<not> terminal (op_Status op) \<and> op_NodeID op \<in> {'''', tr_NodeID res} \<and> op_TaskID op \<in> {'''', tr_TaskID res})
    \<and> (\<exists>op. find_where (\<lambda>x. op_ID x = tr_OperationID res) (st_operations (tables (api_db s'))) = Some op
      \<and> op_Status op \<in> {''succeeded'', ''failed''} \<and> (op_Status op = ''succeeded'' \<longrightarrow> tr_Success res))
    \<and> (\<forall>h2 fr2 meth2 res2 auth2 s2 r2 s3. tr_OperationID res2 = tr_OperationID res \<longrightarrow> tables (api_db s2) = tables (api_db s')
      \<longrightarrow> run_state (HandleFleetCallback h2 fr2 meth2 (Some res2) auth2) s2 = (r2, s3) \<longrightarrow> tables (api_db s3) = tables (api_db s2))"
proof -
  let ?oid = "tr_OperationID res"
  from accepted_settles [OF assms(1,2)] obtain op c where
    op: "find_where (\<lambda>x. op_ID x = ?oid) (st_operations (tables (api_db s))) = Some op" "\<not> terminal (op_Status op)"
      "op_NodeID op \<in> {'''', tr_NodeID res}" "op_TaskID op \<in> {'''', tr_TaskID res}"
    and c: "tables c = tables (api_db s)" "faults c = []"
    and run: "run_state (settle h fr op res) (s\<lparr>api_db := c\<rparr>) = (r, s')"
    using assms(3) by blast
  have "ops ?oid (tables c) \<noteq> []" using op(1) c(1) by (auto simp: find_ops split: list.splits)
  with settle_closes [OF run] c obtain op' rest where closed: "ops ?oid (tables (api_db s')) = op' # rest"
    "op_Status op' \<in> {''succeeded'', ''failed''}" "op_Status op' = ''succeeded'' \<longrightarrow> tr_Success res" by auto
  then have f: "find_where (\<lambda>x. op_ID x = ?oid) (st_operations (tables (api_db s'))) = Some op'" by (simp add: find_ops)
  have t: "terminal (op_Status op')" using closed(2) by (auto simp: terminal_def)
  have "tables (api_db s3) = tables (api_db s2)" if "tr_OperationID res2 = ?oid" "tables (api_db s2) = tables (api_db s')"
    "run_state (HandleFleetCallback h2 fr2 meth2 (Some res2) auth2) s2 = (r2, s3)" for h2 fr2 meth2 res2 auth2 s2 r2 s3
    using closed_keeps_store [OF _ t that(3)] that(1,2) f by simp
  with op f closed(2,3) show ?thesis by blast
qed

definition demo_fresh :: fresh where
  "demo_fresh = \<lparr>fr_op = [1], fr_task = [2], fr_entropy = demo_entropy\<rparr>"

definition demo_result :: TaskResult where
  "demo_result = \<lparr>tr_TaskID = ''t2'', tr_OperationID = ''op1'', tr_NodeID = ''n1'', tr_Success = True, tr_Error = '''',
     tr_Logs = '''', tr_Metadata = ''''\<rparr>"

lemma demo_callback:
  "fst (run_state (HandleFleetCallback demo_handlers demo_fresh ''POST'' (Some demo_result) (Some ''n1'')) demo_api) = writeJSON 200 False"
  by code_simp

theorem callback_settles_once_witness:
  "\<exists>s'. run_state (HandleFleetCallback demo_handlers demo_fresh ''POST'' (Some demo_result) (Some ''n1'')) demo_api = (writeJSON 200 False, s')
     \<and> (\<exists>op. find_where (\<lambda>x. op_ID x = ''op1'') (st_operations (tables (api_db s'))) = Some op \<and> op_Status op \<in> {''succeeded'', ''failed''})
     \<and> tables (api_db (snd (run_state (HandleFleetCallback demo_handlers demo_fresh ''POST'' (Some demo_result) None) s')))
         = tables (api_db s')"
proof -
  obtain r s' where run: "run_state (HandleFleetCallback demo_handlers demo_fresh ''POST'' (Some demo_result) (Some ''n1'')) demo_api = (r, s')"
    by fastforce
  then have r: "r = writeJSON 200 False" using demo_callback by simp
  have "faults (api_db demo_api) = []" by (simp add: demo_api_def demo_serving_conn_def)
  note once = callback_settles_once [OF run disjI1 [OF r] this]
  obtain r2 s3 where again: "run_state (HandleFleetCallback demo_handlers demo_fresh ''POST'' (Some demo_result) None) s' = (r2, s3)"
    by fastforce
  have t: "tables (api_db s3) = tables (api_db s')" using once again by blast
  have "\<exists>op. find_where (\<lambda>x. op_ID x = ''op1'') (st_operations (tables (api_db s'))) = Some op \<and> op_Status op \<in> {''succeeded'', ''failed''}"
    using once by (auto simp: demo_result_def)
  with run r again t show ?thesis by simp
qed

end
