(* ===== verification/Object_Storage.thy ===== *)
theory Object_Storage
  imports Fleet "HOL-Library.List_Lexorder" "HOL-Library.Char_ord"
begin

text \<open>
  The client of the object storage, \<^verbatim>\<open>src/pkg/admiral/storage/s3.go\<close>: the endpoint policy, the requests
  with their signature, and the verification of a stored object.  The network, \<^verbatim>\<open>url.Parse\<close>, the
  environment, SHA-256, HMAC and the layout of dates are parameters; a map of headers is an association
  list of the canonical names.
\<close>

section \<open>Requests and surroundings\<close>

record s3_url =
  u_Scheme :: string
  u_Host :: string
  u_RawQuery :: string

record s3_request =
  rq_Method :: string
  rq_URL :: string
  rq_Header :: "(string \<times> string list) list"
  rq_Body :: "string option"

record s3_response =
  rs_StatusCode :: int
  rs_ContentLength :: int
  rs_Body :: string

record s3_world =
  w_url :: "string \<Rightarrow> s3_url option"
  w_getenv :: "string \<Rightarrow> string"
  w_do :: "s3_request \<Rightarrow> err + s3_response"
  w_sha256 :: "string \<Rightarrow> byte list"
  w_hmac :: "byte list \<Rightarrow> string \<Rightarrow> byte list"
  w_bytes :: "string \<Rightarrow> byte list"
  w_format :: "string \<Rightarrow> int \<Rightarrow> string"

record S3Client =
  s3_endpoint :: string
  s3_region :: string
  s3_bucket :: string
  s3_prefix :: string
  s3_accessKey :: string
  s3_secretKey :: string
  s3_usePathStyle :: bool

definition NewS3Client :: "string \<Rightarrow> string \<Rightarrow> string \<Rightarrow> string \<Rightarrow> string \<Rightarrow> string \<Rightarrow> bool \<Rightarrow> S3Client" where
  "NewS3Client endpoint region bucket prefix accessKey secretKey usePathStyle =
     (let slash = (\<lambda>x. x = CHR ''/'') in
      \<lparr>s3_endpoint = trim_right slash endpoint, s3_region = region, s3_bucket = bucket,
       s3_prefix = trim_left slash (trim_right slash prefix), s3_accessKey = accessKey, s3_secretKey = secretKey,
       s3_usePathStyle = usePathStyle\<rparr>)"

definition ValidateEndpoint :: "s3_world \<Rightarrow> string \<Rightarrow> err + unit" where
  "ValidateEndpoint w endpoint = (case w_url w (TrimSpace endpoint) of
     None \<Rightarrow> Inl (Plain (''invalid S3 endpoint '' @ quoted endpoint))
   | Some u \<Rightarrow>
       if u_Scheme u = '''' \<or> u_Host u = '''' then Inl (Plain (''invalid S3 endpoint '' @ quoted endpoint))
       else if u_Scheme u \<noteq> ''http'' \<and> u_Scheme u \<noteq> ''https'' then Inl (Plain ''S3 endpoint must use http or https'')
       else if w_getenv w ''ENV'' = ''production'' \<and> u_Scheme u \<noteq> ''https''
       then Inl (Plain ''S3 endpoint must use HTTPS when ENV=production'')
       else Inr ())"

definition NewS3FromConfig :: "s3_world \<Rightarrow> StorageConfig option \<Rightarrow> err + S3Client" where
  "NewS3FromConfig w cfg0 = (case cfg0 of
     None \<Rightarrow> Inl (Plain ''storage config is nil'')
   | Some cfg \<Rightarrow> and_then (ValidateEndpoint w (sto_Endpoint cfg)) (\<lambda>_.
       let accessKey = w_getenv w ''ADMIRAL_S3_ACCESS_KEY_ID''; secretKey = w_getenv w ''ADMIRAL_S3_SECRET_ACCESS_KEY''
       in if accessKey = '''' then Inl (Plain ''ADMIRAL_S3_ACCESS_KEY_ID is not set'')
          else if secretKey = '''' then Inl (Plain ''ADMIRAL_S3_SECRET_ACCESS_KEY is not set'')
          else Inr (NewS3Client (sto_Endpoint cfg) (sto_Region cfg) (sto_Bucket cfg) (sto_Prefix cfg) accessKey secretKey
                 (sto_ForcePathStyle cfg))))"

section \<open>Addresses\<close>

definition path_style :: "S3Client \<Rightarrow> bool" where
  "path_style c \<longleftrightarrow> s3_usePathStyle c \<or> \<not> Contains (s3_endpoint c) ''.amazonaws.com''"

text \<open>\<^verbatim>\<open>strings.Replace(s, old, new, 1)\<close>.\<close>

definition replace_first :: "string \<Rightarrow> string \<Rightarrow> string \<Rightarrow> string" where
  "replace_first s old new = (case index_of s old of
     None \<Rightarrow> s | Some i \<Rightarrow> take i s @ new @ drop (i + length old) s)"

definition newRequest :: "s3_world \<Rightarrow> S3Client \<Rightarrow> string \<Rightarrow> string \<Rightarrow> string option \<Rightarrow> err + s3_request" where
  "newRequest w c meth key body =
     (let urlStr = (if path_style c then s3_endpoint c @ ''/'' @ s3_bucket c @ ''/'' @ key
                    else replace_first (s3_endpoint c) ''://'' (''://'' @ s3_bucket c @ ''.'') @ ''/'' @ key)
      in case w_url w urlStr of
        None \<Rightarrow> Inl (Plain ''parse url'')
      | Some u \<Rightarrow> Inr \<lparr>rq_Method = meth, rq_URL = urlStr, rq_Header = [(''Host'', [u_Host u])], rq_Body = body\<rparr>)"

definition set_header :: "string \<Rightarrow> string \<Rightarrow> s3_request \<Rightarrow> s3_request" where
  "set_header name val rq = rq\<lparr>rq_Header := put name [val] (rq_Header rq)\<rparr>"

section \<open>Signature\<close>

definition canonicalURI :: "S3Client \<Rightarrow> string \<Rightarrow> string" where
  "canonicalURI c key =
     (if path_style c then (if key = '''' then ''/'' @ s3_bucket c @ ''/'' else ''/'' @ s3_bucket c @ ''/'' @ key)
      else if key = '''' then ''/'' else ''/'' @ key)"

definition canonicalQuery :: "s3_world \<Rightarrow> s3_request \<Rightarrow> string" where
  "canonicalQuery w rq = (case w_url w (rq_URL rq) of None \<Rightarrow> '''' | Some u \<Rightarrow> u_RawQuery u)"

definition signable_headers :: "s3_request \<Rightarrow> strmap" where
  "signable_headers rq = fold (\<lambda>(k, v) hdrs. let lk = ToLower k in
     if lk = ''authorization'' then hdrs else put lk (TrimSpace (join_with '','' v)) hdrs) (rq_Header rq) []"

definition canonicalHeaders :: "s3_request \<Rightarrow> string \<times> string" where
  "canonicalHeaders rq = (let hdrs = signable_headers rq; names = sort (map fst hdrs) in
     (concat (map (\<lambda>n. n @ '':'' @ get '''' hdrs n @ [CHR 0x0A]) names), join_with '';'' names))"

definition sha256Hex :: "s3_world \<Rightarrow> string option \<Rightarrow> string" where
  "sha256Hex w data = (case data of
     None \<Rightarrow> ''e3b0c44298fc1c149afbf4c8996fb92427ae41e4649b934ca495991b7852b855''
   | Some d \<Rightarrow> hex_EncodeToString (w_sha256 w d))"

definition signingKey :: "s3_world \<Rightarrow> S3Client \<Rightarrow> string \<Rightarrow> string \<Rightarrow> byte list" where
  "signingKey w c dateStamp service =
     (let kSecret = w_bytes w (''AWS4'' @ s3_secretKey c);
          kDate = w_hmac w kSecret dateStamp;
          kRegion = w_hmac w kDate (s3_region c);
          kService = w_hmac w kRegion service
      in w_hmac w kService ''aws4_request'')"

definition signV4 :: "s3_world \<Rightarrow> int \<Rightarrow> S3Client \<Rightarrow> string \<Rightarrow> string \<Rightarrow> string \<Rightarrow> s3_request \<Rightarrow> s3_request" where
  "signV4 w t c key service payloadHash0 rq0 =
     (let payloadHash = (if payloadHash0 = '''' then sha256Hex w None else payloadHash0);
          amzDate = w_format w ''20060102T150405Z'' t;
          dateStamp = w_format w ''20060102'' t;
          rq = set_header ''X-Amz-Content-Sha256'' payloadHash (set_header ''X-Amz-Date'' amzDate rq0);
          credentialScope = dateStamp @ ''/'' @ s3_region c @ ''/'' @ service @ ''/aws4_request'';
          (headers, signedHeaders) = canonicalHeaders rq;
          nl = [CHR 0x0A];
          canonicalRequest = rq_Method rq @ nl @ canonicalURI c key @ nl @ canonicalQuery w rq @ nl @ headers @ nl @
            signedHeaders @ nl @ payloadHash;
          stringToSign = ''AWS4-HMAC-SHA256'' @ nl @ amzDate @ nl @ credentialScope @ nl @ sha256Hex w (Some canonicalRequest);
          signature = hex_EncodeToString (w_hmac w (signingKey w c dateStamp service) stringToSign);
          auth = ''AWS4-HMAC-SHA256 Credential='' @ s3_accessKey c @ ''/'' @ credentialScope @ '', SignedHeaders='' @
            signedHeaders @ '', Signature='' @ signature
      in set_header ''Authorization'' auth rq)"

section \<open>Operations on objects\<close>

definition http_error :: "string \<Rightarrow> string \<Rightarrow> s3_response \<Rightarrow> err" where
  "http_error verb key rs = Plain (''s3 '' @ verb @ '' '' @ quoted key @ '': http '' @ show_int (rs_StatusCode rs) @ '': '' @ rs_Body rs)"

definition accepted :: "s3_response \<Rightarrow> bool" where
  "accepted rs \<longleftrightarrow> 200 \<le> rs_StatusCode rs \<and> rs_StatusCode rs < 300"

definition send_request :: "s3_world \<Rightarrow> string \<Rightarrow> string \<Rightarrow> s3_request \<Rightarrow> err + s3_response" where
  "send_request w verb key rq = (case w_do w rq of
     Inl e \<Rightarrow> Inl (Wrap (''s3 '' @ verb @ '' '' @ quoted key @ '': '') e)
   | Inr rs \<Rightarrow> if accepted rs then Inr rs else Inl (http_error verb key rs))"

definition PutObject :: "s3_world \<Rightarrow> int \<Rightarrow> S3Client \<Rightarrow> string \<Rightarrow> string \<Rightarrow> err + unit" where
  "PutObject w t c key data = and_then (newRequest w c ''PUT'' key (Some data)) (\<lambda>rq.
     and_then (send_request w ''put'' key (signV4 w t c key ''s3'' (sha256Hex w (Some data))
       (set_header ''X-Amz-Server-Side-Encryption'' ''AES256'' (set_header ''Content-Type'' ''application/octet-stream'' rq))))
     (\<lambda>_. Inr ()))"

definition GetObject :: "s3_world \<Rightarrow> int \<Rightarrow> S3Client \<Rightarrow> string \<Rightarrow> err + string" where
  "GetObject w t c key = and_then (newRequest w c ''GET'' key None) (\<lambda>rq.
     and_then (send_request w ''get'' key (signV4 w t c key ''s3'' '''' rq)) (\<lambda>rs. Inr (rs_Body rs)))"

definition HeadObject :: "s3_world \<Rightarrow> int \<Rightarrow> S3Client \<Rightarrow> string \<Rightarrow> err + int" where
  "HeadObject w t c key = and_then (newRequest w c ''HEAD'' key None) (\<lambda>rq.
     and_then (send_request w ''head'' key (signV4 w t c key ''s3'' '''' rq)) (\<lambda>rs. Inr (rs_ContentLength rs)))"

definition VerifyObject :: "s3_world \<Rightarrow> int \<Rightarrow> S3Client \<Rightarrow> string \<Rightarrow> int \<Rightarrow> err + unit" where
  "VerifyObject w t c key expectedSize = (case HeadObject w t c key of
     Inl e \<Rightarrow> Inl (Wrap (''verify object '' @ quoted key @ '': '') e)
   | Inr n \<Rightarrow>
       if n < 0 then Inl (Plain (''verify object '' @ quoted key @ '': remote did not report Content-Length''))
       else if n \<noteq> expectedSize then Inl (Plain (''verify object '' @ quoted key @ '': size mismatch (remote='' @
         show_int n @ '', local='' @ show_int expectedSize @ '')''))
       else Inr ())"

definition DeleteObject :: "s3_world \<Rightarrow> int \<Rightarrow> S3Client \<Rightarrow> string \<Rightarrow> err + unit" where
  "DeleteObject w t c key = and_then (newRequest w c ''DELETE'' key None) (\<lambda>rq.
     and_then (send_request w ''delete'' key (signV4 w t c key ''s3'' '''' rq)) (\<lambda>_. Inr ()))"

definition TestStorage :: "s3_world \<Rightarrow> int \<Rightarrow> S3Client \<Rightarrow> err + unit" where
  "TestStorage w t c = (let healthKey = TrimPrefix (s3_prefix c @ ''/.health-check-tmp'') ''/'' in
     case PutObject w t c healthKey ''ok'' of
       Inl e \<Rightarrow> Inl (Wrap ''s3 test write: '' e)
     | Inr _ \<Rightarrow> (case DeleteObject w t c healthKey of
         Inl e \<Rightarrow> Inl (Wrap ''s3 test cleanup: '' e)
       | Inr _ \<Rightarrow> Inr ()))"

section \<open>Facts\<close>

text \<open>
  An object is verified exactly when the storage answers the signed \<^verbatim>\<open>HEAD\<close> request with success and the
  expected size.
\<close>

lemma VerifyObject_iff:
  assumes "0 \<le> n"
  shows "VerifyObject w t c key n = Inr () \<longleftrightarrow> (\<exists>rq rs. newRequest w c ''HEAD'' key None = Inr rq
    \<and> w_do w (signV4 w t c key ''s3'' '''' rq) = Inr rs \<and> accepted rs \<and> rs_ContentLength rs = n)"
  using assms
  by (auto simp: VerifyObject_def HeadObject_def send_request_def and_then_def split: sum.splits)

text \<open>Storage credentials are never sent without TLS in production.\<close>

lemma production_requires_https:
  assumes "ValidateEndpoint w endpoint = Inr ()" and "w_getenv w ''ENV'' = ''production''"
  shows "\<exists>u. w_url w (TrimSpace endpoint) = Some u \<and> u_Scheme u = ''https'' \<and> u_Host u \<noteq> ''''"
  using assms by (auto simp: ValidateEndpoint_def split: option.splits if_splits)

text \<open>
  The signature does not depend on the order in which the map of headers is traversed, when the names
  differ in more than their case.
\<close>

lemma signable_map:
  assumes "distinct (map (ToLower \<circ> fst) hs)"
  shows "map_of (fold (\<lambda>(k, v) hdrs. let lk = ToLower k in
      if lk = ''authorization'' then hdrs else put lk (TrimSpace (join_with '','' v)) hdrs) hs acc)
    = map_of acc ++ map_of (map (\<lambda>(k, v). (ToLower k, TrimSpace (join_with '','' v)))
        (filter (\<lambda>(k, v). ToLower k \<noteq> ''authorization'') hs))"
  using assms
proof (induction hs arbitrary: acc)
  case (Cons p hs)
  obtain k v where p: "p = (k, v)" by fastforce
  have fresh: "map_of (map (\<lambda>(k, v). (ToLower k, TrimSpace (join_with '','' v)))
      (filter (\<lambda>(k, v). ToLower k \<noteq> ''authorization'') hs)) (ToLower k) = None"
    using Cons.prems by (auto simp: p map_of_eq_None_iff image_iff)
  show ?case
    using Cons.IH Cons.prems fresh
    by (auto simp: p Let_def fun_eq_iff map_add_def split: option.splits)
qed simp

lemma signable_distinct:
  "distinct (map fst acc) \<Longrightarrow> distinct (map fst (fold (\<lambda>(k, v) hdrs. let lk = ToLower k in
      if lk = ''authorization'' then hdrs else put lk (TrimSpace (join_with '','' v)) hdrs) hs acc))"
  by (induction hs arbitrary: acc) (auto simp: Let_def put_keys)

lemma canonical_headers_order:
  assumes d: "distinct (map (ToLower \<circ> fst) (rq_Header rq))" "distinct (map (ToLower \<circ> fst) (rq_Header rq'))"
    and same: "set (rq_Header rq') = set (rq_Header rq)"
  shows "canonicalHeaders rq' = canonicalHeaders rq"
proof -
  let ?f = "\<lambda>(k, v). (ToLower k, TrimSpace (join_with '','' v))"
  let ?g = "\<lambda>rq. map ?f (filter (\<lambda>(k, v). ToLower k \<noteq> ''authorization'') (rq_Header rq))"
  have dist: "distinct (map fst (?g rq))" if "distinct (map (ToLower \<circ> fst) (rq_Header rq))" for rq :: s3_request
  proof -
    have "map fst (?g rq) = filter (\<lambda>k. k \<noteq> ''authorization'') (map (ToLower \<circ> fst) (rq_Header rq))"
      by (induction "rq_Header rq") (auto simp: filter_map comp_def case_prod_beta)
    with that show ?thesis by simp
  qed
  have "map_of (?g rq') = map_of (?g rq)"
    using map_of_inject_set [OF dist [OF d(2)] dist [OF d(1)]] same by simp
  then have m: "map_of (signable_headers rq') = map_of (signable_headers rq)"
    using signable_map [OF d(1), of "[]"] signable_map [OF d(2), of "[]"] by (simp add: signable_headers_def)
  have k: "distinct (map fst (signable_headers r))" for r
    unfolding signable_headers_def by (rule signable_distinct) simp
  have "set (map fst (signable_headers rq')) = set (map fst (signable_headers rq))"
    using arg_cong [OF m, of dom] by (simp add: dom_map_of_conv_image_fst)
  then have "sort (map fst (signable_headers rq')) = sort (map fst (signable_headers rq))"
    using k by (intro sorted_distinct_set_unique) auto
  then show ?thesis by (simp add: canonicalHeaders_def Let_def get_def m)
qed

end
