(* ===== verification/Scheduler.thy ===== *)
theory Scheduler
  imports Fleet_Callback Object_Storage
begin

text \<open>
  The background workers of \<^verbatim>\<open>src/internal/api/scheduler.go\<close>: one iteration of the backup scheduler, with
  the pause of instances whose grace period has ended, and one iteration of the backup verifier.  The
  tickers that call them are not modelled; each iteration is a computation over both databases.  Log
  lines are left out.  An error ends an iteration only when it is a panic; any other error makes the
  loop go on with its next element.
\<close>

section \<open>Wall clocks\<close>

text \<open>
  A \<^verbatim>\<open>time.Location\<close> is its lookup: for an instant in seconds, the offset from UTC then in force and the
  interval in which it is.  The time zone database is a parameter; the conversions are those of package
  \<^verbatim>\<open>time\<close>.  A date is the number of its day since 1 January 1970.
\<close>

record location =
  loc_lookup :: "int \<Rightarrow> int \<times> int \<times> int"

definition UTC :: location where
  "UTC = \<lparr>loc_lookup = (\<lambda>_. (0, - (2 ^ 63), 2 ^ 63 - 1))\<rparr>"

definition local_seconds :: "location \<Rightarrow> int \<Rightarrow> int" where
  "local_seconds loc t = unix_seconds t + fst (loc_lookup loc (unix_seconds t))"

definition time_day :: "location \<Rightarrow> int \<Rightarrow> int" where
  "time_day loc t = local_seconds loc t div 86400"

definition time_Hour :: "location \<Rightarrow> int \<Rightarrow> int" where
  "time_Hour loc t = local_seconds loc t mod 86400 div 3600"

definition time_Minute :: "location \<Rightarrow> int \<Rightarrow> int" where
  "time_Minute loc t = local_seconds loc t mod 3600 div 60"

definition time_Weekday :: "location \<Rightarrow> int \<Rightarrow> string" where
  "time_Weekday loc t = [''Sunday'', ''Monday'', ''Tuesday'', ''Wednesday'', ''Thursday'', ''Friday'', ''Saturday'']
     ! nat ((time_day loc t + 4) mod 7)"

text \<open>\<^verbatim>\<open>time.Date(year, month, day, hour, min, 0, 0, loc)\<close>.\<close>

definition time_Date :: "location \<Rightarrow> int \<Rightarrow> int \<Rightarrow> int \<Rightarrow> int" where
  "time_Date loc day hour minute =
     (let unix = day * 86400 + hour * 3600 + minute * 60 in
      case loc_lookup loc unix of (offset, start, end_) \<Rightarrow>
        if offset = 0 then seconds unix
        else let utc = unix - offset in
          if utc < start \<or> utc \<ge> end_ then seconds (unix - fst (loc_lookup loc utc)) else seconds utc)"

text \<open>\<^verbatim>\<open>time.ParseInLocation("15:04", s, loc)\<close>, which yields an instant of 1 January of the year 0.\<close>

definition year_zero :: int where "year_zero = - 719528"

definition digit :: "char \<Rightarrow> int option" where
  "digit c = (if in_range CHR ''0'' CHR ''9'' c then Some (byte_of c - 48) else None)"

definition getnum :: "string \<Rightarrow> bool \<Rightarrow> (int \<times> string) option" where
  "getnum s fixed = (case s of
     [] \<Rightarrow> None
   | c # cs \<Rightarrow> (case digit c of
       None \<Rightarrow> None
     | Some a \<Rightarrow> (case cs of
         [] \<Rightarrow> if fixed then None else Some (a, cs)
       | c2 # cs2 \<Rightarrow> (case digit c2 of
           None \<Rightarrow> if fixed then None else Some (a, cs)
         | Some b \<Rightarrow> Some (a * 10 + b, cs2)))))"

definition parse_clock :: "location \<Rightarrow> string \<Rightarrow> int option" where
  "parse_clock loc s = (case getnum s False of
     None \<Rightarrow> None
   | Some (hour, rest) \<Rightarrow>
       if 24 \<le> hour then None
       else (case rest of
         [] \<Rightarrow> None
       | c # cs \<Rightarrow> if c \<noteq> CHR '':'' then None
           else (case getnum cs True of
             None \<Rightarrow> None
           | Some (minute, rest) \<Rightarrow> if 60 \<le> minute \<or> rest \<noteq> '''' then None else Some (time_Date loc year_zero hour minute))))"

section \<open>When a backup is due\<close>

record scheduler_world =
  sw_location :: "string \<Rightarrow> location option"
  sw_tier_of_json :: "string \<Rightarrow> YAMLTier option"
  sw_policy_of_json :: "string \<Rightarrow> BackupPolicy option"
  sw_storage :: s3_world

definition policy_location :: "scheduler_world \<Rightarrow> BackupPolicy \<Rightarrow> location" where
  "policy_location w policy = (if bp_Timezone policy \<noteq> ''''
     then (case sw_location w (bp_Timezone policy) of Some l \<Rightarrow> l | None \<Rightarrow> UTC) else UTC)"

definition scheduled_after :: "handlers \<Rightarrow> int \<Rightarrow> BackupRecord list \<Rightarrow> bool" where
  "scheduled_after h start recs \<longleftrightarrow> (\<exists>r \<in> set recs. br_TriggeredBy r = ''scheduled''
     \<and> (case h_time_of_rfc3339 h (br_CreatedAt r) of None \<Rightarrow> False | Some rTime \<Rightarrow> start < rTime))"

definition EvaluateBackupSchedule ::
  "handlers \<Rightarrow> scheduler_world \<Rightarrow> string \<Rightarrow> BackupPolicy \<Rightarrow> int \<Rightarrow> bool db" where
  "EvaluateBackupSchedule h w instanceID policy createdAt = do {
     let loc = policy_location w policy;
     t \<leftarrow> now;
     case parse_clock loc (bp_Time policy) of
       None \<Rightarrow> return (Inl (Wrap (''invalid policy time format '' @ quoted (bp_Time policy) @ '': '') (Plain ''time'')))
     | Some schedTime \<Rightarrow>
         (let today = time_day loc t;
              targetTime = time_Date loc today (time_Hour loc schedTime) (time_Minute loc schedTime);
              todayMidnight = time_Date loc today 0 0
          in if t < targetTime then return (Inr False)
             else if createdAt > targetTime then return (Inr False)
             else if createdAt > todayMidnight then return (Inr False)
             else do {
               r \<leftarrow> GetBackupRecords (h_rfc3339 h) instanceID;
               return (case r of
                 Inl e \<Rightarrow> Inl e
               | Inr recs \<Rightarrow>
                   if bp_Schedule policy = ''daily'' then Inr (\<not> scheduled_after h todayMidnight recs)
                   else if bp_Schedule policy = ''weekly'' then
                     (let targetWeekday = (if ToLower (bp_Weekday policy) = '''' then ''sunday'' else ToLower (bp_Weekday policy))
                      in if ToLower (time_Weekday loc t) \<noteq> targetWeekday then Inr False
                         else Inr (\<not> scheduled_after h (t - seconds (6 * 24 * 3600)) recs))
                   else Inr False)
             })
   }"

section \<open>Loops\<close>

text \<open>A loop over a list whose body is skipped on an error, and whose elements are numbered.\<close>

fun each_from :: "nat \<Rightarrow> (nat \<Rightarrow> 'a \<Rightarrow> (err + unit) api_io) \<Rightarrow> 'a list \<Rightarrow> (err + unit) api_io" where
  "each_from n body [] = return (Inr ())"
| "each_from n body (x # xs) = do {
     r \<leftarrow> body n x;
     case r of
       Inl e \<Rightarrow> if is_panic e then return (Inl e) else each_from (Suc n) body xs
     | Inr _ \<Rightarrow> each_from (Suc n) body xs
   }"

text \<open>
  The random bytes of the identifiers that an element draws and the entropy of its publication, by the
  position of the element in the nested loops.
\<close>

record draw =
  dr_op :: "byte list"
  dr_backup :: "byte list"
  dr_task :: "byte list"
  dr_entropy :: entropy

type_synonym draws = "nat list \<Rightarrow> draw"

section \<open>Grace periods\<close>

definition migration_running :: "Operation list \<Rightarrow> bool" where
  "migration_running ops \<longleftrightarrow> (\<exists>op \<in> set ops. op_Action op = ''migrate'')"

definition pause_expired :: "handlers \<Rightarrow> draw \<Rightarrow> CustomerApp \<Rightarrow> (err + unit) api_io" where
  "pause_expired h dr app =
     (let nodeID = or_empty (ca_NodeID app); opID = generateID ''op'' (dr_op dr) in
      if ca_TechnicalStatus app \<in> set [''stopped'', ''migrating'', ''paused_for_storage'', ''initializing'', ''setup_failed'',
           ''deprovisioning'', ''deprovisioned''] \<or> nodeID = '''' then return (Inr ())
      else do {
        o' \<leftarrow> on_db (GetRunningOperationsByInstance (ca_ID app));
        case o' of
          Inl e \<Rightarrow> return (Inl e)
        | Inr ops \<Rightarrow>
            if migration_running ops then return (Inr ())
            else do {
              c \<leftarrow> on_db (CreateOperation opID (ca_ID app) nodeID ActionPauseAppStorage ''pending_dispatch'' ''system'');
              case c of
                Inl e \<Rightarrow> return (Inl e)
              | Inr _ \<Rightarrow> do {
                  p \<leftarrow> enqueueRawTaskWithErr h (dr_entropy dr) (zero_task\<lparr>ft_TaskID := generateID ''task'' (dr_task dr),
                         ft_OperationID := opID, ft_NodeID := nodeID, ft_Action := ActionPauseAppStorage,
                         ft_InstanceID := ca_ID app\<rparr>);
                  case p of
                    Inl e \<Rightarrow> return (Inl e)
                  | Inr _ \<Rightarrow> on_db (UpdateCustomerAppStatus (ca_ID app) '''' ''paused_for_storage'')
                }
            }
      })"

definition checkGracePeriodExpiry :: "handlers \<Rightarrow> draws \<Rightarrow> (err + unit) api_io" where
  "checkGracePeriodExpiry h dr = do {
     r \<leftarrow> on_db GetExpiredGracePeriodApps;
     case r of
       Inl e \<Rightarrow> return (Inr ())
     | Inr apps \<Rightarrow> each_from 0 (\<lambda>i. pause_expired h (dr [0, i])) apps
   }"

section \<open>Scheduled backups\<close>

definition mustMarshalRetention :: "int \<Rightarrow> int \<Rightarrow> string" where
  "mustMarshalRetention count days =
     ''{'' @ quoted ''count'' @ '':'' @ show_int count @ '','' @ quoted ''days'' @ '':'' @ show_int days @ ''}''"

definition scheduled_storage ::
  "BackupStorageConfig option \<Rightarrow> string \<Rightarrow> string \<Rightarrow> string \<Rightarrow> string \<Rightarrow> string \<Rightarrow> string \<Rightarrow> StorageConfig" where
  "scheduled_storage cfg kind nodeID instanceID service opID backupID = (case cfg of
     Some c \<Rightarrow>
       \<lparr>sto_Backend = sc_Backend c,
        sto_Key = sc_Prefix c @ ''/'' @ nodeID @ ''/'' @ instanceID @ ''/'' @ service @ ''-'' @ kind @ ''-'' @ opID,
        sto_BackupID = backupID, sto_Endpoint = sc_Endpoint c, sto_Region = sc_Region c, sto_Bucket = sc_Bucket c,
        sto_Prefix = sc_Prefix c, sto_ForcePathStyle = sc_ForcePathStyle c, sto_AccessKeyEnv = sc_AccessKeyEnv c,
        sto_SecretKeyEnv = sc_SecretKeyEnv c, sto_SessionTokenEnv = sc_SessionTokenEnv c\<rparr>
   | None \<Rightarrow>
       \<lparr>sto_Backend = ''local'', sto_Key = ''/var/lib/admiral/backups/'' @ instanceID @ ''/'' @ opID, sto_BackupID = backupID,
        sto_Endpoint = '''', sto_Region = '''', sto_Bucket = '''', sto_Prefix = '''', sto_ForcePathStyle = False,
        sto_AccessKeyEnv = '''', sto_SecretKeyEnv = '''', sto_SessionTokenEnv = ''''\<rparr>)"

definition active_storage :: "handlers \<Rightarrow> BackupStorageConfig option api_io" where
  "active_storage h = do {
     r \<leftarrow> on_db (GetActiveBackupStorageConfig (h_rfc3339 h));
     return (case r of Inr cfg \<Rightarrow> cfg | Inl _ \<Rightarrow> None)
   }"

definition scheduled_record ::
  "string \<Rightarrow> CustomerApp \<Rightarrow> string \<Rightarrow> BackupPolicy \<Rightarrow> string \<Rightarrow> string \<Rightarrow> string \<Rightarrow> StorageConfig \<Rightarrow> BackupRecord" where
  "scheduled_record instanceID inst nodeID policy backupType service databaseType storage =
     \<lparr>br_ID = sto_BackupID storage, br_InstanceID = instanceID, br_AppID = ca_AppDefinitionName inst,
      br_TierID = ca_TierName inst, br_NodeID = nodeID, br_BackupType = backupType, br_Service = service,
      br_DatabaseType = databaseType, br_Status = ''pending'', br_StorageBackend = sto_Backend storage,
      br_StorageKey = sto_Key storage, br_StorageURIAdmin = '''', br_SizeBytes = 0, br_ChecksumSHA256 = '''',
      br_CreatedAt = '''', br_CompletedAt = '''', br_ExpiresAt = '''', br_TriggeredBy = ''scheduled'',
      br_RetentionPolicySnapshotJSON = mustMarshalRetention (ret_Count (bp_Retention policy)) (ret_Days (bp_Retention policy)),
      br_TierSnapshotJSON = ca_TierSnapshotJSON inst, br_ErrorMessage = '''', br_VerifiedAt = ''''\<rparr>"

text \<open>What every error of the backup of a database does after its operation exists.\<close>

definition fail_backup :: "handlers \<Rightarrow> string \<Rightarrow> string \<Rightarrow> err \<Rightarrow> (err + unit) api_io" where
  "fail_backup h opID instanceID e = do {
     _ \<leftarrow> on_db (UpdateOperation opID ''failed'' (h_error_text h e));
     _ \<leftarrow> on_db (UpdateCustomerAppStatus instanceID '''' ''failed'');
     return (Inr ())
   }"

definition database_backup ::
  "handlers \<Rightarrow> string \<Rightarrow> CustomerApp \<Rightarrow> AppDefinitionPayload \<Rightarrow> AppTier \<Rightarrow> BackupPolicy \<Rightarrow> draw \<Rightarrow> serviceBackupTarget
   \<Rightarrow> (err + unit) api_io" where
  "database_backup h instanceID inst payload tier policy dr target =
     (let service = bt_ServiceName target; opID = generateID ''op'' (dr_op dr) in do {
       u \<leftarrow> on_db (UpdateCustomerAppStatus instanceID '''' ''backup_running'');
       case u of
         Inl e \<Rightarrow> return (Inr ())
       | Inr _ \<Rightarrow> (case ca_NodeID inst of
           None \<Rightarrow> return (Inl (Panic ''nil pointer dereference''))
         | Some nodeID \<Rightarrow> do {
             c \<leftarrow> on_db (CreateOperation opID instanceID nodeID ActionBackupDatabase ''pending_dispatch'' ''system:scheduler'');
             case c of
               Inl e \<Rightarrow> do { _ \<leftarrow> on_db (UpdateCustomerAppStatus instanceID '''' ''failed''); return (Inr ()) }
             | Inr _ \<Rightarrow> do {
                 cfg \<leftarrow> active_storage h;
                 let storage = scheduled_storage cfg ''database'' nodeID instanceID service opID (generateID ''bk'' (dr_backup dr));
                 b \<leftarrow> on_db (CreateBackupRecord (scheduled_record instanceID inst nodeID policy ''database'' service
                        (bak_Engine (bt_Backup target)) storage));
                 case b of
                   Inl e \<Rightarrow> fail_backup h opID instanceID e
                 | Inr _ \<Rightarrow> do {
                     s \<leftarrow> on_db (decryptedSecretMap h instanceID);
                     case s of
                       Inl e \<Rightarrow> fail_backup h opID instanceID e
                     | Inr secrets \<Rightarrow> do {
                         services \<leftarrow> on_db (service_infos h payload tier instanceID (ca_CustomerID inst)
                                      (scopeTaskSecrets ActionBackupDatabase payload secrets service));
                         p \<leftarrow> enqueueRawTaskWithErr h (dr_entropy dr)
                                ((base_task (generateID ''task'' (dr_task dr)) opID instanceID nodeID payload tier ActionBackupDatabase services)
                                 \<lparr>ft_Backup := Some (buildTaskBackupInfo target), ft_Storage := Some storage\<rparr>);
                         case p of
                           Inl e \<Rightarrow> if is_panic e then return (Inl e)
                             else do { _ \<leftarrow> on_db (UpdateCustomerAppStatus instanceID '''' ''failed''); return (Inr ()) }
                         | Inr _ \<Rightarrow> return (Inr ())
                       }
                   }
               }
           })
     })"

definition volume_backup ::
  "handlers \<Rightarrow> string \<Rightarrow> CustomerApp \<Rightarrow> AppDefinitionPayload \<Rightarrow> AppTier \<Rightarrow> BackupPolicy \<Rightarrow> draw \<Rightarrow> serviceBackupTarget
   \<Rightarrow> (err + unit) api_io" where
  "volume_backup h instanceID inst payload tier policy dr target =
     (let service = bt_ServiceName target; opID = generateID ''op'' (dr_op dr) in
      case ca_NodeID inst of
        None \<Rightarrow> return (Inl (Panic ''nil pointer dereference''))
      | Some nodeID \<Rightarrow> do {
          c \<leftarrow> on_db (CreateOperation opID instanceID nodeID ActionBackupVolumes ''pending_dispatch'' ''system:scheduler'');
          case c of
            Inl e \<Rightarrow> return (Inr ())
          | Inr _ \<Rightarrow> do {
              cfg \<leftarrow> active_storage h;
              let storage = scheduled_storage cfg ''volumes'' nodeID instanceID service opID (generateID ''bk'' (dr_backup dr));
              b \<leftarrow> on_db (CreateBackupRecord (scheduled_record instanceID inst nodeID policy ''volume'' service ''none'' storage));
              case b of
                Inl e \<Rightarrow> do { _ \<leftarrow> on_db (UpdateOperation opID ''failed'' (h_error_text h e)); return (Inr ()) }
              | Inr _ \<Rightarrow> do {
                  s \<leftarrow> on_db (decryptedSecretMap h instanceID);
                  case s of
                    Inl e \<Rightarrow> do { _ \<leftarrow> on_db (UpdateOperation opID ''failed'' (h_error_text h e)); return (Inr ()) }
                  | Inr secrets \<Rightarrow> do {
                      services \<leftarrow> on_db (service_infos h payload tier instanceID (ca_CustomerID inst)
                                   (scopeTaskSecrets ActionBackupVolumes payload secrets service));
                      p \<leftarrow> enqueueRawTaskWithErr h (dr_entropy dr)
                             ((base_task (generateID ''task'' (dr_task dr)) opID instanceID nodeID payload tier ActionBackupVolumes services)
                              \<lparr>ft_Tier := (ft_Tier zero_task)\<lparr>ti_Name := ca_TierName inst, ti_Environment := at_Environment tier\<rparr>,
                               ft_Backup := Some (buildTaskBackupInfo target), ft_Storage := Some storage\<rparr>);
                      return (only_panic p)
                    }
                }
            }
        })"

definition TriggerScheduledBackup ::
  "handlers \<Rightarrow> draws \<Rightarrow> string \<Rightarrow> BackupPolicy \<Rightarrow> (err + unit) api_io" where
  "TriggerScheduledBackup h dr instanceID policy = do {
     i \<leftarrow> on_db (GetCustomerApp instanceID);
     case i of
       Inr (Some v) \<Rightarrow> (let inst = av_App v; name = ca_AppDefinitionName inst in do {
         o' \<leftarrow> on_db (GetRunningOperationsByInstance instanceID);
         case o' of
           Inl _ \<Rightarrow> return (Inr ())
         | Inr ops \<Rightarrow> if migration_running ops then return (Inr ()) else do {
             d \<leftarrow> on_db (GetAppDefinition name);
             case d of
               Inr (Some ad) \<Rightarrow> (case h_yaml h (ad_RawYAML ad) of
                 None \<Rightarrow> return (Inr ())
               | Some payload \<Rightarrow> do {
                   ts \<leftarrow> on_db (GetAppTiers name);
                   case ts of
                     Inl _ \<Rightarrow> return (Inr ())
                   | Inr tiers \<Rightarrow>
                       (let tier = (case find (\<lambda>t. at_Name t = ca_TierName inst) tiers of
                              Some t \<Rightarrow> t | None \<Rightarrow> zero_tier\<lparr>at_Name := ca_TierName inst\<rparr>)
                        in do {
                          a \<leftarrow> (if bp_BackupDatabase policy then
                                  each_from 0 (\<lambda>j. database_backup h instanceID inst payload tier policy (dr [0, j]))
                                    (backupTargetsByType payload ''database'')
                                else return (Inr ()));
                          case a of
                            Inl e \<Rightarrow> return (Inl e)
                          | Inr _ \<Rightarrow>
                              if bp_BackupVolumes policy then
                                each_from 0 (\<lambda>j. volume_backup h instanceID inst payload tier policy (dr [1, j]))
                                  (backupTargetsByType payload ''volume'')
                              else return (Inr ())
                        })
                 })
             | _ \<Rightarrow> return (Inr ())
           }
       })
     | _ \<Rightarrow> return (Inr ())
   }"

section \<open>An iteration of the scheduler\<close>

definition backup_policy :: "scheduler_world \<Rightarrow> CustomerApp \<Rightarrow> (store conn, BackupPolicy option) state" where
  "backup_policy w inst =
     (let snapshot = (if ca_TierSnapshotJSON inst = '''' then None
                      else (case sw_tier_of_json w (ca_TierSnapshotJSON inst) of None \<Rightarrow> None | Some tier \<Rightarrow> tier_Backups tier))
      in case snapshot of
        Some policy \<Rightarrow> return (Some policy)
      | None \<Rightarrow> do {
          r \<leftarrow> GetAppTiers (ca_AppDefinitionName inst);
          return (case r of
            Inl _ \<Rightarrow> None
          | Inr tiers \<Rightarrow> (case find (\<lambda>t. at_Name t = ca_TierName inst \<and> at_BackupPolicyJSON t \<noteq> '''') tiers of
              None \<Rightarrow> None
            | Some t \<Rightarrow> sw_policy_of_json w (at_BackupPolicyJSON t)))
        })"

definition schedule_instance :: "handlers \<Rightarrow> scheduler_world \<Rightarrow> draws \<Rightarrow> CustomerApp \<Rightarrow> (err + unit) api_io" where
  "schedule_instance h w dr inst =
     (if or_empty (ca_NodeID inst) = '''' \<or> ca_TechnicalStatus inst \<noteq> ''running'' then return (Inr ())
      else do {
        p \<leftarrow> on_db (backup_policy w inst);
        case p of
          None \<Rightarrow> return (Inr ())
        | Some policy \<Rightarrow>
            if \<not> bp_Enabled policy \<or> bp_Schedule policy = ''disabled'' then return (Inr ())
            else do {
              e \<leftarrow> on_db (EvaluateBackupSchedule h w (ca_ID inst) policy (ca_CreatedAt inst));
              case e of
                Inl _ \<Rightarrow> return (Inr ())
              | Inr shouldBackup \<Rightarrow>
                  if shouldBackup then TriggerScheduledBackup h dr (ca_ID inst) policy else return (Inr ())
            }
      })"

definition RunSchedulerIteration :: "handlers \<Rightarrow> scheduler_world \<Rightarrow> draws \<Rightarrow> (err + unit) api_io" where
  "RunSchedulerIteration h w dr = do {
     g \<leftarrow> checkGracePeriodExpiry h dr;
     case g of
       Inl e \<Rightarrow> return (Inl e)
     | Inr _ \<Rightarrow> do {
         r \<leftarrow> on_db (GetCustomerApps '''');
         case r of
           Inl _ \<Rightarrow> return (Inr ())
         | Inr instances \<Rightarrow> each_from 0 (\<lambda>i v. schedule_instance h w (\<lambda>path. dr (1 # i # path)) (av_App v)) instances
       }
   }"

section \<open>An iteration of the verifier\<close>

definition verify_record :: "handlers \<Rightarrow> s3_world \<Rightarrow> S3Client \<Rightarrow> BackupRecord \<Rightarrow> unit db" where
  "verify_record h w client rec = do {
     t \<leftarrow> now;
     case VerifyObject w t client (br_StorageKey rec) (br_SizeBytes rec) of
       Inl e \<Rightarrow> UpdateBackupVerifiedFailed (br_ID rec) (''verification failed: '' @ h_error_text h e)
     | Inr _ \<Rightarrow> UpdateBackupVerified (br_ID rec)
   }"

fun verify_records :: "handlers \<Rightarrow> s3_world \<Rightarrow> S3Client \<Rightarrow> BackupRecord list \<Rightarrow> (store conn, unit) state" where
  "verify_records h w client [] = return ()"
| "verify_records h w client (rec # recs) = do {
     _ \<leftarrow> verify_record h w client rec;
     verify_records h w client recs
   }"

definition RunBackupVerifierIteration :: "handlers \<Rightarrow> s3_world \<Rightarrow> (store conn, unit) state" where
  "RunBackupVerifierIteration h w = do {
     r \<leftarrow> GetActiveBackupStorageConfig (h_rfc3339 h);
     case r of
       Inr (Some cfg) \<Rightarrow>
         (let accessKey = w_getenv w ''ADMIRAL_S3_ACCESS_KEY_ID''; secretKey = w_getenv w ''ADMIRAL_S3_SECRET_ACCESS_KEY'' in
          if sc_Backend cfg \<noteq> ''s3'' then return ()
          else (case ValidateEndpoint w (sc_Endpoint cfg) of
            Inl _ \<Rightarrow> return ()
          | Inr _ \<Rightarrow>
              if accessKey = '''' \<or> secretKey = '''' then return ()
              else do {
                recs \<leftarrow> GetSucceededS3Backups (h_rfc3339 h);
                case recs of
                  Inl _ \<Rightarrow> return ()
                | Inr records \<Rightarrow> verify_records h w (NewS3Client (sc_Endpoint cfg) (sc_Region cfg) (sc_Bucket cfg)
                    (sc_Prefix cfg) accessKey secretKey (sc_ForcePathStyle cfg)) records
              }))
     | _ \<Rightarrow> return ()
   }"

end
