(* ===== verification/Scheduler_Props.thy ===== *)
theory Scheduler_Props
  imports Scheduler Fleet_Props
begin

text \<open>
  The scheduler backs an instance up once in each period.  The first part is a frame: what the scheduler
  does for other instances, and for instances whose grace period has ended, leaves the backups of an
  instance and the snapshots of the tiers alone.
\<close>

section \<open>The backups of one instance\<close>

definition backups_of :: "string \<Rightarrow> store \<Rightarrow> backup_record_row list" where
  "backups_of iid d = filter (\<lambda>b. br_InstanceID (brr_record b) = iid) (st_backup_records d)"

definition snapshots :: "store \<Rightarrow> (string \<times> string) list" where
  "snapshots d = map (\<lambda>a. (ca_ID a, ca_TierSnapshotJSON a)) (st_apps d)"

definition same_backups :: "string \<Rightarrow> store \<Rightarrow> store \<Rightarrow> bool" where
  "same_backups iid d d' \<longleftrightarrow> backups_of iid d' = backups_of iid d \<and> snapshots d' = snapshots d"

interpretation kb: table_contract "\<lambda>_. same_backups iid" for iid
  by unfold_locales (auto simp: same_backups_def)

abbreviation keeps_backups :: "string \<Rightarrow> (store conn, 'a) state \<Rightarrow> bool" where
  "keeps_backups iid \<equiv> state_io_rel (conn_rel (\<lambda>_. same_backups iid))"

named_theorems quiet

lemma quiet_wrapped [quiet]: "keeps_backups iid m \<Longrightarrow> keeps_backups iid (wrapped msg m)"
  unfolding wrapped_def by (intro kb.conn_rules)

lemma quiet_operations [quiet]:
  "keeps_backups iid (update_operations p f)" "keeps_backups iid (insert_operation row)"
  unfolding update_operations_def insert_operation_def
  by (intro kb.conn_rules; auto simp: same_backups_def backups_of_def snapshots_def split: if_splits)+

lemma quiet_status [quiet]: "keeps_backups iid (UpdateCustomerAppStatus a cs ts)"
proof -
  have s: "snapshots (d\<lparr>st_apps := update_where p f (st_apps d)\<rparr>) = snapshots d"
    if "\<And>x. ca_ID (f x) = ca_ID x \<and> ca_TierSnapshotJSON (f x) = ca_TierSnapshotJSON x" for p f and d :: store
    using that by (simp add: snapshots_def update_where_def)
  show ?thesis
    unfolding UpdateCustomerAppStatus_def update_apps_def
    by (intro quiet kb.conn_rules) (simp add: same_backups_def backups_of_def s)
qed

lemma quiet_reads [quiet]:
  "keeps_backups iid (GetCustomerApp x)" "keeps_backups iid (GetAppDefinition x)" "keeps_backups iid (GetAppTiers x)"
  "keeps_backups iid (GetRoutesByInstance x)" "keeps_backups iid (GetRunningOperationsByInstance x)"
  "keeps_backups iid (GetInstanceSecrets x)" "keeps_backups iid (GetActiveBackupStorageConfig render)"
  "keeps_backups iid GetExpiredGracePeriodApps"
  unfolding GetCustomerApp_def GetAppDefinition_def GetAppTiers_def GetRoutesByInstance_def
    GetRunningOperationsByInstance_def GetInstanceSecrets_def GetActiveBackupStorageConfig_def GetExpiredGracePeriodApps_def
  by (intro quiet kb.conn_rules)+

lemma quiet_page [quiet]: "keeps_backups iid (counted_page cm qm num rows limit offset)"
  unfolding counted_page_def by (intro kb.conn_rules) (auto simp: same_backups_def)

lemma quiet_pages [quiet]: "keeps_backups iid (GetBackupRecords render x)" "keeps_backups iid (GetCustomerApps x)"
  unfolding GetBackupRecords_def GetBackupRecordsPage_def GetCustomerApps_def GetCustomerAppsPage_def
  by (intro quiet kb.conn_rules)+

lemma quiet_writes [quiet]:
  "keeps_backups iid (CreateOperation oid i n a st u)" "keeps_backups iid (UpdateOperation oid st msg)"
  "keeps_backups iid (UpdateOperationTaskID oid tid)" "keeps_backups iid (MarkOperationQueuedIfPendingDispatch oid)"
  unfolding CreateOperation_def UpdateOperation_def UpdateOperationTaskID_def MarkOperationQueuedIfPendingDispatch_def
  by (intro quiet)+

lemma quiet_secrets [quiet]:
  "keeps_backups iid (decryptedSecretMap h i)" "keeps_backups iid (service_infos h payload tier i tenant sv)"
  unfolding decryptedSecretMap_def service_infos_def publicBaseURLForInstance_def
  by (intro quiet kb.conn_rules)+

lemma quiet_record:
  assumes "br_InstanceID rec \<noteq> iid"
  shows "keeps_backups iid (CreateBackupRecord rec)"
  unfolding CreateBackupRecord_def
  by (intro quiet kb.conn_rules) (use assms in \<open>auto simp: same_backups_def backups_of_def snapshots_def split: if_splits\<close>)

lemma quiet_evaluate [quiet]: "keeps_backups iid (EvaluateBackupSchedule h w i policy ct)"
  unfolding EvaluateBackupSchedule_def Let_def by (intro quiet kb.conn_rules)

lemma quiet_policy [quiet]: "keeps_backups iid (backup_policy w inst)"
  unfolding backup_policy_def Let_def by (intro quiet kb.conn_rules)

section \<open>Both databases\<close>

interpretation kq: io_contract "\<lambda>s s'. conn_rel (\<lambda>_. same_backups iid) (api_db s) (api_db s')" for iid
  by unfold_locales (auto simp: conn_rel_def same_backups_def)

abbreviation api_quiet :: "string \<Rightarrow> 'a api_io \<Rightarrow> bool" where
  "api_quiet iid \<equiv> state_io_rel (\<lambda>s s'. conn_rel (\<lambda>_. same_backups iid) (api_db s) (api_db s'))"

lemma quiet_db [quiet]: "keeps_backups iid m \<Longrightarrow> api_quiet iid (on_db m)"
  by (auto simp: state_io_rel_def on_db_def split: prod.splits) (metis snd_conv)

lemma quiet_queue [quiet]: "api_quiet iid (on_queue m)"
  by (auto simp: state_io_rel_def on_queue_def conn_rel_def same_backups_def split: prod.splits)

lemma quiet_each: "(\<And>n x. api_quiet iid (body n x)) \<Longrightarrow> api_quiet iid (each_from n body xs)"
  by (induction xs arbitrary: n) (auto intro!: kq.io_rules)

lemma quiet_enqueue [quiet]: "api_quiet iid (enqueueRawTaskWithErr h ent task)"
  unfolding enqueueRawTaskWithErr_def publish_step_def fail_operation_def Let_def
  by (intro quiet kq.io_rules kb.conn_rules)

lemma quiet_grace [quiet]: "api_quiet iid (checkGracePeriodExpiry h dr)"
  unfolding checkGracePeriodExpiry_def pause_expired_def Let_def
  by (intro quiet quiet_each kq.io_rules)

lemma quiet_trigger:
  assumes "i \<noteq> iid"
  shows "api_quiet iid (TriggerScheduledBackup h dr i policy)"
proof -
  have r: "br_InstanceID (scheduled_record i inst n p bt sv dt st) \<noteq> iid" for inst n p bt sv dt st
    using assms by (simp add: scheduled_record_def)
  have 1: "api_quiet iid (database_backup h i inst payload tier policy d target)" for inst payload tier d target
    unfolding database_backup_def active_storage_def fail_backup_def Let_def
    by (intro quiet quiet_record r kq.io_rules)
  have 2: "api_quiet iid (volume_backup h i inst payload tier policy d target)" for inst payload tier d target
    unfolding volume_backup_def active_storage_def Let_def
    by (intro quiet quiet_record r kq.io_rules)
  show ?thesis
    unfolding TriggerScheduledBackup_def Let_def by (intro quiet quiet_each 1 2 kq.io_rules)
qed

section \<open>A period that is covered\<close>

text \<open>
  The instant after which a scheduled backup counts for the current period, and the fact that one does:
  its record was created in a second after that instant and is among the thousand that the scheduler reads.
\<close>

definition period_start :: "scheduler_world \<Rightarrow> BackupPolicy \<Rightarrow> int \<Rightarrow> int" where
  "period_start w policy t = (if bp_Schedule policy = ''weekly'' then t - seconds (6 * 24 * 3600)
     else time_Date (policy_location w policy) (time_day (policy_location w policy) t) 0 0)"

definition covered :: "scheduler_world \<Rightarrow> string \<Rightarrow> BackupPolicy \<Rightarrow> store conn \<Rightarrow> bool" where
  "covered w iid policy c \<longleftrightarrow> (\<exists>b \<in> set (backups_of iid (tables c)). br_TriggeredBy (brr_record b) = ''scheduled''
     \<and> period_start w policy (app_clock c) < seconds (unix_seconds (brr_created_at b))
     \<and> length (filter (\<lambda>x. brr_created_at b \<le> brr_created_at x) (backups_of iid (tables c))) \<le> 1000)"

definition snapshot_policy :: "scheduler_world \<Rightarrow> string \<Rightarrow> BackupPolicy option" where
  "snapshot_policy w json = (if json = '''' then None
     else (case sw_tier_of_json w json of None \<Rightarrow> None | Some tier \<Rightarrow> tier_Backups tier))"

definition period_covered :: "scheduler_world \<Rightarrow> string \<Rightarrow> store conn \<Rightarrow> bool" where
  "period_covered w iid c \<longleftrightarrow> (\<forall>(i, json) \<in> set (snapshots (tables c)). i = iid \<longrightarrow>
     (\<exists>policy. snapshot_policy w json = Some policy \<and> covered w iid policy c))"

lemma covered_kept:
  assumes "conn_rel (\<lambda>_. same_backups iid) c c'"
  shows "covered w iid policy c' = covered w iid policy c" and "period_covered w iid c' = period_covered w iid c"
proof -
  show 1: "covered w iid policy c' = covered w iid policy c" for policy
    using assms by (simp add: covered_def conn_rel_def same_backups_def)
  show "period_covered w iid c' = period_covered w iid c"
    unfolding period_covered_def 1 using assms by (simp add: conn_rel_def same_backups_def)
qed

lemma newest_taken:
  fixes k :: "'r \<Rightarrow> int" and i :: "'r \<Rightarrow> string"
  assumes "b \<in> set xs" and n: "length (filter (\<lambda>x. k b \<le> k x) xs) \<le> n"
  shows "b \<in> set (take n (rev (sort_key (\<lambda>x. (k x, i x)) xs)))"
proof -
  define ys where "ys = rev (sort_key (\<lambda>x. (k x, i x)) xs)"
  have "length (filter p ys) = length (filter p xs)" for p
    by (simp add: ys_def rev_filter [symmetric] filter_sort)
  with assms have len: "length (filter (\<lambda>x. k b \<le> k x) ys) \<le> n" and "b \<in> set ys" by (simp_all add: ys_def)
  then obtain j where j: "j < length ys" "ys ! j = b" by (auto simp: in_set_conv_nth)
  have "sorted_wrt (\<lambda>x y. (k y, i y) \<le> (k x, i x)) ys"
    using sorted_sort_key [of "\<lambda>x. (k x, i x)" xs] unfolding ys_def sorted_wrt_rev sorted_map .
  then have "sorted_wrt (\<lambda>x y. k y \<le> k x) ys"
    by (rule sorted_wrt_mono_rel [rotated]) auto
  then have "k b \<le> k (ys ! m)" if "m \<le> j" for m
    using that j by (cases "m = j") (auto simp: sorted_wrt_iff_nth_less)
  then have "filter (\<lambda>x. k b \<le> k x) (take (Suc j) ys) = take (Suc j) ys"
    by (auto simp: filter_id_conv in_set_conv_nth)
  then have "Suc j \<le> length (filter (\<lambda>x. k b \<le> k x) ys)"
    using j(1) append_take_drop_id [of "Suc j" ys] by (metis Suc_leI filter_append le_add1 length_append length_take min.absorb2)
  with len have "j < n" by simp
  then show ?thesis using j unfolding ys_def [symmetric] by (auto simp: in_set_conv_nth intro!: exI [of _ j])
qed

text \<open>\<^verbatim>\<open>time.RFC3339\<close> has no fraction of a second.\<close>

definition rfc3339_seconds :: "handlers \<Rightarrow> bool" where
  "rfc3339_seconds h \<longleftrightarrow> (\<forall>t. h_time_of_rfc3339 h (h_rfc3339 h t) = Some (seconds (unix_seconds t)))"

lemma evaluate_covered:
  assumes rfc: "rfc3339_seconds h" and "iid \<noteq> ''''" and cov: "covered w iid policy c"
    and run: "run_state (EvaluateBackupSchedule h w iid policy ct) c = (r, c')"
  shows "r \<noteq> Inr True"
proof
  assume "r = Inr True"
  with run obtain recs c2 where recs: "run_state (GetBackupRecords (h_rfc3339 h) iid) c = (Inr recs, c2)"
    and due: "\<not> scheduled_after h (period_start w policy (app_clock c)) recs"
    by (auto simp: EvaluateBackupSchedule_def Let_def period_start_def split: option.splits prod.splits sum.splits if_splits)
  from cov obtain b where b: "b \<in> set (backups_of iid (tables c))" "br_TriggeredBy (brr_record b) = ''scheduled''"
      "period_start w policy (app_clock c) < seconds (unix_seconds (brr_created_at b))"
      "length (filter (\<lambda>x. brr_created_at b \<le> brr_created_at x) (backups_of iid (tables c))) \<le> 1000"
    unfolding covered_def by blast
  from recs have "recs = take 1000 (map (render_backup (h_rfc3339 h))
      (rev (sort_key (\<lambda>b. (brr_created_at b, br_ID (brr_record b))) (backups_of iid (tables c)))))"
    using assms(2) by (auto simp: GetBackupRecords_def GetBackupRecordsPage_def counted_page_def page_def backups_of_def Let_def
        dest!: stmt_Inr query_Inr split: prod.splits sum.splits)
  with newest_taken [OF b(1,4)] have "render_backup (h_rfc3339 h) b \<in> set recs" by (simp add: take_map)
  moreover have "br_TriggeredBy (render_backup (h_rfc3339 h) b) = ''scheduled''"
    "h_time_of_rfc3339 h (br_CreatedAt (render_backup (h_rfc3339 h) b)) = Some (seconds (unix_seconds (brr_created_at b)))"
    using rfc b(2) by (simp_all add: render_backup_def Let_def rfc3339_seconds_def)
  ultimately have "scheduled_after h (period_start w policy (app_clock c)) recs"
    using b(3) unfolding scheduled_after_def by (intro bexI [of _ "render_backup (h_rfc3339 h) b"]) auto
  with due show False ..
qed

section \<open>An iteration in a covered period\<close>

abbreviation undisturbed :: "string \<Rightarrow> api \<Rightarrow> api \<Rightarrow> bool" where
  "undisturbed iid s s' \<equiv> conn_rel (\<lambda>_. same_backups iid) (api_db s) (api_db s')"

lemma schedule_instance_covered:
  assumes rfc: "rfc3339_seconds h" and ne: "iid \<noteq> ''''"
    and cov: "ca_ID inst = iid \<Longrightarrow> \<exists>policy. snapshot_policy w (ca_TierSnapshotJSON inst) = Some policy \<and> covered w iid policy (api_db s)"
    and run: "run_state (schedule_instance h w dr inst) s = (r, s')"
  shows "undisturbed iid s s'"
proof (cases "ca_ID inst = iid")
  case False
  then have "api_quiet iid (schedule_instance h w dr inst)"
    unfolding schedule_instance_def by (intro quiet quiet_trigger kq.io_rules)
  then show ?thesis using run by (rule state_io_relD)
next
  case True
  from cov [OF this] obtain policy where p: "snapshot_policy w (ca_TierSnapshotJSON inst) = Some policy"
    and c: "covered w iid policy (api_db s)" by blast
  have pol: "backup_policy w inst = return (Some policy)"
    using p by (auto simp: backup_policy_def snapshot_policy_def split: if_splits option.splits)
  obtain e c1 where e: "run_state (EvaluateBackupSchedule h w iid policy (ca_CreatedAt inst)) (api_db s) = (e, c1)" by fastforce
  have "e \<noteq> Inr True" by (rule evaluate_covered [OF rfc ne c e])
  moreover have "conn_rel (\<lambda>_. same_backups iid) (api_db s) c1" using quiet_evaluate e by (rule state_io_relD)
  moreover have "run_state (on_db (return (Some policy) :: (store conn, BackupPolicy option) state)) s = (Some policy, s)" by simp
  ultimately show ?thesis
    using run e kb.R_refl [of iid "api_db s"] unfolding schedule_instance_def pol True
    by (auto simp: on_db_eq split: if_splits sum.splits)
qed

lemma schedule_loop_covered:
  assumes rfc: "rfc3339_seconds h" and ne: "iid \<noteq> ''''"
    and cov: "\<And>v. v \<in> set vs \<Longrightarrow> ca_ID (av_App v) = iid \<Longrightarrow>
      \<exists>policy. snapshot_policy w (ca_TierSnapshotJSON (av_App v)) = Some policy \<and> covered w iid policy (api_db s)"
    and run: "run_state (each_from n (\<lambda>i v. schedule_instance h w (dr i) (av_App v)) vs) s = (r, s')"
  shows "undisturbed iid s s'"
  using cov run
proof (induction vs arbitrary: n s)
  case Nil
  then show ?case by (auto simp: kb.R_refl)
next
  case (Cons v vs)
  obtain x s1 where x: "run_state (schedule_instance h w (dr n) (av_App v)) s = (x, s1)" by fastforce
  have 1: "undisturbed iid s s1"
    by (rule schedule_instance_covered [OF rfc ne _ x]) (use Cons.prems(1) [of v] in simp)
  show ?case
  proof (cases "\<exists>e. x = Inl e \<and> is_panic e")
    case True
    with Cons.prems(2) x 1 show ?thesis by auto
  next
    case False
    with Cons.prems(2) x have "run_state (each_from (Suc n) (\<lambda>i v. schedule_instance h w (dr i) (av_App v)) vs) s1 = (r, s')"
      by (cases x) auto
    then have "undisturbed iid s1 s'"
      by (rule Cons.IH [rotated]) (use Cons.prems(1) covered_kept(1) [OF 1] in auto)
    with 1 show ?thesis by (rule kb.R_trans)
  qed
qed

lemma listed_snapshot:
  assumes "run_state (GetCustomerApps x) c = (Inr vs, c')" and "v \<in> set vs"
  shows "(ca_ID (av_App v), ca_TierSnapshotJSON (av_App v)) \<in> set (snapshots (tables c))"
proof -
  from assms obtain p t where "v \<in> set (take 1000 (app_listing p t (tables c)))"
    by (auto simp: GetCustomerApps_def GetCustomerAppsPage_def counted_page_def page_def Let_def
        dest!: stmt_Inr query_Inr split: prod.splits sum.splits)
  then have "v \<in> set (app_listing p t (tables c))" by (rule in_set_takeD)
  then show ?thesis
    by (auto simp: app_listing_def snapshots_def dest: app_rows_App)
qed


text \<open>An instance with a daily backup at midnight, and a clock that renders times in unary.\<close>

definition demo_rfc3339 :: "int \<Rightarrow> string" where
  "demo_rfc3339 t = (let u = unix_seconds t in
     if u < 0 then CHR ''-'' # replicate (nat (- u)) CHR ''x'' else replicate (nat u) CHR ''x'')"

definition demo_time :: "string \<Rightarrow> int option" where
  "demo_time s = Some (seconds (case s of [] \<Rightarrow> 0 | c # cs \<Rightarrow> if c = CHR ''-'' then - int (length cs) else int (length s)))"

definition demo_clock :: handlers where
  "demo_clock = demo_handlers\<lparr>h_rfc3339 := demo_rfc3339, h_time_of_rfc3339 := demo_time\<rparr>"

lemma demo_clock_seconds: "rfc3339_seconds demo_clock"
proof -
  have "demo_time (demo_rfc3339 t) = Some (seconds (unix_seconds t))" for t
  proof (cases "nat (unix_seconds t)")
    case 0
    then show ?thesis by (simp add: demo_time_def demo_rfc3339_def Let_def)
  next
    case (Suc n)
    then have "unix_seconds t = 1 + int n" by linarith
    then show ?thesis using Suc by (simp add: demo_time_def demo_rfc3339_def Let_def)
  qed
  then show ?thesis by (simp add: rfc3339_seconds_def demo_clock_def)
qed

definition demo_policy :: BackupPolicy where
  "demo_policy = \<lparr>bp_Enabled = True, bp_Schedule = ''daily'', bp_Weekday = '''', bp_Time = ''00:00'', bp_Timezone = '''',
     bp_Retention = \<lparr>ret_Count = 1, ret_Days = 1\<rparr>, bp_ManualBackups = True, bp_BackupDatabase = True,
     bp_BackupVolumes = True, bp_RestoreAllowed = True\<rparr>"

definition demo_scheduler :: scheduler_world where
  "demo_scheduler = \<lparr>sw_location = (\<lambda>_. None),
     sw_tier_of_json = (\<lambda>_. Some \<lparr>tier_CPU = Fin 1, tier_Memory = '''', tier_Storage = '''', tier_PriceMonthly = Fin 0,
       tier_Free = True, tier_Environment = [], tier_Backups = Some demo_policy\<rparr>),
     sw_policy_of_json = (\<lambda>_. None),
     sw_storage = \<lparr>w_url = (\<lambda>_. None), w_getenv = (\<lambda>_. ''''), w_do = (\<lambda>_. Inl (Plain '''')), w_sha256 = (\<lambda>_. []),
       w_hmac = (\<lambda>_ _. []), w_bytes = (\<lambda>_. []), w_format = (\<lambda>_ _. '''')\<rparr>\<rparr>"

definition demo_backup_row :: "int \<Rightarrow> backup_record_row" where
  "demo_backup_row t = \<lparr>brr_record = scheduled_record ''i1'' Store_Props.demo_app ''n1'' demo_policy ''database'' ''db'' ''mysql''
       (scheduled_storage None ''database'' ''n1'' ''i1'' ''db'' ''op0'' ''bk0''),
     brr_created_at = t, brr_completed_at = None, brr_expires_at = None, brr_verified_at = None\<rparr>"

definition demo_backed_up :: "int \<Rightarrow> api" where
  "demo_backed_up t = demo_api\<lparr>api_db := demo_serving_conn\<lparr>app_clock := seconds 30, tables := demo_serving\<lparr>
     st_apps := [Store_Props.demo_app\<lparr>ca_TierSnapshotJSON := ''tier'', ca_CreatedAt := - 1\<rparr>],
     st_backup_records := [demo_backup_row t]\<rparr>\<rparr>\<rparr>"

definition demo_draws :: draws where
  "demo_draws path = \<lparr>dr_op = [1], dr_backup = [2], dr_task = [3], dr_entropy = demo_entropy\<rparr>"


text \<open>
  A backup in the first second of the day does not count: the scheduler finds the instance due again,
  half a minute after the backup it has just recorded.
\<close>

lemma midnight_backup_repeats:
  "fst (run_state (EvaluateBackupSchedule demo_clock demo_scheduler ''i1'' demo_policy (- 1))
     (api_db (demo_backed_up 500000))) = Inr True"
  by code_simp

end
