(* ===== verification/Backups.thy ===== *)
theory Backups
  imports Scheduler
begin

text \<open>
  The endpoints for backups: \<^verbatim>\<open>src/internal/api/admin_backups.go\<close> (restore, prune, trigger, listing,
  deletion), \<^verbatim>\<open>customer_backups.go\<close> (the view of a customer) and \<^verbatim>\<open>admin_storage.go\<close> (the storage
  configuration).  A request is its method, path and query, the principal that the middleware has put
  into the context, its headers, and the decoded body.  Log lines are left out.
\<close>

section \<open>Requests\<close>

record request =
  hr_Method :: string
  hr_Path :: string
  hr_Query :: "string \<Rightarrow> string"
  hr_Header :: "string \<Rightarrow> string"
  hr_principal :: "string option"

definition systemAuthPrincipal :: string where "systemAuthPrincipal = ''system''"
definition harborTokenAuthPrincipal :: string where "harborTokenAuthPrincipal = ''harbor-token''"

definition isSystemPrincipal :: "request \<Rightarrow> bool" where
  "isSystemPrincipal r \<longleftrightarrow> or_empty (hr_principal r) = systemAuthPrincipal"

definition isHarborServicePrincipal :: "request \<Rightarrow> bool" where
  "isHarborServicePrincipal r \<longleftrightarrow> or_empty (hr_principal r) = harborTokenAuthPrincipal"

definition operatorFromRequest :: "request \<Rightarrow> string" where
  "operatorFromRequest r = (if or_empty (hr_principal r) \<noteq> '''' then or_empty (hr_principal r)
     else if hr_Header r ''X-Admiral-Admin-User'' \<noteq> '''' then hr_Header r ''X-Admiral-Admin-User''
     else hr_Header r ''X-Admiral-Operator'')"

record RestoreBackupRequest =
  rb_BackupID :: string
  rb_TargetAppID :: string
  rb_Service :: string
  rb_TargetNodeID :: string
  rb_Source :: BackupRestoreSource
  rb_RestoreMode :: string
  rb_VerifyChecksum :: bool

record customerBackupRecord =
  cb_ID :: string
  cb_InstanceID :: string
  cb_BackupType :: string
  cb_Service :: string
  cb_DatabaseType :: string
  cb_Status :: string
  cb_SizeBytes :: int
  cb_ChecksumSHA256 :: string
  cb_CreatedAt :: string
  cb_CompletedAt :: string
  cb_ExpiresAt :: string
  cb_TriggeredBy :: string

text \<open>What the endpoints answer with.\<close>

datatype backup_reply =
    OperationQueued string string
  | Pruned nat
  | BackupDetail BackupRecord
  | BackupPage "BackupRecord list" int int nat
  | CustomerBackups "customerBackupRecord list"
  | CustomerBackup customerBackupRecord
  | StorageDetail BackupStorageConfig
  | StorageTestQueued string
  | Done string

text \<open>
  Parsing of URLs and addresses, name resolution, and the decoding of the JSON that records keep; a
  parsed URL is what the code reads of it.
\<close>

record restore_url =
  ru_Scheme :: string
  ru_HasUser :: bool
  ru_Fragment :: string
  ru_Host :: string
  ru_Hostname :: string
  ru_Port :: string
  ru_Path :: string
  ru_Query :: "string \<Rightarrow> string"

record ip_addr =
  ip_String :: string
  ip_IsPrivate :: bool
  ip_IsLoopback :: bool
  ip_IsLinkLocalUnicast :: bool

record backups_world =
  bw_url :: "string \<Rightarrow> restore_url option"
  bw_ParseIP :: "string \<Rightarrow> ip_addr option"
  bw_LookupNetIP :: "string \<Rightarrow> ip_addr list option"
  bw_singleNode :: bool
  bw_retention_count :: "string \<Rightarrow> int option"
  bw_tier_of_json :: "string \<Rightarrow> (BackupPolicy option \<times> string) option"
  bw_policy_of_json :: "string \<Rightarrow> BackupPolicy option"
  bw_invalid_text :: "invalid \<Rightarrow> string"
  bw_Atoi :: "string \<Rightarrow> int option"
  bw_storage :: s3_world

section \<open>Early returns\<close>

text \<open>A handler that returns early has the response on the left.\<close>

definition attempt :: "('s, 'e + 'a) state \<Rightarrow> ('a \<Rightarrow> ('s, 'e + 'b) state) \<Rightarrow> ('s, 'e + 'b) state" where
  "attempt m f = m \<bind> (\<lambda>r. case r of Inl e \<Rightarrow> return (Inl e) | Inr x \<Rightarrow> f x)"

definition or_respond :: "(store conn, err + 'a) state \<Rightarrow> 'r response \<Rightarrow> ('r response + 'a) api_io" where
  "or_respond m resp = do { r \<leftarrow> on_db m; return (case r of Inl _ \<Rightarrow> Inl resp | Inr x \<Rightarrow> Inr x) }"

definition found_or :: "(store conn, err + 'a option) state \<Rightarrow> 'r response \<Rightarrow> ('r response + 'a) api_io" where
  "found_or m resp = do { r \<leftarrow> on_db m; return (case r of Inr (Some x) \<Rightarrow> Inr x | _ \<Rightarrow> Inl resp) }"

definition respond :: "('r response + 'r response) api_io \<Rightarrow> 'r response api_io" where
  "respond m = do { r \<leftarrow> m; return (case r of Inl x \<Rightarrow> x | Inr x \<Rightarrow> x) }"

section \<open>Restores from an upload\<close>

definition is_https_upload :: "BackupRestoreSource \<Rightarrow> bool" where
  "is_https_upload src \<longleftrightarrow> ToLower (TrimSpace (brs_Type src)) = ''https'' \<and> TrimSpace (brs_URI src) \<noteq> ''''"

definition zero_backup :: BackupRecord where
  "zero_backup = \<lparr>br_ID = '''', br_InstanceID = '''', br_AppID = '''', br_TierID = '''', br_NodeID = '''',
     br_BackupType = '''', br_Service = '''', br_DatabaseType = '''', br_Status = '''', br_StorageBackend = '''',
     br_StorageKey = '''', br_StorageURIAdmin = '''', br_SizeBytes = 0, br_ChecksumSHA256 = '''', br_CreatedAt = '''',
     br_CompletedAt = '''', br_ExpiresAt = '''', br_TriggeredBy = '''', br_RetentionPolicySnapshotJSON = '''',
     br_TierSnapshotJSON = '''', br_ErrorMessage = '''', br_VerifiedAt = ''''\<rparr>"

definition uploadedRestoreRecord :: "handlers \<Rightarrow> RestoreBackupRequest \<Rightarrow> CustomerApp \<Rightarrow> string \<Rightarrow> err + BackupRecord" where
  "uploadedRestoreRecord h req inst rawYAML = (case h_yaml h rawYAML of
     None \<Rightarrow> Inl (Wrap ''stored application definition is invalid: '' (Plain ''yaml''))
   | Some payload \<Rightarrow> and_then (resolveBackupTarget payload (rb_Service req)) (\<lambda>target.
       let b = bt_Backup target;
           databaseType = (if bak_Type b = ''volume'' \<and> bak_Engine b = '''' then ''none'' else bak_Engine b)
       in Inr (zero_backup\<lparr>br_ID := rb_BackupID req, br_InstanceID := ca_ID inst, br_BackupType := bak_Type b,
            br_Service := bt_ServiceName target, br_DatabaseType := databaseType, br_StorageBackend := ''https'',
            br_StorageKey := TrimSpace (brs_URI (rb_Source req)),
            br_ChecksumSHA256 := TrimSpace (brs_Checksum (rb_Source req))\<rparr>)))"

section \<open>Trusted sources\<close>

record trustedHarborRestoreCapability =
  th_legacyIP :: string
  th_origin :: string
  th_pathPrefix :: string
  th_ips :: "string list"

definition no_capability :: trustedHarborRestoreCapability where
  "no_capability = \<lparr>th_legacyIP = '''', th_origin = '''', th_pathPrefix = '''', th_ips = []\<rparr>"

definition harborUploadedBackupPathPrefix :: string where
  "harborUploadedBackupPathPrefix = ''/api/v1/backups/uploads/''"

definition validHarborUploadedBackupPath :: "string \<Rightarrow> bool" where
  "validHarborUploadedBackupPath path =
     (let parts = split_on CHR ''/'' (TrimPrefix path harborUploadedBackupPathPrefix)
      in HasPrefix path harborUploadedBackupPathPrefix \<and> length parts = 2 \<and> HasPrefix (parts ! 0) ''upbk_''
         \<and> parts ! 1 = ''download'')"

definition TrimSuffix :: "string \<Rightarrow> string \<Rightarrow> string" where
  "TrimSuffix s t = (if HasSuffix s t then drop_last (length t) s else s)"

definition local_origin :: "backups_world \<Rightarrow> string \<Rightarrow> string \<Rightarrow> err + trustedHarborRestoreCapability" where
  "local_origin w host origin = (case bw_LookupNetIP w host of
     None \<Rightarrow> Inl (Wrap ''resolve local Harbor restore origin: '' (Plain ''lookup''))
   | Some ips \<Rightarrow>
       if \<exists>ip \<in> set ips. \<not> ip_IsLoopback ip then Inl (Plain ''local Harbor restore origin resolved outside loopback'')
       else if ips = [] then Inl (Plain ''local Harbor restore origin has no addresses'')
       else Inr \<lparr>th_legacyIP = '''', th_origin = origin, th_pathPrefix = harborUploadedBackupPathPrefix,
              th_ips = map ip_String ips\<rparr>)"

definition portal_origin :: "backups_world \<Rightarrow> string \<Rightarrow> string \<Rightarrow> trustedHarborRestoreCapability db" where
  "portal_origin w host origin =
     (let denied = Inl (Plain ''private restore source is not a registered Harbor portal'') in
      case bw_ParseIP w host of
        None \<Rightarrow> return denied
      | Some hostIP \<Rightarrow>
          if \<not> ip_IsPrivate hostIP \<or> ip_IsLoopback hostIP \<or> ip_IsLinkLocalUnicast hostIP then return denied
          else do {
            r \<leftarrow> GetPortalNodes;
            return (case r of
              Inl e \<Rightarrow> Inl (Wrap ''validate Harbor restore origin: '' e)
            | Inr portals \<Rightarrow>
                if \<exists>portal \<in> set portals. bw_ParseIP w (TrimSpace (n_WireguardIP portal)) = Some hostIP
                then Inr \<lparr>th_legacyIP = ip_String hostIP, th_origin = origin, th_pathPrefix = harborUploadedBackupPathPrefix,
                       th_ips = [ip_String hostIP]\<rparr>
                else denied)
          })"

definition trustedHarborRestoreSource ::
  "backups_world \<Rightarrow> request \<Rightarrow> string \<Rightarrow> string \<Rightarrow> trustedHarborRestoreCapability db" where
  "trustedHarborRestoreSource w r sourceType sourceURI =
     (if \<not> isHarborServicePrincipal r \<or> ToLower (TrimSpace sourceType) \<noteq> ''https'' then return (Inr no_capability)
      else case bw_url w (TrimSpace sourceURI) of
        None \<Rightarrow> return (Inr no_capability)
      | Some u \<Rightarrow>
          if ToLower (ru_Scheme u) \<noteq> ''https'' \<or> ru_HasUser u \<or> ru_Fragment u \<noteq> '''' then return (Inr no_capability)
          else if ru_Port u \<noteq> ''5001'' \<or> \<not> validHarborUploadedBackupPath (ru_Path u)
          then return (Inl (Plain ''Harbor restore source must use the uploaded-backup HTTPS endpoint''))
          else if ru_Query u ''customer_id'' = '''' \<or> ru_Query u ''expires'' = '''' \<or> ru_Query u ''signature'' = ''''
          then return (Inl (Plain ''Harbor restore source is missing its signed download capability''))
          else let host = TrimSuffix (ToLower (ru_Hostname u)) ''.'';
                   origin = ''https://'' @ ToLower (ru_Host u);
                   loopback = (host = ''localhost'' \<or> (case bw_ParseIP w host of None \<Rightarrow> False | Some ip \<Rightarrow> ip_IsLoopback ip))
               in if bw_singleNode w \<and> loopback then return (local_origin w host origin)
                  else portal_origin w host origin)"

section \<open>Restores\<close>

definition restore_inputs ::
  "handlers \<Rightarrow> RestoreBackupRequest \<Rightarrow> (backup_reply response + BackupRecord \<times> CustomerApp) api_io" where
  "restore_inputs h req =
     attempt (or_respond (GetBackupRecord (h_rfc3339 h) (rb_BackupID req)) (writeError 500 ''Database error retrieving backup'')) (\<lambda>bk.
     attempt (or_respond (GetCustomerApp (rb_TargetAppID req)) (writeError 500 ''Database error retrieving instance'')) (\<lambda>i.
       case i of
         None \<Rightarrow> return (Inl (writeError 404 ''Target instance not found''))
       | Some v \<Rightarrow> (case bk of
           Some b \<Rightarrow> return (Inr (b, av_App v))
         | None \<Rightarrow>
             if \<not> is_https_upload (rb_Source req) then return (Inl (writeError 404 ''Backup not found''))
             else attempt (found_or (GetAppDefinition (ca_AppDefinitionName (av_App v)))
                     (writeError 500 ''Failed retrieving app definition'')) (\<lambda>ad.
               return (case uploadedRestoreRecord h req (av_App v) (ad_RawYAML ad) of
                 Inl e \<Rightarrow> Inl (writeError 409 (h_error_text h e))
               | Inr b \<Rightarrow> Inr (b, av_App v))))))"

definition restore_allowed :: "backups_world \<Rightarrow> RestoreBackupRequest \<Rightarrow> BackupRecord \<Rightarrow> CustomerApp \<Rightarrow> backup_reply response + unit" where
  "restore_allowed w req bk inst = (case ValidateRestoreSource (rb_Source req) bk of
     Inl e \<Rightarrow> Inl (writeError 400 (bw_invalid_text w e))
   | Inr _ \<Rightarrow>
       if ca_TechnicalStatus inst \<noteq> ''paused'' \<and> ca_TechnicalStatus inst \<noteq> ''stopped''
       then Inl (writeError 409 ''Restore is only allowed when the app is paused'')
       else if rb_TargetNodeID req \<noteq> '''' \<and> ca_NodeID inst \<noteq> Some (rb_TargetNodeID req)
       then Inl (writeError 409 ''Target node does not match the paused instance node'')
       else Inr ())"

definition restore_services ::
  "handlers \<Rightarrow> CustomerApp \<Rightarrow> (backup_reply response + AppDefinitionPayload \<times> AppTier \<times> ServiceInfo list) api_io" where
  "restore_services h inst =
     attempt (found_or (GetAppDefinition (ca_AppDefinitionName inst)) (writeError 500 ''Failed retrieving app definition'')) (\<lambda>ad.
     case h_yaml h (ad_RawYAML ad) of
       None \<Rightarrow> return (Inl (writeError 500 ''Stored application definition is invalid''))
     | Some payload \<Rightarrow>
         attempt (or_respond (GetAppTiers (ca_AppDefinitionName inst)) (writeError 500 ''Database error validating tiers'')) (\<lambda>tiers.
         let tier = (case find (\<lambda>t. at_Name t = ca_TierName inst) tiers of Some t \<Rightarrow> t | None \<Rightarrow> zero_tier) in
         if at_Name tier = '''' then return (Inl (writeError 409 (''Target application'' @ [CHR 0x27] @ ''s tier is not available'')))
         else attempt (or_respond (decryptedSecretMap h (ca_ID inst)) (writeError 500 ''Failed preparing restore secrets'')) (\<lambda>secrets. do {
           services \<leftarrow> on_db (service_infos h payload tier (ca_ID inst) (ca_CustomerID inst) secrets);
           return (Inr (payload, tier, services))
         })))"

definition restore_source :: "RestoreBackupRequest \<Rightarrow> BackupRecord \<Rightarrow> string \<times> string" where
  "restore_source req bk =
     (let t0 = ToLower (TrimSpace (brs_Type (rb_Source req))); u0 = TrimSpace (brs_URI (rb_Source req));
          (t1, u1) = (if t0 = '''' then (ToLower (TrimSpace (br_StorageBackend bk)), br_StorageKey bk) else (t0, u0))
      in (if t1 = '''' \<or> t1 = ''local'' then ''local_path'' else t1, if u1 = '''' then br_StorageKey bk else u1))"

definition restore_s3 :: "handlers \<Rightarrow> string \<Rightarrow> (backup_reply response + StorageConfig option) api_io" where
  "restore_s3 h srcType = (if srcType \<noteq> ''s3'' then return (Inr None)
     else attempt (or_respond (GetActiveBackupStorageConfig (h_rfc3339 h))
            (writeError 500 ''Failed retrieving backup storage configuration'')) (\<lambda>cfg.
       return (case cfg of
         None \<Rightarrow> Inl (writeError 409 ''Active S3 backup storage is not configured'')
       | Some c \<Rightarrow>
           if sc_Backend c \<noteq> ''s3'' then Inl (writeError 409 ''Active S3 backup storage is not configured'')
           else Inr (Some \<lparr>sto_Backend = sc_Backend c, sto_Key = '''', sto_BackupID = '''', sto_Endpoint = sc_Endpoint c,
             sto_Region = sc_Region c, sto_Bucket = sc_Bucket c, sto_Prefix = sc_Prefix c,
             sto_ForcePathStyle = sc_ForcePathStyle c, sto_AccessKeyEnv = sc_AccessKeyEnv c,
             sto_SecretKeyEnv = sc_SecretKeyEnv c, sto_SessionTokenEnv = sc_SessionTokenEnv c\<rparr>))))"

definition restore_task ::
  "draw \<Rightarrow> RestoreBackupRequest \<Rightarrow> BackupRecord \<Rightarrow> CustomerApp \<Rightarrow> AppDefinitionPayload \<Rightarrow> AppTier \<Rightarrow> ServiceInfo list
   \<Rightarrow> string \<times> string \<Rightarrow> trustedHarborRestoreCapability \<Rightarrow> serviceBackupTarget \<Rightarrow> StorageConfig option \<Rightarrow> FleetTask" where
  "restore_task dr req bk inst payload tier services src trusted target storage =
     (base_task (generateID ''task'' (dr_task dr)) (generateID ''op'' (dr_op dr)) (ca_ID inst)
        (if rb_TargetNodeID req = '''' then or_empty (ca_NodeID inst) else rb_TargetNodeID req) payload tier
        ActionRestoreBackup services)
     \<lparr>ft_Backup := Some (buildTaskBackupInfo target),
      ft_Restore := Some \<lparr>ri_BackupID = br_ID bk, ri_StorageBackend = fst src, ri_StorageKey = snd src,
        ri_BackupType = br_BackupType bk, ri_DatabaseType = br_DatabaseType bk, ri_Service = bt_ServiceName target,
        ri_ChecksumSHA256 = br_ChecksumSHA256 bk, ri_VerifyChecksum = rb_VerifyChecksum req,
        ri_TrustedSourceIP = th_legacyIP trusted, ri_TrustedSourceOrigin = th_origin trusted,
        ri_TrustedSourcePathPrefix = th_pathPrefix trusted, ri_TrustedSourceIPs = th_ips trusted\<rparr>,
      ft_Storage := storage\<rparr>"

definition start_restore ::
  "handlers \<Rightarrow> draw \<Rightarrow> request \<Rightarrow> CustomerApp \<Rightarrow> FleetTask \<Rightarrow> (backup_reply response + backup_reply response) api_io" where
  "start_restore h dr r inst task = (let opID = ft_OperationID task in do {
     c \<leftarrow> on_db (CreateRestoreOperationAndSetStatus opID (ca_ID inst) (or_empty (ca_NodeID inst)) (operatorFromRequest r));
     case c of
       Inl e \<Rightarrow> return (Inl (if errors_is e ErrCustomerAppNotPaused
         then writeError 409 ''Restore is only allowed when the app remains paused''
         else writeError 500 ''Failed to create restore operation''))
     | Inr _ \<Rightarrow> do {
         p \<leftarrow> enqueueRawTaskWithErr h (dr_entropy dr) task;
         return (case p of
           Inl e \<Rightarrow> Inl (if is_panic e then Panicked else writeError 500 ''Failed to queue restore task'')
         | Inr _ \<Rightarrow> Inr (writeJSON 202 (OperationQueued opID ''queued'')))
       }
   })"

definition HandleAdminRestoreBackup ::
  "handlers \<Rightarrow> backups_world \<Rightarrow> draw \<Rightarrow> request \<Rightarrow> RestoreBackupRequest option \<Rightarrow> backup_reply response api_io" where
  "HandleAdminRestoreBackup h w dr r body =
     (if hr_Method r \<noteq> ''POST'' then return (WriteHeader 405)
      else case body of
        None \<Rightarrow> return (writeError 400 ''Invalid JSON payload'')
      | Some req \<Rightarrow>
          if rb_BackupID req = '''' \<or> rb_TargetAppID req = '''' \<or> rb_Service req = ''''
          then return (writeError 400 ''backup_id, target_app_id, and service are required'')
          else respond (
            attempt (restore_inputs h req) (\<lambda>(bk, inst).
            attempt (return (restore_allowed w req bk inst)) (\<lambda>_.
            attempt (restore_services h inst) (\<lambda>(payload, tier, services).
            let src = restore_source req bk in do {
              trusted \<leftarrow> on_db (trustedHarborRestoreSource w r (fst src) (snd src));
              case trusted of
                Inl e \<Rightarrow> return (Inl (writeError 400 (h_error_text h e)))
              | Inr cap \<Rightarrow> (case resolveRestoreTarget payload (br_BackupType bk) (rb_Service req) of
                  Inl e \<Rightarrow> return (Inl (writeError 409 (h_error_text h e)))
                | Inr target \<Rightarrow> attempt (restore_s3 h (fst src)) (\<lambda>storage.
                    start_restore h dr r inst (restore_task dr req bk inst payload tier services src cap target storage)))
            })))))"

section \<open>Deletion and retention\<close>

definition delete_storage :: "BackupRecord \<Rightarrow> BackupStorageConfig option \<Rightarrow> StorageConfig" where
  "delete_storage rec cfg =
     (let base = \<lparr>sto_Backend = br_StorageBackend rec, sto_Key = br_StorageKey rec, sto_BackupID = br_ID rec,
            sto_Endpoint = '''', sto_Region = '''', sto_Bucket = '''', sto_Prefix = '''', sto_ForcePathStyle = False,
            sto_AccessKeyEnv = '''', sto_SecretKeyEnv = '''', sto_SessionTokenEnv = ''''\<rparr>
      in case cfg of
        None \<Rightarrow> base
      | Some c \<Rightarrow> base\<lparr>sto_Endpoint := sc_Endpoint c, sto_Region := sc_Region c, sto_Bucket := sc_Bucket c,
          sto_Prefix := sc_Prefix c, sto_ForcePathStyle := sc_ForcePathStyle c, sto_AccessKeyEnv := sc_AccessKeyEnv c,
          sto_SecretKeyEnv := sc_SecretKeyEnv c, sto_SessionTokenEnv := sc_SessionTokenEnv c\<rparr>)"

text \<open>The record is marked as deleted and the node told to delete the object; only a panic is reported.\<close>

definition delete_backup :: "handlers \<Rightarrow> draw \<Rightarrow> string \<Rightarrow> BackupRecord \<Rightarrow> (err + unit) api_io" where
  "delete_backup h dr operator rec = (let opID = generateID ''op'' (dr_op dr) in do {
     _ \<leftarrow> on_db (CreateOperation opID (br_InstanceID rec) (br_NodeID rec) ''delete_backup'' ''pending_dispatch'' operator);
     _ \<leftarrow> on_db (UpdateBackupRecord (h_time_of_rfc3339 h) (rec\<lparr>br_Status := ''deleted''\<rparr>));
     cfg \<leftarrow> active_storage h;
     enqueueRawTask h (dr_entropy dr) (zero_task\<lparr>ft_TaskID := generateID ''task'' (dr_task dr), ft_OperationID := opID,
       ft_NodeID := br_NodeID rec, ft_Action := ''delete_backup'', ft_InstanceID := br_InstanceID rec,
       ft_Storage := Some (delete_storage rec cfg)\<rparr>)
   })"

definition group_backups :: "BackupRecord list \<Rightarrow> (string \<times> BackupRecord list) list" where
  "group_backups recs = fold (\<lambda>rec grouped. let k = br_InstanceID rec @ ''-'' @ br_BackupType rec in
     put k (get [] grouped k @ [rec]) grouped) (filter (\<lambda>rec. br_Status rec = ''succeeded'') recs) []"

definition retention_count :: "backups_world \<Rightarrow> BackupRecord list \<Rightarrow> nat" where
  "retention_count w backups = (case backups of
     [] \<Rightarrow> 7
   | b # _ \<Rightarrow> (case bw_retention_count w (br_RetentionPolicySnapshotJSON b) of
       None \<Rightarrow> 7 | Some n \<Rightarrow> if n > 0 then nat n else 7))"

definition pruned :: "backups_world \<Rightarrow> BackupRecord list \<Rightarrow> BackupRecord list" where
  "pruned w recs = concat (map (\<lambda>(_, backups). if length backups \<le> 1 then [] else drop (retention_count w backups) backups)
     (group_backups recs))"

definition HandleAdminPrune :: "handlers \<Rightarrow> backups_world \<Rightarrow> draws \<Rightarrow> request \<Rightarrow> backup_reply response api_io" where
  "HandleAdminPrune h w dr r = do {
     q \<leftarrow> on_db (GetBackupRecords (h_rfc3339 h) '''');
     let victims = pruned w (case q of Inl _ \<Rightarrow> [] | Inr recs \<Rightarrow> recs);
     e \<leftarrow> each_from 0 (\<lambda>i. delete_backup h (dr [i]) (operatorFromRequest r)) victims;
     return (case e of Inl _ \<Rightarrow> Panicked | Inr _ \<Rightarrow> writeJSON 200 (Pruned (length victims)))
   }"

section \<open>Manual backups\<close>

definition manual_storage ::
  "BackupStorageConfig option \<Rightarrow> string \<Rightarrow> string \<Rightarrow> string \<Rightarrow> string \<Rightarrow> string \<Rightarrow> string \<Rightarrow> StorageConfig" where
  "manual_storage cfg backupType nodeID instanceID service opID backupID =
     (let s = scheduled_storage cfg backupType nodeID instanceID service opID backupID in
      case cfg of
        Some _ \<Rightarrow> s
      | None \<Rightarrow> s\<lparr>sto_Key := ''/var/lib/admiral/backups/'' @ instanceID @ ''/'' @ service @ ''-'' @ opID\<rparr>)"

definition manual_record ::
  "string \<Rightarrow> CustomerApp \<Rightarrow> string \<Rightarrow> TaskAction \<Rightarrow> string \<Rightarrow> serviceBackupTarget \<Rightarrow> StorageConfig \<Rightarrow> BackupRecord" where
  "manual_record instanceID inst nodeID action contractType target storage =
     zero_backup\<lparr>br_ID := sto_BackupID storage, br_InstanceID := instanceID, br_AppID := ca_AppDefinitionName inst,
      br_TierID := ca_TierName inst, br_NodeID := nodeID, br_BackupType := contractType, br_Service := bt_ServiceName target,
      br_DatabaseType := (if action = ActionBackupDatabase then bak_Engine (bt_Backup target) else ''none''),
      br_Status := ''pending'', br_StorageBackend := sto_Backend storage, br_StorageKey := sto_Key storage,
      br_TriggeredBy := ''manual'', br_TierSnapshotJSON := ca_TierSnapshotJSON inst,
      br_RetentionPolicySnapshotJSON := mustMarshalRetention 7 30\<rparr>"

definition manual_backup ::
  "handlers \<Rightarrow> draw \<Rightarrow> request \<Rightarrow> string \<Rightarrow> CustomerApp \<Rightarrow> string \<Rightarrow> AppDefinitionPayload \<Rightarrow> TaskAction \<Rightarrow> string \<Rightarrow> string
   \<Rightarrow> serviceBackupTarget \<Rightarrow> backup_reply response api_io" where
  "manual_backup h dr r instanceID inst nodeID payload action backupType contractType target =
     (let opID = generateID ''op'' (dr_op dr); service = bt_ServiceName target in do {
       _ \<leftarrow> on_db (UpdateCustomerAppStatus instanceID '''' ''backup_running'');
       _ \<leftarrow> on_db (CreateOperation opID instanceID nodeID action ''pending_dispatch'' (operatorFromRequest r));
       cfg \<leftarrow> active_storage h;
       let storage = manual_storage cfg backupType nodeID instanceID service opID (generateID ''bk'' (dr_backup dr));
       _ \<leftarrow> on_db (CreateBackupRecord (manual_record instanceID inst nodeID action contractType target storage));
       ts \<leftarrow> on_db (GetAppTiers (ca_AppDefinitionName inst));
       let tier = (case find (\<lambda>t. at_Name t = ca_TierName inst) (case ts of Inl _ \<Rightarrow> [] | Inr tiers \<Rightarrow> tiers) of
              Some t \<Rightarrow> t | None \<Rightarrow> zero_tier);
       s \<leftarrow> on_db (decryptedSecretMap h instanceID);
       services \<leftarrow> on_db (service_infos h payload tier instanceID (ca_CustomerID inst)
                    (scopeTaskSecrets action payload (case s of Inl _ \<Rightarrow> [] | Inr secrets \<Rightarrow> secrets) service));
       p \<leftarrow> enqueueRawTask h (dr_entropy dr)
              ((base_task (generateID ''task'' (dr_task dr)) opID instanceID nodeID payload tier action services)
               \<lparr>ft_Backup := Some (buildTaskBackupInfo target), ft_Storage := Some storage\<rparr>);
       return (case p of Inl _ \<Rightarrow> Panicked | Inr _ \<Rightarrow> writeJSON 202 (OperationQueued opID ''queued''))
     })"

definition HandleTriggerBackup ::
  "handlers \<Rightarrow> draw \<Rightarrow> request \<Rightarrow> string \<Rightarrow> string \<Rightarrow> backup_reply response api_io" where
  "HandleTriggerBackup h dr r instanceID backupType =
     (if hr_Method r \<noteq> ''POST'' then return (WriteHeader 405)
      else respond (
        attempt (found_or (GetCustomerApp instanceID) (writeError 404 ''Instance not found'')) (\<lambda>v.
        let inst = av_App v; nodeID = or_empty (ca_NodeID inst) in
        if nodeID = '''' then return (Inl (writeError 503 ''Node offline''))
        else attempt (found_or (GetAppDefinition (ca_AppDefinitionName inst)) (writeError 500 ''Failed to get app definition'')) (\<lambda>ad.
        case h_yaml h (ad_RawYAML ad) of
          None \<Rightarrow> return (Inl (writeError 500 ''Failed to parse app definition''))
        | Some payload \<Rightarrow>
            if backupType \<noteq> ''database'' \<and> backupType \<noteq> ''volumes'' then return (Inl (writeError 400 ''Invalid backup type''))
            else let action = (if backupType = ''database'' then ActionBackupDatabase else ActionBackupVolumes);
                     contractType = (if backupType = ''database'' then ''database'' else ''volume'')
                 in case backupTargetsByType payload contractType of
                      [] \<Rightarrow> return (Inl (writeError 409 (''No services declare backup type '' @ contractType)))
                    | [target] \<Rightarrow> do {
                        x \<leftarrow> manual_backup h dr r instanceID inst nodeID payload action backupType contractType target;
                        return (Inr x)
                      }
                    | _ \<Rightarrow> return (Inl (writeError 409 (''Multiple services declare backup type '' @ contractType @
                             ''; use a service-specific backup action'')))))))"

section \<open>The administrator's endpoints\<close>

definition path_parts :: "string \<Rightarrow> string list" where
  "path_parts path = (let slash = (\<lambda>x. x = CHR ''/'') in split_on CHR ''/'' (trim_left slash (trim_right slash path)))"

definition defaultPageSize :: int where "defaultPageSize = 20"
definition maxPageSize :: int where "maxPageSize = 100"

definition parsePagination :: "backups_world \<Rightarrow> request \<Rightarrow> int \<times> int" where
  "parsePagination w r =
     (let positive = (\<lambda>key d. case (if hr_Query r key = '''' then None else bw_Atoi w (hr_Query r key)) of
            None \<Rightarrow> d | Some n \<Rightarrow> if n > 0 then n else d);
          pageNo = positive ''page'' 1;
          pageSize = positive ''page_size'' defaultPageSize
      in (pageNo, min pageSize maxPageSize))"

definition HandleAdminBackups ::
  "handlers \<Rightarrow> backups_world \<Rightarrow> draws \<Rightarrow> request \<Rightarrow> backup_reply response api_io" where
  "HandleAdminBackups h w dr r =
     (let parts = path_parts (hr_Path r);
          backupID = (if length parts \<ge> 4 then parts ! 3 else '''')
      in if length parts \<ge> 6 \<and> parts ! 1 = ''admin'' \<and> parts ! 2 = ''instances''
         then HandleTriggerBackup h (dr []) r (parts ! 3) (parts ! 5)
         else if hr_Method r = ''GET'' then
           (if backupID \<noteq> '''' then respond (
              attempt (found_or (GetBackupRecord (h_rfc3339 h) backupID) (writeError 404 ''Backup record not found'')) (\<lambda>rec.
                return (Inr (writeJSON 200 (BackupDetail rec)))))
            else let (pageNo, pageSize) = parsePagination w r in do {
              q \<leftarrow> on_db (GetBackupRecordsPage (h_rfc3339 h) (hr_Query r ''instance_id'') pageSize (wrap64 ((pageNo - 1) * pageSize)));
              return (case q of
                Inl e \<Rightarrow> writeError 500 (h_error_text h e)
              | Inr (recs, all_rows) \<Rightarrow> writeJSON 200 (BackupPage recs pageNo pageSize all_rows))
            })
         else if hr_Method r = ''POST'' then
           (if backupID = ''prune'' then HandleAdminPrune h w dr r else return (WriteHeader 400))
         else if hr_Method r = ''DELETE'' then
           (if backupID = '''' then return (WriteHeader 400)
            else respond (
              attempt (found_or (GetBackupRecord (h_rfc3339 h) backupID) (writeError 404 ''Backup record not found'')) (\<lambda>rec. do {
                e \<leftarrow> delete_backup h (dr []) (operatorFromRequest r) rec;
                return (Inr (case e of Inl _ \<Rightarrow> Panicked
                  | Inr _ \<Rightarrow> writeJSON 202 (OperationQueued (generateID ''op'' (dr_op (dr []))) ''queued'')))
              })))
         else return (WriteHeader 405))"

section \<open>The customer's endpoints\<close>

definition requireCustomerOwnership :: "request \<Rightarrow> string \<Rightarrow> 'r response + unit" where
  "requireCustomerOwnership r customerID =
     (if isSystemPrincipal r then Inr ()
      else let requestCustomerID = TrimSpace (hr_Header r ''X-Admiral-Customer-ID'') in
        if requestCustomerID = '''' then Inl (writeError 400 ''X-Admiral-Customer-ID header is required'')
        else if requestCustomerID \<noteq> customerID then Inl (writeError 403 ''access denied'')
        else Inr ())"

definition customerBackup :: "BackupRecord \<Rightarrow> customerBackupRecord" where
  "customerBackup rec = \<lparr>cb_ID = br_ID rec, cb_InstanceID = br_InstanceID rec, cb_BackupType = br_BackupType rec,
     cb_Service = br_Service rec, cb_DatabaseType = br_DatabaseType rec, cb_Status = br_Status rec,
     cb_SizeBytes = br_SizeBytes rec, cb_ChecksumSHA256 = br_ChecksumSHA256 rec, cb_CreatedAt = br_CreatedAt rec,
     cb_CompletedAt = br_CompletedAt rec, cb_ExpiresAt = br_ExpiresAt rec, cb_TriggeredBy = br_TriggeredBy rec\<rparr>"

definition customerBackupPolicy :: "backups_world \<Rightarrow> CustomerApp \<Rightarrow> err + BackupPolicy option" where
  "customerBackupPolicy w inst =
     (if TrimSpace (ca_TierSnapshotJSON inst) = '''' then Inr None
      else case bw_tier_of_json w (ca_TierSnapshotJSON inst) of
        None \<Rightarrow> Inl (Wrap ''decode customer tier backup policy: '' (Plain ''json''))
      | Some (Some policy, _) \<Rightarrow> Inr (Some policy)
      | Some (None, policyJSON) \<Rightarrow>
          if TrimSpace policyJSON = '''' then Inr None
          else case bw_policy_of_json w policyJSON of
            None \<Rightarrow> Inl (Wrap ''decode persisted customer backup policy: '' (Plain ''json''))
          | Some policy \<Rightarrow> Inr (Some policy))"

definition restore_ownership ::
  "handlers \<Rightarrow> RestoreBackupRequest \<Rightarrow> CustomerApp \<Rightarrow> (backup_reply response + unit) api_io" where
  "restore_ownership h req inst = (if rb_BackupID req = '''' then return (Inr ())
     else attempt (or_respond (GetBackupRecord (h_rfc3339 h) (rb_BackupID req)) (writeError 500 ''Database error retrieving backup'')) (\<lambda>bk.
       case bk of
         Some b \<Rightarrow> attempt (or_respond (GetCustomerApp (br_InstanceID b))
             (writeError 500 ''Database error validating backup ownership'')) (\<lambda>source.
           return (if (case source of None \<Rightarrow> True | Some v \<Rightarrow> ca_CustomerID (av_App v) \<noteq> ca_CustomerID inst)
             then Inl (writeError 404 ''Backup not found'') else Inr ()))
       | None \<Rightarrow> return (if \<not> is_https_upload (rb_Source req) then Inl (writeError 404 ''Backup not found'') else Inr ())))"

definition customer_restore ::
  "handlers \<Rightarrow> backups_world \<Rightarrow> draw \<Rightarrow> request \<Rightarrow> RestoreBackupRequest option \<Rightarrow> string \<Rightarrow> CustomerApp
   \<Rightarrow> (backup_reply response + backup_reply response) api_io" where
  "customer_restore h w dr r body instanceID inst =
     (if hr_Method r \<noteq> ''POST'' then return (Inl (writeError 405 ''restore requires POST''))
      else case body of
        None \<Rightarrow> return (Inl (writeError 400 ''Invalid JSON payload''))
      | Some req0 \<Rightarrow>
          if rb_TargetAppID req0 \<noteq> '''' \<and> rb_TargetAppID req0 \<noteq> instanceID
          then return (Inl (writeError 400 ''Target instance does not match the customer backup route''))
          else let req = req0\<lparr>rb_TargetAppID := instanceID\<rparr> in
            attempt (restore_ownership h req inst) (\<lambda>_.
            case customerBackupPolicy w inst of
              Inl _ \<Rightarrow> return (Inl (writeError 500 ''Failed to validate restore policy''))
            | Inr policy \<Rightarrow>
                if (case policy of None \<Rightarrow> True | Some p \<Rightarrow> \<not> bp_RestoreAllowed p)
                then return (Inl (writeError 403 ''Restore is disabled for this tier''))
                else do {
                  x \<leftarrow> HandleAdminRestoreBackup h w dr r (Some req);
                  return (Inr x)
                }))"

definition customer_backup_list ::
  "handlers \<Rightarrow> request \<Rightarrow> string \<Rightarrow> (backup_reply response + backup_reply response) api_io" where
  "customer_backup_list h r instanceID =
     (if hr_Method r \<noteq> ''GET'' then return (Inl (writeError 405 ''method not allowed for customer backup list''))
      else attempt (or_respond (GetBackupRecords (h_rfc3339 h) instanceID) (writeError 500 ''Failed to fetch backups'')) (\<lambda>records.
        return (Inr (writeJSON 200 (CustomerBackups (map customerBackup records))))))"

definition customer_backup_detail ::
  "handlers \<Rightarrow> request \<Rightarrow> string \<Rightarrow> string \<Rightarrow> (backup_reply response + backup_reply response) api_io" where
  "customer_backup_detail h r instanceID bid =
     (if hr_Method r \<noteq> ''GET'' then return (Inl (writeError 405 ''method not allowed for customer backup''))
      else attempt (or_respond (GetBackupRecord (h_rfc3339 h) bid) (writeError 500 ''Database error retrieving backup'')) (\<lambda>rec.
        return (case rec of
          None \<Rightarrow> Inl (writeError 404 ''Backup not found'')
        | Some b \<Rightarrow> if br_InstanceID b \<noteq> instanceID then Inl (writeError 404 ''Backup not found'')
            else Inr (writeJSON 200 (CustomerBackup (customerBackup b))))))"

definition HandleCustomerAppBackups ::
  "handlers \<Rightarrow> backups_world \<Rightarrow> draw \<Rightarrow> request \<Rightarrow> RestoreBackupRequest option \<Rightarrow> string \<Rightarrow> string list
   \<Rightarrow> backup_reply response api_io" where
  "HandleCustomerAppBackups h w dr r body instanceID suffix = respond (
     attempt (or_respond (GetCustomerApp instanceID) (writeError 500 ''Database error validating instance'')) (\<lambda>i.
     case i of
       None \<Rightarrow> return (Inl (writeError 404 ''Instance not found''))
     | Some v \<Rightarrow> (let inst = av_App v in
         attempt (return (requireCustomerOwnership r (ca_CustomerID inst))) (\<lambda>_.
         case suffix of
           [] \<Rightarrow> customer_backup_list h r instanceID
         | [x] \<Rightarrow>
             if x = ''restore'' then customer_restore h w dr r body instanceID inst
             else if x \<noteq> '''' then customer_backup_detail h r instanceID x
             else return (Inl (writeError 404 ''customer backup endpoint not found''))
         | _ \<Rightarrow> return (Inl (writeError 404 ''customer backup endpoint not found''))))))"

section \<open>The storage configuration\<close>

definition isEligibleStorageTestNode :: "Node \<Rightarrow> int \<Rightarrow> bool" where
  "isEligibleStorageTestNode node t =
     (if n_NodeRole node \<noteq> ''worker'' \<or> n_Status node \<noteq> ''active'' \<or> n_ManualDisabled node then False
      else if n_TokenType node \<noteq> ''worker'' \<or> (n_TokenStatus node \<noteq> ''active'' \<and> n_TokenStatus node \<noteq> ''consumed'') then False
      else case n_LastHeartbeat node of None \<Rightarrow> False | Some hb \<Rightarrow> t - hb \<le> seconds 120)"

definition storage_test ::
  "handlers \<Rightarrow> draw \<Rightarrow> request \<Rightarrow> BackupStorageConfig \<Rightarrow> (backup_reply response + backup_reply response) api_io" where
  "storage_test h dr r cfg =
     attempt (or_respond GetNodes (writeError 500 ''Failed to find a worker for the backup storage test'')) (\<lambda>nodes. do {
       t \<leftarrow> on_db now;
       case find (\<lambda>node. isEligibleStorageTestNode node t) nodes of
         None \<Rightarrow> return (Inl (writeError 503 (''No active Fleet worker is available for the backup storage test; '' @
           ''register and enable a worker with a recent heartbeat, then retry'')))
       | Some node \<Rightarrow> (let opID = generateID ''op'' (dr_op dr) in
           attempt (or_respond (CreateOperation opID '''' (n_ID node) ''test_backup_storage'' ''pending_dispatch'' (operatorFromRequest r))
             (writeError 500 ''Failed to create operation'')) (\<lambda>_. do {
             p \<leftarrow> enqueueRawTaskWithErr h (dr_entropy dr) (zero_task\<lparr>ft_TaskID := generateID ''task'' (dr_task dr),
                    ft_OperationID := opID, ft_NodeID := n_ID node, ft_Action := ''test_backup_storage'',
                    ft_Storage := Some \<lparr>sto_Backend = sc_Backend cfg, sto_Key = '''', sto_BackupID = '''',
                      sto_Endpoint = sc_Endpoint cfg, sto_Region = sc_Region cfg, sto_Bucket = sc_Bucket cfg,
                      sto_Prefix = sc_Prefix cfg, sto_ForcePathStyle = sc_ForcePathStyle cfg,
                      sto_AccessKeyEnv = sc_AccessKeyEnv cfg, sto_SecretKeyEnv = sc_SecretKeyEnv cfg,
                      sto_SessionTokenEnv = ''''\<rparr>\<rparr>);
             return (case p of
               Inl e \<Rightarrow> Inl (if is_panic e then Panicked else writeError 500 ''Failed to queue backup storage test'')
             | Inr _ \<Rightarrow> Inr (writeJSON 202 (StorageTestQueued opID)))
           }))
     })"

definition HandleAdminSettingsStorage ::
  "handlers \<Rightarrow> backups_world \<Rightarrow> draw \<Rightarrow> request \<Rightarrow> BackupStorageConfig option \<Rightarrow> backup_reply response api_io" where
  "HandleAdminSettingsStorage h w dr r body =
     (let parts = path_parts (hr_Path r); isTest = (length parts \<ge> 5 \<and> parts ! 4 = ''test'') in
      if hr_Method r = ''GET'' then do {
        q \<leftarrow> on_db (GetBackupStorageConfig (h_rfc3339 h) ''global'');
        let cfg = (case q of
              Inr (Some c) \<Rightarrow> c
            | _ \<Rightarrow> \<lparr>sc_ID = ''global'', sc_Backend = ''local'', sc_Enabled = True, sc_Endpoint = '''', sc_Region = '''',
                sc_Bucket = '''', sc_Prefix = '''', sc_ForcePathStyle = False, sc_AccessKeyEnv = '''', sc_SecretKeyEnv = '''',
                sc_SessionTokenEnv = '''', sc_CreatedAt = '''', sc_UpdatedAt = ''''\<rparr>);
        return (writeJSON 200 (StorageDetail (cfg\<lparr>sc_AccessKeyEnv := '''', sc_SecretKeyEnv := ''''\<rparr>)))
      }
      else if hr_Method r = ''PUT'' then
        (case body of
           None \<Rightarrow> return (writeError 400 ''Invalid JSON payload'')
         | Some req \<Rightarrow>
             if sc_Backend req \<noteq> ''local'' \<and> sc_Backend req \<noteq> ''s3''
             then return (writeError 400 ''Invalid backend, must be local or s3'')
             else (case (if sc_Backend req = ''s3'' then ValidateEndpoint (bw_storage w) (sc_Endpoint req) else Inr ()) of
               Inl e \<Rightarrow> return (writeError 400 (h_error_text h e))
             | Inr _ \<Rightarrow> do {
                 s \<leftarrow> on_db (SaveBackupStorageConfig (req\<lparr>sc_ID := ''global''\<rparr>));
                 return (case s of Inl e \<Rightarrow> writeError 500 (h_error_text h e) | Inr _ \<Rightarrow> writeJSON 200 (Done ''''))
               }))
      else if hr_Method r = ''POST'' then
        (if \<not> isTest then return (WriteHeader 400)
         else respond (
           attempt (or_respond (GetBackupStorageConfig (h_rfc3339 h) ''global'')
             (writeError 500 ''Failed to load backup storage configuration'')) (\<lambda>q.
           case q of
             None \<Rightarrow> return (Inl (writeJSON 200 (Done ''Local storage always active'')))
           | Some cfg \<Rightarrow>
               if \<not> sc_Enabled cfg then return (Inl (writeJSON 200 (Done ''Local storage always active'')))
               else storage_test h dr r cfg)))
      else return (writeError 405 ''method not allowed''))"

end
