(* ===== verification/Instance_Secrets.thy ===== *)
theory Instance_Secrets
  imports Backups
begin

text \<open>
  The secrets of an instance: \<^verbatim>\<open>src/internal/api/handlers_secrets.go\<close> (generation, propagation of database
  credentials, storage) and \<^verbatim>\<open>app_secrets.go\<close> (literal values in definitions).  Random bytes are an argument,
  by service and name.
\<close>

section \<open>Generation\<close>

definition generateSecretValue :: "string \<Rightarrow> byte list \<Rightarrow> string" where
  "generateSecretValue kind b = (let value = hex_EncodeToString b in
     if kind = ''username'' then ''usr_'' @ take 12 value else value)"

definition generateSecretKey :: "byte list \<Rightarrow> string" where
  "generateSecretKey b = hex_EncodeToString b"

text \<open>The bytes drawn for a value and for a key, and the randomness of its encryption.\<close>

record secret_draw =
  sd_value :: "byte list"
  sd_key :: "byte list"
  sd_encryption :: secret_entropy

type_synonym secret_draws = "string \<Rightarrow> string \<Rightarrow> secret_draw"

definition plain_secret :: "secret_draws \<Rightarrow> secret_map \<Rightarrow> string \<Rightarrow> string \<times> YAMLSecret \<Rightarrow> string \<times> string" where
  "plain_secret dr existing serviceName = (\<lambda>(envName, secretDef). (envName,
     if sec_Persist secretDef then
       (case map_of (get [] existing serviceName) envName of
          Some v \<Rightarrow> v | None \<Rightarrow> generateSecretKey (sd_key (dr serviceName envName)))
     else if sec_Value secretDef \<noteq> '''' then sec_Value secretDef
     else generateSecretValue (sec_Generate secretDef) (sd_value (dr serviceName envName))))"

definition global_service :: string where "global_service = ''__global__''"

definition all_plain :: "secret_draws \<Rightarrow> secret_map \<Rightarrow> AppDefinitionPayload \<Rightarrow> secret_map" where
  "all_plain dr existing payload = put global_service (map (plain_secret dr existing global_service) (app_Secrets payload))
     (map (\<lambda>(serviceName, svc). (serviceName, map (plain_secret dr existing serviceName) (svc_Secrets svc))) (app_Services payload))"

definition load_row :: "handlers \<Rightarrow> InstanceSecret \<Rightarrow> secret_map \<Rightarrow> secret_map" where
  "load_row h row result = (case Decrypt (h_codec h) (h_secrets h) (is_EncryptedValue row) of
     Inl _ \<Rightarrow> result
   | Inr plain \<Rightarrow> put (is_ServiceName row) (put (is_EnvName row) plain (get [] result (is_ServiceName row))) result)"

definition loadExistingPlainSecrets :: "handlers \<Rightarrow> string \<Rightarrow> (store conn, secret_map) state" where
  "loadExistingPlainSecrets h instanceID = do {
     r \<leftarrow> GetInstanceSecrets instanceID;
     return (case r of Inl _ \<Rightarrow> [] | Inr rows \<Rightarrow> fold (load_row h) rows [])
   }"

section \<open>Database credentials\<close>

definition upper_char :: "char \<Rightarrow> char" where
  "upper_char c = (if in_range CHR ''a'' CHR ''z'' c then char_of (byte_of c - 32) else c)"

definition ToUpper :: "string \<Rightarrow> string" where
  "ToUpper s = map upper_char s"

definition isDBUserEnv :: "string \<Rightarrow> bool" where
  "isDBUserEnv upper \<longleftrightarrow> HasSuffix upper ''_DB_USER'' \<or> HasSuffix upper ''_DB__USER''
     \<or> (Contains upper ''__DATABASE__'' \<and> HasSuffix upper ''_USER'')"

definition isDBPasswordEnv :: "string \<Rightarrow> bool" where
  "isDBPasswordEnv upper \<longleftrightarrow> HasSuffix upper ''_DB_PASSWORD'' \<or> HasSuffix upper ''_DB__PASSWORD''
     \<or> (Contains upper ''__DATABASE__'' \<and> (HasSuffix upper ''_PASSWORD'' \<or> HasSuffix upper ''_PASSWD''))"

definition isDBNameEnv :: "string \<Rightarrow> bool" where
  "isDBNameEnv upper \<longleftrightarrow> HasSuffix upper ''_DB_NAME'' \<or> (Contains upper ''__DATABASE__'' \<and> HasSuffix upper ''_NAME'')"

definition database_service :: "AppDefinitionPayload \<Rightarrow> string" where
  "database_service payload =
     (case find (\<lambda>(_, svc). let img = ToLower (svc_Image svc) in
              Contains img ''postgres'' \<or> Contains img ''mysql'' \<or> Contains img ''mariadb'') (app_Services payload) of
        Some (name, _) \<Rightarrow> name
      | None \<Rightarrow> (case find (\<lambda>(_, svc). svc_Volume svc \<noteq> '''') (app_Services payload) of
          Some (name, _) \<Rightarrow> name | None \<Rightarrow> ''''))"

text \<open>The last name of the map that satisfies a condition; the empty string when there is none.\<close>

definition last_name :: "(string \<Rightarrow> bool) \<Rightarrow> strmap \<Rightarrow> string" where
  "last_name p m = fold (\<lambda>(envName, _) acc. if p (ToUpper envName) then envName else acc) m ''''"

definition db_prefixed :: "string \<Rightarrow> bool" where
  "db_prefixed upper \<longleftrightarrow> HasPrefix upper ''POSTGRES_'' \<or> HasPrefix upper ''MYSQL_'' \<or> HasPrefix upper ''MARIADB_''"

definition is_root :: "string \<Rightarrow> bool" where
  "is_root upper \<longleftrightarrow> Contains upper ''_ROOT_'' \<or> HasSuffix upper ''_ROOT_PASSWORD''"

definition db_names :: "strmap \<Rightarrow> string \<times> string \<times> string" where
  "db_names dbSecrets =
     (let dbUser = last_name (\<lambda>u. HasSuffix u ''_USER'' \<and> db_prefixed u) dbSecrets;
          dbRootPass = last_name (\<lambda>u. HasSuffix u ''_PASSWORD'' \<and> db_prefixed u \<and> is_root u) dbSecrets;
          dbPass = last_name (\<lambda>u. HasSuffix u ''_PASSWORD'' \<and> db_prefixed u \<and> \<not> is_root u) dbSecrets;
          dbName = last_name (\<lambda>u. HasSuffix u ''_DATABASE'' \<and> db_prefixed u) dbSecrets
      in (dbUser, if dbPass = '''' \<and> dbRootPass \<noteq> '''' then dbRootPass else dbPass, dbName))"

definition client_secret :: "strmap \<Rightarrow> string \<times> string \<times> string \<Rightarrow> string \<times> string \<Rightarrow> string \<times> string" where
  "client_secret dbSecrets names = (\<lambda>(envName, v0).
     case names of (dbUser, dbPass, dbName) \<Rightarrow>
       let upper = ToUpper envName;
           v1 = (if has dbSecrets envName then get '''' dbSecrets envName else v0);
           v2 = (if dbUser \<noteq> '''' \<and> isDBUserEnv upper then get '''' dbSecrets dbUser else v1);
           v3 = (if dbPass \<noteq> '''' \<and> isDBPasswordEnv upper then get '''' dbSecrets dbPass else v2);
           v4 = (if dbName \<noteq> '''' \<and> isDBNameEnv upper then get '''' dbSecrets dbName else v3)
       in (envName, v4))"

definition normalizeInstanceSecrets :: "AppDefinitionPayload \<Rightarrow> secret_map \<Rightarrow> secret_map" where
  "normalizeInstanceSecrets payload all = (let dbService = database_service payload in
     if dbService = '''' \<or> \<not> has all dbService then all
     else let dbSecrets = get [] all dbService; names = db_names dbSecrets in
       map (\<lambda>(svcName, secrets). (svcName,
         if svcName = dbService \<or> svcName = global_service then secrets else map (client_secret dbSecrets names) secrets)) all)"

section \<open>Storage\<close>

record Credential =
  cr_Service :: string
  cr_Name :: string
  cr_Value :: string
  cr_Generate :: string
  cr_Kind :: string

definition buildSetupNotices :: "AppDefinitionPayload \<Rightarrow> Credential list" where
  "buildSetupNotices payload = concat (map (\<lambda>(serviceName, svc). concat (map (\<lambda>notice.
     let label = TrimSpace (note_Label notice); v = TrimSpace (note_Value notice) in
     if label = '''' \<or> v = '''' then []
     else [\<lparr>cr_Service = serviceName, cr_Name = label, cr_Value = v, cr_Generate = '''', cr_Kind = ''notice''\<rparr>])
     (svc_NotifyOnSetup svc))) (app_Services payload))"

text \<open>The secrets to save, in the order of the loops.\<close>

definition secrets_to_save :: "AppDefinitionPayload \<Rightarrow> (string \<times> string \<times> YAMLSecret) list" where
  "secrets_to_save payload =
     concat (map (\<lambda>(serviceName, svc). map (\<lambda>(envName, def). (serviceName, envName, def)) (svc_Secrets svc)) (app_Services payload)) @
     map (\<lambda>(envName, def). (global_service, envName, def)) (app_Secrets payload)"

fun save_secrets ::
  "handlers \<Rightarrow> secret_draws \<Rightarrow> string \<Rightarrow> secret_map \<Rightarrow> (string \<times> string \<times> YAMLSecret) list \<Rightarrow> Credential list \<Rightarrow> Credential list db" where
  "save_secrets h dr instanceID all [] credentials = return (Inr credentials)"
| "save_secrets h dr instanceID all ((serviceName, envName, def) # rest) credentials =
     (let plain = get '''' (get [] all serviceName) envName in
      case Encrypt (h_codec h) (h_secrets h) (sd_encryption (dr serviceName envName)) plain of
        Inl e \<Rightarrow> return (Inl e)
      | Inr encrypted \<Rightarrow> do {
          r \<leftarrow> SaveInstanceSecret instanceID serviceName envName encrypted (sec_Expose def);
          case r of
            Inl e \<Rightarrow> return (Inl e)
          | Inr _ \<Rightarrow> save_secrets h dr instanceID all rest (credentials @
              (if sec_Expose def then [\<lparr>cr_Service = serviceName, cr_Name = envName, cr_Value = plain,
                 cr_Generate = sec_Generate def, cr_Kind = ''''\<rparr>] else []))
        })"

definition createInstanceSecrets ::
  "handlers \<Rightarrow> secret_draws \<Rightarrow> string \<Rightarrow> AppDefinitionPayload \<Rightarrow> Credential list db" where
  "createInstanceSecrets h dr instanceID payload = do {
     existing \<leftarrow> loadExistingPlainSecrets h instanceID;
     let all = normalizeInstanceSecrets payload (all_plain dr existing payload);
     r \<leftarrow> save_secrets h dr instanceID all (secrets_to_save payload) [];
     return (case r of Inl e \<Rightarrow> Inl e | Inr credentials \<Rightarrow> Inr (credentials @ buildSetupNotices payload))
   }"

section \<open>Literal secrets of definitions\<close>

definition rejectLiteralAppSecrets :: "AppDefinitionPayload \<Rightarrow> err + unit" where
  "rejectLiteralAppSecrets payload =
     and_then (for_each (\<lambda>(serviceName, service) _. for_each (\<lambda>(envName, secret) _.
         reject_if (sec_Value secret \<noteq> '''') (Plain (''literal secret value is not allowed at services.'' @ serviceName @
           ''.secrets.'' @ envName @ ''; use generate or persist''))) (svc_Secrets service) ()) (app_Services payload) ())
     (\<lambda>_. for_each (\<lambda>(envName, secret) _. reject_if (sec_Value secret \<noteq> '''')
         (Plain (''literal secret value is not allowed at secrets.'' @ envName @ ''; use generate or persist'')))
       (app_Secrets payload) ())"

definition redact_secrets :: "(string \<times> YAMLSecret) list \<Rightarrow> (string \<times> YAMLSecret) list" where
  "redact_secrets m = map (\<lambda>(envName, secret). (envName, secret\<lparr>sec_Value := ''''\<rparr>)) m"

definition redact_payload :: "AppDefinitionPayload \<Rightarrow> AppDefinitionPayload" where
  "redact_payload payload = payload\<lparr>
     app_Services := map (\<lambda>(name, svc). (name, svc\<lparr>svc_Secrets := redact_secrets (svc_Secrets svc)\<rparr>)) (app_Services payload),
     app_Secrets := redact_secrets (app_Secrets payload)\<rparr>"

text \<open>\<open>yaml_of\<close> is \<^verbatim>\<open>yaml.Marshal\<close>.\<close>

definition redactAppDefinitionYAML :: "handlers \<Rightarrow> (AppDefinitionPayload \<Rightarrow> string option) \<Rightarrow> string \<Rightarrow> err + string" where
  "redactAppDefinitionYAML h yaml_of rawYAML = (case h_yaml h rawYAML of
     None \<Rightarrow> Inl (Wrap ''parse stored app definition: '' (Plain ''yaml''))
   | Some payload \<Rightarrow> (case yaml_of (redact_payload payload) of
       None \<Rightarrow> Inl (Wrap ''marshal redacted app definition: '' (Plain ''yaml''))
     | Some redacted \<Rightarrow> Inr redacted))"

definition redactAppDefinition :: "handlers \<Rightarrow> (AppDefinitionPayload \<Rightarrow> string option) \<Rightarrow> AppDefinition \<Rightarrow> err + AppDefinition" where
  "redactAppDefinition h yaml_of app = and_then (redactAppDefinitionYAML h yaml_of (ad_RawYAML app)) (\<lambda>redacted.
     Inr (app\<lparr>ad_RawYAML := redacted\<rparr>))"

definition redactAppDefinitions :: "handlers \<Rightarrow> (AppDefinitionPayload \<Rightarrow> string option) \<Rightarrow> AppDefinition list \<Rightarrow> err + AppDefinition list" where
  "redactAppDefinitions h yaml_of apps = for_each (\<lambda>app out. and_then (redactAppDefinition h yaml_of app) (\<lambda>r. Inr (out @ [r]))) apps []"

end
