(* ===== verification/Instances.thy ===== *)
theory Instances
  imports Instance_Secrets
begin

text \<open>
  The customer's endpoints for instances: \<^verbatim>\<open>src/internal/api/handlers_instances.go\<close> (provisioning, actions, views,
  credentials) and \<^verbatim>\<open>provision_idempotency.go\<close>.  A request is as in \<open>Backups\<close>; random bytes, JSON and the
  decoded body are arguments.  Log lines and audit events are left out.
\<close>

section \<open>Requests and responses\<close>

record ProvisionRequest =
  pq_AppDefinitionName :: string
  pq_TierName :: string
  pq_CustomerID :: string
  pq_NodeID :: string
  pq_LogicalInstanceID :: string

record InstanceActionRequest =
  ia_InstanceID :: string
  ia_Action :: string
  ia_Tier :: string
  ia_Service :: string
  ia_NodeID :: string

record ProvisionResponse =
  ps_InstanceID :: string
  ps_OperationID :: string
  ps_Status :: string
  ps_Hostname :: string
  ps_Credentials :: "Credential list"

record harborCustomerAppResponse =
  ha_ID :: string
  ha_AppDefinitionName :: string
  ha_TierName :: string
  ha_CommercialStatus :: string
  ha_TechnicalStatus :: string
  ha_CreatedAt :: int
  ha_HealthStatus :: string
  ha_HealthMessage :: string
  ha_LastHealthChecked :: "int option"
  ha_EffectiveAvailability :: string
  ha_AvailabilityReason :: string
  ha_StorageLimitBytes :: int
  ha_StorageUsedBytes :: int
  ha_StorageUsedPct :: float64
  ha_StorageState :: string
  ha_StorageMessage :: string
  ha_StorageCheckedAt :: "int option"
  ha_StorageExceeded :: bool
  ha_GracePeriodStartsAt :: "int option"
  ha_GracePeriodEndsAt :: "int option"
  ha_SetupCompleted :: bool
  ha_SetupTimeoutSeconds :: int
  ha_NeedRestarting :: bool
  ha_UpdateType :: string
  ha_UpdateStartedAt :: "int option"
  ha_ManualBackupsAllowed :: bool
  ha_BackupDatabaseAllowed :: bool
  ha_BackupVolumesAllowed :: bool
  ha_RestoreAllowed :: bool

text \<open>
  What the endpoints answer with; \<open>Replayed\<close> is a stored response and \<open>Processing\<close> the answer while there
  is none, both with the header \<^verbatim>\<open>Idempotency-Replayed\<close>.
\<close>

datatype instance_reply =
    ActionQueued string string
  | WorkloadBlocked "blockedProvisioningAuditDetail \<times> string \<times> string"
  | Replayed string
  | Processing ProvisionResponse
  | Provisioned ProvisionResponse
  | InstanceList "AppView list"
  | HarborInstanceList "harborCustomerAppResponse list"
  | InstanceDetail AppView
  | HarborInstance harborCustomerAppResponse
  | OperationStatus string string string
  | InstanceCredentials "Credential list"
  | BackupReply backup_reply

text \<open>
  JSON: the fingerprint of a request, a response and an error message; \<open>iw_tier_left\<close> is the tier as
  \<^verbatim>\<open>json.Unmarshal\<close> leaves it, whether or not it fails.
\<close>

record instances_world =
  iw_backups :: backups_world
  iw_json_of_request :: "ProvisionRequest \<Rightarrow> string option"
  iw_json_of_response :: "ProvisionResponse \<Rightarrow> string option"
  iw_json_of_error :: "string \<Rightarrow> string option"
  iw_tier_left :: "string \<Rightarrow> AppTier"

record provision_draw =
  pd_instance :: "byte list"
  pd_op :: "byte list"
  pd_task :: "byte list"
  pd_entropy :: entropy
  pd_secrets :: secret_draws
  pd_hostname :: "nat \<Rightarrow> string option"
  pd_route :: "string option"
  pd_blocked :: draw

section \<open>Idempotency\<close>

text \<open>
  \<^verbatim>\<open>unicode.IsControl\<close> on the runes of a string of bytes: the ASCII control characters, and the runes
  from U+0080 to U+009F, which UTF-8 writes with the first byte \<^verbatim>\<open>0xC2\<close>.
\<close>

fun has_control :: "string \<Rightarrow> bool" where
  "has_control [] \<longleftrightarrow> False"
| "has_control (x # xs) \<longleftrightarrow> of_char x < (32 :: nat) \<or> of_char x = (127 :: nat)
     \<or> (of_char x = (194 :: nat) \<and> xs \<noteq> [] \<and> of_char (hd xs) \<in> {128 ..< 160 :: nat}) \<or> has_control xs"

definition provisionIdempotencyKeyHash :: "handlers \<Rightarrow> string \<Rightarrow> err + string" where
  "provisionIdempotencyKeyHash h key0 = (let key = TrimSpace key0 in
     if key = '''' \<or> length key > 255 then Inl (Plain ''Idempotency-Key must contain 1 to 255 bytes'')
     else if has_control key then Inl (Plain ''Idempotency-Key must not contain control characters'')
     else Inr (hex_EncodeToString (sha256 (h_codec h) key)))"

definition provisionRequestHash :: "handlers \<Rightarrow> instances_world \<Rightarrow> ProvisionRequest \<Rightarrow> err + string" where
  "provisionRequestHash h w req = (case iw_json_of_request w req of
     None \<Rightarrow> Inl (Wrap ''encode provision request fingerprint: '' (Plain ''json''))
   | Some encoded \<Rightarrow> Inr (hex_EncodeToString (sha256 (h_codec h) encoded)))"

definition key_conflict :: "instance_reply response" where
  "key_conflict = writeError 409 ''Idempotency-Key was already used for a different provision request''"

definition writeProvisionReplay :: "ProvisionRequestRecord \<Rightarrow> instance_reply response" where
  "writeProvisionReplay rec = (case pr_ResponseJSON rec of
     Some (x # xs) \<Rightarrow> if pr_ResponseStatus rec > 0 then writeJSON (pr_ResponseStatus rec) (Replayed (x # xs))
       else writeJSON 202 (Processing \<lparr>ps_InstanceID = pr_InstanceID rec, ps_OperationID = pr_OperationID rec,
              ps_Status = ''processing'', ps_Hostname = '''', ps_Credentials = []\<rparr>)
   | _ \<Rightarrow> writeJSON 202 (Processing \<lparr>ps_InstanceID = pr_InstanceID rec, ps_OperationID = pr_OperationID rec,
              ps_Status = ''processing'', ps_Hostname = '''', ps_Credentials = []\<rparr>))"

definition replay_of :: "string \<Rightarrow> ProvisionRequestRecord \<Rightarrow> instance_reply response" where
  "replay_of requestHash rec = (if pr_RequestHash rec \<noteq> requestHash then key_conflict else writeProvisionReplay rec)"

text \<open>The response that was written, if one was.\<close>

definition replayProvisionIfPresent :: "string \<Rightarrow> string \<Rightarrow> string \<Rightarrow> instance_reply response option db" where
  "replayProvisionIfPresent customerID keyHash requestHash = do {
     r \<leftarrow> GetProvisionRequest customerID keyHash;
     return (case r of Inl e \<Rightarrow> Inl e | Inr rec \<Rightarrow> Inr (map_option (replay_of requestHash) rec))
   }"

text \<open>
  A rejected workload as a response; \<open>failed\<close> is what the caller answers when it cannot be recorded.
\<close>

definition blocked_response ::
  "(err + (blockedProvisioningAuditDetail \<times> string \<times> string) response) \<Rightarrow> string \<Rightarrow> instance_reply response" where
  "blocked_response r failed = (case r of
     Inl e \<Rightarrow> if is_panic e then Panicked else writeError 500 failed
   | Inr resp \<Rightarrow> map_response WorkloadBlocked resp)"

definition record_blocked ::
  "handlers \<Rightarrow> draw \<Rightarrow> request \<Rightarrow> TaskAction \<Rightarrow> string \<Rightarrow> string \<Rightarrow> string \<Rightarrow> string \<Rightarrow> AppTier
   \<Rightarrow> NodeProvisioningEvaluation list \<Rightarrow> string \<Rightarrow> instance_reply response api_io" where
  "record_blocked h dr r action instanceID appName customerID nodeID tier evaluations failed = do {
     x \<leftarrow> recordBlockedWorkloadAttempt h (dr_entropy dr) (dr_op dr) (dr_task dr) (operatorFromRequest r) action instanceID
            appName customerID nodeID tier evaluations;
     return (blocked_response x failed)
   }"

definition handleProvisionWithoutCapacity ::
  "handlers \<Rightarrow> draw \<Rightarrow> request \<Rightarrow> ProvisionRequest \<Rightarrow> string \<Rightarrow> string \<Rightarrow> AppTier \<Rightarrow> NodeProvisioningEvaluation list
   \<Rightarrow> instance_reply response api_io" where
  "handleProvisionWithoutCapacity h dr r req keyHash requestHash tier evaluations = do {
     x \<leftarrow> on_db (replayProvisionIfPresent (pq_CustomerID req) keyHash requestHash);
     case x of
       Inl _ \<Rightarrow> return (writeError 500 ''Failed handling blocked provisioning attempt'')
     | Inr (Some resp) \<Rightarrow> return resp
     | Inr None \<Rightarrow> record_blocked h dr r ActionProvisionApp '''' (pq_AppDefinitionName req) (pq_CustomerID req) (pq_NodeID req)
         tier evaluations ''Failed handling blocked provisioning attempt''
   }"

definition completeProvisionResponse :: "string \<Rightarrow> string \<Rightarrow> int \<Rightarrow> string option \<Rightarrow> unit db" where
  "completeProvisionResponse customerID keyHash status encoded = (case encoded of
     None \<Rightarrow> return (Inl (Wrap ''encode provision response for idempotency: '' (Plain ''json'')))
   | Some json \<Rightarrow> wrapped ''persist provision response for idempotency: ''
       (CompleteProvisionRequest customerID keyHash status json))"

section \<open>Provisioning\<close>

text \<open>What the request has to name: an active definition, one of its tiers, and an existing node.\<close>

definition provision_inputs ::
  "handlers \<Rightarrow> ProvisionRequest \<Rightarrow> (instance_reply response + AppDefinition \<times> AppDefinitionPayload \<times> AppTier) api_io" where
  "provision_inputs h req =
     attempt (or_respond (GetAppDefinition (pq_AppDefinitionName req)) (writeError 500 ''Database error validating app'')) (\<lambda>ad.
     case ad of
       None \<Rightarrow> return (Inl (writeError 404 ''App definition not found''))
     | Some appDef \<Rightarrow>
         if ToLower (TrimSpace (ad_Status appDef)) \<noteq> ''active''
         then return (Inl (writeError 409 ''App definition is inactive and cannot be provisioned''))
         else case h_yaml h (ad_RawYAML appDef) of
           None \<Rightarrow> return (Inl (writeError 500 ''Stored application definition is invalid''))
         | Some payload \<Rightarrow>
             attempt (or_respond (GetAppTiers (pq_AppDefinitionName req)) (writeError 500 ''Database error validating tiers'')) (\<lambda>tiers.
             case find (\<lambda>t. at_Name t = pq_TierName req) tiers of
               None \<Rightarrow> return (Inl (writeError 404 ''Tier not found for this app definition''))
             | Some tier \<Rightarrow>
                 if pq_NodeID req = '''' then return (Inr (appDef, payload, tier))
                 else attempt (or_respond (GetNode (pq_NodeID req)) (writeError 500 ''Database error validating requested node'')) (\<lambda>node.
                   return (case node of
                     None \<Rightarrow> Inl (writeError 404 ''Requested node not found'')
                   | Some _ \<Rightarrow> Inr (appDef, payload, tier)))))"

text \<open>A provisioning that has reserved its capacity.\<close>

record provisioning =
  pv_req :: ProvisionRequest
  pv_keyHash :: string
  pv_instanceID :: string
  pv_operationID :: string
  pv_taskID :: string
  pv_nodeID :: string
  pv_ram :: int
  pv_disk :: int
  pv_tier :: AppTier

definition releaseCapacity :: "provisioning \<Rightarrow> (store conn, unit) state" where
  "releaseCapacity pv = (if pv_ram pv > 0 \<and> pv_disk pv > 0 then do {
       r \<leftarrow> ReleaseNodeCommitment (pv_nodeID pv) (pv_ram pv) (pv_disk pv);
       case r of
         Inl _ \<Rightarrow> return ()
       | Inr _ \<Rightarrow> do { _ \<leftarrow> recomputeNodePolicy (pv_nodeID pv); return () }
     }
     else return ())"

text \<open>The response of a provisioning that fails is stored for its retries.\<close>

definition give_up :: "instances_world \<Rightarrow> provisioning \<Rightarrow> string \<Rightarrow> (store conn, instance_reply response) state" where
  "give_up w pv msg = do {
     _ \<leftarrow> releaseCapacity pv;
     _ \<leftarrow> completeProvisionResponse (pq_CustomerID (pv_req pv)) (pv_keyHash pv) 500 (iw_json_of_error w msg);
     return (writeError 500 msg)
   }"

definition fail_provision ::
  "instances_world \<Rightarrow> provisioning \<Rightarrow> string \<Rightarrow> string \<Rightarrow> (store conn, instance_reply response) state" where
  "fail_provision w pv reason msg = do {
     _ \<leftarrow> UpdateCustomerAppStatus (pv_instanceID pv) '''' ''failed'';
     _ \<leftarrow> UpdateOperation (pv_operationID pv) ''failed'' reason;
     give_up w pv msg
   }"

definition finish_provision ::
  "instances_world \<Rightarrow> provisioning \<Rightarrow> AppDefinitionPayload \<Rightarrow> string \<Rightarrow> Credential list \<Rightarrow> (store conn, instance_reply response) state" where
  "finish_provision w pv payload hostname credentials =
     (let response = \<lparr>ps_InstanceID = pv_instanceID pv, ps_OperationID = pv_operationID pv, ps_Status = ''queued'',
            ps_Hostname = hostname, ps_Credentials = credentials\<rparr>
      in do {
        _ \<leftarrow> (if hasSetupCommand payload then UpdateCustomerAppStatus (pv_instanceID pv) '''' ''initializing''
             else return (Inr ()));
        _ \<leftarrow> completeProvisionResponse (pq_CustomerID (pv_req pv)) (pv_keyHash pv) 202
               (iw_json_of_response w (response\<lparr>ps_Credentials := []\<rparr>));
        return (writeJSON 202 (Provisioned response))
      })"

text \<open>Secrets, routes and the task of an instance that has been reserved.\<close>

definition setup_instance ::
  "handlers \<Rightarrow> instances_world \<Rightarrow> provision_draw \<Rightarrow> provisioning \<Rightarrow> AppDefinition \<Rightarrow> AppDefinitionPayload
   \<Rightarrow> instance_reply response api_io" where
  "setup_instance h w dr pv appDef payload = do {
     s \<leftarrow> on_db (createInstanceSecrets h (pd_secrets dr) (pv_instanceID pv) payload);
     case s of
       Inl _ \<Rightarrow> on_db (fail_provision w pv ''failed to create instance secrets'' ''Failed to create instance secrets'')
     | Inr credentials \<Rightarrow> do {
         rs \<leftarrow> on_db (case h_networking h of
                 None \<Rightarrow> return (Inr [])
               | Some m \<Rightarrow> CreateInstanceRoutes m (pd_hostname dr) (pd_route dr) (pv_instanceID pv) payload (pv_nodeID pv));
         case rs of
           Inl e \<Rightarrow> on_db (fail_provision w pv (h_error_text h e) ''Failed to create public routes'')
         | Inr routes \<Rightarrow> do {
             p \<leftarrow> enqueueTaskWithID h (pd_entropy dr) (pv_taskID pv) (pv_operationID pv) (pv_instanceID pv) (pv_nodeID pv)
                    (pq_CustomerID (pv_req pv)) (ad_RawYAML appDef) (pv_tier pv) ActionProvisionApp '''' '''';
             case p of
               Inl e \<Rightarrow> if is_panic e then return Panicked else on_db (give_up w pv ''Failed to queue provision task'')
             | Inr _ \<Rightarrow> on_db (finish_provision w pv payload
                 (case routes of [] \<Rightarrow> '''' | route # _ \<Rightarrow> r_Hostname route) credentials)
           }
       }
   }"

definition provision_args_of ::
  "handlers \<Rightarrow> request \<Rightarrow> provisioning \<Rightarrow> string \<Rightarrow> provision_args" where
  "provision_args_of h r pv requestHash =
     \<lparr>pa_customerID = pq_CustomerID (pv_req pv), pa_keyHash = pv_keyHash pv, pa_requestHash = requestHash,
      pa_instanceID = pv_instanceID pv, pa_operationID = pv_operationID pv, pa_taskID = pv_taskID pv,
      pa_appName = pq_AppDefinitionName (pv_req pv), pa_tierName = pq_TierName (pv_req pv), pa_nodeID = pv_nodeID pv,
      pa_tierSnapshotJSON = (case h_json_of_tier h (pv_tier pv) of None \<Rightarrow> '''' | Some j \<Rightarrow> j),
      pa_logicalInstanceID = pq_LogicalInstanceID (pv_req pv), pa_adminUser = operatorFromRequest r,
      pa_ramDelta = pv_ram pv, pa_diskDelta = pv_disk pv\<rparr>"

text \<open>What follows the answer of the reservation.\<close>

definition after_reservation ::
  "handlers \<Rightarrow> instances_world \<Rightarrow> provision_draw \<Rightarrow> request \<Rightarrow> provisioning \<Rightarrow> string \<Rightarrow> AppDefinition \<Rightarrow> AppDefinitionPayload
   \<Rightarrow> bool \<Rightarrow> ProvisionRequestRecord option \<Rightarrow> err option \<Rightarrow> instance_reply response api_io" where
  "after_reservation h w dr r pv requestHash appDef payload created provisionRecord reserveErr = (case reserveErr of
     Some e \<Rightarrow>
       if errors_is e ErrProvisionIdempotencyConflict then return key_conflict
       else if e = ErrNodeCapacityPolicyBlocked then do {
         evaluations \<leftarrow> on_db (refreshNodeEvaluationsForTier (h_parse_float h) (pv_tier pv) (pv_nodeID pv));
         record_blocked h (pd_blocked dr) r ActionProvisionApp '''' (pq_AppDefinitionName (pv_req pv))
           (pq_CustomerID (pv_req pv)) (pv_nodeID pv) (pv_tier pv) evaluations ''Failed recording blocked provisioning attempt''
       }
       else return (writeError 500 ''Failed to create app record'')
   | None \<Rightarrow>
       if \<not> created then (case provisionRecord of None \<Rightarrow> return Panicked | Some rec \<Rightarrow> return (replay_of requestHash rec))
       else do {
         _ \<leftarrow> on_db (recomputeNodePolicy (pv_nodeID pv));
         setup_instance h w dr pv appDef payload
       })"

definition reserve_and_setup ::
  "handlers \<Rightarrow> instances_world \<Rightarrow> provision_draw \<Rightarrow> request \<Rightarrow> provisioning \<Rightarrow> string \<Rightarrow> AppDefinition \<Rightarrow> AppDefinitionPayload
   \<Rightarrow> instance_reply response api_io" where
  "reserve_and_setup h w dr r pv requestHash appDef payload = do {
     (created, provisionRecord, reserveErr) \<leftarrow> on_db (ReserveIdempotentProvision (provision_args_of h r pv requestHash));
     after_reservation h w dr r pv requestHash appDef payload created provisionRecord reserveErr
   }"

definition provision_instance ::
  "handlers \<Rightarrow> instances_world \<Rightarrow> provision_draw \<Rightarrow> request \<Rightarrow> ProvisionRequest \<Rightarrow> string \<Rightarrow> string
   \<Rightarrow> (instance_reply response + instance_reply response) api_io" where
  "provision_instance h w dr r req keyHash requestHash =
     attempt (provision_inputs h req) (\<lambda>(appDef, payload, tier).
     attempt (or_respond (selectNodeForTier (h_parse_float h) tier (pq_NodeID req)) (writeError 500 ''Database error selecting node'')) (\<lambda>selection.
       if sel_NodeID selection = '''' then do {
         x \<leftarrow> handleProvisionWithoutCapacity h (pd_blocked dr) r req keyHash requestHash tier (sel_Evaluations selection);
         return (Inr x)
       }
       else do {
         x \<leftarrow> reserve_and_setup h w dr r
                \<lparr>pv_req = req, pv_keyHash = keyHash, pv_instanceID = generateID ''inst'' (pd_instance dr),
                 pv_operationID = generateID ''op'' (pd_op dr), pv_taskID = generateID ''task'' (pd_task dr),
                 pv_nodeID = sel_NodeID selection, pv_ram = ParseSizeBytes (h_parse_float h) (at_Memory tier),
                 pv_disk = ParseSizeBytes (h_parse_float h) (at_Storage tier), pv_tier = tier\<rparr> requestHash appDef payload;
         return (Inr x)
       }))"

definition provision_request ::
  "handlers \<Rightarrow> instances_world \<Rightarrow> provision_draw \<Rightarrow> request \<Rightarrow> ProvisionRequest option \<Rightarrow> instance_reply response api_io" where
  "provision_request h w dr r body = (case body of
     None \<Rightarrow> return (writeError 400 ''Invalid JSON payload'')
   | Some req \<Rightarrow>
       if pq_AppDefinitionName req = '''' \<or> pq_TierName req = '''' \<or> pq_CustomerID req = ''''
       then return (writeError 400 ''app_definition_name, tier_name, and customer_id are required'')
       else respond (
         attempt (return (requireCustomerOwnership r (pq_CustomerID req))) (\<lambda>_.
         case provisionIdempotencyKeyHash h (hr_Header r ''Idempotency-Key'') of
           Inl e \<Rightarrow> return (Inl (writeError 400 (h_error_text h e)))
         | Inr keyHash \<Rightarrow> (case provisionRequestHash h w req of
             Inl _ \<Rightarrow> return (Inl (writeError 400 ''Invalid provision request''))
           | Inr requestHash \<Rightarrow>
               attempt (or_respond (replayProvisionIfPresent (pq_CustomerID req) keyHash requestHash)
                 (writeError 500 ''Failed to check prior provision request'')) (\<lambda>replay.
               case replay of
                 Some resp \<Rightarrow> return (Inl resp)
               | None \<Rightarrow> provision_instance h w dr r req keyHash requestHash)))))"

section \<open>Actions on an instance\<close>

definition validateTechnicalStatusAction :: "string \<Rightarrow> string \<Rightarrow> string option" where
  "validateTechnicalStatusAction technicalStatus action =
     (let msg = ''Action '' @ quoted action @ '' is not allowed while instance technical_status is '' @ quoted technicalStatus in
      if technicalStatus = ''migrating'' then Some msg
      else if technicalStatus = ''initializing'' \<or> technicalStatus = ''setup_failed''
      then (if action = ''deprovision'' then None else Some msg)
      else if technicalStatus = ''deprovisioned''
      then (if action = ''deprovision'' then Some ''Instance is already deprovisioned'' else None)
      else None)"

text \<open>What the switch over the requested action decides.\<close>

record action_plan =
  ap_action :: TaskAction
  ap_nextTechStatus :: string
  ap_tier :: AppTier
  ap_reserveRAM :: int
  ap_reserveDisk :: int
  ap_engine :: string

definition simple_plan :: "TaskAction \<Rightarrow> string \<Rightarrow> AppTier \<Rightarrow> action_plan" where
  "simple_plan action nextTechStatus tier = \<lparr>ap_action = action, ap_nextTechStatus = nextTechStatus, ap_tier = tier,
     ap_reserveRAM = 0, ap_reserveDisk = 0, ap_engine = ''''\<rparr>"

definition plan_backup ::
  "handlers \<Rightarrow> instances_world \<Rightarrow> InstanceActionRequest \<Rightarrow> CustomerApp \<Rightarrow> AppDefinition \<Rightarrow> AppTier
   \<Rightarrow> instance_reply response + action_plan" where
  "plan_backup h w req inst appDef tier = (case customerBackupPolicy (iw_backups w) inst of
     Inl _ \<Rightarrow> Inl (writeError 500 ''Failed to validate backup policy'')
   | Inr None \<Rightarrow> Inl (writeError 403 ''Manual backups are disabled for this tier'')
   | Inr (Some policy) \<Rightarrow>
       if \<not> bp_ManualBackups policy then Inl (writeError 403 ''Manual backups are disabled for this tier'')
       else case h_yaml h (ad_RawYAML appDef) of
         None \<Rightarrow> Inl (writeError 500 ''Stored application definition is invalid'')
       | Some payload \<Rightarrow> (case resolveBackupTarget payload (ia_Service req) of
           Inl e \<Rightarrow> Inl (writeError 400 (h_error_text h e))
         | Inr target \<Rightarrow>
             if bak_Type (bt_Backup target) = ''volume''
             then (if \<not> bp_BackupVolumes policy then Inl (writeError 403 ''Manual volume backups are disabled for this tier'')
                   else Inr (simple_plan ActionBackupVolumes ''backup_running'' tier))
             else if \<not> bp_BackupDatabase policy then Inl (writeError 403 ''Manual database backups are disabled for this tier'')
             else Inr ((simple_plan ActionBackupDatabase ''backup_running'' tier)\<lparr>ap_engine := bak_Engine (bt_Backup target)\<rparr>)))"

definition tier_named :: "string \<Rightarrow> AppTier list \<Rightarrow> AppTier" where
  "tier_named name tiers = (case find (\<lambda>t. at_Name t = name) tiers of Some t \<Rightarrow> t | None \<Rightarrow> zero_tier)"

text \<open>The additional memory and disk that the target tier takes.\<close>

definition resize_growth :: "handlers \<Rightarrow> AppTier \<Rightarrow> AppTier \<Rightarrow> int \<times> int" where
  "resize_growth h currentTier tier =
     (let size = ParseSizeBytes (h_parse_float h);
          grow = (\<lambda>target current. if target > current then wrap64 (target - current) else 0)
      in (grow (size (at_Memory tier)) (size (at_Memory currentTier)), grow (size (at_Storage tier)) (size (at_Storage currentTier))))"

definition plan_resize ::
  "handlers \<Rightarrow> instances_world \<Rightarrow> draw \<Rightarrow> request \<Rightarrow> InstanceActionRequest \<Rightarrow> CustomerApp \<Rightarrow> string \<Rightarrow> AppTier list
   \<Rightarrow> (instance_reply response + action_plan) api_io" where
  "plan_resize h w dr r req inst nodeID tiers =
     (if ia_Tier req = '''' then return (Inl (writeError 400 ''tier is required for resize''))
      else let matched = tier_named (ca_TierName inst) tiers;
               currentTier = (if at_Name matched = '''' \<and> TrimSpace (ca_TierSnapshotJSON inst) \<noteq> ''''
                 then iw_tier_left w (ca_TierSnapshotJSON inst) else matched);
               tier = tier_named (ia_Tier req) tiers;
               (ram, disk) = resize_growth h currentTier tier;
               plan = (simple_plan ActionResizeApp ''running'' tier)\<lparr>ap_reserveRAM := ram, ap_reserveDisk := disk\<rparr>
      in if at_Name tier = '''' then return (Inl (writeError 400 (''tier '' @ quoted (ia_Tier req) @ '' not found'')))
         else if ParseSizeBytes (h_parse_float h) (at_Memory tier) \<le> 0 \<or> ParseSizeBytes (h_parse_float h) (at_Storage tier) \<le> 0
         then return (Inl (writeError 400 (''tier '' @ quoted (ia_Tier req) @ '' has invalid resource definition'')))
         else if \<not> (ram > 0 \<or> disk > 0) then return (Inr plan)
         else attempt (or_respond (GetNode nodeID) (writeError 500 ''Database error validating node capacity'')) (\<lambda>node.
           case node of
             None \<Rightarrow> return (Inl (writeError 404 ''Assigned node not found''))
           | Some n \<Rightarrow> do {
               t \<leftarrow> on_db now;
               let evaluation = evaluateNodeForTier t n ram disk;
               if ev_Eligible evaluation then return (Inr plan)
               else do {
                 x \<leftarrow> record_blocked h dr r ActionResizeApp (ia_InstanceID req) (ca_AppDefinitionName inst) (ca_CustomerID inst)
                        nodeID tier [evaluation] ''Failed recording blocked resize attempt'';
                 return (Inl x)
               }
             }))"

definition plan_action ::
  "handlers \<Rightarrow> instances_world \<Rightarrow> draw \<Rightarrow> request \<Rightarrow> InstanceActionRequest \<Rightarrow> CustomerApp \<Rightarrow> string \<Rightarrow> AppDefinition \<Rightarrow> AppTier list
   \<Rightarrow> (instance_reply response + action_plan) api_io" where
  "plan_action h w dr r req inst nodeID appDef tiers =
     (let a = ia_Action req; tier = tier_named (ca_TierName inst) tiers in
      if a = ''pause'' then return (Inr (simple_plan ActionPauseApp ''stopped'' tier))
      else if a = ''resume'' then return (Inr (simple_plan ActionResumeApp ''running'' tier))
      else if a = ''start'' then return (Inr (simple_plan ActionStartApp ''running'' tier))
      else if a = ''stop'' then return (Inr (simple_plan ActionStopApp ''stopped'' tier))
      else if a = ''backup'' then return (plan_backup h w req inst appDef tier)
      else if a = ''deprovision'' then return (Inr (simple_plan ActionDeprovisionApp ''deprovisioning'' tier))
      else if a = ''reactivate'' then return (Inr (simple_plan ActionReactivateApp ''running'' tier))
      else if a = ''resize'' then plan_resize h w dr r req inst nodeID tiers
      else return (Inl (writeError 400 (''Unsupported action '' @ quoted a))))"

definition is_backup :: "TaskAction \<Rightarrow> bool" where
  "is_backup action \<longleftrightarrow> action = ActionBackupDatabase \<or> action = ActionBackupVolumes"

text \<open>The record is written before the task is dispatched; its error is ignored.\<close>

definition record_backup ::
  "handlers \<Rightarrow> InstanceActionRequest \<Rightarrow> CustomerApp \<Rightarrow> string \<Rightarrow> action_plan \<Rightarrow> string \<Rightarrow> string \<Rightarrow> unit api_io" where
  "record_backup h req inst nodeID plan opID backupID = (if \<not> is_backup (ap_action plan) then return ()
     else do {
       cfg \<leftarrow> active_storage h;
       let volumes = (ap_action plan = ActionBackupVolumes);
       let storage = manual_storage cfg (if volumes then ''volumes'' else ''database'') nodeID (ia_InstanceID req) (ia_Service req)
                       opID backupID;
       _ \<leftarrow> on_db (CreateBackupRecord (zero_backup\<lparr>br_ID := backupID, br_InstanceID := ia_InstanceID req,
              br_AppID := ca_AppDefinitionName inst, br_TierID := ca_TierName inst, br_NodeID := nodeID,
              br_BackupType := (if volumes then ''volume'' else ''database''), br_Service := ia_Service req,
              br_DatabaseType := (if volumes then ''none'' else ap_engine plan), br_Status := ''pending'',
              br_StorageBackend := sto_Backend storage, br_StorageKey := sto_Key storage, br_TriggeredBy := ''manual'',
              br_TierSnapshotJSON := ca_TierSnapshotJSON inst, br_RetentionPolicySnapshotJSON := mustMarshalRetention 7 30\<rparr>));
       return ()
     })"

definition grows :: "action_plan \<Rightarrow> bool" where
  "grows plan \<longleftrightarrow> ap_action plan = ActionResizeApp \<and> (ap_reserveRAM plan > 0 \<or> ap_reserveDisk plan > 0)"

definition reserve_resize ::
  "handlers \<Rightarrow> draw \<Rightarrow> request \<Rightarrow> InstanceActionRequest \<Rightarrow> CustomerApp \<Rightarrow> string \<Rightarrow> action_plan \<Rightarrow> (instance_reply response + unit) api_io" where
  "reserve_resize h dr r req inst nodeID plan = (if \<not> grows plan then return (Inr ())
     else do {
       x \<leftarrow> on_db (ReserveNodeCapacity nodeID (ap_reserveRAM plan) (ap_reserveDisk plan));
       case x of
         Inl e \<Rightarrow>
           if e = ErrNodeCapacityPolicyBlocked then do {
             evaluations \<leftarrow> on_db (refreshNodeEvaluationsForTier (h_parse_float h) (ap_tier plan) nodeID);
             b \<leftarrow> record_blocked h dr r ActionResizeApp (ia_InstanceID req) (ca_AppDefinitionName inst) (ca_CustomerID inst)
                    nodeID (ap_tier plan) evaluations ''Failed recording blocked resize attempt'';
             return (Inl b)
           }
           else return (Inl (writeError 500 ''Failed reserving node capacity for resize''))
       | Inr _ \<Rightarrow> do { _ \<leftarrow> on_db (recomputeNodePolicy nodeID); return (Inr ()) }
     })"

definition release_resize :: "string \<Rightarrow> action_plan \<Rightarrow> (store conn, unit) state" where
  "release_resize nodeID plan = (if \<not> grows plan then return ()
     else do {
       r \<leftarrow> ReleaseNodeCommitment nodeID (ap_reserveRAM plan) (ap_reserveDisk plan);
       case r of
         Inl _ \<Rightarrow> return ()
       | Inr _ \<Rightarrow> do { _ \<leftarrow> recomputeNodePolicy nodeID; return () }
     })"

definition perform_action ::
  "handlers \<Rightarrow> draws \<Rightarrow> request \<Rightarrow> InstanceActionRequest \<Rightarrow> CustomerApp \<Rightarrow> string \<Rightarrow> AppDefinition \<Rightarrow> action_plan
   \<Rightarrow> (instance_reply response + instance_reply response) api_io" where
  "perform_action h dr r req inst nodeID appDef plan =
     (let opID = generateID ''op'' (dr_op (dr [0]));
          backupID = (if is_backup (ap_action plan) then generateID ''bk'' (dr_backup (dr [0])) else '''')
      in do {
        _ \<leftarrow> record_backup h req inst nodeID plan opID backupID;
        _ \<leftarrow> on_db (UpdateCustomerAppStatus (ia_InstanceID req) '''' (ap_nextTechStatus plan));
        attempt (reserve_resize h (dr [1]) r req inst nodeID plan) (\<lambda>_. do {
          c \<leftarrow> on_db (createActionOperation opID (ia_InstanceID req) nodeID (ap_action plan) (operatorFromRequest r) (ap_tier plan));
          case c of
            Inl _ \<Rightarrow> do {
              _ \<leftarrow> on_db (release_resize nodeID plan);
              return (Inl (writeError 500 ''Failed recording operation''))
            }
          | Inr _ \<Rightarrow> do {
              p \<leftarrow> enqueueTask h (dr_entropy (dr [0])) (dr_task (dr [0])) opID (ia_InstanceID req) nodeID (ca_CustomerID inst)
                     (ad_RawYAML appDef) (ap_tier plan) (ap_action plan) backupID (ia_Service req);
              case p of
                Inl _ \<Rightarrow> return (Inl Panicked)
              | Inr _ \<Rightarrow> do {
                  _ \<leftarrow> (if ia_Action req = ''reactivate'' then on_db (ClearGracePeriod (ia_InstanceID req)) else return (Inr ()));
                  return (Inr (writeJSON 202 (ActionQueued opID ''queued'')))
                }
            }
        })
      })"

text \<open>The checks before an action: ownership, placement, status, running operations.\<close>

definition action_instance ::
  "request \<Rightarrow> InstanceActionRequest \<Rightarrow> (instance_reply response + CustomerApp \<times> string) api_io" where
  "action_instance r req =
     attempt (or_respond (GetCustomerApp (ia_InstanceID req)) (writeError 500 ''Database error validating instance'')) (\<lambda>i.
     case i of
       None \<Rightarrow> return (Inl (writeError 404 ''Customer application instance not found''))
     | Some v \<Rightarrow> (let inst = av_App v; nodeID = or_empty (ca_NodeID inst) in
         attempt (return (requireCustomerOwnership r (ca_CustomerID inst))) (\<lambda>_.
         if nodeID = '''' then return (Inl (writeError 503 ''Application is not scheduled on any active node''))
         else case validateTechnicalStatusAction (ca_TechnicalStatus inst) (ia_Action req) of
           Some msg \<Rightarrow> return (Inl (writeError 409 msg))
         | None \<Rightarrow>
             attempt (or_respond (GetRunningOperationsByInstance (ia_InstanceID req)) (writeError 503 ''Failed to verify instance operations'')) (\<lambda>ops.
             return (if ops \<noteq> [] then Inl (writeError 409 ''Instance has a running operation; retry after it completes'')
               else if ia_NodeID req \<noteq> '''' \<and> ia_NodeID req \<noteq> nodeID
               then Inl (writeError 409 (''Instance is assigned to node '' @ quoted nodeID @ '' and cannot execute this action on node '' @
                      quoted (ia_NodeID req)))
               else Inr (inst, nodeID))))))"

definition HandleCustomerAppAction ::
  "handlers \<Rightarrow> instances_world \<Rightarrow> draws \<Rightarrow> request \<Rightarrow> InstanceActionRequest option \<Rightarrow> instance_reply response api_io" where
  "HandleCustomerAppAction h w dr r body =
     (if hr_Method r \<noteq> ''POST'' then return (WriteHeader 405)
      else case body of
        None \<Rightarrow> return (writeError 400 ''Invalid JSON payload'')
      | Some req \<Rightarrow>
          if ia_InstanceID req = '''' \<or> ia_Action req = '''' then return (writeError 400 ''instance_id and action are required'')
          else respond (
            attempt (action_instance r req) (\<lambda>(inst, nodeID).
            attempt (found_or (GetAppDefinition (ca_AppDefinitionName inst)) (writeError 500 ''Failed retrieving application details'')) (\<lambda>appDef. do {
              ts \<leftarrow> on_db (GetAppTiers (ca_AppDefinitionName inst));
              attempt (plan_action h w (dr [1]) r req inst nodeID appDef (case ts of Inl _ \<Rightarrow> [] | Inr tiers \<Rightarrow> tiers))
                (perform_action h dr r req inst nodeID appDef)
            }))))"

section \<open>Views\<close>

text \<open>\<open>timeout\<close> is \<^verbatim>\<open>SetupTimeoutSeconds\<close>, which only the view of a single instance sets.\<close>

definition newHarborCustomerAppResponse :: "instances_world \<Rightarrow> int \<Rightarrow> AppView \<Rightarrow> harborCustomerAppResponse" where
  "newHarborCustomerAppResponse w timeout v =
     (let app = av_App v;
          policy = (case customerBackupPolicy (iw_backups w) app of Inl _ \<Rightarrow> None | Inr p \<Rightarrow> p);
          allowed = (\<lambda>f. case policy of None \<Rightarrow> False | Some p \<Rightarrow> f p);
          manualBackups = allowed bp_ManualBackups
      in \<lparr>ha_ID = ca_ID app, ha_AppDefinitionName = ca_AppDefinitionName app, ha_TierName = ca_TierName app,
          ha_CommercialStatus = ca_CommercialStatus app, ha_TechnicalStatus = ca_TechnicalStatus app,
          ha_CreatedAt = ca_CreatedAt app, ha_HealthStatus = ca_HealthStatus app, ha_HealthMessage = ca_HealthMessage app,
          ha_LastHealthChecked = ca_LastHealthChecked app, ha_EffectiveAvailability = av_EffectiveAvailability v,
          ha_AvailabilityReason = av_AvailabilityReason v, ha_StorageLimitBytes = ca_StorageLimitBytes app,
          ha_StorageUsedBytes = ca_StorageUsedBytes app, ha_StorageUsedPct = ca_StorageUsedPct app,
          ha_StorageState = ca_StorageState app, ha_StorageMessage = ca_StorageMessage app,
          ha_StorageCheckedAt = ca_StorageCheckedAt app, ha_StorageExceeded = ca_StorageExceeded app,
          ha_GracePeriodStartsAt = ca_GracePeriodStartsAt app, ha_GracePeriodEndsAt = ca_GracePeriodEndsAt app,
          ha_SetupCompleted = ca_SetupCompleted app, ha_SetupTimeoutSeconds = timeout, ha_NeedRestarting = ca_NeedRestarting app,
          ha_UpdateType = ca_UpdateType app, ha_UpdateStartedAt = ca_UpdateStartedAt app,
          ha_ManualBackupsAllowed = manualBackups, ha_BackupDatabaseAllowed = (manualBackups \<and> allowed bp_BackupDatabase),
          ha_BackupVolumesAllowed = (manualBackups \<and> allowed bp_BackupVolumes), ha_RestoreAllowed = allowed bp_RestoreAllowed\<rparr>)"

definition list_instances :: "instances_world \<Rightarrow> request \<Rightarrow> instance_reply response api_io" where
  "list_instances w r =
     (let customerID = (if hr_Query r ''customer_id'' = '''' then hr_Header r ''X-Admiral-Customer-ID'' else hr_Query r ''customer_id'') in
      if customerID = '''' then return (writeError 400 ''customer_id is required'')
      else respond (
        attempt (return (requireCustomerOwnership r customerID)) (\<lambda>_.
        attempt (or_respond (GetCustomerApps customerID) (writeError 500 ''Failed to fetch customer applications'')) (\<lambda>apps.
          return (Inr (writeJSON 200 (if isSystemPrincipal r then InstanceList apps
            else HarborInstanceList (map (newHarborCustomerAppResponse w 0) apps))))))))"

definition HandleCustomerApps ::
  "handlers \<Rightarrow> instances_world \<Rightarrow> provision_draw \<Rightarrow> request \<Rightarrow> ProvisionRequest option \<Rightarrow> instance_reply response api_io" where
  "HandleCustomerApps h w dr r body =
     (if hr_Method r = ''GET'' then list_instances w r
      else if hr_Method r = ''POST'' then provision_request h w dr r body
      else return (WriteHeader 405))"

definition secret_generators :: "AppDefinitionPayload \<Rightarrow> secret_map" where
  "secret_generators payload =
     (let generators = (\<lambda>m. map (\<lambda>(envName, def). (envName, sec_Generate def)) m);
          services = map (\<lambda>(serviceName, svc). (serviceName, generators (svc_Secrets svc))) (app_Services payload)
      in if app_Secrets payload = [] then services else put global_service (generators (app_Secrets payload)) services)"

definition exposed_credential :: "handlers \<Rightarrow> secret_map \<Rightarrow> InstanceSecret \<Rightarrow> Credential list" where
  "exposed_credential h generators s = (case Decrypt (h_codec h) (h_secrets h) (is_EncryptedValue s) of
     Inl _ \<Rightarrow> []
   | Inr plain \<Rightarrow> [\<lparr>cr_Service = is_ServiceName s, cr_Name = is_EnvName s, cr_Value = plain,
       cr_Generate = get '''' (get [] generators (is_ServiceName s)) (is_EnvName s), cr_Kind = ''''\<rparr>])"

definition credentials_access :: "request \<Rightarrow> CustomerApp \<Rightarrow> instance_reply response + unit" where
  "credentials_access r inst =
     (if isSystemPrincipal r then Inr ()
      else if TrimSpace (hr_Header r ''X-Admiral-Customer-ID'') = '''' then Inl (writeError 400 ''X-Admiral-Customer-ID header is required'')
      else if hr_Header r ''X-Admiral-Customer-ID'' \<noteq> ca_CustomerID inst then Inl (writeError 403 ''access denied'')
      else Inr ())"

definition handleCredentials :: "handlers \<Rightarrow> request \<Rightarrow> string \<Rightarrow> instance_reply response api_io" where
  "handleCredentials h r instanceID = respond (
     attempt (or_respond (GetCustomerApp instanceID) (writeError 500 ''Database error'')) (\<lambda>i.
     case i of
       None \<Rightarrow> return (Inl (writeError 404 ''Instance not found''))
     | Some v \<Rightarrow>
         attempt (return (credentials_access r (av_App v))) (\<lambda>_.
         attempt (or_respond (GetAppDefinition (ca_AppDefinitionName (av_App v))) (writeError 500 ''Database error'')) (\<lambda>ad.
         attempt (return (case ad of
             None \<Rightarrow> Inr ([], [])
           | Some appDef \<Rightarrow> (case h_yaml h (ad_RawYAML appDef) of
               None \<Rightarrow> Inl (writeError 500 ''Database error'')
             | Some payload \<Rightarrow> Inr (secret_generators payload, buildSetupNotices payload)))) (\<lambda>(generators, notices).
         attempt (or_respond (GetExposedInstanceSecrets instanceID) (writeError 500 ''Database error'')) (\<lambda>secrets.
           return (Inr (writeJSON 200 (InstanceCredentials (concat (map (exposed_credential h generators) secrets) @ notices))))))))))"

definition instance_operation ::
  "request \<Rightarrow> CustomerApp \<Rightarrow> string \<Rightarrow> string list \<Rightarrow> (instance_reply response + instance_reply response) api_io" where
  "instance_operation r inst instanceID parts =
     (if length parts \<noteq> 6 \<or> parts ! 5 = '''' then return (Inl (writeError 400 ''operation_id is required''))
      else attempt (return (requireCustomerOwnership r (ca_CustomerID inst))) (\<lambda>_.
        attempt (or_respond (GetOperation (parts ! 5)) (writeError 500 ''Database error retrieving operation'')) (\<lambda>op.
        return (case op of
          None \<Rightarrow> Inl (writeError 404 ''Operation not found'')
        | Some x \<Rightarrow> if op_instance x \<noteq> instanceID then Inl (writeError 404 ''Operation not found'')
            else Inr (writeJSON 200 (OperationStatus (op_ID x) (op_instance x) (op_Status x)))))))"

definition instance_detail ::
  "handlers \<Rightarrow> instances_world \<Rightarrow> request \<Rightarrow> AppView \<Rightarrow> (instance_reply response + instance_reply response) api_io" where
  "instance_detail h w r v =
     (if isSystemPrincipal r then return (Inr (writeJSON 200 (InstanceDetail v)))
      else let customerID = hr_Header r ''X-Admiral-Customer-ID'' in
        if customerID = '''' then return (Inl (writeError 400 ''X-Admiral-Customer-ID header is required''))
        else if customerID \<noteq> ca_CustomerID (av_App v) then return (Inl (writeError 403 ''access denied''))
        else do {
          ad \<leftarrow> on_db (GetAppDefinition (ca_AppDefinitionName (av_App v)));
          let timeout = (case ad of Inr (Some appDef) \<Rightarrow> maxSetupTimeoutSeconds (h_yaml h) (ad_RawYAML appDef) | _ \<Rightarrow> 0);
          return (Inr (writeJSON 200 (HarborInstance (newHarborCustomerAppResponse w (max 0 timeout) v))))
        })"

definition HandleCustomerAppByID ::
  "handlers \<Rightarrow> instances_world \<Rightarrow> draw \<Rightarrow> request \<Rightarrow> RestoreBackupRequest option \<Rightarrow> instance_reply response api_io" where
  "HandleCustomerAppByID h w dr r body =
     (let parts = path_parts (hr_Path r); instanceID = parts ! 3; sub = (\<lambda>s. length parts \<ge> 5 \<and> parts ! 4 = s) in
      if length parts < 4 then return (writeError 400 ''instance_id is required'')
      else if sub ''backups'' then do {
        x \<leftarrow> HandleCustomerAppBackups h (iw_backups w) dr r body instanceID (drop 5 parts);
        return (map_response BackupReply x)
      }
      else if hr_Method r \<noteq> ''GET'' then return (writeError 405 ''method not allowed'')
      else if sub ''credentials'' then handleCredentials h r instanceID
      else respond (
        attempt (or_respond (GetCustomerApp instanceID) (writeError 500 ''Database error'')) (\<lambda>i.
        case i of
          None \<Rightarrow> return (Inl (writeError 404 ''Instance not found''))
        | Some v \<Rightarrow>
            if sub ''operations'' then instance_operation r (av_App v) instanceID parts
            else instance_detail h w r v)))"

definition update_overdue_check :: "nat db" where
  "update_overdue_check = FlagOverdueInstances 7200"

end
