(* ===== verification/Migration.thy ===== *)
theory Migration
  imports Instances
begin

text \<open>
  The migration of an instance to another node: \<^verbatim>\<open>runMigration\<close> of \<^verbatim>\<open>src/internal/api/admin_instances.go\<close>.  It runs beside the rest of the control plane: before each
  of its calls, and at each round of a wait, other processes (callbacks of the nodes, other requests,
  heartbeats) may have changed both databases.  What they do is an argument, an arbitrary function for each
  call.  Log lines and audit events are left out.
\<close>

section \<open>The coordinator's state\<close>

text \<open>
  The arguments of a migration; \<open>mp_world n\<close> is what others do before the coordinator's call number \<open>n\<close>, the
  \<open>polls\<close> are the rounds until a timeout (30 minutes every two seconds, 30 seconds every 200 milliseconds, two
  minutes every second).
\<close>

record migration_args =
  mp_opID :: string
  mp_instID :: string
  mp_customerID :: string
  mp_sourceNodeID :: string
  mp_targetNodeID :: string
  mp_rawYAML :: string
  mp_tier :: AppTier
  mp_logicalInstanceID :: string

record migration = migration_args +
  mp_world :: "nat \<Rightarrow> api \<Rightarrow> api"
  mp_draws :: "nat \<Rightarrow> draw"
  mp_op_polls :: nat
  mp_backup_polls :: nat
  mp_health_polls :: nat
  mp_singleNode :: bool

text \<open>
  The databases and the variables of \<^verbatim>\<open>runMigration\<close>; \<open>mr_dispatched\<close> is a history of the operations it has
  created, with their nodes, which the program does not keep.
\<close>

record migration_run =
  mr_api :: api
  mr_calls :: nat
  mr_drawn :: nat
  mr_currentStep :: string
  mr_savedRoutes :: "PublicRoute list"
  mr_freshBackupIDs :: "string list"
  mr_sourceStopped :: bool
  mr_targetProvisionAttempted :: bool
  mr_targetCapacityReserved :: bool
  mr_dispatched :: "(TaskAction \<times> string) list"

type_synonym 'a mig = "(migration_run, 'a) state"

text \<open>How a migration ends; a panic of the goroutine ends the process.\<close>

datatype migration_outcome = Completed | MigrationFailed string | Crashed

type_synonym 'a step = "(migration_outcome + 'a) mig"

definition field :: "(migration_run \<Rightarrow> 'a) \<Rightarrow> 'a mig" where
  "field f = State (\<lambda>s. (f s, s))"

definition assign :: "(migration_run \<Rightarrow> migration_run) \<Rightarrow> unit mig" where
  "assign f = State (\<lambda>s. ((), f s))"

text \<open>A call to the databases, after what the others have done.\<close>

definition call :: "migration \<Rightarrow> 'a api_io \<Rightarrow> 'a mig" where
  "call p m = State (\<lambda>s. case run_state m (mp_world p (mr_calls s) (mr_api s)) of
     (x, a) \<Rightarrow> (x, s\<lparr>mr_api := a, mr_calls := Suc (mr_calls s)\<rparr>))"

abbreviation db_call :: "migration \<Rightarrow> (store conn, 'a) state \<Rightarrow> 'a mig" where
  "db_call p m \<equiv> call p (on_db m)"

definition next_draw :: "migration \<Rightarrow> draw mig" where
  "next_draw p = State (\<lambda>s. (mp_draws p (mr_drawn s), s\<lparr>mr_drawn := Suc (mr_drawn s)\<rparr>))"

text \<open>An error of the networking or of the queue, unless it is a panic.\<close>

definition no_panic :: "(err + 'a) mig \<Rightarrow> (err + 'a) step" where
  "no_panic m = do { r \<leftarrow> m; return (case r of Inl e \<Rightarrow> if is_panic e then Inl Crashed else Inr (Inl e) | Inr x \<Rightarrow> Inr (Inr x)) }"

section \<open>Waiting\<close>

fun waitForOp :: "migration \<Rightarrow> string \<Rightarrow> nat \<Rightarrow> (string + unit) mig" where
  "waitForOp p stepOpID 0 = return (Inl ''operation timed out after 30 minutes'')"
| "waitForOp p stepOpID (Suc n) = do {
     r \<leftarrow> db_call p (GetOperation stepOpID);
     case r of
       Inl _ \<Rightarrow> waitForOp p stepOpID n
     | Inr None \<Rightarrow> waitForOp p stepOpID n
     | Inr (Some op) \<Rightarrow>
         if op_Status op = ''succeeded'' then return (Inr ())
         else if op_Status op = ''failed'' \<or> op_Status op = ''cancelled''
         then return (Inl (if or_empty (op_ErrorMessage op) = '''' then ''operation '' @ op_Status op else or_empty (op_ErrorMessage op)))
         else waitForOp p stepOpID n
   }"

definition valid_sha256 :: "string \<Rightarrow> bool" where
  "valid_sha256 s \<longleftrightarrow> length s = 64 \<and> list_all (\<lambda>x. x \<in> set ''0123456789abcdefABCDEF'') s"

fun waitForBackupRecord :: "handlers \<Rightarrow> migration \<Rightarrow> string \<Rightarrow> nat \<Rightarrow> (string + unit) mig" where
  "waitForBackupRecord h p backupID 0 = return (Inl ''backup record did not reach succeeded after task completion'')"
| "waitForBackupRecord h p backupID (Suc n) = do {
     r \<leftarrow> db_call p (GetBackupRecord (h_rfc3339 h) backupID);
     case r of
       Inl _ \<Rightarrow> waitForBackupRecord h p backupID n
     | Inr None \<Rightarrow> waitForBackupRecord h p backupID n
     | Inr (Some rec) \<Rightarrow>
         if br_Status rec = ''succeeded'' then
           return (if TrimSpace (br_StorageKey rec) = '''' then Inl ''backup completed without a storage key''
             else if \<not> valid_sha256 (TrimSpace (br_ChecksumSHA256 rec)) then Inl ''backup completed without a valid SHA-256 checksum''
             else if br_StorageBackend rec \<noteq> ''s3'' then Inl ''migration requires shared S3 backup storage accessible from both workers''
             else Inr ())
         else if br_Status rec = ''failed'' then
           return (Inl (if TrimSpace (br_ErrorMessage rec) \<noteq> '''' then br_ErrorMessage rec else ''backup record failed''))
         else waitForBackupRecord h p backupID n
   }"

fun waitForNodeHealthy :: "migration \<Rightarrow> string \<Rightarrow> int \<Rightarrow> nat \<Rightarrow> (err + unit) mig" where
  "waitForNodeHealthy p nodeID since 0 =
     return (Inl (Plain (''node '' @ quoted nodeID @ '' did not report a fresh healthy workload within two minutes'')))"
| "waitForNodeHealthy p nodeID since (Suc n) = do {
     r \<leftarrow> db_call p (MigrationInstanceHealthy (mp_instID p) nodeID since);
     case r of
       Inl _ \<Rightarrow> waitForNodeHealthy p nodeID since n
     | Inr healthy \<Rightarrow> if healthy then return (Inr ()) else waitForNodeHealthy p nodeID since n
   }"

definition wait_healthy :: "migration \<Rightarrow> string \<Rightarrow> (err + unit) mig" where
  "wait_healthy p nodeID = do { t \<leftarrow> db_call p now; waitForNodeHealthy p nodeID t (mp_health_polls p) }"

section \<open>Operations of a migration\<close>

definition migrationMetadata :: "migration \<Rightarrow> migration_run \<Rightarrow> OperationMetadata" where
  "migrationMetadata p s = zero_metadata\<lparr>om_TargetNodeID := mp_targetNodeID p, om_SourceNodeID := mp_sourceNodeID p,
     om_LogicalInstanceID := mp_logicalInstanceID p, om_MigrationStep := mr_currentStep s,
     om_MigrationRoutes := mr_savedRoutes s, om_BackupRecordIDs := mr_freshBackupIDs s\<rparr>"

definition save_metadata :: "migration \<Rightarrow> (err + unit) mig" where
  "save_metadata p = do { md \<leftarrow> field (migrationMetadata p); db_call p (UpdateOperationMetadata (mp_opID p) (Some md)) }"

definition enter_step :: "migration \<Rightarrow> string \<Rightarrow> (err + unit) mig" where
  "enter_step p step = do { _ \<leftarrow> assign (\<lambda>s. s\<lparr>mr_currentStep := step\<rparr>); save_metadata p }"

definition setStep :: "migration \<Rightarrow> string \<Rightarrow> unit mig" where
  "setStep p step = do { _ \<leftarrow> enter_step p step; return () }"

definition createMigrationBackupRecord ::
  "handlers \<Rightarrow> byte list \<Rightarrow> string \<Rightarrow> string \<Rightarrow> string \<Rightarrow> string \<Rightarrow> AppTier \<Rightarrow> TaskAction \<Rightarrow> string \<Rightarrow> string db" where
  "createMigrationBackupRecord h bytes operationID instanceID nodeID rawYAML tier action serviceName = (case h_yaml h rawYAML of
     None \<Rightarrow> return (Inl (Wrap ''parse app definition: '' (Plain ''yaml'')))
   | Some payload \<Rightarrow> (case resolveBackupTarget payload serviceName of
       Inl e \<Rightarrow> return (Inl e)
     | Inr target \<Rightarrow> do {
         i \<leftarrow> GetCustomerApp instanceID;
         case i of
           Inl e \<Rightarrow> return (Inl (Wrap ''load instance: '' e))
         | Inr None \<Rightarrow> return (Inl (Plain (''instance '' @ quoted instanceID @ '' not found'')))
         | Inr (Some v) \<Rightarrow> do {
             c \<leftarrow> GetActiveBackupStorageConfig (h_rfc3339 h);
             case c of
               Inl e \<Rightarrow> return (Inl (Wrap ''load backup storage configuration: '' e))
             | Inr cfg \<Rightarrow> (let b = bt_Backup target; backupID = generateID ''bk'' bytes;
                 storage = scheduled_storage cfg (if action = ActionBackupVolumes then ''volumes'' else ''database'') nodeID instanceID
                             serviceName operationID backupID
               in do {
                 r \<leftarrow> CreateBackupRecord (zero_backup\<lparr>br_ID := backupID, br_InstanceID := instanceID,
                        br_AppID := ca_AppDefinitionName (av_App v), br_TierID := at_Name tier, br_NodeID := nodeID,
                        br_BackupType := bak_Type b, br_Service := serviceName,
                        br_DatabaseType := (if bak_Engine b = '''' \<and> bak_Type b = ''volume'' then ''none'' else bak_Engine b),
                        br_Status := ''pending'', br_StorageBackend := sto_Backend storage, br_StorageKey := sto_Key storage,
                        br_TriggeredBy := ''system'', br_RetentionPolicySnapshotJSON := mustMarshalRetention 7 30,
                        br_TierSnapshotJSON := ca_TierSnapshotJSON (av_App v)\<rparr>);
                 return (case r of Inl e \<Rightarrow> Inl e | Inr _ \<Rightarrow> Inr backupID)
               })
           }
       }))"

text \<open>The operation of a step; a new one is added to the history.\<close>

definition create_step_op :: "migration \<Rightarrow> string \<Rightarrow> TaskAction \<Rightarrow> string \<Rightarrow> (err + unit) mig" where
  "create_step_op p stepOpID action nodeID = do {
     md \<leftarrow> field (migrationMetadata p);
     c \<leftarrow> db_call p (CreateOperationWithMetadata stepOpID (mp_instID p) nodeID action ''pending_dispatch'' ''system'' (Some md));
     _ \<leftarrow> (case c of Inl _ \<Rightarrow> return () | Inr _ \<Rightarrow> assign (\<lambda>s. s\<lparr>mr_dispatched := mr_dispatched s @ [(action, nodeID)]\<rparr>));
     return c
   }"

text \<open>The record of a backup, if the action is one.\<close>

definition step_backup :: "handlers \<Rightarrow> migration \<Rightarrow> draw \<Rightarrow> string \<Rightarrow> TaskAction \<Rightarrow> string \<Rightarrow> string \<Rightarrow> (string + string) mig" where
  "step_backup h p d stepOpID action nodeID backupService = (if \<not> is_backup action then return (Inr '''')
     else do {
       b \<leftarrow> db_call p (createMigrationBackupRecord h (dr_backup d) stepOpID (mp_instID p) nodeID (mp_rawYAML p) (mp_tier p) action backupService);
       case b of
         Inr backupID \<Rightarrow> return (Inr backupID)
       | Inl e \<Rightarrow> (let msg = ''create migration backup record: '' @ h_error_text h e in do {
           _ \<leftarrow> db_call p (UpdateOperation stepOpID ''failed'' msg);
           return (Inl msg)
         })
     })"

text \<open>What follows the success of a step with a backup.\<close>

definition keep_backup :: "handlers \<Rightarrow> migration \<Rightarrow> string \<Rightarrow> (string + unit) mig" where
  "keep_backup h p backupID = (if backupID = '''' then return (Inr ())
     else do {
       w \<leftarrow> waitForBackupRecord h p backupID (mp_backup_polls p);
       case w of
         Inl msg \<Rightarrow> return (Inl msg)
       | Inr _ \<Rightarrow> do {
           _ \<leftarrow> assign (\<lambda>s. s\<lparr>mr_freshBackupIDs := mr_freshBackupIDs s @ [backupID]\<rparr>);
           u \<leftarrow> save_metadata p;
           return (case u of Inl e \<Rightarrow> Inl (''save migration backup identity: '' @ h_error_text h e) | Inr _ \<Rightarrow> Inr ())
         }
     })"

text \<open>The identifier of the operation, and an error message or success.\<close>

definition subOp :: "handlers \<Rightarrow> migration \<Rightarrow> TaskAction \<Rightarrow> string \<Rightarrow> string \<Rightarrow> (string \<times> (string + unit)) step" where
  "subOp h p action nodeID backupService = do {
     d \<leftarrow> next_draw p;
     let stepOpID = generateID ''op'' (dr_op d);
     c \<leftarrow> create_step_op p stepOpID action nodeID;
     case c of
       Inl e \<Rightarrow> return (Inr (stepOpID, Inl (h_error_text h e)))
     | Inr _ \<Rightarrow> do {
         b \<leftarrow> step_backup h p d stepOpID action nodeID backupService;
         case b of
           Inl msg \<Rightarrow> return (Inr (stepOpID, Inl msg))
         | Inr backupID \<Rightarrow>
             attempt (no_panic (call p (enqueueTaskWithID h (dr_entropy d) (generateID ''task'' (dr_task d)) stepOpID (mp_instID p) nodeID
                 (mp_customerID p) (mp_rawYAML p) (mp_tier p) action backupID backupService))) (\<lambda>q.
             case q of
               Inl e \<Rightarrow> return (Inr (stepOpID, Inl (h_error_text h e)))
             | Inr _ \<Rightarrow> do {
                 w \<leftarrow> waitForOp p stepOpID (mp_op_polls p);
                 case w of
                   Inl msg \<Rightarrow> return (Inr (stepOpID, Inl msg))
                 | Inr _ \<Rightarrow> do { k \<leftarrow> keep_backup h p backupID; return (Inr (stepOpID, k)) }
               })
       }
   }"

section \<open>Failure and rollback\<close>

definition fail_migration :: "migration \<Rightarrow> string \<Rightarrow> 'b step" where
  "fail_migration p msg = do { _ \<leftarrow> db_call p (UpdateOperation (mp_opID p) ''failed'' msg); return (Inl (MigrationFailed msg)) }"

definition failForIntervention :: "handlers \<Rightarrow> migration \<Rightarrow> string \<Rightarrow> 'b step" where
  "failForIntervention h p msg = do {
     u \<leftarrow> db_call p (UpdateCustomerAppStatus (mp_instID p) '''' ''failed'');
     fail_migration p (case u of Inl e \<Rightarrow> msg @ ''; mark instance failed: '' @ h_error_text h e | Inr _ \<Rightarrow> msg)
   }"

definition sync_routes :: "handlers \<Rightarrow> migration \<Rightarrow> PublicRoute list \<Rightarrow> (err + unit) step" where
  "sync_routes h p routes = (if routes = [] then return (Inr (Inr ()))
     else case h_networking h of
       None \<Rightarrow> return (Inl Crashed)
     | Some m \<Rightarrow> no_panic (db_call p (UpdateRoutesAndSync m routes)))"

definition restoreOriginalRoutes :: "handlers \<Rightarrow> migration \<Rightarrow> (err + unit) step" where
  "restoreOriginalRoutes h p = do {
     u \<leftarrow> enter_step p ''rollback_routes'';
     case u of
       Inl e \<Rightarrow> return (Inr (Inl (Wrap ''record route rollback: '' e)))
     | Inr _ \<Rightarrow> do { routes \<leftarrow> field mr_savedRoutes; sync_routes h p routes }
   }"

definition with_error :: "handlers \<Rightarrow> string \<Rightarrow> string \<Rightarrow> err + unit \<Rightarrow> string" where
  "with_error h reason what r = (case r of Inl e \<Rightarrow> reason @ what @ h_error_text h e | Inr _ \<Rightarrow> reason)"

definition abortBeforeStop :: "handlers \<Rightarrow> migration \<Rightarrow> string \<Rightarrow> 'b step" where
  "abortBeforeStop h p reason = attempt (restoreOriginalRoutes h p) (\<lambda>r.
     fail_migration p (with_error h reason ''; restore original routes: '' r))"

fun disabled_routes :: "migration \<Rightarrow> PublicRoute list \<Rightarrow> PublicRoute list \<Rightarrow> (err + PublicRoute list) mig" where
  "disabled_routes p [] acc = return (Inr acc)"
| "disabled_routes p (original # routes) acc = do {
     r \<leftarrow> db_call p (GetPublicRoute (r_Hostname original));
     case r of
       Inl e \<Rightarrow> return (Inl (Wrap (''load route '' @ quoted (r_Hostname original) @ '' for maintenance: '') e))
     | Inr None \<Rightarrow> return (Inl (Plain (''load route '' @ quoted (r_Hostname original) @ '' for maintenance: <nil>'')))
     | Inr (Some route) \<Rightarrow> disabled_routes p routes (acc @ [route\<lparr>r_Status := ''disabled''\<rparr>])
   }"

definition enableMaintenance :: "handlers \<Rightarrow> migration \<Rightarrow> (err + unit) step" where
  "enableMaintenance h p = do {
     u \<leftarrow> enter_step p ''maintenance'';
     case u of
       Inl e \<Rightarrow> return (Inr (Inl (Wrap ''record maintenance: '' e)))
     | Inr _ \<Rightarrow> do {
         saved \<leftarrow> field mr_savedRoutes;
         d \<leftarrow> disabled_routes p saved [];
         case d of Inl e \<Rightarrow> return (Inr (Inl e)) | Inr routes \<Rightarrow> sync_routes h p routes
       }
   }"

definition releaseMigrationCapacity :: "handlers \<Rightarrow> migration \<Rightarrow> string \<Rightarrow> (err + unit) mig" where
  "releaseMigrationCapacity h p nodeID = do {
     r \<leftarrow> db_call p (ReleaseNodeCommitment nodeID (ParseSizeBytes (h_parse_float h) (at_Memory (mp_tier p)))
            (ParseSizeBytes (h_parse_float h) (at_Storage (mp_tier p))));
     case r of
       Inl e \<Rightarrow> return (Inl (Wrap (''release migration capacity on node '' @ quoted nodeID @ '': '') e))
     | Inr _ \<Rightarrow> do { _ \<leftarrow> db_call p (recomputeNodePolicy nodeID); return (Inr ()) }
   }"

text \<open>The parts of \<^verbatim>\<open>rollbackPreCutover\<close>; the reason grows with every failure.\<close>

definition rollback_target :: "handlers \<Rightarrow> migration \<Rightarrow> string \<Rightarrow> (string \<times> bool) step" where
  "rollback_target h p reason = do {
     attempted \<leftarrow> field mr_targetProvisionAttempted;
     if \<not> attempted then return (Inr (reason, True))
     else do {
       _ \<leftarrow> setStep p ''rollback_target_cleanup'';
       attempt (subOp h p ActionDeprovisionApp (mp_targetNodeID p) '''') (\<lambda>(_, r).
         return (Inr (case r of Inl msg \<Rightarrow> (reason @ ''; target cleanup failed: '' @ msg, False) | Inr _ \<Rightarrow> (reason, True))))
     }
   }"

definition rollback_capacity :: "handlers \<Rightarrow> migration \<Rightarrow> string \<Rightarrow> bool \<Rightarrow> string mig" where
  "rollback_capacity h p reason cleaned = do {
     reserved \<leftarrow> field mr_targetCapacityReserved;
     if \<not> (reserved \<and> cleaned) then return reason
     else do {
       r \<leftarrow> releaseMigrationCapacity h p (mp_targetNodeID p);
       case r of
         Inl e \<Rightarrow> return (reason @ ''; release target capacity: '' @ h_error_text h e)
       | Inr _ \<Rightarrow> do { _ \<leftarrow> assign (\<lambda>s. s\<lparr>mr_targetCapacityReserved := False\<rparr>); return reason }
     }
   }"

definition rollback_source :: "handlers \<Rightarrow> migration \<Rightarrow> string \<Rightarrow> (string \<times> bool) step" where
  "rollback_source h p reason = do {
     stopped \<leftarrow> field mr_sourceStopped;
     if \<not> stopped then return (Inr (reason, True))
     else do {
       _ \<leftarrow> setStep p ''rollback_source_restart'';
       attempt (subOp h p ActionStartApp (mp_sourceNodeID p) '''') (\<lambda>(_, r).
       case r of
         Inl msg \<Rightarrow> do {
           _ \<leftarrow> db_call p (UpdateCustomerAppStatus (mp_instID p) '''' ''failed'');
           return (Inr (reason @ ''; source restart failed: '' @ msg, False)) }
       | Inr _ \<Rightarrow> do {
           w \<leftarrow> wait_healthy p (mp_sourceNodeID p);
           case w of
             Inl e \<Rightarrow> do {
               _ \<leftarrow> db_call p (UpdateCustomerAppStatus (mp_instID p) '''' ''failed'');
               return (Inr (reason @ ''; source health: '' @ h_error_text h e, False)) }
           | Inr _ \<Rightarrow> do {
               u \<leftarrow> db_call p (UpdateCustomerAppStatus (mp_instID p) '''' ''running'');
               return (Inr (case u of
                 Inl e \<Rightarrow> (reason @ ''; restore source status: '' @ h_error_text h e, False)
               | Inr _ \<Rightarrow> (reason, True)))
             }
         })
     }
   }"

definition rollback_routes :: "handlers \<Rightarrow> migration \<Rightarrow> string \<Rightarrow> bool \<Rightarrow> string step" where
  "rollback_routes h p reason recovered = do {
     routes \<leftarrow> field mr_savedRoutes;
     if \<not> recovered \<or> routes = [] then return (Inr reason)
     else do {
       _ \<leftarrow> setStep p ''rollback_routes'';
       attempt (restoreOriginalRoutes h p) (\<lambda>r. return (Inr (with_error h reason ''; route rollback failed: '' r)))
     }
   }"

definition rollbackPreCutover :: "handlers \<Rightarrow> migration \<Rightarrow> string \<Rightarrow> 'b step" where
  "rollbackPreCutover h p reason =
     attempt (rollback_target h p reason) (\<lambda>(reason, cleaned). do {
       reason \<leftarrow> rollback_capacity h p reason cleaned;
       attempt (rollback_source h p reason) (\<lambda>(reason, recovered).
       attempt (rollback_routes h p reason recovered) (fail_migration p))
     })"

section \<open>The migration\<close>

text \<open>Saved routes and maintenance.  The sleep that follows gives the others time.\<close>

definition start_maintenance :: "handlers \<Rightarrow> migration \<Rightarrow> unit step" where
  "start_maintenance h p = do {
     _ \<leftarrow> setStep p ''saving_routes'';
     g \<leftarrow> db_call p (GetRoutesByInstance (mp_instID p));
     case g of
       Inl e \<Rightarrow> fail_migration p (''load instance routes: '' @ h_error_text h e)
     | Inr routes \<Rightarrow> do {
         _ \<leftarrow> assign (\<lambda>s. s\<lparr>mr_savedRoutes := routes\<rparr>);
         if routes \<noteq> [] \<and> (case h_networking h of None \<Rightarrow> True | Some m \<Rightarrow> nm_Caddy m = None)
         then fail_migration p ''public routes cannot be put into maintenance without Caddy''
         else do {
           u \<leftarrow> save_metadata p;
           case u of
             Inl e \<Rightarrow> fail_migration p (''save original routes: '' @ h_error_text h e)
           | Inr _ \<Rightarrow>
               if routes = [] then return (Inr ())
               else do {
                 _ \<leftarrow> setStep p ''maintenance'';
                 attempt (enableMaintenance h p) (\<lambda>r. case r of
                   Inr _ \<Rightarrow> do { _ \<leftarrow> call p (return ()); return (Inr ()) }
                 | Inl e \<Rightarrow> attempt (restoreOriginalRoutes h p) (\<lambda>r2.
                     fail_migration p (with_error h (''apply maintenance in Caddy: '' @ h_error_text h e) ''; restore original routes: '' r2)))
               }
         }
       }
   }"

fun backup_services :: "handlers \<Rightarrow> migration \<Rightarrow> (string \<times> YAMLService) list \<Rightarrow> unit step" where
  "backup_services h p [] = return (Inr ())"
| "backup_services h p ((name, svc) # rest) = (case svc_Backup svc of
     None \<Rightarrow> backup_services h p rest
   | Some backup \<Rightarrow>
       if bak_Type backup = ''none'' then backup_services h p rest
       else if bak_Type backup \<noteq> ''database'' \<and> bak_Type backup \<noteq> ''volume''
       then abortBeforeStop h p (''unsupported backup type '' @ quoted (bak_Type backup) @ '' for service '' @ quoted name)
       else do {
         _ \<leftarrow> setStep p (''backup_'' @ name);
         attempt (subOp h p (if bak_Type backup = ''database'' then ActionBackupDatabase else ActionBackupVolumes)
             (mp_sourceNodeID p) name) (\<lambda>(_, r).
         case r of
           Inr _ \<Rightarrow> backup_services h p rest
         | Inl msg \<Rightarrow> attempt (restoreOriginalRoutes h p) (\<lambda>r2.
             fail_migration p (''backup '' @ name @ '': '' @ with_error h msg ''; restore routes: '' r2)))
       })"

definition reserve_target :: "handlers \<Rightarrow> migration \<Rightarrow> unit step" where
  "reserve_target h p = (let ramBytes = ParseSizeBytes (h_parse_float h) (at_Memory (mp_tier p));
       diskBytes = ParseSizeBytes (h_parse_float h) (at_Storage (mp_tier p)) in
     if ramBytes \<le> 0 \<or> diskBytes \<le> 0 then abortBeforeStop h p ''migration tier has invalid RAM or storage capacity''
     else do {
       r \<leftarrow> db_call p (ReserveNodeCapacity (mp_targetNodeID p) ramBytes diskBytes);
       case r of
         Inl e \<Rightarrow> abortBeforeStop h p (''reserve target capacity: '' @ h_error_text h e)
       | Inr _ \<Rightarrow> do { _ \<leftarrow> assign (\<lambda>s. s\<lparr>mr_targetCapacityReserved := True\<rparr>); return (Inr ()) }
     })"

definition prepare_migration :: "handlers \<Rightarrow> migration \<Rightarrow> unit step" where
  "prepare_migration h p =
     attempt (start_maintenance h p) (\<lambda>_.
     case h_yaml h (mp_rawYAML p) of
       None \<Rightarrow> abortBeforeStop h p (''parse migration app definition: '' @ h_error_text h (Plain ''yaml''))
     | Some payload \<Rightarrow>
         attempt (backup_services h p (sort_key fst (app_Services payload))) (\<lambda>_. reserve_target h p))"

text \<open>A step that rolls back when it fails; its result is the identifier of the operation.\<close>

definition step_or_rollback :: "handlers \<Rightarrow> migration \<Rightarrow> TaskAction \<Rightarrow> string \<Rightarrow> string \<Rightarrow> string step" where
  "step_or_rollback h p action nodeID what =
     attempt (subOp h p action nodeID '''') (\<lambda>(stepOpID, r).
       case r of Inl msg \<Rightarrow> rollbackPreCutover h p (what @ '': '' @ msg) | Inr _ \<Rightarrow> return (Inr stepOpID))"

fun restore_backups :: "handlers \<Rightarrow> migration \<Rightarrow> string list \<Rightarrow> unit step" where
  "restore_backups h p [] = return (Inr ())"
| "restore_backups h p (backupID # rest) = do {
     g \<leftarrow> db_call p (GetBackupRecord (h_rfc3339 h) backupID);
     case g of
       Inl _ \<Rightarrow> rollbackPreCutover h p (''migration backup is unavailable: '' @ backupID)
     | Inr None \<Rightarrow> rollbackPreCutover h p (''migration backup is unavailable: '' @ backupID)
     | Inr (Some bk) \<Rightarrow>
         if br_Status bk \<noteq> ''succeeded'' then rollbackPreCutover h p (''migration backup is unavailable: '' @ backupID)
         else do {
           _ \<leftarrow> setStep p (''restoring_'' @ br_BackupType bk);
           d \<leftarrow> next_draw p;
           let stepOpID = generateID ''op'' (dr_op d);
           c \<leftarrow> create_step_op p stepOpID ActionRestoreBackup (mp_targetNodeID p);
           case c of
             Inl e \<Rightarrow> rollbackPreCutover h p (''restore create op: '' @ h_error_text h e)
           | Inr _ \<Rightarrow>
               attempt (no_panic (call p (enqueueRestoreTask h (dr_entropy d) (dr_task d) stepOpID (mp_instID p) (mp_targetNodeID p)
                   (mp_rawYAML p) (mp_tier p) bk))) (\<lambda>_. do {
                 w \<leftarrow> waitForOp p stepOpID (mp_op_polls p);
                 case w of
                   Inl msg \<Rightarrow> rollbackPreCutover h p (''restore '' @ br_BackupType bk @ '': '' @ msg)
                 | Inr _ \<Rightarrow> restore_backups h p rest
               })
         }
   }"

definition pause_source :: "handlers \<Rightarrow> migration \<Rightarrow> unit step" where
  "pause_source h p = do {
     _ \<leftarrow> setStep p ''pausing_source'';
     _ \<leftarrow> assign (\<lambda>s. s\<lparr>mr_sourceStopped := True\<rparr>);
     attempt (step_or_rollback h p ActionPauseApp (mp_sourceNodeID p) ''pause source'') (\<lambda>_. do {
       u \<leftarrow> db_call p (UpdateCustomerAppStatus (mp_instID p) '''' ''migrating'');
       case u of
         Inl e \<Rightarrow> rollbackPreCutover h p (''mark instance migrating: '' @ h_error_text h e)
       | Inr _ \<Rightarrow> return (Inr ())
     })
   }"

definition provision_target :: "handlers \<Rightarrow> migration \<Rightarrow> string step" where
  "provision_target h p = do {
     _ \<leftarrow> setStep p ''provisioning_target'';
     _ \<leftarrow> assign (\<lambda>s. s\<lparr>mr_targetProvisionAttempted := True\<rparr>);
     step_or_rollback h p ActionProvisionApp (mp_targetNodeID p) ''provision target''
   }"

text \<open>The host ports of the target, which the resumed workload reports, one for each route.\<close>

definition resume_target :: "handlers \<Rightarrow> migration \<Rightarrow> (string \<times> int) list step" where
  "resume_target h p = do {
     _ \<leftarrow> setStep p ''resuming_target'';
     attempt (step_or_rollback h p ActionResumeApp (mp_targetNodeID p) ''resume target'') (\<lambda>targetResumeID. do {
       g \<leftarrow> db_call p (GetOperation targetResumeID);
       case (case g of Inl _ \<Rightarrow> None | Inr None \<Rightarrow> None | Inr (Some op) \<Rightarrow> op_Metadata op) of
         None \<Rightarrow> rollbackPreCutover h p ''load target resume metadata''
       | Some md \<Rightarrow> do {
           routes \<leftarrow> field mr_savedRoutes;
           case find (\<lambda>route. get 0 (om_HostPorts md) (r_ServiceName route) \<le> 0) routes of
             Some route \<Rightarrow> rollbackPreCutover h p (''target did not report a host port for service '' @ r_ServiceName route)
           | None \<Rightarrow> return (Inr (om_HostPorts md))
         }
     })
   }"

definition validate_target :: "handlers \<Rightarrow> migration \<Rightarrow> unit step" where
  "validate_target h p = do {
     _ \<leftarrow> setStep p ''validating_target'';
     g \<leftarrow> db_call p (GetCustomerApp (mp_instID p));
     case g of
       Inl e \<Rightarrow> rollbackPreCutover h p (''validate target instance: '' @ h_error_text h e)
     | Inr i \<Rightarrow>
         if (case i of None \<Rightarrow> True | Some v \<Rightarrow> ca_TechnicalStatus (av_App v) \<noteq> ''migrating'' \<or> ca_NodeID (av_App v) \<noteq> Some (mp_sourceNodeID p))
         then rollbackPreCutover h p ''target validation failed: instance migration state changed''
         else return (Inr ())
   }"

definition moved_route :: "string \<Rightarrow> string \<Rightarrow> (string \<times> int) list \<Rightarrow> PublicRoute \<Rightarrow> err + PublicRoute" where
  "moved_route nodeID targetHost hostPorts route = (let port = get 0 hostPorts (r_ServiceName route) in
     if port \<le> 0 then Inl (Plain (''target did not report a host port for service '' @ quoted (r_ServiceName route)))
     else Inr (route\<lparr>r_NodeID := Some nodeID, r_TargetHost := targetHost, r_TargetPort := port,
            r_TargetURL := ''http://'' @ targetHost @ '':'' @ show_int port\<rparr>))"

text \<open>\<^verbatim>\<open>runtimeNodeAddress\<close> of the handlers.\<close>

definition handler_node_address :: "migration \<Rightarrow> Node \<Rightarrow> err + string" where
  "handler_node_address p node = (if mp_singleNode p then Inr ''127.0.0.1''
     else if n_WireguardIP node = '''' then Inl (Plain (''node '' @ quoted (n_ID node) @
       '' has no WireGuard address; refusing general-interface routing''))
     else Inr (n_WireguardIP node))"

definition reconcileRoutes :: "handlers \<Rightarrow> migration \<Rightarrow> string \<Rightarrow> PublicRoute list \<Rightarrow> (string \<times> int) list \<Rightarrow> (err + unit) step" where
  "reconcileRoutes h p nodeID routes hostPorts = do {
     g \<leftarrow> db_call p (GetNode nodeID);
     case g of
       Inl e \<Rightarrow> return (Inr (Inl e))
     | Inr None \<Rightarrow> return (Inr (Inl (Plain (''target node '' @ quoted nodeID @ '' not found for route reconciliation''))))
     | Inr (Some node) \<Rightarrow> (case handler_node_address p node of
         Inl e \<Rightarrow> return (Inr (Inl e))
       | Inr targetHost \<Rightarrow> (case for_each (\<lambda>route updated. and_then (moved_route nodeID targetHost hostPorts route) (\<lambda>x. Inr (updated @ [x]))) routes [] of
           Inl e \<Rightarrow> return (Inr (Inl e))
         | Inr updated \<Rightarrow> sync_routes h p updated))
   }"

text \<open>The instance goes back to the source before the rollback.\<close>

definition undo_assignment :: "handlers \<Rightarrow> migration \<Rightarrow> string \<Rightarrow> 'b step" where
  "undo_assignment h p what = do {
     u \<leftarrow> db_call p (UpdateCustomerAppNode (mp_instID p) (mp_sourceNodeID p));
     case u of
       Inl e \<Rightarrow> failForIntervention h p (what @ ''; restore source assignment: '' @ h_error_text h e)
     | Inr _ \<Rightarrow> rollbackPreCutover h p what
   }"

definition move_routes :: "handlers \<Rightarrow> migration \<Rightarrow> (string \<times> int) list \<Rightarrow> unit step" where
  "move_routes h p hostPorts = do {
     routes \<leftarrow> field mr_savedRoutes;
     if routes = [] then return (Inr ())
     else do {
       u \<leftarrow> enter_step p ''enabling_target_routes'';
       case u of
         Inl e \<Rightarrow> undo_assignment h p (''record target routes: '' @ h_error_text h e)
       | Inr _ \<Rightarrow>
           attempt (reconcileRoutes h p (mp_targetNodeID p) routes hostPorts) (\<lambda>r.
           case r of
             Inr _ \<Rightarrow> return (Inr ())
           | Inl e \<Rightarrow> attempt (enableMaintenance h p) (\<lambda>m.
               case m of
                 Inl me \<Rightarrow> failForIntervention h p (''cutover routes: '' @ h_error_text h e @ ''; restore maintenance: '' @ h_error_text h me)
               | Inr _ \<Rightarrow> failForIntervention h p
                   (''cutover route outcome is uncertain; maintenance restored and both workloads preserved: '' @ h_error_text h e)))
     }
   }"

definition cutover :: "handlers \<Rightarrow> migration \<Rightarrow> (string \<times> int) list \<Rightarrow> unit step" where
  "cutover h p hostPorts = do {
     _ \<leftarrow> setStep p ''cutover'';
     u \<leftarrow> db_call p (UpdateCustomerAppNode (mp_instID p) (mp_targetNodeID p));
     case u of
       Inl e \<Rightarrow> rollbackPreCutover h p (''update node: '' @ h_error_text h e)
     | Inr _ \<Rightarrow> do {
         w \<leftarrow> wait_healthy p (mp_targetNodeID p);
         case w of
           Inl e \<Rightarrow> undo_assignment h p (''target health: '' @ h_error_text h e)
         | Inr _ \<Rightarrow> move_routes h p hostPorts
       }
   }"

definition failAfterCutover :: "handlers \<Rightarrow> migration \<Rightarrow> string \<Rightarrow> 'b step" where
  "failAfterCutover h p reason = do {
     u \<leftarrow> db_call p (UpdateCustomerAppStatus (mp_instID p) '''' ''running'');
     fail_migration p (with_error h reason ''; update target status: '' u)
   }"

definition remove_source :: "handlers \<Rightarrow> migration \<Rightarrow> migration_outcome step" where
  "remove_source h p = do {
     _ \<leftarrow> setStep p ''deprovisioning_source'';
     attempt (subOp h p ActionDeprovisionApp (mp_sourceNodeID p) '''') (\<lambda>(_, r).
     case r of
       Inl msg \<Rightarrow> do {
         _ \<leftarrow> setStep p ''cleanup_source_failed'';
         failAfterCutover h p (''cutover succeeded but source cleanup failed: '' @ msg) }
     | Inr _ \<Rightarrow> do {
         c \<leftarrow> releaseMigrationCapacity h p (mp_sourceNodeID p);
         case c of
           Inl e \<Rightarrow> failAfterCutover h p (''cutover succeeded but source capacity release failed: '' @ h_error_text h e)
         | Inr _ \<Rightarrow> do {
             q \<leftarrow> db_call p (ClearCustomerAppRestartRequired (mp_instID p));
             case q of
               Inl e \<Rightarrow> failAfterCutover h p (''cutover succeeded but restart state could not be cleared: '' @ h_error_text h e)
             | Inr _ \<Rightarrow> do {
                 u \<leftarrow> db_call p (UpdateCustomerAppStatus (mp_instID p) '''' ''running'');
                 case u of
                   Inl e \<Rightarrow> fail_migration p (''cutover succeeded but target status could not be updated: '' @ h_error_text h e)
                 | Inr _ \<Rightarrow> do {
                     _ \<leftarrow> setStep p ''completed'';
                     _ \<leftarrow> db_call p (UpdateOperation (mp_opID p) ''succeeded'' '''');
                     return (Inr Completed)
                   }
               }
           }
       })
   }"

definition runMigration :: "handlers \<Rightarrow> migration \<Rightarrow> migration_outcome mig" where
  "runMigration h p = do {
     r \<leftarrow> attempt (prepare_migration h p) (\<lambda>_.
       attempt (pause_source h p) (\<lambda>_.
       attempt (provision_target h p) (\<lambda>_. do {
         backups \<leftarrow> field mr_freshBackupIDs;
         attempt (restore_backups h p backups) (\<lambda>_.
         attempt (resume_target h p) (\<lambda>hostPorts.
         attempt (validate_target h p) (\<lambda>_.
         attempt (cutover h p hostPorts) (\<lambda>_. remove_source h p))))
       })));
     return (case r of Inl x \<Rightarrow> x | Inr x \<Rightarrow> x)
   }"

end
