(* ===== verification/Admin_Instances.thy ===== *)
theory Admin_Instances
  imports Migration
begin

text \<open>
  The administrator's endpoints for instances: the rest of \<^verbatim>\<open>src/internal/api/admin_instances.go\<close>.  A migration that
  a request starts is part of the result, as the arguments of the goroutine.
\<close>

section \<open>Requests and responses\<close>

record MigrateAppResponse =
  mg_OperationID :: string
  mg_InstanceID :: string
  mg_LogicalInstanceID :: string
  mg_Status :: string

text \<open>The detail of an instance carries \<^verbatim>\<open>SetupTimeoutSeconds\<close>.\<close>

datatype admin_instance_reply =
    Inspection json
  | AdminInstance AppView int
  | InstancePage "AppView list" int int nat
  | InspectionQueued string string
  | MigrationStarted MigrateAppResponse
  | ActionReply instance_reply
  | AdminBackupReply backup_reply

section \<open>Inspection\<close>

definition redact_entry :: "json \<Rightarrow> json" where
  "redact_entry entry = (case entry of
     JStr text \<Rightarrow> if CHR ''='' \<in> set text then JStr (takeWhile (\<lambda>x. x \<noteq> CHR ''='') text @ ''=[REDACTED]'') else entry
   | _ \<Rightarrow> entry)"

definition is_env_key :: "string \<Rightarrow> bool" where
  "is_env_key key \<longleftrightarrow> ToLower key = ''env''"

definition is_array :: "json \<Rightarrow> bool" where
  "is_array v = (case v of JArr _ \<Rightarrow> True | _ \<Rightarrow> False)"

definition redact_array :: "json \<Rightarrow> json" where
  "redact_array v = (case v of JArr env \<Rightarrow> JArr (map redact_entry env) | _ \<Rightarrow> v)"

fun redactInspectEnvironment :: "json \<Rightarrow> json" where
  "redactInspectEnvironment (JObj kvs) = JObj (map (\<lambda>(key, child). (key,
     if is_env_key key \<and> is_array child then redact_array child else redactInspectEnvironment child)) kvs)"
| "redactInspectEnvironment (JArr xs) = JArr (map redactInspectEnvironment xs)"
| "redactInspectEnvironment v = v"

section \<open>Migrations\<close>

definition migration_nodes :: "string \<Rightarrow> string \<Rightarrow> (admin_instance_reply response + unit) api_io" where
  "migration_nodes sourceNodeID targetNodeID =
     attempt (or_respond (GetNode sourceNodeID) (writeError 500 ''Database error'')) (\<lambda>src.
     case src of
       None \<Rightarrow> return (Inl (writeError 404 ''Source node not found''))
     | Some _ \<Rightarrow>
         attempt (or_respond (GetNode targetNodeID) (writeError 500 ''Database error'')) (\<lambda>tgt.
         return (case tgt of
           None \<Rightarrow> Inl (writeError 404 ''Target node not found'')
         | Some node \<Rightarrow>
             if n_NodeRole node \<noteq> ''worker'' then Inl (writeError 409 ''Target node must be a worker'')
             else if n_Status node \<noteq> ''active'' then Inl (writeError 409 ''Target node is not active'')
             else if \<not> n_AvailableForProvisioning node then Inl (writeError 409 ''Target node is not available for provisioning'')
             else Inr ())))"

definition start_migration ::
  "handlers \<Rightarrow> draw \<Rightarrow> request \<Rightarrow> CustomerApp \<Rightarrow> string \<Rightarrow> string \<Rightarrow> AppDefinition \<Rightarrow> AppTier
   \<Rightarrow> (admin_instance_reply response + MigrateAppResponse \<times> migration_args) api_io" where
  "start_migration h dr r inst sourceNodeID targetNodeID appDef tier = (let opID = generateID ''op'' (dr_op dr) in do {
     c \<leftarrow> on_db (CreateMigrationOperation opID (ca_ID inst) sourceNodeID (operatorFromRequest r)
            (Some (zero_metadata\<lparr>om_TargetNodeID := targetNodeID, om_SourceNodeID := sourceNodeID,
               om_LogicalInstanceID := ca_LogicalInstanceID inst, om_MigrationStep := ''starting''\<rparr>)));
     return (case c of
       Inl e \<Rightarrow> Inl (if errors_is e ErrMigrationConflict then writeError 409 ''Instance state or active operations prevent migration''
         else writeError 500 ''Failed to create operation'')
     | Inr _ \<Rightarrow> Inr (\<lparr>mg_OperationID = opID, mg_InstanceID = ca_ID inst, mg_LogicalInstanceID = ca_LogicalInstanceID inst, mg_Status = ''running''\<rparr>,
         \<lparr>mp_opID = opID, mp_instID = ca_ID inst, mp_customerID = ca_CustomerID inst, mp_sourceNodeID = sourceNodeID,
          mp_targetNodeID = targetNodeID, mp_rawYAML = ad_RawYAML appDef, mp_tier = tier, mp_logicalInstanceID = ca_LogicalInstanceID inst\<rparr>))
   })"

definition migrate_instance ::
  "handlers \<Rightarrow> draw \<Rightarrow> request \<Rightarrow> string \<Rightarrow> string \<Rightarrow> (admin_instance_reply response + MigrateAppResponse \<times> migration_args) api_io" where
  "migrate_instance h dr r instanceID targetNodeID =
     attempt (or_respond (GetCustomerApp instanceID) (writeError 500 ''Database error'')) (\<lambda>i.
     case i of
       None \<Rightarrow> return (Inl (writeError 404 ''Instance not found''))
     | Some v \<Rightarrow> (let inst = av_App v; sourceNodeID = or_empty (ca_NodeID inst) in
         if sourceNodeID = '''' then return (Inl (writeError 409 ''Instance is not assigned to any node''))
         else if sourceNodeID = targetNodeID then return (Inl (writeError 409 ''Instance is already on the target node''))
         else attempt (migration_nodes sourceNodeID targetNodeID) (\<lambda>_.
           if ca_TechnicalStatus inst \<noteq> ''running'' then return (Inl (writeError 409 ''Instance must be in running state to migrate''))
           else do {
             o' \<leftarrow> on_db (GetRunningOperationsByInstance instanceID);
             if (case o' of Inl _ \<Rightarrow> False | Inr ops \<Rightarrow> migration_running ops)
             then return (Inl (writeError 409 ''Instance is already being migrated''))
             else attempt (found_or (GetAppDefinition (ca_AppDefinitionName inst)) (writeError 500 ''Failed retrieving app definition'')) (\<lambda>appDef.
               case h_tier_of_json h (ca_TierSnapshotJSON inst) of
                 None \<Rightarrow> return (Inl (writeError 500 ''Invalid tier snapshot on instance''))
               | Some tier \<Rightarrow> start_migration h dr r inst sourceNodeID targetNodeID appDef tier)
           })))"

text \<open>\<open>body\<close> is the target node of the decoded request.\<close>

definition HandleMigrateInstance ::
  "handlers \<Rightarrow> draw \<Rightarrow> request \<Rightarrow> string option \<Rightarrow> (admin_instance_reply response \<times> migration_args option) api_io" where
  "HandleMigrateInstance h dr r body = (let parts = path_parts (hr_Path r) in
     if hr_Method r \<noteq> ''POST'' then return (WriteHeader 405, None)
     else if length parts < 4 then return (writeError 400 ''instance_id is required'', None)
     else case body of
       None \<Rightarrow> return (writeError 400 ''Invalid JSON payload'', None)
     | Some targetNodeID \<Rightarrow>
         if targetNodeID = '''' then return (writeError 400 ''target_node_id is required'', None)
         else do {
           x \<leftarrow> migrate_instance h dr r (parts ! 3) targetNodeID;
           return (case x of Inl resp \<Rightarrow> (resp, None) | Inr (reply, m) \<Rightarrow> (writeJSON 202 (MigrationStarted reply), Some m))
         })"

section \<open>The endpoint\<close>

definition show_inspection :: "(string \<Rightarrow> json option) \<Rightarrow> string \<Rightarrow> admin_instance_reply response api_io" where
  "show_inspection decode instanceID = respond (
     attempt (found_or (GetCustomerApp instanceID) (writeError 404 ''Instance not found'')) (\<lambda>v.
       return (if ca_InspectData (av_App v) = '''' then Inl (writeError 404 ''No inspect data available for this instance'')
         else case decode (ca_InspectData (av_App v)) of
           None \<Rightarrow> Inl (writeError 500 ''Failed to parse stored inspect data'')
         | Some result \<Rightarrow> Inr (writeJSON 200 (Inspection (redactInspectEnvironment result))))))"

definition show_instance :: "handlers \<Rightarrow> string \<Rightarrow> admin_instance_reply response api_io" where
  "show_instance h instanceID = respond (
     attempt (found_or (GetCustomerApp instanceID) (writeError 404 ''Instance not found'')) (\<lambda>v. do {
       ad \<leftarrow> on_db (GetAppDefinition (ca_AppDefinitionName (av_App v)));
       return (Inr (writeJSON 200 (AdminInstance v
         (case ad of Inr (Some appDef) \<Rightarrow> max 0 (maxSetupTimeoutSeconds (h_yaml h) (ad_RawYAML appDef)) | _ \<Rightarrow> 0))))
     }))"

definition page_instances :: "handlers \<Rightarrow> backups_world \<Rightarrow> request \<Rightarrow> admin_instance_reply response api_io" where
  "page_instances h w r = (let (pageNo, pageSize) = parsePagination w r in do {
     q \<leftarrow> on_db (GetCustomerAppsPageFiltered pageSize (wrap64 ((pageNo - 1) * pageSize)) ''''
            (hr_Query r ''need_restarting'' = ''true'') (hr_Query r ''update_type''));
     return (case q of
       Inl e \<Rightarrow> writeError 500 (h_error_text h e)
     | Inr (apps, all_rows) \<Rightarrow> writeJSON 200 (InstancePage apps pageNo pageSize all_rows))
   })"

text \<open>A missing definition is dereferenced.\<close>

definition inspect_instance :: "handlers \<Rightarrow> draw \<Rightarrow> request \<Rightarrow> string \<Rightarrow> admin_instance_reply response api_io" where
  "inspect_instance h dr r instanceID = respond (
     attempt (found_or (GetCustomerApp instanceID) (writeError 404 ''Instance not found'')) (\<lambda>v.
     let inst = av_App v; nodeID = or_empty (ca_NodeID inst); opID = generateID ''op'' (dr_op dr) in
     if nodeID = '''' then return (Inl (writeError 503 ''App not scheduled''))
     else do {
       _ \<leftarrow> on_db (CreateOperation opID instanceID nodeID ''inspect_app'' ''pending_dispatch'' (operatorFromRequest r));
       ad \<leftarrow> on_db (GetAppDefinition (ca_AppDefinitionName inst));
       ts \<leftarrow> on_db (GetAppTiers (ca_AppDefinitionName inst));
       case ad of
         Inr (Some appDef) \<Rightarrow> do {
           p \<leftarrow> dispatchTask h (dr_entropy dr) (dr_task dr) opID instanceID nodeID (ca_CustomerID inst) (ad_RawYAML appDef)
                  (tier_named (ca_TierName inst) (case ts of Inl _ \<Rightarrow> [] | Inr tiers \<Rightarrow> tiers)) ''inspect_app'';
           return (case p of Inl _ \<Rightarrow> Inl Panicked | Inr _ \<Rightarrow> Inr (writeJSON 202 (InspectionQueued opID ''queued'')))
         }
       | _ \<Rightarrow> return (Inl Panicked)
     }))"

text \<open>The action of an administrator is that of the customer who owns the instance.\<close>

definition act_for_owner ::
  "handlers \<Rightarrow> instances_world \<Rightarrow> draws \<Rightarrow> request \<Rightarrow> string \<Rightarrow> string \<Rightarrow> admin_instance_reply response api_io" where
  "act_for_owner h w dr r instanceID action = respond (
     attempt (found_or (GetCustomerApp instanceID) (writeError 404 ''Instance not found'')) (\<lambda>v. do {
       x \<leftarrow> HandleCustomerAppAction h w dr
              (r\<lparr>hr_Header := (hr_Header r)(''X-Admiral-Customer-ID'' := ca_CustomerID (av_App v))\<rparr>)
              (Some \<lparr>ia_InstanceID = instanceID, ia_Action = action, ia_Tier = hr_Query r ''tier'', ia_Service = '''', ia_NodeID = ''''\<rparr>);
       return (Inr (map_response ActionReply x))
     }))"

definition HandleAdminInstances ::
  "handlers \<Rightarrow> instances_world \<Rightarrow> (string \<Rightarrow> json option) \<Rightarrow> draws \<Rightarrow> request \<Rightarrow> string option
   \<Rightarrow> (admin_instance_reply response \<times> migration_args option) api_io" where
  "HandleAdminInstances h w decode dr r body =
     (let parts = path_parts (hr_Path r); instanceID = (if length parts \<ge> 4 then parts ! 3 else '''');
          sub = instanceID \<noteq> '''' \<and> length parts \<ge> 5; action = parts ! 4;
          only = (\<lambda>m. do { x \<leftarrow> m; return (x, None) })
      in if hr_Method r = ''GET'' then
           only (if sub \<and> action = ''inspect'' then show_inspection decode instanceID
             else if instanceID \<noteq> '''' then show_instance h instanceID
             else page_instances h (iw_backups w) r)
         else if hr_Method r = ''POST'' then
           (if \<not> sub then return (WriteHeader 400, None)
            else if action = ''backups'' then
              only (do { x \<leftarrow> HandleAdminBackups h (iw_backups w) dr r; return (map_response AdminBackupReply x) })
            else if action = ''inspect'' then only (inspect_instance h (dr []) r instanceID)
            else if action = ''migrate'' then HandleMigrateInstance h (dr []) r body
            else only (act_for_owner h w dr r instanceID action))
         else return (WriteHeader 405, None))"

section \<open>Redaction\<close>

text \<open>
  No element of an array under a key \<^verbatim>\<open>Env\<close>, in any spelling and at any depth outside such an array, keeps a value
  after its first equality sign.
\<close>

definition entries_hidden :: "json \<Rightarrow> bool" where
  "entries_hidden v = (case v of JArr env \<Rightarrow>
     (\<forall>x \<in> set env. case x of JStr text \<Rightarrow> CHR ''='' \<in> set text \<longrightarrow> HasSuffix text ''=[REDACTED]'' | _ \<Rightarrow> True) | _ \<Rightarrow> True)"

fun env_redacted :: "json \<Rightarrow> bool" where
  "env_redacted (JObj kvs) \<longleftrightarrow> (\<forall>(key, child) \<in> set kvs.
     if is_env_key key \<and> is_array child then entries_hidden child else env_redacted child)"
| "env_redacted (JArr xs) \<longleftrightarrow> (\<forall>x \<in> set xs. env_redacted x)"
| "env_redacted v \<longleftrightarrow> True"

lemma redact_entry_hides: "redact_entry x = JStr text \<Longrightarrow> CHR ''='' \<in> set text \<Longrightarrow> HasSuffix text ''=[REDACTED]''"
  by (cases x) (auto simp: redact_entry_def HasSuffix_iff split: if_splits)

lemma redact_array_hides: "entries_hidden (redact_array v)" "is_array (redact_array v) = is_array v"
  by (auto simp: entries_hidden_def redact_array_def is_array_def dest: redact_entry_hides split: json.splits)

lemma redact_keeps_kind: "is_array (redactInspectEnvironment v) = is_array v"
  by (cases v) (auto simp: is_array_def)

theorem inspection_redacted: "env_redacted (redactInspectEnvironment v)"
  by (induction v rule: redactInspectEnvironment.induct) (auto simp: redact_array_hides redact_keeps_kind split: if_splits)

end
