(* ===== verification/Backups_Props.thy ===== *)
theory Backups_Props
  imports Backups Fleet_Props
begin

text \<open>
  What a customer can reach through the backup endpoints: the backups of its own instances, and nothing
  else.
\<close>

section \<open>Reading\<close>

lemma run_attempt:
  "run_state (attempt m f) s = (r, s') \<longleftrightarrow> (\<exists>x t. run_state m s = (x, t)
     \<and> (case x of Inl e \<Rightarrow> r = Inl e \<and> s' = t | Inr y \<Rightarrow> run_state (f y) t = (r, s')))"
  by (auto simp: attempt_def split: prod.splits sum.splits)

lemma run_respond:
  "run_state (respond m) s = (x, s') \<longleftrightarrow> run_state m s = (Inl x, s') \<or> run_state m s = (Inr x, s')"
  by (auto simp: respond_def split: prod.splits sum.splits)

lemma run_or_respond:
  "run_state (or_respond m resp) s = (r, s') \<longleftrightarrow> (\<exists>x c. run_state m (api_db s) = (x, c) \<and> s' = s\<lparr>api_db := c\<rparr>
     \<and> r = (case x of Inl _ \<Rightarrow> Inl resp | Inr y \<Rightarrow> Inr y))"
  by (auto simp: or_respond_def on_db_def split: prod.splits)

lemmas run_early = run_attempt run_respond run_or_respond

lemma GetBackupRecord_run:
  assumes "run_state (GetBackupRecord render bid) c = (Inr x, c')"
  shows "x = map_option (render_backup render) (find_where (\<lambda>b. br_ID (brr_record b) = bid) (st_backup_records (tables c)))
    \<and> tables c' = tables c"
  using assms by (auto simp: GetBackupRecord_def wrapped_def dest!: query_Inr split: prod.splits sum.splits)

lemma GetBackupRecords_run:
  assumes "run_state (GetBackupRecords render iid) c = (Inr recs, c')" and "iid \<noteq> ''''"
  shows "tables c' = tables c \<and>
    (\<forall>x \<in> set recs. \<exists>b \<in> set (st_backup_records (tables c)). br_InstanceID (brr_record b) = iid \<and> x = render_backup render b)"
proof -
  from assms obtain n where "recs = take n (map (render_backup render) (rev (sort_key (\<lambda>b. (brr_created_at b, br_ID (brr_record b)))
      (filter (\<lambda>b. br_InstanceID (brr_record b) = iid) (st_backup_records (tables c))))))" and "tables c' = tables c"
    by (auto simp: GetBackupRecords_def GetBackupRecordsPage_def counted_page_def page_def Let_def
        dest!: stmt_Inr query_Inr split: prod.splits sum.splits)
  then show ?thesis by (auto dest!: in_set_takeD)
qed

section \<open>Restores\<close>

text \<open>A response that carries no backup: an error, or the operation that was queued.\<close>

definition reveals_nothing :: "backup_reply response \<Rightarrow> bool" where
  "reveals_nothing resp \<longleftrightarrow> (case resp of writeJSON _ reply \<Rightarrow> (case reply of OperationQueued _ _ \<Rightarrow> True | _ \<Rightarrow> False) | _ \<Rightarrow> True)"

text \<open>
  \<open>answers E A m\<close> says that every run of \<open>m\<close> returns early with a response that satisfies \<open>E\<close> or ends
  with a value that satisfies \<open>A\<close>.
\<close>

definition answers :: "('e \<Rightarrow> bool) \<Rightarrow> ('a \<Rightarrow> bool) \<Rightarrow> ('s, 'e + 'a) state \<Rightarrow> bool" where
  "answers E A m \<longleftrightarrow> (\<forall>s. case fst (run_state m s) of Inl e \<Rightarrow> E e | Inr a \<Rightarrow> A a)"

lemma answersD:
  "answers E A m \<Longrightarrow> run_state m s = (Inl e, t) \<Longrightarrow> E e"
  "answers E A m \<Longrightarrow> run_state m s = (Inr a, t) \<Longrightarrow> A a"
  by (auto simp: answers_def dest: spec [of _ s])

lemma answers_attempt: "answers E (\<lambda>_. True) m \<Longrightarrow> (\<And>y. answers E A (f y)) \<Longrightarrow> answers E A (attempt m f)"
  by (auto simp: answers_def attempt_def split: prod.splits sum.splits) (metis fst_conv)+

lemma answers_bind: "(\<And>x. answers E A (f x)) \<Longrightarrow> answers E A (m \<bind> f)"
  by (auto simp: answers_def split: prod.splits)

lemma answers_return: "(\<And>e. x = Inl e \<Longrightarrow> E e) \<Longrightarrow> (\<And>a. x = Inr a \<Longrightarrow> A a) \<Longrightarrow> answers E A (return x)"
  by (auto simp: answers_def split: sum.splits)

lemma answers_or_respond: "E resp \<Longrightarrow> answers E (\<lambda>_. True) (or_respond m resp)" "E resp \<Longrightarrow> answers E (\<lambda>_. True) (found_or m' resp)"
  by (auto simp: answers_def or_respond_def found_or_def on_db_def split: prod.splits sum.splits option.splits)

lemma answers_cases:
  "answers E A m \<Longrightarrow> answers E A n \<Longrightarrow> answers E A (if b then m else n)"
  "(\<And>e. answers E A (f e)) \<Longrightarrow> (\<And>x. answers E A (g x)) \<Longrightarrow> answers E A (case v of Inl e \<Rightarrow> f e | Inr x \<Rightarrow> g x)"
  "answers E A m \<Longrightarrow> (\<And>x. answers E A (k x)) \<Longrightarrow> answers E A (case u of None \<Rightarrow> m | Some x \<Rightarrow> k x)"
  "(\<And>x y. answers E A (l x y)) \<Longrightarrow> answers E A (case p of (x, y) \<Rightarrow> l x y)"
  by (auto split: sum.splits option.splits prod.splits)

lemmas answers_rules = answers_attempt answers_or_respond answers_cases answers_return answers_bind

definition yields :: "('a \<Rightarrow> bool) \<Rightarrow> ('s, 'a) state \<Rightarrow> bool" where
  "yields P m \<longleftrightarrow> (\<forall>s. P (fst (run_state m s)))"

lemma yieldsD: "yields P m \<Longrightarrow> run_state m s = (x, t) \<Longrightarrow> P x"
  by (auto simp: yields_def dest: spec [of _ s])

lemma yields_rules:
  "answers P P m \<Longrightarrow> yields P (respond m)" "P x \<Longrightarrow> yields P (return x)"
  "yields P k \<Longrightarrow> yields P k' \<Longrightarrow> yields P (if b then k else k')"
  "yields P k \<Longrightarrow> (\<And>x. yields P (l x)) \<Longrightarrow> yields P (case u of None \<Rightarrow> k | Some x \<Rightarrow> l x)"
  by (auto simp: yields_def answers_def respond_def split: prod.splits sum.splits option.splits) (metis fst_conv)+

lemma reveals_simps [simp]:
  "reveals_nothing (writeError code msg)" "reveals_nothing (WriteHeader code)" "reveals_nothing Panicked"
  "reveals_nothing (writeJSON code (OperationQueued a b))"
  by (simp_all add: reveals_nothing_def)

lemma restore_reveals:
  "answers reveals_nothing (\<lambda>_. True) (restore_inputs h req)"
  "answers reveals_nothing (\<lambda>_. True) (return (restore_allowed w req bk inst))"
  "answers reveals_nothing (\<lambda>_. True) (restore_services h inst)"
  "answers reveals_nothing (\<lambda>_. True) (restore_s3 h srcType)"
  "answers reveals_nothing reveals_nothing (start_restore h dr r inst task)"
  unfolding restore_inputs_def restore_services_def restore_s3_def start_restore_def Let_def
  by (intro answers_rules; auto simp: restore_allowed_def split: sum.splits option.splits if_splits)+

lemma admin_restore_reveals: "yields reveals_nothing (HandleAdminRestoreBackup h w dr r body)"
  unfolding HandleAdminRestoreBackup_def Let_def
  by (intro yields_rules answers_rules restore_reveals) auto

section \<open>What a customer sees and changes\<close>

text \<open>The backups that a response contains, and the customer that a request names.\<close>

definition disclosed :: "backup_reply response \<Rightarrow> customerBackupRecord list" where
  "disclosed resp = (case resp of
     writeJSON _ reply \<Rightarrow> (case reply of
       CustomerBackups xs \<Rightarrow> xs | CustomerBackup x \<Rightarrow> [x] | BackupDetail b \<Rightarrow> [customerBackup b]
     | BackupPage bs _ _ _ \<Rightarrow> map customerBackup bs | _ \<Rightarrow> [])
   | _ \<Rightarrow> [])"

definition customer_of :: "request \<Rightarrow> string" where
  "customer_of r = TrimSpace (hr_Header r ''X-Admiral-Customer-ID'')"

definition owns :: "string \<Rightarrow> string \<Rightarrow> store \<Rightarrow> bool" where
  "owns cust iid d \<longleftrightarrow> cust \<noteq> '''' \<and> (\<exists>a \<in> set (st_apps d). ca_ID a = iid \<and> ca_CustomerID a = cust)"

definition unchanged :: "api \<Rightarrow> api \<Rightarrow> bool" where
  "unchanged s s' \<longleftrightarrow> tables (api_db s') = tables (api_db s) \<and> api_queue s' = api_queue s"

abbreviation either :: "'a + 'a \<Rightarrow> 'a" where
  "either x \<equiv> (case x of Inl a \<Rightarrow> a | Inr a \<Rightarrow> a)"

lemma disclosed_nothing: "reveals_nothing resp \<Longrightarrow> disclosed resp = []"
  by (auto simp: reveals_nothing_def disclosed_def split: response.splits backup_reply.splits)

lemma GetBackup_tables:
  "run_state (GetBackupRecords render iid) c = (x, c') \<Longrightarrow> tables c' = tables c"
  "run_state (GetBackupRecord render bid) c = (y, c') \<Longrightarrow> tables c' = tables c"
  by (auto simp: GetBackupRecords_def GetBackupRecordsPage_def GetBackupRecord_def wrapped_def counted_page_def page_def Let_def
      dest!: stmt_Inr stmt_Inl query_Inr query_Inl split: prod.splits sum.splits)

lemma backup_list_run:
  assumes run: "run_state (customer_backup_list h r iid) s = (x, s')" and ne: "iid \<noteq> ''''"
  shows "unchanged s s' \<and> (\<forall>y \<in> set (disclosed (either x)). cb_InstanceID y = iid)"
proof (cases "hr_Method r = ''GET''")
  case False
  with run show ?thesis by (auto simp: customer_backup_list_def unchanged_def disclosed_def)
next
  case True
  obtain q c where q: "run_state (GetBackupRecords (h_rfc3339 h) iid) (api_db s) = (q, c)" by fastforce
  have t: "tables c = tables (api_db s)" by (rule GetBackup_tables(1) [OF q])
  show ?thesis
  proof (cases q)
    case (Inl e)
    with run q t True show ?thesis
      by (auto simp: customer_backup_list_def run_early unchanged_def disclosed_def)
  next
    case (Inr recs)
    have "br_InstanceID y = iid" if "y \<in> set recs" for y
      using GetBackupRecords_run [OF q [unfolded Inr] ne] that by (force simp: render_backup_def Let_def)
    with run q t True Inr show ?thesis
      by (auto simp: customer_backup_list_def run_early unchanged_def disclosed_def customerBackup_def)
  qed
qed

lemma backup_detail_run:
  assumes run: "run_state (customer_backup_detail h r iid bid) s = (x, s')"
  shows "unchanged s s' \<and> (\<forall>y \<in> set (disclosed (either x)). cb_InstanceID y = iid)"
proof -
  obtain q c where q: "run_state (GetBackupRecord (h_rfc3339 h) bid) (api_db s) = (q, c)" by fastforce
  note t = GetBackup_tables(2) [OF q]
  have "x = Inl (writeError 405 ''method not allowed for customer backup'') \<and> s' = s \<or>
      (x = Inl (writeError 500 ''Database error retrieving backup'') \<or> x = Inl (writeError 404 ''Backup not found'')
       \<or> (\<exists>b. br_InstanceID b = iid \<and> x = Inr (writeJSON 200 (CustomerBackup (customerBackup b))))) \<and> s' = s\<lparr>api_db := c\<rparr>"
    using run q by (cases q; cases "projr q") (auto simp: customer_backup_detail_def run_early split: if_splits)
  then show ?thesis using t by (auto simp: unchanged_def disclosed_def customerBackup_def)
qed

lemma restore_ownership_run:
  assumes ok: "store_ok (tables (api_db s))"
    and run: "run_state (restore_ownership h req inst) s = (x, s')"
  shows "unchanged s s' \<and> (\<forall>e. x = Inl e \<longrightarrow> reveals_nothing e)
    \<and> (\<forall>u. x = Inr u \<longrightarrow> ca_CustomerID inst \<noteq> '''' \<longrightarrow> rb_BackupID req \<noteq> '''' \<longrightarrow>
        (\<forall>b \<in> set (st_backup_records (tables (api_db s))). br_ID (brr_record b) = rb_BackupID req \<longrightarrow>
          owns (ca_CustomerID inst) (br_InstanceID (brr_record b)) (tables (api_db s))))"
proof (cases "rb_BackupID req = ''''")
  case True
  with run show ?thesis by (auto simp: restore_ownership_def unchanged_def)
next
  case False
  obtain q c where q: "run_state (GetBackupRecord (h_rfc3339 h) (rb_BackupID req)) (api_db s) = (q, c)" by fastforce
  have t: "tables c = tables (api_db s)" by (rule GetBackup_tables(2) [OF q])
  show ?thesis
  proof (cases "\<exists>b. q = Inr (Some b)")
    case none: False
    then have "\<forall>b \<in> set (st_backup_records (tables (api_db s))). br_ID (brr_record b) \<noteq> rb_BackupID req" if "q = Inr None"
      using GetBackupRecord_run [OF q [unfolded that]] by (auto simp: find_where_None)
    with none run q t False show ?thesis
      by (cases q) (auto simp: restore_ownership_def run_early unchanged_def split: option.splits if_splits)
  next
    case True
    then obtain b where b: "q = Inr (Some b)" by blast
    have "map_option (render_backup (h_rfc3339 h)) (find_where (\<lambda>b. br_ID (brr_record b) = rb_BackupID req)
        (st_backup_records (tables (api_db s)))) = Some b"
      using GetBackupRecord_run [OF q [unfolded b]] by metis
    then obtain row where
      row: "find_where (\<lambda>b. br_ID (brr_record b) = rb_BackupID req) (st_backup_records (tables (api_db s))) = Some row"
      and bi: "br_InstanceID b = br_InstanceID (brr_record row)"
      by (auto simp: render_backup_def Let_def)
    note rowD = find_where_SomeD [OF row]
    have inj: "inj_on (\<lambda>b. br_ID (brr_record b)) (set (st_backup_records (tables (api_db s))))"
      using ok by (simp add: store_ok_def other_keys_ok_def distinct_map)
    have uniq: "b' = row" if "b' \<in> set (st_backup_records (tables (api_db s)))" "br_ID (brr_record b') = rb_BackupID req" for b'
      by (rule inj_onD [OF inj]) (use that rowD in auto)
    obtain y c2 where y: "run_state (GetCustomerApp (br_InstanceID b)) c = (y, c2)" by fastforce
    note yD = GetCustomerApp_run [OF y]
    from run q b y False have x: "x = (case y of Inl _ \<Rightarrow> Inl (writeError 500 ''Database error validating backup ownership'')
        | Inr source \<Rightarrow> (if (case source of None \<Rightarrow> True | Some v \<Rightarrow> ca_CustomerID (av_App v) \<noteq> ca_CustomerID inst)
            then Inl (writeError 404 ''Backup not found'') else Inr ()))" and s': "s' = s\<lparr>api_db := c2\<rparr>"
      by (auto simp: restore_ownership_def run_early split: sum.splits)
    have "owns (ca_CustomerID inst) (br_InstanceID (brr_record row)) (tables (api_db s))"
      if "x = Inr u" "ca_CustomerID inst \<noteq> ''''" for u
      using that yD x t bi by (auto simp: owns_def split: sum.splits option.splits if_splits)
    then show ?thesis
      using yD s' t uniq x by (auto simp: unchanged_def split: sum.splits if_splits)
  qed
qed

lemma customer_restore_run:
  assumes ok: "store_ok (tables (api_db s))" and cust: "ca_CustomerID inst \<noteq> ''''"
    and run: "run_state (customer_restore h w dr r body iid inst) s = (x, s')"
  shows "disclosed (either x) = [] \<and> (unchanged s s' \<or> (\<exists>req. body = Some req \<and>
    (\<forall>b \<in> set (st_backup_records (tables (api_db s))). br_ID (brr_record b) = rb_BackupID req \<longrightarrow>
      owns (ca_CustomerID inst) (br_InstanceID (brr_record b)) (tables (api_db s)))))"
proof (cases "hr_Method r = ''POST'' \<and> (\<exists>req. body = Some req \<and> (rb_TargetAppID req = '''' \<or> rb_TargetAppID req = iid))")
  case False
  with run show ?thesis
    by (auto simp: customer_restore_def unchanged_def disclosed_def split: option.splits if_splits)
next
  case True
  then obtain req0 where body: "body = Some req0" and m: "hr_Method r = ''POST''"
    and target: "rb_TargetAppID req0 = '''' \<or> rb_TargetAppID req0 = iid" by blast
  let ?req = "req0\<lparr>rb_TargetAppID := iid\<rparr>"
  obtain o' t where o: "run_state (restore_ownership h ?req inst) s = (o', t)" by fastforce
  note oD = restore_ownership_run [OF ok o]
  consider (denied) e where "x = Inl e" "reveals_nothing e" "unchanged s s'"
    | (admin) y where "x = Inr y" "o' = Inr ()" "run_state (HandleAdminRestoreBackup h w dr r (Some ?req)) t = (y, s')"
    using run oD o body m target
    by (cases o'; cases "customerBackupPolicy w inst")
      (auto simp: customer_restore_def run_early Let_def split: if_splits option.splits prod.splits)
  then show ?thesis
  proof cases
    case denied
    then show ?thesis by (simp add: disclosed_nothing)
  next
    case admin
    have none: "disclosed (either x) = []"
      using yieldsD [OF admin_restore_reveals admin(3)] by (simp add: admin(1) disclosed_nothing)
    show ?thesis
    proof (cases "rb_BackupID req0 = ''''")
      case True
      with admin(3) m have "s' = t" by (auto simp: HandleAdminRestoreBackup_def)
      with oD none show ?thesis by (simp add: unchanged_def)
    next
      case False
      with oD admin(2) none body cust show ?thesis by auto
    qed
  qed
qed

text \<open>
  C29.  Customers are isolated.  A request that does not come from the system itself shows only backups
  of the instance it names, and only when the customer in its header owns that instance; it changes
  neither database unless the customer owns the instance and the backup to be restored, where there is a
  record of one, was taken of an instance of the same customer.
\<close>

theorem customer_backups_isolated:
  assumes ok: "store_ok (tables (api_db s))" and sys: "\<not> isSystemPrincipal r" and ne: "iid \<noteq> ''''"
    and run: "run_state (HandleCustomerAppBackups h w dr r body iid suffix) s = (resp, s')"
  shows "(\<forall>y \<in> set (disclosed resp). cb_InstanceID y = iid \<and> owns (customer_of r) iid (tables (api_db s)))
    \<and> (unchanged s s' \<or> owns (customer_of r) iid (tables (api_db s)) \<and> (\<exists>req. body = Some req \<and>
        (\<forall>b \<in> set (st_backup_records (tables (api_db s))). br_ID (brr_record b) = rb_BackupID req \<longrightarrow>
          owns (customer_of r) (br_InstanceID (brr_record b)) (tables (api_db s)))))"
proof -
  obtain i c where i: "run_state (GetCustomerApp iid) (api_db s) = (i, c)" by fastforce
  note iD = GetCustomerApp_run [OF i]
  let ?s = "s\<lparr>api_db := c\<rparr>"
  define act where "act v = (case suffix of [] \<Rightarrow> customer_backup_list h r iid
     | [x] \<Rightarrow> if x = ''restore'' then customer_restore h w dr r body iid (av_App v)
         else if x \<noteq> '''' then customer_backup_detail h r iid x
         else return (Inl (writeError 404 ''customer backup endpoint not found''))
     | _ \<Rightarrow> return (Inl (writeError 404 ''customer backup endpoint not found'')))" for v :: AppView
  consider (denied) code msg where "resp = writeError code msg" "s' = ?s"
    | (owner) v where "i = Inr (Some v)" "ca_CustomerID (av_App v) = customer_of r" "customer_of r \<noteq> ''''"
        "run_state (act v) ?s = (Inl resp, s') \<or> run_state (act v) ?s = (Inr resp, s')"
    using run i sys
    by (cases i; cases "projr i")
      (auto simp: HandleCustomerAppBackups_def run_early requireCustomerOwnership_def customer_of_def Let_def act_def
        split: if_splits)
  then show ?thesis
  proof cases
    case denied
    then show ?thesis using iD by (simp add: disclosed_def unchanged_def)
  next
    case owner
    have own: "owns (customer_of r) iid (tables (api_db s))" using iD owner(1-3) by (auto simp: owns_def)
    have same: "unchanged s t \<longleftrightarrow> unchanged ?s t" for t using iD by (simp add: unchanged_def)
    from owner(4) obtain x where x: "resp = either x" "run_state (act v) ?s = (x, s')"
      by (metis sum.case)
    note list = backup_list_run [OF _ ne, of h r ?s x s'] and detail = backup_detail_run [of h r iid _ ?s x s']
      and restore = customer_restore_run [of ?s "av_App v" h w dr r body iid x s']
    show ?thesis
      using owner(2,3) x(2) own iD ok list detail restore unfolding x(1) same act_def
      by (auto split: list.splits if_splits simp: disclosed_def [of "writeError _ _"] unchanged_def)
  qed
qed

text \<open>Another customer asks for the backups of an instance.\<close>

definition demo_request :: "string \<Rightarrow> request" where
  "demo_request cust = \<lparr>hr_Method = ''GET'', hr_Path = '''', hr_Query = (\<lambda>_. ''''), hr_Header = (\<lambda>_. cust),
     hr_principal = Some harborTokenAuthPrincipal\<rparr>"

definition demo_backups_world :: backups_world where
  "demo_backups_world = \<lparr>bw_url = (\<lambda>_. None), bw_ParseIP = (\<lambda>_. None), bw_LookupNetIP = (\<lambda>_. None), bw_singleNode = False,
     bw_retention_count = (\<lambda>_. None), bw_tier_of_json = (\<lambda>_. None), bw_policy_of_json = (\<lambda>_. None),
     bw_invalid_text = (\<lambda>_. ''''), bw_Atoi = (\<lambda>_. None),
     bw_storage = \<lparr>w_url = (\<lambda>_. None), w_getenv = (\<lambda>_. ''''), w_do = (\<lambda>_. Inl (Plain '''')), w_sha256 = (\<lambda>_. []),
       w_hmac = (\<lambda>_ _. []), w_bytes = (\<lambda>_. []), w_format = (\<lambda>_ _. '''')\<rparr>\<rparr>"

definition demo_draw :: draw where
  "demo_draw = \<lparr>dr_op = [1], dr_backup = [2], dr_task = [3], dr_entropy = demo_entropy\<rparr>"

definition demo_customers :: api where
  "demo_customers = demo_api\<lparr>api_db := demo_serving_conn\<rparr>"

theorem customer_backups_isolated_witness:
  "disclosed (fst (run_state (HandleCustomerAppBackups demo_handlers demo_backups_world demo_draw (demo_request ''c2'') None ''i1'' [])
     demo_customers)) = []"
proof -
  have ok: "store_ok (tables (api_db demo_customers))"
    by (simp add: demo_customers_def demo_serving_conn_def demo_serving_ok)
  have sys: "\<not> isSystemPrincipal (demo_request ''c2'')" by code_simp
  have ne: "''i1'' \<noteq> ''''" by simp
  have other: "\<not> owns (customer_of (demo_request ''c2'')) ''i1'' (tables (api_db demo_customers))"
    by (simp add: owns_def customer_of_def demo_request_def demo_customers_def demo_serving_conn_def demo_serving_def
        Store_Props.demo_app_def new_app_def TrimSpace_def trim_left_def trim_right_def is_space_def)
  from customer_backups_isolated [OF ok sys ne surjective_pairing, of demo_handlers demo_backups_world demo_draw None "[]"] other
  show ?thesis by (metis list.set_intros(1) neq_Nil_conv)
qed

end
