(* ===== verification/Instances_Props.thy ===== *)
theory Instances_Props
  imports Instances Backups_Props Callback_Props
begin

text \<open>
  Provisioning through the endpoint: however often customers retry, and whatever fails, there is at most
  one new instance for each key.  The first half is a frame: apart from the reservation, nothing that a
  request does adds an instance or claims a key.
\<close>

section \<open>Instances and claimed keys\<close>

definition footprint :: "store \<Rightarrow> string list \<times> (string \<times> string) list" where
  "footprint d = (map ca_ID (st_apps d), map request_key (st_provision_requests d))"

interpretation kf: table_contract "\<lambda>_ d d'. footprint d' = footprint d"
  by unfold_locales auto

abbreviation keeps_footprint :: "(store conn, 'a) state \<Rightarrow> bool" where
  "keeps_footprint \<equiv> state_io_rel (conn_rel (\<lambda>_ d d'. footprint d' = footprint d))"

named_theorems still

lemma still_wrapped [still]: "keeps_footprint m \<Longrightarrow> keeps_footprint (wrapped msg m)"
  unfolding wrapped_def by (intro kf.conn_rules)

lemma still_tables [still]:
  "keeps_footprint (update_operations p f)" "keeps_footprint (insert_operation row)" "keeps_footprint (update_nodes pn fn)"
  "keeps_footprint (commit_update nid ram disk)" "keeps_footprint (SaveInstanceSecret i sn en v x)"
  "keeps_footprint (CreatePublicRoute route)"
  unfolding update_operations_def insert_operation_def update_nodes_def commit_update_def SaveInstanceSecret_def CreatePublicRoute_def
  by (intro still kf.conn_rules; auto simp: footprint_def Let_def split: if_splits option.splits)+

lemma still_status [still]: "keeps_footprint (UpdateCustomerAppStatus a cs ts)"
  unfolding UpdateCustomerAppStatus_def update_apps_def
  by (intro still kf.conn_rules) (simp add: footprint_def map_update_where)

lemma still_complete [still]: "keeps_footprint (completeProvisionResponse cust k status encoded)"
  unfolding completeProvisionResponse_def CompleteProvisionRequest_def Let_def
  by (intro still kf.conn_rules) (auto simp: footprint_def map_update_where request_key_def)

lemma still_reads [still]:
  "keeps_footprint (GetOperation x)" "keeps_footprint (GetCustomerApp x)" "keeps_footprint (GetAppDefinition x)"
  "keeps_footprint (GetAppTiers x)" "keeps_footprint (GetPublicRoute x)" "keeps_footprint (GetRoutesByInstance x)"
  "keeps_footprint (GetNode x)" "keeps_footprint GetNodes" "keeps_footprint (GetInstanceSecrets x)"
  "keeps_footprint (GetProvisionRequest cust k)" "keeps_footprint (GetActiveBackupStorageConfig render)"
  unfolding GetOperation_def GetCustomerApp_def GetAppDefinition_def GetAppTiers_def GetPublicRoute_def GetRoutesByInstance_def
    GetNode_def GetNodes_def GetInstanceSecrets_def GetProvisionRequest_def GetActiveBackupStorageConfig_def
  by (intro still kf.conn_rules)+

lemma still_pages [still]: "keeps_footprint (GetCustomerApps x)"
  unfolding GetCustomerApps_def GetCustomerAppsPage_def counted_page_def
  by (intro still kf.conn_rules) auto

lemma still_writes [still]:
  "keeps_footprint (CreateOperation oid i n a st u)" "keeps_footprint (UpdateOperation oid st msg)"
  "keeps_footprint (UpdateOperationTaskID oid tid)" "keeps_footprint (MarkOperationQueuedIfPendingDispatch oid)"
  "keeps_footprint (UpdateOperationMetadata oid md)" "keeps_footprint (ReleaseNodeCommitment n r k)"
  unfolding CreateOperation_def UpdateOperation_def UpdateOperationTaskID_def MarkOperationQueuedIfPendingDispatch_def
    UpdateOperationMetadata_def ReleaseNodeCommitment_def
  by (intro still)+

lemma still_policy [still]:
  "keeps_footprint (recomputeNodePolicy n)" "keeps_footprint (selectNodeForTier pf tier n)"
  "keeps_footprint (refreshNodeEvaluationsForTier pf tier n)"
  unfolding recomputeNodePolicy_def recomputePortalNodePolicy_def update_health_def UpdateNodeHealth_def
    UpdateNodeCommitLimits_def refreshNodeEvaluationsForTier_def selectNodeForTier_def Let_def
  by (intro still kf.conn_rules)+

lemma still_build_task [still]:
  "keeps_footprint (build_task h taskID opID instID nodeID tenantID rawYAML tier action backupID backupService)"
  unfolding build_task_def fail_task_def failInstanceForTask_def task_secrets_def service_infos_def publicBaseURLForInstance_def
    verify_images_def setup_state_def add_backup_def backup_storage_def decryptedSecretMap_def Let_def
  by (intro still kf.conn_rules)

lemma still_secrets [still]: "keeps_footprint (createInstanceSecrets h dr i payload)"
proof -
  have 1: "keeps_footprint (save_secrets h dr i all xs creds)" for all xs creds
  proof (induction xs arbitrary: creds)
    case (Cons x xs)
    obtain sn en def where x: "x = (sn, en, def)" by (cases x)
    show ?case unfolding x save_secrets.simps Let_def by (intro Cons.IH still kf.conn_rules)
  qed (simp add: kf.io_return)
  show ?thesis
    unfolding createInstanceSecrets_def loadExistingPlainSecrets_def Let_def by (intro 1 still kf.conn_rules)
qed

lemma still_routes [still]: "keeps_footprint (CreateInstanceRoutes m digits idd i payload n)"
proof -
  have 1: "keeps_footprint (free_hostname m code attempts)" for code attempts
  proof (induction attempts)
    case (Cons a attempts)
    show ?case unfolding free_hostname.simps Let_def by (intro Cons.IH still kf.conn_rules)
  qed (simp add: kf.io_return)
  show ?thesis
    unfolding CreateInstanceRoutes_def generateHostname_def Let_def by (intro 1 still kf.conn_rules)
qed

lemma still_replay [still]: "keeps_footprint (replayProvisionIfPresent cust k rh)"
  unfolding replayProvisionIfPresent_def by (intro still kf.conn_rules)

lemma still_finish [still]:
  "keeps_footprint (give_up w pv msg)" "keeps_footprint (fail_provision w pv reason msg)"
  "keeps_footprint (finish_provision w pv payload hostname credentials)"
  unfolding fail_provision_def give_up_def releaseCapacity_def finish_provision_def Let_def
  by (intro still kf.conn_rules)+

section \<open>Both databases\<close>

interpretation kg: io_contract "\<lambda>s s'. conn_rel (\<lambda>_ d d'. footprint d' = footprint d) (api_db s) (api_db s')"
  by unfold_locales (auto simp: conn_rel_def)

abbreviation api_still :: "'a api_io \<Rightarrow> bool" where
  "api_still \<equiv> state_io_rel (\<lambda>s s'. conn_rel (\<lambda>_ d d'. footprint d' = footprint d) (api_db s) (api_db s'))"

lemma still_db [still]: "keeps_footprint m \<Longrightarrow> api_still (on_db m)"
  by (auto simp: state_io_rel_def on_db_def split: prod.splits) (metis snd_conv)

lemma still_queue [still]: "api_still (on_queue m)"
  by (auto simp: state_io_rel_def on_queue_def conn_rel_def split: prod.splits)

lemma still_early [still]:
  "api_still m \<Longrightarrow> (\<And>x. api_still (f x)) \<Longrightarrow> api_still (attempt m f)"
  "keeps_footprint k \<Longrightarrow> api_still (or_respond k resp)" "api_still n \<Longrightarrow> api_still (respond n)"
  unfolding attempt_def or_respond_def respond_def by (intro still kg.io_rules; assumption)+

lemma still_blocked [still]: "api_still (record_blocked h dr r action i app cust n tier evs failed)"
  unfolding record_blocked_def recordBlockedWorkloadAttempt_def persistRejectedTask_def Let_def
  by (intro still kg.io_rules)

lemma still_enqueue [still]:
  "api_still (enqueueTaskWithID h ent taskID opID instID nodeID tenantID rawYAML tier action backupID backupService)"
  unfolding enqueueTaskWithID_def dispatch_task_def publish_step_def fail_task_def failInstanceForTask_def
  by (intro still kg.io_rules kf.conn_rules)

lemma still_setup [still]: "api_still (setup_instance h w dr pv appDef payload)"
  unfolding setup_instance_def by (intro still kg.io_rules kf.io_rules)

lemma still_without_capacity [still]: "api_still (handleProvisionWithoutCapacity h dr r req k rh tier evs)"
  unfolding handleProvisionWithoutCapacity_def by (intro still kg.io_rules)

lemma still_inputs [still]: "api_still (provision_inputs h req)"
  unfolding provision_inputs_def by (intro still kg.io_rules)

lemma still_list [still]: "api_still (list_instances w r)"
  unfolding list_instances_def Let_def by (intro still kg.io_rules)

section \<open>One instance for each key\<close>

text \<open>The keys that a request names, and what the requests add to the store.\<close>

definition provision_key :: "handlers \<Rightarrow> request \<Rightarrow> ProvisionRequest option \<Rightarrow> (string \<times> string) set" where
  "provision_key h r body = (case body of None \<Rightarrow> {} | Some req \<Rightarrow>
     (case provisionIdempotencyKeyHash h (hr_Header r ''Idempotency-Key'') of Inl _ \<Rightarrow> {} | Inr k \<Rightarrow> {(pq_CustomerID req, k)}))"

definition grown :: "(string \<times> string) set \<Rightarrow> store \<Rightarrow> store \<Rightarrow> bool" where
  "grown K d d' \<longleftrightarrow> (\<exists>new ks. footprint d' = (fst (footprint d) @ new, snd (footprint d) @ ks) \<and> length new = length ks
     \<and> distinct ks \<and> set ks \<subseteq> K - set (snd (footprint d)))"

lemma grown_still: "footprint d' = footprint d \<Longrightarrow> grown K d d'"
  unfolding grown_def by (intro exI [of _ "[]"]) (auto simp: prod_eq_iff)

lemma grown_cong: "footprint e = footprint d \<Longrightarrow> footprint e' = footprint d' \<Longrightarrow> grown K e e' = grown K d d'"
  by (simp add: grown_def)

lemma grown_trans:
  assumes "grown K d e" and "grown L e f"
  shows "grown (K \<union> L) d f"
proof -
  obtain xs ks where 1: "footprint e = (fst (footprint d) @ xs, snd (footprint d) @ ks)" "length xs = length ks" "distinct ks"
      "set ks \<subseteq> K - set (snd (footprint d))" using assms(1) unfolding grown_def by blast
  obtain ys ls where 2: "footprint f = (fst (footprint e) @ ys, snd (footprint e) @ ls)" "length ys = length ls" "distinct ls"
      "set ls \<subseteq> L - set (snd (footprint e))" using assms(2) unfolding grown_def by blast
  show ?thesis
    unfolding grown_def using 1 2 by (intro exI [of _ "xs @ ys"] exI [of _ "ks @ ls"]) auto
qed

lemma reservation_grows:
  assumes "run_state (ReserveIdempotentProvision x) c = ((new, rec, e), c')"
  shows "grown {args_key x} (tables c) (tables c')"
  using ReserveIdempotentProvision_cases [OF assms]
proof (elim disjE conjE)
  assume t: "tables c' = provisioned x (db_clock c) (tables c)" and al: "provision_allowed x (tables c)"
  have "footprint (tables c') = (fst (footprint (tables c)) @ [ca_ID (provision_app_row x (db_clock c))],
      snd (footprint (tables c)) @ [args_key x])"
    by (simp add: t footprint_def provisioned_def request_key_def provision_record_def args_key_def)
  moreover have "args_key x \<notin> set (snd (footprint (tables c)))"
    using al by (auto simp: footprint_def provision_allowed_def request_key_def args_key_def same_request_def)
  ultimately show ?thesis
    unfolding grown_def by (intro exI [of _ "[_]"] exI [of _ "[args_key x]"]) auto
qed (simp add: grown_still)

lemma attempt_eqs:
  "run_state m s = (Inl e, t) \<Longrightarrow> run_state (attempt m f) s = (Inl e, t)"
  "run_state m s = (Inr y, t) \<Longrightarrow> run_state (attempt m f) s = run_state (f y) t"
  by (simp_all add: attempt_def)

lemma still_footprint: "api_still m \<Longrightarrow> run_state m s = (x, s') \<Longrightarrow> footprint (tables (api_db s')) = footprint (tables (api_db s))"
  by (auto simp: conn_rel_def dest: state_io_relD)

lemma still_after [still]: "api_still (after_reservation h w dr r pv rh appDef payload created rec e)"
  unfolding after_reservation_def by (intro still kg.io_rules)

lemma reserve_and_setup_grows:
  assumes "run_state (reserve_and_setup h w dr r pv rh appDef payload) s = (resp, s')"
  shows "grown {(pq_CustomerID (pv_req pv), pv_keyHash pv)} (tables (api_db s)) (tables (api_db s'))"
proof -
  let ?x = "provision_args_of h r pv rh"
  obtain new rec e c where x: "run_state (ReserveIdempotentProvision ?x) (api_db s) = ((new, rec, e), c)"
    by (metis prod_cases3 surj_pair)
  have "run_state (after_reservation h w dr r pv rh appDef payload new rec e) (s\<lparr>api_db := c\<rparr>) = (resp, s')"
    using assms x by (auto simp: reserve_and_setup_def on_db_def)
  then have f: "footprint (tables (api_db s')) = footprint (tables c)"
    using still_footprint [OF still_after] by fastforce
  have "args_key ?x = (pq_CustomerID (pv_req pv), pv_keyHash pv)"
    by (simp add: args_key_def provision_args_of_def)
  then show ?thesis
    using reservation_grows [OF x] by (simp add: grown_cong [OF refl f])
qed

lemma provision_instance_grows:
  assumes "run_state (provision_instance h w dr r req k rh) s = (resp, s')"
  shows "grown {(pq_CustomerID req, k)} (tables (api_db s)) (tables (api_db s'))"
proof -
  obtain a t where a: "run_state (provision_inputs h req) s = (a, t)" by fastforce
  note 1 = still_footprint [OF still_inputs a]
  show ?thesis
  proof (cases a)
    case (Inl e)
    with assms a 1 show ?thesis by (auto simp: provision_instance_def attempt_eqs intro: grown_still)
  next
    case y: (Inr y)
    obtain appDef payload tier where p: "y = (appDef, payload, tier)" by (cases y)
    let ?sel = "or_respond (selectNodeForTier (h_parse_float h) tier (pq_NodeID req))
        (writeError 500 ''Database error selecting node'' :: instance_reply response)"
    obtain b u where b: "run_state ?sel t = (b, u)" by fastforce
    have 2: "footprint (tables (api_db u)) = footprint (tables (api_db t))"
      by (rule still_footprint [OF _ b]) (intro still)
    have "footprint (tables (api_db s')) = footprint (tables (api_db u))
        \<or> grown {(pq_CustomerID req, k)} (tables (api_db u)) (tables (api_db s'))"
    proof (cases b)
      case (Inl e)
      from assms show ?thesis
        unfolding provision_instance_def attempt_eqs(2) [OF a [unfolded y p]] prod.case attempt_eqs(1) [OF b [unfolded Inl]]
        by simp
    next
      case (Inr selection)
      from assms show ?thesis
        unfolding provision_instance_def attempt_eqs(2) [OF a [unfolded y p]] prod.case attempt_eqs(2) [OF b [unfolded Inr]]
        by (auto split: if_splits prod.splits dest: still_footprint [OF still_without_capacity] dest!: reserve_and_setup_grows)
    qed
    then show ?thesis
      using 1 2 by (auto intro: grown_still simp: grown_cong [of "tables (api_db u)" "tables (api_db s)", OF _ refl])
  qed
qed

lemma HandleCustomerApps_grows:
  assumes "run_state (HandleCustomerApps h w dr r body) s = (resp, s')"
  shows "grown (provision_key h r body) (tables (api_db s)) (tables (api_db s'))"
proof -
  consider "hr_Method r = ''GET''" | "hr_Method r = ''POST''" | "hr_Method r \<noteq> ''GET''" "hr_Method r \<noteq> ''POST''" by blast
  then show ?thesis
  proof cases
    case 1
    with assms show ?thesis by (auto simp: HandleCustomerApps_def intro!: grown_still dest: still_footprint [OF still_list])
  next
    case 2
    have r: "footprint (tables c') = footprint (tables c)" if "run_state (replayProvisionIfPresent cust k rh) c = (x, c')" for cust k rh c x c'
      using state_io_relD [OF still_replay that] by (simp add: conn_rel_def)
    have "footprint (tables (api_db s')) = footprint (tables (api_db s)) \<or> (\<exists>req k rh c y. body = Some req
        \<and> provisionIdempotencyKeyHash h (hr_Header r ''Idempotency-Key'') = Inr k
        \<and> footprint (tables c) = footprint (tables (api_db s))
        \<and> run_state (provision_instance h w dr r req k rh) (s\<lparr>api_db := c\<rparr>) = (y, s'))"
      using assms 2
      by (auto simp: HandleCustomerApps_def provision_request_def run_early split: if_splits option.splits sum.splits dest: r)
        (blast dest: r)+
    then show ?thesis
    proof (elim disjE exE conjE)
      fix req k rh c y
      assume b: "body = Some req" "provisionIdempotencyKeyHash h (hr_Header r ''Idempotency-Key'') = Inr k"
        and f: "footprint (tables c) = footprint (tables (api_db s))"
        and run: "run_state (provision_instance h w dr r req k rh) (s\<lparr>api_db := c\<rparr>) = (y, s')"
      from provision_instance_grows [OF run] show ?thesis
        by (simp add: b provision_key_def grown_cong [OF f refl])
    qed (rule grown_still)
  next
    case 3
    with assms show ?thesis by (simp add: HandleCustomerApps_def grown_still)
  qed
qed

text \<open>A sequence of calls, each with its random bytes, and the keys that they name.\<close>

type_synonym provision_call = "provision_draw \<times> request \<times> ProvisionRequest option"

fun serve_calls :: "handlers \<Rightarrow> instances_world \<Rightarrow> provision_call list \<Rightarrow> instance_reply response list api_io" where
  "serve_calls h w [] = return []"
| "serve_calls h w ((dr, r, body) # calls) = do {
     x \<leftarrow> HandleCustomerApps h w dr r body;
     xs \<leftarrow> serve_calls h w calls;
     return (x # xs)
   }"

definition keys_named :: "handlers \<Rightarrow> provision_call list \<Rightarrow> (string \<times> string) set" where
  "keys_named h calls = (\<Union>(_, r, body) \<in> set calls. provision_key h r body)"

definition claimed_keys :: "store \<Rightarrow> (string \<times> string) set" where
  "claimed_keys d = request_key ` set (st_provision_requests d)"

lemma keys_named_simps: "keys_named h [] = {}" "keys_named h ((dr, r, body) # calls) = provision_key h r body \<union> keys_named h calls"
  by (simp_all add: keys_named_def)

lemma finite_keys: "finite (keys_named h calls)"
  by (auto simp: keys_named_def provision_key_def split: option.splits sum.splits)

lemma serve_calls_grows:
  "grown (keys_named h calls) (tables (api_db s)) (tables (api_db (snd (run_state (serve_calls h w calls) s))))"
proof (induction calls arbitrary: s)
  case Nil
  show ?case by (simp add: grown_still)
next
  case (Cons call calls)
  obtain dr r body where call: "call = (dr, r, body)" by (cases call)
  obtain x t where x: "run_state (HandleCustomerApps h w dr r body) s = (x, t)" by fastforce
  from grown_trans [OF HandleCustomerApps_grows [OF x] Cons.IH [of t]] x show ?case
    by (auto simp: call keys_named_simps split: prod.splits)
qed

text \<open>
  C21.  One instance for each key, through the endpoint.  Whatever sequence of requests
  \<^verbatim>\<open>HandleCustomerApps\<close> serves, with any retries, concurrent keys and failures on the way, no instance
  disappears and there is at most one new instance for each pair of a customer and a hashed
  \<^verbatim>\<open>Idempotency-Key\<close> that the requests name and that was not claimed before.
\<close>

theorem provision_endpoint_once:
  "\<exists>new. map ca_ID (st_apps (tables (api_db (snd (run_state (serve_calls h w calls) s))))) = map ca_ID (st_apps (tables (api_db s))) @ new
     \<and> length new \<le> card (keys_named h calls - claimed_keys (tables (api_db s)))"
proof -
  let ?d = "tables (api_db s)"
  obtain new ks where f: "footprint (tables (api_db (snd (run_state (serve_calls h w calls) s)))) = (fst (footprint ?d) @ new, snd (footprint ?d) @ ks)"
      and len: "length new = length ks" and dist: "distinct ks" and sub: "set ks \<subseteq> keys_named h calls - set (snd (footprint ?d))"
    using serve_calls_grows [of h calls s w] unfolding grown_def by blast
  have "length ks \<le> card (keys_named h calls - claimed_keys ?d)"
    using card_mono [OF finite_Diff [OF finite_keys] sub] by (simp add: distinct_card [OF dist] footprint_def claimed_keys_def)
  with f len show ?thesis by (auto simp: footprint_def)
qed

section \<open>The answer to a retry\<close>

text \<open>
  A retry of a provisioning whose record exists changes neither database; it is answered with the
  stored response, with the identifiers while there is none, or with a conflict when the key was used for
  another request.  Only a failure of the read gives another answer.
\<close>

theorem provision_retry_answered:
  assumes req: "hr_Method r = ''POST''" "pq_AppDefinitionName req \<noteq> ''''" "pq_TierName req \<noteq> ''''" "pq_CustomerID req \<noteq> ''''"
    and own: "isSystemPrincipal r \<or> customer_of r = pq_CustomerID req"
    and k: "provisionIdempotencyKeyHash h (hr_Header r ''Idempotency-Key'') = Inr k" and rh: "provisionRequestHash h w req = Inr rh"
    and rec: "requests (tables (api_db s)) (pq_CustomerID req, k) = Some rec"
    and run: "run_state (HandleCustomerApps h w dr r (Some req)) s = (resp, s')"
  shows "unchanged s s' \<and> (resp = replay_of rh rec \<or> resp = writeError 500 ''Failed to check prior provision request'')"
proof -
  have ok: "requireCustomerOwnership r (pq_CustomerID req) = (Inr () :: instance_reply response + unit)"
    using own req(4) by (auto simp: requireCustomerOwnership_def customer_of_def Let_def)
  obtain g c where g: "run_state (GetProvisionRequest (pq_CustomerID req) k) (api_db s) = (g, c)" by fastforce
  have find: "find_where (same_request (pq_CustomerID req) k) (st_provision_requests (tables (api_db s))) = Some rec"
    using requests_find [of "tables (api_db s)" "undefined\<lparr>pa_customerID := pq_CustomerID req, pa_keyHash := k\<rparr>"] rec
    by (simp add: args_key_def)
  have gD: "tables c = tables (api_db s) \<and> (\<forall>y. g = Inr y \<longrightarrow> y = Some rec)"
    using g find by (auto simp: GetProvisionRequest_def wrapped_def dest!: query_Inr query_Inl split: prod.splits sum.splits)
  have "s' = s\<lparr>api_db := c\<rparr> \<and> (resp = replay_of rh rec \<or> resp = writeError 500 ''Failed to check prior provision request'')"
    using run req g gD
    by (cases g)
      (auto simp: HandleCustomerApps_def provision_request_def ok k rh run_early replayProvisionIfPresent_def)
  with gD show ?thesis by (simp add: unchanged_def)
qed

section \<open>Actions\<close>

lemma running_run:
  assumes "run_state (GetRunningOperationsByInstance iid) c = (x, c')"
  shows "tables c' = tables c \<and> (x = Inr [] \<longrightarrow> (\<forall>op \<in> set (st_operations (tables c)). \<not> (op_InstanceID op = Some iid \<and> op_Status op = ''running'')))"
  using assms by (auto simp: GetRunningOperationsByInstance_def wrapped_def filter_empty_conv dest!: query_Inr query_Inl
      split: prod.splits sum.splits)

text \<open>The instance an action may be performed on.\<close>

definition actionable :: "string \<Rightarrow> string \<Rightarrow> string \<Rightarrow> store \<Rightarrow> bool" where
  "actionable cust iid action d \<longleftrightarrow> cust \<noteq> ''''
     \<and> (\<exists>a \<in> set (st_apps d). ca_ID a = iid \<and> ca_CustomerID a = cust \<and> or_empty (ca_NodeID a) \<noteq> ''''
          \<and> ca_TechnicalStatus a \<noteq> ''migrating''
          \<and> (ca_TechnicalStatus a \<in> {''initializing'', ''setup_failed''} \<longrightarrow> action = ''deprovision'')
          \<and> (ca_TechnicalStatus a = ''deprovisioned'' \<longrightarrow> action \<noteq> ''deprovision''))
     \<and> (\<forall>op \<in> set (st_operations d). \<not> (op_InstanceID op = Some iid \<and> op_Status op = ''running''))"

lemma action_instance_run:
  assumes sys: "\<not> isSystemPrincipal r" and run: "run_state (action_instance r req) s = (x, s')"
  shows "unchanged s s' \<and> (\<forall>y. x = Inr y \<longrightarrow> actionable (customer_of r) (ia_InstanceID req) (ia_Action req) (tables (api_db s)))"
proof -
  obtain i c where i: "run_state (GetCustomerApp (ia_InstanceID req)) (api_db s) = (i, c)" by fastforce
  note iD = GetCustomerApp_run [OF i]
  obtain o' c2 where o: "run_state (GetRunningOperationsByInstance (ia_InstanceID req)) c = (o', c2)" by fastforce
  note oD = running_run [OF o]
  consider (denied) e where "x = Inl e" "s' = s\<lparr>api_db := c\<rparr> \<or> s' = s\<lparr>api_db := c2\<rparr>"
    | (allowed) v y where "x = Inr y" "s' = s\<lparr>api_db := c2\<rparr>" "i = Inr (Some v)" "o' = Inr []" "customer_of r \<noteq> ''''"
        "ca_CustomerID (av_App v) = customer_of r" "or_empty (ca_NodeID (av_App v)) \<noteq> ''''"
        "validateTechnicalStatusAction (ca_TechnicalStatus (av_App v)) (ia_Action req) = None"
    using run i o sys
    by (cases i; cases "projr i"; cases o')
      (auto simp: action_instance_def run_early requireCustomerOwnership_def customer_of_def Let_def
        split: if_splits option.splits)
  then show ?thesis
  proof cases
    case denied
    then show ?thesis using iD oD by (auto simp: unchanged_def)
  next
    case allowed
    have "av_App v \<in> set (st_apps (tables (api_db s)))" "ca_ID (av_App v) = ia_InstanceID req"
      using iD allowed(3) by auto
    with allowed iD oD show ?thesis
      by (auto simp: unchanged_def actionable_def validateTechnicalStatusAction_def Let_def split: if_splits
          intro!: bexI [of _ "av_App v"])
  qed
qed

text \<open>
  An action of a customer changes nothing unless the customer owns the instance, the instance is
  placed on a node, its status admits the action, and no operation is running on it.
\<close>

theorem customer_action_guarded:
  assumes sys: "\<not> isSystemPrincipal r"
    and run: "run_state (HandleCustomerAppAction h w dr r body) s = (resp, s')"
  shows "unchanged s s' \<or> (\<exists>req. body = Some req \<and> actionable (customer_of r) (ia_InstanceID req) (ia_Action req) (tables (api_db s)))"
proof (cases "hr_Method r = ''POST'' \<and> (\<exists>req. body = Some req \<and> ia_InstanceID req \<noteq> '''' \<and> ia_Action req \<noteq> '''')")
  case False
  with run show ?thesis
    by (auto simp: HandleCustomerAppAction_def unchanged_def split: option.splits if_splits)
next
  case True
  then obtain req where b: "hr_Method r = ''POST''" "body = Some req" "ia_InstanceID req \<noteq> ''''" "ia_Action req \<noteq> ''''" by blast
  obtain x t where x: "run_state (action_instance r req) s = (x, t)" by fastforce
  note xD = action_instance_run [OF sys x]
  show ?thesis
  proof (cases x)
    case (Inl e)
    with run b x have "s' = t" by (auto simp: HandleCustomerAppAction_def run_respond attempt_eqs(1) [OF x [unfolded Inl]])
    with xD show ?thesis by blast
  next
    case (Inr y)
    with xD b show ?thesis by blast
  qed
qed

section \<open>Database credentials\<close>

lemma HasSuffix_last: "HasSuffix s t \<Longrightarrow> t \<noteq> [] \<Longrightarrow> last s = last t"
  by (auto simp: HasSuffix_iff)

lemma env_kinds_disjoint:
  "isDBUserEnv u \<Longrightarrow> \<not> isDBPasswordEnv u" "isDBUserEnv u \<Longrightarrow> \<not> isDBNameEnv u" "isDBPasswordEnv u \<Longrightarrow> \<not> isDBNameEnv u"
  by (auto simp: isDBUserEnv_def isDBPasswordEnv_def isDBNameEnv_def dest!: HasSuffix_last)

lemma map_of_second: "map_of (map (\<lambda>(k, v). (k, f k v)) m) k = map_option (f k) (map_of m k)"
  by (induction m) auto

lemma last_name_eq: "last_name p m = (case filter (\<lambda>x. p (ToUpper x)) (map fst m) of [] \<Rightarrow> '''' | xs \<Rightarrow> last xs)"
  by (induction m rule: rev_induct) (auto simp: last_name_def split: list.splits)

lemma last_name_in:
  assumes "last_name p m \<noteq> ''''"
  shows "p (ToUpper (last_name p m)) \<and> last_name p m \<in> set (map fst m)"
proof (cases "filter (\<lambda>x. p (ToUpper x)) (map fst m)")
  case Nil
  with assms show ?thesis by (simp add: last_name_eq)
next
  case (Cons x xs)
  then have "last_name p m = last (x # xs)" by (simp add: last_name_eq)
  then have "last_name p m \<in> set (filter (\<lambda>x. p (ToUpper x)) (map fst m))" unfolding Cons by (metis last_in_set list.distinct(1))
  then show ?thesis by simp
qed

lemma last_name_none:
  assumes "last_name p m = ''''" and "\<not> p ''''" and "x \<in> set (map fst m)"
  shows "\<not> p (ToUpper x)"
proof
  assume "p (ToUpper x)"
  with assms(3) have ne: "filter (\<lambda>x. p (ToUpper x)) (map fst m) \<noteq> []" by (auto simp: filter_empty_conv)
  then have "last_name p m = last (filter (\<lambda>x. p (ToUpper x)) (map fst m))" by (simp add: last_name_eq split: list.splits)
  with last_in_set [OF ne] have "p (ToUpper (last_name p m))" by simp
  with assms(1,2) show False by (simp add: ToUpper_def)
qed

lemma db_names_found:
  assumes "db_names m = (dbUser, dbPass, dbName)"
  shows "dbUser \<noteq> '''' \<Longrightarrow> dbUser \<in> set (map fst m)" "dbPass \<noteq> '''' \<Longrightarrow> dbPass \<in> set (map fst m)"
    "dbName \<noteq> '''' \<Longrightarrow> dbName \<in> set (map fst m)"
    "dbPass \<noteq> '''' \<Longrightarrow> is_root (ToUpper dbPass) \<Longrightarrow> x \<in> set (map fst m) \<Longrightarrow>
      \<not> (HasSuffix (ToUpper x) ''_PASSWORD'' \<and> db_prefixed (ToUpper x) \<and> \<not> is_root (ToUpper x))"
proof -
  let ?root = "last_name (\<lambda>u. HasSuffix u ''_PASSWORD'' \<and> db_prefixed u \<and> is_root u) m"
  let ?plain = "last_name (\<lambda>u. HasSuffix u ''_PASSWORD'' \<and> db_prefixed u \<and> \<not> is_root u) m"
  have p: "dbPass = (if ?plain = '''' \<and> ?root \<noteq> '''' then ?root else ?plain)"
    and u: "dbUser = last_name (\<lambda>u. HasSuffix u ''_USER'' \<and> db_prefixed u) m"
    and n: "dbName = last_name (\<lambda>u. HasSuffix u ''_DATABASE'' \<and> db_prefixed u) m"
    using assms by (auto simp: db_names_def Let_def split: if_splits)
  show "dbUser \<noteq> '''' \<Longrightarrow> dbUser \<in> set (map fst m)" unfolding u by (rule last_name_in [THEN conjunct2])
  show "dbName \<noteq> '''' \<Longrightarrow> dbName \<in> set (map fst m)" unfolding n by (rule last_name_in [THEN conjunct2])
  show "dbPass \<noteq> '''' \<Longrightarrow> dbPass \<in> set (map fst m)" unfolding p by (metis (no_types, lifting) last_name_in)
  assume *: "dbPass \<noteq> ''''" "is_root (ToUpper dbPass)" "x \<in> set (map fst m)"
  have "?plain = ''''" using *(1,2) last_name_in [of "\<lambda>u. HasSuffix u ''_PASSWORD'' \<and> db_prefixed u \<and> \<not> is_root u" m] p
    by (auto split: if_splits)
  then show "\<not> (HasSuffix (ToUpper x) ''_PASSWORD'' \<and> db_prefixed (ToUpper x) \<and> \<not> is_root (ToUpper x))"
    by (rule last_name_none [OF _ _ *(3)]) (simp add: HasSuffix_iff)
qed

text \<open>
  A client of the database gets the credentials of the database service: when the service has a
  secret for the user, the password or the name of the database, every variable of a client that
  asks for it has that value, and the password is not the root password unless there is no other.  The
  secrets of the database service itself stay as generated.
\<close>

theorem database_credentials_agree:
  fixes payload all
  defines "db \<equiv> database_service payload" and "all' \<equiv> normalizeInstanceSecrets payload all"
  assumes db: "db \<noteq> ''''" "map_of all db = Some dbSecrets"
    and names: "db_names dbSecrets = (dbUser, dbPass, dbName)"
    and client: "svc \<noteq> db" "svc \<noteq> global_service" "map_of all' svc = Some secrets" "map_of secrets env = Some v"
  shows "(isDBUserEnv (ToUpper env) \<and> dbUser \<noteq> '''' \<longrightarrow> map_of dbSecrets dbUser = Some v)
    \<and> (isDBPasswordEnv (ToUpper env) \<and> dbPass \<noteq> '''' \<longrightarrow> map_of dbSecrets dbPass = Some v
        \<and> (is_root (ToUpper dbPass) \<longrightarrow> (\<forall>x \<in> set (map fst dbSecrets).
            \<not> (HasSuffix (ToUpper x) ''_PASSWORD'' \<and> db_prefixed (ToUpper x) \<and> \<not> is_root (ToUpper x)))))
    \<and> (isDBNameEnv (ToUpper env) \<and> dbName \<noteq> '''' \<longrightarrow> map_of dbSecrets dbName = Some v)
    \<and> map_of all' db = map_of all db"
proof -
  have has: "has all db" using db(2) by (force simp: has_def dest: map_of_SomeD)
  define value_of where "value_of e v0 = snd (client_secret dbSecrets (dbUser, dbPass, dbName) (e, v0))" for e v0
  have client_eq: "client_secret dbSecrets (dbUser, dbPass, dbName) (e, v0) = (e, value_of e v0)" for e v0
    by (simp add: value_of_def client_secret_def Let_def)
  define g where "g sv m = (if sv = db \<or> sv = global_service then m else map (\<lambda>(e, v). (e, value_of e v)) m)" for sv m
  have "all' = map (\<lambda>(sv, m). (sv, g sv m)) all"
    using db has by (auto simp: all'_def normalizeInstanceSecrets_def Let_def db_def [symmetric] names get_def g_def client_eq
        intro!: map_cong split: if_splits)
  then have all': "map_of all' sv = map_option (g sv) (map_of all sv)" for sv by (simp only: map_of_second)
  with client obtain v0 where v: "v = value_of env v0" by (auto simp: g_def map_of_second)
  note v' = v [unfolded value_of_def client_secret_def]
  have found: "map_of dbSecrets x = Some (get '''' dbSecrets x)" if "x \<in> set (map fst dbSecrets)" for x
    using that by (auto simp: get_def split: option.splits dest: weak_map_of_SomeI)
  note here = db_names_found [OF names]
  have "isDBUserEnv (ToUpper env) \<and> dbUser \<noteq> '''' \<longrightarrow> v = get '''' dbSecrets dbUser"
    and "isDBPasswordEnv (ToUpper env) \<and> dbPass \<noteq> '''' \<longrightarrow> v = get '''' dbSecrets dbPass"
    and "isDBNameEnv (ToUpper env) \<and> dbName \<noteq> '''' \<longrightarrow> v = get '''' dbSecrets dbName"
    using v' env_kinds_disjoint [of "ToUpper env"] by (auto simp: Let_def)
  moreover have "map_of all' db = map_of all db" by (simp add: all' g_def db(2))
  ultimately show ?thesis using found here by auto
qed

end
