(* ===== verification/Migration_Props.thy ===== *)
theory Migration_Props
  imports Admin_Instances Instances_Props Policy_Props
begin

text \<open>
  The order of a migration: whatever the other processes do between the coordinator's calls, and whatever
  fails, the workload of the source is removed last, after every backup has been restored on the target.
\<close>

section \<open>Steps that create no operation\<close>

interpretation kl: io_contract
  "\<lambda>s s'. mr_dispatched s' = mr_dispatched s \<and> mr_freshBackupIDs s' = mr_freshBackupIDs s"
  by unfold_locales auto

abbreviation silent :: "'a mig \<Rightarrow> bool" where
  "silent \<equiv> state_io_rel (\<lambda>s s'. mr_dispatched s' = mr_dispatched s \<and> mr_freshBackupIDs s' = mr_freshBackupIDs s)"

named_theorems silence

lemma silent_basic [silence]:
  "silent (call p m)" "silent (field f)" "silent (next_draw p)"
  by (auto simp: state_io_rel_def call_def field_def next_draw_def split: prod.splits)

lemma silent_assign [silence]:
  "silent (assign (\<lambda>s. s\<lparr>mr_currentStep := x\<rparr>))" "silent (assign (\<lambda>s. s\<lparr>mr_savedRoutes := y\<rparr>))"
  "silent (assign (\<lambda>s. s\<lparr>mr_sourceStopped := b\<rparr>))" "silent (assign (\<lambda>s. s\<lparr>mr_targetProvisionAttempted := b\<rparr>))"
  "silent (assign (\<lambda>s. s\<lparr>mr_targetCapacityReserved := b\<rparr>))"
  by (auto simp: state_io_rel_def assign_def)

lemma silent_attempt [silence]: "silent m \<Longrightarrow> (\<And>x. silent (f x)) \<Longrightarrow> silent (attempt m f)"
  unfolding attempt_def by (intro kl.io_rules)

lemma silent_no_panic [silence]: "silent m \<Longrightarrow> silent (no_panic m)"
  unfolding no_panic_def by (intro kl.io_rules)

lemma silent_waits [silence]:
  "silent (waitForOp p oid n)" "silent (waitForBackupRecord h p bid n)" "silent (waitForNodeHealthy p nid t n)"
proof -
  show "silent (waitForOp p oid n)"
    by (induction n) (simp_all only: waitForOp.simps, (intro kl.io_rules silence; assumption?)+)
  show "silent (waitForBackupRecord h p bid n)"
    by (induction n) (simp_all only: waitForBackupRecord.simps, (intro kl.io_rules silence; assumption?)+)
  show "silent (waitForNodeHealthy p nid t n)"
    by (induction n) (simp_all only: waitForNodeHealthy.simps, (intro kl.io_rules silence; assumption?)+)
qed

lemma silent_metadata [silence]: "silent (save_metadata p)" "silent (enter_step p x)" "silent (setStep p x)"
  unfolding setStep_def enter_step_def save_metadata_def by (intro kl.io_rules silence)+

lemma silent_steps [silence]:
  "silent (wait_healthy p nid)" "silent (step_backup h p d oid a n sv)" "silent (fail_migration p msg)"
  "silent (failForIntervention h p msg)" "silent (sync_routes h p routes)" "silent (restoreOriginalRoutes h p)"
  "silent (releaseMigrationCapacity h p nid)" "silent (rollback_capacity h p reason cleaned)"
  unfolding wait_healthy_def step_backup_def fail_migration_def failForIntervention_def sync_routes_def
    restoreOriginalRoutes_def releaseMigrationCapacity_def rollback_capacity_def Let_def
  by (intro kl.io_rules silence)+

lemma silent_disabled [silence]: "silent (disabled_routes p routes acc)"
  by (induction routes arbitrary: acc) (simp_all only: disabled_routes.simps, (intro kl.io_rules silence; assumption?)+)

lemma silent_maintenance [silence]: "silent (enableMaintenance h p)" "silent (abortBeforeStop h p reason)"
  unfolding enableMaintenance_def abortBeforeStop_def by (intro kl.io_rules silence)+

lemma silent_phases [silence]:
  "silent (start_maintenance h p)" "silent (reserve_target h p)" "silent (rollback_routes h p reason recovered)"
  "silent (reconcileRoutes h p nid routes hostPorts)" "silent (failAfterCutover h p reason)"
  unfolding start_maintenance_def reserve_target_def rollback_routes_def reconcileRoutes_def failAfterCutover_def Let_def
  by (intro kl.io_rules silence)+

section \<open>Only the last step completes\<close>

abbreviation not_completed :: "'a step \<Rightarrow> bool" where
  "not_completed \<equiv> answers (\<lambda>x. x \<noteq> Completed) (\<lambda>_. True)"

named_theorems unfinished

lemma unfinished_basic [unfinished]:
  "not_completed (fail_migration p msg)" "not_completed (no_panic m)" "not_completed (sync_routes h p routes)"
  unfolding fail_migration_def sync_routes_def no_panic_def
  by (intro answers_rules; auto split: sum.splits if_splits option.splits simp: answers_def)+

lemma unfinished_steps [unfinished]:
  "not_completed (failForIntervention h p msg)" "not_completed (restoreOriginalRoutes h p)"
  "not_completed (abortBeforeStop h p reason)" "not_completed (enableMaintenance h p)" "not_completed (failAfterCutover h p reason)"
  "not_completed (reconcileRoutes h p nid routes hostPorts)" "not_completed (rollback_routes h p reason recovered)"
  unfolding failForIntervention_def restoreOriginalRoutes_def abortBeforeStop_def enableMaintenance_def failAfterCutover_def
    reconcileRoutes_def rollback_routes_def
  by (intro answers_attempt answers_cases answers_bind unfinished; auto intro!: answers_rules)+

lemma unfinished_phases [unfinished]: "not_completed (start_maintenance h p)" "not_completed (reserve_target h p)"
  unfolding start_maintenance_def reserve_target_def Let_def
  by (intro answers_attempt answers_cases answers_bind unfinished; auto intro!: answers_rules unfinished)+

section \<open>Traces\<close>

text \<open>
  \<open>traces n E A m\<close>: a run of \<open>m\<close> that starts with \<open>n\<close> fresh backups adds a list of operations to the history,
  which satisfies \<open>E\<close> with the outcome when the migration ends in \<open>m\<close>, and otherwise \<open>A\<close> with the result and
  the new number of fresh backups.
\<close>

definition traces ::
  "nat \<Rightarrow> (migration_outcome \<Rightarrow> (TaskAction \<times> string) list \<Rightarrow> bool) \<Rightarrow> ('a \<Rightarrow> (TaskAction \<times> string) list \<Rightarrow> nat \<Rightarrow> bool)
   \<Rightarrow> 'a step \<Rightarrow> bool" where
  "traces n E A m \<longleftrightarrow> (\<forall>s. length (mr_freshBackupIDs s) = n \<longrightarrow> (case run_state m s of (r, s') \<Rightarrow>
     \<exists>xs. mr_dispatched s' = mr_dispatched s @ xs
       \<and> (case r of Inl x \<Rightarrow> E x xs | Inr y \<Rightarrow> A y xs (length (mr_freshBackupIDs s')))))"

lemma tracesI:
  assumes "\<And>s r s'. length (mr_freshBackupIDs s) = n \<Longrightarrow> run_state m s = (r, s') \<Longrightarrow>
    \<exists>xs. mr_dispatched s' = mr_dispatched s @ xs \<and> (case r of Inl x \<Rightarrow> E x xs | Inr y \<Rightarrow> A y xs (length (mr_freshBackupIDs s')))"
  shows "traces n E A m"
  using assms by (auto simp: traces_def split: prod.splits)

lemma tracesD:
  assumes "traces n E A m" and "length (mr_freshBackupIDs s) = n" and "run_state m s = (r, s')"
  obtains xs where "mr_dispatched s' = mr_dispatched s @ xs"
    and "case r of Inl x \<Rightarrow> E x xs | Inr y \<Rightarrow> A y xs (length (mr_freshBackupIDs s'))"
  using assms by (auto simp: traces_def split: prod.splits)

lemma traces_silent:
  assumes "silent m" and "not_completed m" and "\<And>x. x \<noteq> Completed \<Longrightarrow> E x []" and "\<And>y. A y [] n"
  shows "traces n E A m"
proof (rule tracesI)
  fix s r s'
  assume n: "length (mr_freshBackupIDs s) = n" and run: "run_state m s = (r, s')"
  have "mr_dispatched s' = mr_dispatched s" "mr_freshBackupIDs s' = mr_freshBackupIDs s"
    using state_io_relD [OF assms(1) run] by simp_all
  then show "\<exists>xs. mr_dispatched s' = mr_dispatched s @ xs \<and> (case r of Inl x \<Rightarrow> E x xs | Inr y \<Rightarrow> A y xs (length (mr_freshBackupIDs s')))"
    using n run assms(3,4) answersD(1) [OF assms(2)] by (cases r) auto
qed

lemma traces_return: "(case r of Inl x \<Rightarrow> E x [] | Inr y \<Rightarrow> A y [] n) \<Longrightarrow> traces n E A (return r)"
  by (rule tracesI) auto

lemma traces_attempt:
  assumes m: "traces n E A m" and f: "\<And>y xs k. A y xs k \<Longrightarrow> traces k (\<lambda>x ys. E x (xs @ ys)) (\<lambda>z ys. B z (xs @ ys)) (f y)"
  shows "traces n E B (attempt m f)"
proof (rule tracesI)
  fix s r s'
  assume n: "length (mr_freshBackupIDs s) = n" and run: "run_state (attempt m f) s = (r, s')"
  obtain x t where x: "run_state m s = (x, t)" by fastforce
  obtain xs where xs: "mr_dispatched t = mr_dispatched s @ xs"
      "case x of Inl e \<Rightarrow> E e xs | Inr y \<Rightarrow> A y xs (length (mr_freshBackupIDs t))" by (rule tracesD [OF m n x])
  show "\<exists>xs. mr_dispatched s' = mr_dispatched s @ xs \<and> (case r of Inl x \<Rightarrow> E x xs | Inr y \<Rightarrow> B y xs (length (mr_freshBackupIDs s')))"
  proof (cases x)
    case (Inl e)
    with xs run x show ?thesis by (auto simp: run_attempt)
  next
    case (Inr y)
    with xs have "A y xs (length (mr_freshBackupIDs t))" by simp
    moreover from run x Inr have "run_state (f y) t = (r, s')" by (simp add: attempt_eqs)
    ultimately obtain ys where "mr_dispatched s' = mr_dispatched t @ ys"
        "case r of Inl x \<Rightarrow> E x (xs @ ys) | Inr z \<Rightarrow> B z (xs @ ys) (length (mr_freshBackupIDs s'))"
      using tracesD [OF f] by blast
    with xs(1) show ?thesis by (intro exI [of _ "xs @ ys"]) (auto split: sum.splits)
  qed
qed

lemma traces_bind:
  assumes m: "silent m" and f: "\<And>y. traces n E A (f y)"
  shows "traces n E A (m \<bind> f)"
proof (rule tracesI)
  fix s r s'
  assume n: "length (mr_freshBackupIDs s) = n" and run: "run_state (m \<bind> f) s = (r, s')"
  obtain y t where y: "run_state m s = (y, t)" by fastforce
  have t: "mr_dispatched t = mr_dispatched s" "mr_freshBackupIDs t = mr_freshBackupIDs s"
    using state_io_relD [OF m y] by simp_all
  with n have nt: "length (mr_freshBackupIDs t) = n" by simp
  from run y have "run_state (f y) t = (r, s')" by simp
  from tracesD [OF f nt this] obtain xs where "mr_dispatched s' = mr_dispatched t @ xs"
      "case r of Inl x \<Rightarrow> E x xs | Inr y \<Rightarrow> A y xs (length (mr_freshBackupIDs s'))" by blast
  with t show "\<exists>xs. mr_dispatched s' = mr_dispatched s @ xs \<and> (case r of Inl x \<Rightarrow> E x xs | Inr y \<Rightarrow> A y xs (length (mr_freshBackupIDs s')))"
    by auto
qed

lemma traces_weaken:
  "traces n E A m \<Longrightarrow> (\<And>x xs. E x xs \<Longrightarrow> E' x xs) \<Longrightarrow> (\<And>y xs k. A y xs k \<Longrightarrow> B y xs k) \<Longrightarrow> traces n E' B m"
  by (rule tracesI, erule (1) tracesD, assumption) (auto split: sum.splits)

lemma traces_cases:
  "traces n E A m \<Longrightarrow> traces n E A m' \<Longrightarrow> traces n E A (if b then m else m')"
  "(\<And>e. traces n E A (f e)) \<Longrightarrow> (\<And>x. traces n E A (g x)) \<Longrightarrow> traces n E A (case v of Inl e \<Rightarrow> f e | Inr x \<Rightarrow> g x)"
  "traces n E A m \<Longrightarrow> (\<And>x. traces n E A (k x)) \<Longrightarrow> traces n E A (case u of None \<Rightarrow> m | Some x \<Rightarrow> k x)"
  by (auto split: sum.splits option.splits)

section \<open>Operations\<close>

lemma create_step_op_run:
  assumes "run_state (create_step_op p oid a nd) s = (c, s')"
  shows "mr_freshBackupIDs s' = mr_freshBackupIDs s
    \<and> mr_dispatched s' = mr_dispatched s @ (case c of Inl _ \<Rightarrow> [] | Inr _ \<Rightarrow> [(a, nd)])"
  using assms by (auto simp: create_step_op_def field_def call_def assign_def split: prod.splits sum.splits)

lemma keep_backup_run:
  assumes "run_state (keep_backup h p bid) s = (k, s')"
  shows "mr_dispatched s' = mr_dispatched s
    \<and> (k = Inr () \<longrightarrow> length (mr_freshBackupIDs s') = length (mr_freshBackupIDs s) + (if bid = '''' then 0 else 1))"
proof (cases "bid = ''''")
  case True
  with assms show ?thesis by (simp add: keep_backup_def)
next
  case False
  obtain w t where w: "run_state (waitForBackupRecord h p bid (mp_backup_polls p)) s = (w, t)" by fastforce
  have t: "mr_dispatched t = mr_dispatched s" "mr_freshBackupIDs t = mr_freshBackupIDs s"
    using state_io_relD [OF silent_waits(2) w] by simp_all
  have sm: "mr_dispatched u' = mr_dispatched u \<and> mr_freshBackupIDs u' = mr_freshBackupIDs u"
    if "run_state (save_metadata p) u = (x, u')" for u x u'
    using state_io_relD [OF silent_metadata(1) that] by simp
  from assms False w t show ?thesis
    by (cases w) (auto simp: keep_backup_def assign_def split: prod.splits dest!: sm)
qed

lemma backup_record_id: "answers (\<lambda>_. True) (\<lambda>bid. bid \<noteq> '''') (createMigrationBackupRecord h bytes oid iid nd yaml tier a sv)"
  unfolding createMigrationBackupRecord_def Let_def
  by (intro answers_rules) (auto simp: generateID_def split: sum.splits)

lemma step_backup_id:
  assumes "run_state (step_backup h p d oid a nd sv) s = (Inr bid, s')"
  shows "(bid = '''') = (\<not> is_backup a)"
  using assms answersD(2) [OF backup_record_id]
  by (auto simp: step_backup_def call_def on_db_def Let_def split: prod.splits sum.splits if_splits)

lemma subOp_traces:
  "traces n (\<lambda>x xs. x \<noteq> Completed \<and> (xs = [] \<or> xs = [(a, nd)]))
     (\<lambda>(oid, r) xs k. (xs = [] \<or> xs = [(a, nd)]) \<and> (r = Inr () \<longrightarrow> xs = [(a, nd)] \<and> k = n + (if is_backup a then 1 else 0)))
     (subOp h p a nd sv)"
proof (rule tracesI)
  fix s r s'
  assume n: "length (mr_freshBackupIDs s) = n" and run: "run_state (subOp h p a nd sv) s = (r, s')"
  let ?P = "\<lambda>s'. \<exists>xs. mr_dispatched s' = mr_dispatched s @ xs \<and> (case r of Inl x \<Rightarrow> x \<noteq> Completed \<and> (xs = [] \<or> xs = [(a, nd)])
    | Inr y \<Rightarrow> (\<lambda>(oid, r) xs k. (xs = [] \<or> xs = [(a, nd)]) \<and> (r = Inr () \<longrightarrow> xs = [(a, nd)] \<and> k = n + (if is_backup a then 1 else 0)))
        y xs (length (mr_freshBackupIDs s')))"
  obtain d t1 where d: "run_state (next_draw p) s = (d, t1)" by fastforce
  let ?oid = "generateID ''op'' (dr_op d)"
  obtain c t2 where c: "run_state (create_step_op p ?oid a nd) t1 = (c, t2)" by fastforce
  note keep1 = state_io_relD [OF silent_basic(3) d] and op = create_step_op_run [OF c]
  obtain b t3 where b: "run_state (step_backup h p d ?oid a nd sv) t2 = (b, t3)" by fastforce
  note keep2 = state_io_relD [OF silent_steps(2) b]
  let ?q = "\<lambda>bid. no_panic (call p (enqueueTaskWithID h (dr_entropy d) (generateID ''task'' (dr_task d)) ?oid (mp_instID p) nd
    (mp_customerID p) (mp_rawYAML p) (mp_tier p) a bid sv))"
  show "?P s'"
  proof (cases "\<exists>u bid. c = Inr u \<and> b = Inr bid")
    case False
    with run d c b keep1 op keep2 show ?thesis
      by (cases c; cases b) (auto simp: subOp_def Let_def)
  next
    case True
    then obtain u bid where cb: "c = Inr u" "b = Inr bid" by blast
    obtain q t4 where q: "run_state (?q bid) t3 = (q, t4)" by fastforce
    obtain w t5 where w: "run_state (waitForOp p ?oid (mp_op_polls p)) t4 = (w, t5)" by fastforce
    obtain k t6 where k: "run_state (keep_backup h p bid) t5 = (k, t6)" by fastforce
    have keep3: "mr_dispatched t4 = mr_dispatched t3 \<and> mr_freshBackupIDs t4 = mr_freshBackupIDs t3"
      by (rule state_io_relD [OF _ q]) (intro silence)
    note keep4 = state_io_relD [OF silent_waits(1) w] and keep5 = keep_backup_run [OF k]
      and bid = step_backup_id [OF b [unfolded cb(2)]]
    have crash: "q = Inl e \<Longrightarrow> e \<noteq> Completed" for e
      using answersD(1) [OF unfinished_basic(2)] q by blast
    have r: "run_state (attempt (?q bid) (\<lambda>q. case q of
               Inl e \<Rightarrow> return (Inr (?oid, Inl (h_error_text h e)))
             | Inr _ \<Rightarrow> do {
                 w \<leftarrow> waitForOp p ?oid (mp_op_polls p);
                 case w of
                   Inl msg \<Rightarrow> return (Inr (?oid, Inl msg))
                 | Inr _ \<Rightarrow> do { k \<leftarrow> keep_backup h p bid; return (Inr (?oid, k)) }
               })) t3 = (r, s')"
      using run d c b cb by (simp add: subOp_def Let_def)
    have "(\<exists>e. q = Inl e \<and> r = Inl e \<and> s' = t4) \<or> (\<exists>msg. r = Inr (?oid, Inl msg) \<and> (s' = t4 \<or> s' = t5)) \<or> r = Inr (?oid, k) \<and> s' = t6"
      using r q w k by (cases q; cases w) (auto simp: run_attempt split: sum.splits)
    then show ?thesis
      using crash keep1 op keep2 keep3 keep4 keep5 bid cb n by (intro exI [of _ "[(a, nd)]"]) (auto split: if_splits)
  qed
qed

text \<open>A sub-operation and what follows its failure and its success.\<close>

lemma traces_sub:
  assumes "\<And>x xs. x \<noteq> Completed \<Longrightarrow> xs = [] \<or> xs = [(a, nd)] \<Longrightarrow> E x xs"
    and fails: "\<And>k oid msg xs. xs = [] \<or> xs = [(a, nd)] \<Longrightarrow> traces k (\<lambda>x ys. E x (xs @ ys)) (\<lambda>z ys. B z (xs @ ys)) (F oid (Inl msg))"
    and goes: "\<And>oid. traces (n + (if is_backup a then 1 else 0)) (\<lambda>x ys. E x ((a, nd) # ys)) (\<lambda>z ys. B z ((a, nd) # ys)) (F oid (Inr ()))"
  shows "traces n E B (attempt (subOp h p a nd sv) (\<lambda>(oid, r). F oid r))"
proof -
  let ?A = "\<lambda>(oid :: string, r :: string + unit) xs k. (xs = [] \<or> xs = [(a, nd)]) \<and> (r = Inr () \<longrightarrow> xs = [(a, nd)] \<and> k = n + (if is_backup a then 1 else 0))"
  have sub: "traces n E ?A (subOp h p a nd sv)"
    by (rule traces_weaken [OF subOp_traces]) (use assms(1) in auto)
  have next_step: "traces k (\<lambda>x ys. E x (xs @ ys)) (\<lambda>z ys. B z (xs @ ys)) (F oid r)" if "?A (oid, r) xs k" for oid r xs k
  proof (cases r)
    case (Inl msg)
    with that fails show ?thesis by simp
  next
    case (Inr u)
    with that goes [of oid] show ?thesis by simp
  qed
  show ?thesis
  proof (rule traces_attempt [OF sub])
    fix y xs k
    assume "?A y xs k"
    then show "traces k (\<lambda>x ys. E x (xs @ ys)) (\<lambda>z ys. B z (xs @ ys)) (case y of (oid, r) \<Rightarrow> F oid r)"
      using next_step [of "fst y" "snd y" xs k] by (simp add: case_prod_beta)
  qed
qed

section \<open>Failures\<close>

abbreviation ends :: "'a step \<Rightarrow> bool" where
  "ends \<equiv> answers (\<lambda>x. x \<noteq> Completed) (\<lambda>_. False)"

lemma traces_end:
  assumes "silent m" and "ends m" and "\<And>x. x \<noteq> Completed \<Longrightarrow> E x []"
  shows "traces n E A m"
proof (rule tracesI)
  fix s r s'
  assume run: "run_state m s = (r, s')"
  then obtain x where "r = Inl x" "x \<noteq> Completed"
    using answersD [OF assms(2)] by (cases r) blast+
  then show "\<exists>xs. mr_dispatched s' = mr_dispatched s @ xs \<and> (case r of Inl x \<Rightarrow> E x xs | Inr y \<Rightarrow> A y xs (length (mr_freshBackupIDs s')))"
    using state_io_relD [OF assms(1) run] assms(3) by auto
qed

lemma ends_fail: "ends (fail_migration p msg)"
  unfolding fail_migration_def by (intro answers_rules) auto

lemma ends_rest: "ends (failForIntervention h p msg)" "ends (abortBeforeStop h p reason)" "ends (failAfterCutover h p reason)"
  unfolding failForIntervention_def abortBeforeStop_def failAfterCutover_def
  by (intro answers_attempt answers_bind ends_fail unfinished)+

lemmas ending = silence ends_fail ends_rest

text \<open>A rollback removes the target's workload and restarts the source's.\<close>

definition rollback_ops :: "migration \<Rightarrow> (TaskAction \<times> string) set" where
  "rollback_ops p = {(ActionDeprovisionApp, mp_targetNodeID p), (ActionStartApp, mp_sourceNodeID p)}"

abbreviation rolled :: "migration \<Rightarrow> migration_outcome \<Rightarrow> (TaskAction \<times> string) list \<Rightarrow> bool" where
  "rolled p x xs \<equiv> x \<noteq> Completed \<and> set xs \<subseteq> rollback_ops p"

lemma rollback_sub:
  assumes "(a, nd) \<in> rollback_ops p"
  shows "traces n (rolled p) (\<lambda>_ xs _. set xs \<subseteq> rollback_ops p) (subOp h p a nd sv)"
  by (rule traces_weaken [OF subOp_traces]) (use assms in auto)

lemma rollback_target_traces: "traces n (rolled p) (\<lambda>_ xs _. set xs \<subseteq> rollback_ops p) (rollback_target h p reason)"
  unfolding rollback_target_def
  by (intro traces_bind traces_cases traces_attempt [OF rollback_sub] silence)
    (auto simp: rollback_ops_def split: prod.splits intro!: traces_return)

lemma rollback_source_traces: "traces n (rolled p) (\<lambda>_ xs _. set xs \<subseteq> rollback_ops p) (rollback_source h p reason)"
  unfolding rollback_source_def
  by (intro traces_bind traces_cases traces_attempt [OF rollback_sub] silence)
    (auto simp: rollback_ops_def split: prod.splits intro!: traces_return traces_bind traces_cases silence)

lemma rollback_traces: "traces n (rolled p) A (rollbackPreCutover h p reason)"
proof -
  have routes: "traces k (rolled p) B (attempt (rollback_routes h p reason recovered) (fail_migration p))"
    for k B reason recovered
    by (rule traces_attempt [OF traces_silent [where A = "\<lambda>_ xs _. xs = []"]])
      (auto intro!: silence unfinished traces_end ending)
  have "traces k (rolled p) B (rollback_capacity h p reason cleaned \<bind> (\<lambda>reason. attempt (rollback_source h p reason)
       (\<lambda>(reason, recovered). attempt (rollback_routes h p reason recovered) (fail_migration p))))"
    for k B reason cleaned
    by (rule traces_bind [OF silent_steps(8)], rule traces_attempt [OF rollback_source_traces])
      (auto split: prod.splits intro: routes)
  then show ?thesis
    unfolding rollbackPreCutover_def
    by (intro traces_attempt [OF rollback_target_traces]) (auto split: prod.splits)
qed

section \<open>Phases\<close>

abbreviation source_removal :: "migration \<Rightarrow> TaskAction \<times> string" where
  "source_removal p \<equiv> (ActionDeprovisionApp, mp_sourceNodeID p)"

text \<open>A migration that ends before its last phase has not removed the source.\<close>

abbreviation early :: "migration \<Rightarrow> migration_outcome \<Rightarrow> (TaskAction \<times> string) list \<Rightarrow> bool" where
  "early p x xs \<equiv> x \<noteq> Completed \<and> source_removal p \<notin> set xs"

definition backup_ops :: "migration \<Rightarrow> (TaskAction \<times> string) set" where
  "backup_ops p = {(ActionBackupDatabase, mp_sourceNodeID p), (ActionBackupVolumes, mp_sourceNodeID p)}"

abbreviation two_nodes :: "migration \<Rightarrow> bool" where
  "two_nodes p \<equiv> mp_sourceNodeID p \<noteq> mp_targetNodeID p"

lemma rollback_early: "two_nodes p \<Longrightarrow> traces n (early p) A (rollbackPreCutover h p reason)"
  by (rule traces_weaken [OF rollback_traces]) (auto simp: rollback_ops_def)

lemma traces_field: "(\<And>y. traces n E A (f y)) \<Longrightarrow> traces n E A (field g \<bind> f)"
  by (rule traces_bind [OF silent_basic(2)])

lemma abort_early: "traces n (early p) A (abortBeforeStop h p reason)"
  by (rule traces_end) (auto intro: ending)

lemma backup_services_traces:
  "traces n (early p) (\<lambda>_ xs k. set xs \<subseteq> backup_ops p \<and> k = n + length xs) (backup_services h p svcs)"
proof (induction svcs arbitrary: n)
  case Nil
  show ?case by (auto intro!: traces_return)
next
  case (Cons service svcs)
  obtain name svc where service: "service = (name, svc)" by (cases service)
  let ?op = "\<lambda>b :: YAMLServiceBackup. (if bak_Type b = ''database'' then ActionBackupDatabase else ActionBackupVolumes)"
  have op: "is_backup (?op b)" "(?op b, mp_sourceNodeID p) \<in> backup_ops p" "?op b \<noteq> ActionDeprovisionApp" for b
    by (auto simp: is_backup_def backup_ops_def)
  have lost: "traces k (\<lambda>x ys. early p x (xs @ ys)) A (attempt (restoreOriginalRoutes h p) (\<lambda>r2. fail_migration p (msg r2)))"
    if "xs = [] \<or> xs = [(?op b, mp_sourceNodeID p)]" for k A msg xs b
    by (rule traces_end) (use that op(3) [of b] in \<open>auto intro!: silence answers_attempt unfinished ends_fail\<close>)
  have one: "traces n (early p) (\<lambda>_ xs k. set xs \<subseteq> backup_ops p \<and> k = n + length xs)
      (attempt (subOp h p (?op b) (mp_sourceNodeID p) name) (\<lambda>(_, r). case r of Inr _ \<Rightarrow> backup_services h p svcs
         | Inl msg \<Rightarrow> attempt (restoreOriginalRoutes h p) (\<lambda>r2.
             fail_migration p (''backup '' @ name @ '': '' @ with_error h msg ''; restore routes: '' r2))))" for b
    apply (rule traces_sub)
    subgoal using op(3) [of b] by auto
    subgoal unfolding sum.case by (rule lost)
    subgoal unfolding sum.case by (rule traces_weaken [OF Cons.IH]) (use op [of b] in auto)
    done
  show ?case
    unfolding service backup_services.simps
    by (intro traces_cases(1,3) traces_bind silence Cons.IH abort_early one)
qed

lemma prepare_traces:
  "traces 0 (early p) (\<lambda>_ xs k. set xs \<subseteq> backup_ops p \<and> k = length xs) (prepare_migration h p)"
proof -
  have start: "traces 0 (early p) (\<lambda>_ xs k. xs = [] \<and> k = 0) (start_maintenance h p)"
    by (rule traces_silent) (auto intro: silence unfinished)
  have reserve: "traces k (\<lambda>x ys. early p x (xs @ ys)) (\<lambda>_ ys j. set (xs @ ys) \<subseteq> backup_ops p \<and> j = length (xs @ ys)) (reserve_target h p)"
    if "set xs \<subseteq> backup_ops p \<and> k = 0 + length xs" for xs k
    using that by (intro traces_silent silence unfinished) (auto simp: backup_ops_def)
  have backups: "traces 0 (early p) (\<lambda>_ xs k. set xs \<subseteq> backup_ops p \<and> k = length xs)
      (attempt (backup_services h p svcs) (\<lambda>_. reserve_target h p))" for svcs
    by (rule traces_attempt [OF backup_services_traces]) (rule reserve)
  show ?thesis
    unfolding prepare_migration_def
    by (rule traces_attempt [OF start]) (simp, intro traces_cases abort_early backups)
qed

text \<open>A step that rolls back when it fails.\<close>

lemma step_traces:
  assumes "two_nodes p" and "(a, nd) \<noteq> source_removal p" and "\<not> is_backup a"
  shows "traces n (early p) (\<lambda>_ xs k. xs = [(a, nd)] \<and> k = n) (step_or_rollback h p a nd what)"
  unfolding step_or_rollback_def
  by (rule traces_sub; (unfold sum.case)?)
    (use assms in \<open>auto intro!: traces_return traces_weaken [OF rollback_early [where A = "\<lambda>_ _ _. False"]]\<close>)

lemma pause_traces:
  assumes "two_nodes p"
  shows "traces n (early p) (\<lambda>_ xs k. xs = [(ActionPauseApp, mp_sourceNodeID p)] \<and> k = n) (pause_source h p)"
  unfolding pause_source_def
  by (intro traces_bind silence traces_attempt [OF step_traces [OF assms]])
    (auto simp: is_backup_def intro!: traces_bind traces_cases silence rollback_early [OF assms] traces_return)

lemma provision_traces:
  assumes "two_nodes p"
  shows "traces n (early p) (\<lambda>_ xs k. xs = [(ActionProvisionApp, mp_targetNodeID p)] \<and> k = n) (provision_target h p)"
  unfolding provision_target_def
  by (intro traces_bind silence step_traces [OF assms]) (auto simp: is_backup_def)

lemma resume_traces:
  assumes "two_nodes p"
  shows "traces n (early p) (\<lambda>_ xs k. xs = [(ActionResumeApp, mp_targetNodeID p)] \<and> k = n) (resume_target h p)"
  unfolding resume_target_def
  by (intro traces_bind silence traces_attempt [OF step_traces [OF assms]])
    (auto simp: is_backup_def intro!: traces_bind traces_cases silence rollback_early [OF assms] traces_return)

lemma validate_traces:
  assumes "two_nodes p"
  shows "traces n (early p) (\<lambda>_ xs k. xs = [] \<and> k = n) (validate_target h p)"
  unfolding validate_target_def
  by (intro traces_bind traces_cases silence rollback_early [OF assms] traces_return) auto

lemma intervention_early: "traces n (early p) A (failForIntervention h p msg)"
  by (rule traces_end) (auto intro: ending)

lemma cutover_traces:
  assumes "two_nodes p"
  shows "traces n (early p) (\<lambda>_ xs k. xs = [] \<and> k = n) (cutover h p hostPorts)"
proof -
  have undo: "traces n (early p) A (undo_assignment h p what)" for A :: "unit \<Rightarrow> _" and what
    unfolding undo_assignment_def by (intro traces_bind traces_cases silence rollback_early [OF assms] intervention_early)
  have quiet: "traces n (early p) (\<lambda>_ xs k. xs = [] \<and> k = n) (reconcileRoutes h p nid routes hostPorts)"
    "traces n (early p) (\<lambda>_ xs k. xs = [] \<and> k = n) (enableMaintenance h p)" for nid routes
    by (intro traces_silent silence unfinished; simp)+
  have routes: "traces n (early p) (\<lambda>_ xs k. xs = [] \<and> k = n) (move_routes h p hostPorts)"
    unfolding move_routes_def
    by (intro traces_field traces_bind traces_cases silence undo traces_attempt [OF quiet(1)] traces_return)
      (auto intro!: traces_cases traces_return traces_attempt [OF quiet(2)] intervention_early)
  show ?thesis
    unfolding cutover_def by (intro traces_bind traces_cases silence undo routes rollback_early [OF assms])
qed

lemma remove_traces:
  "traces n (\<lambda>x xs. x \<noteq> Completed \<and> (xs = [] \<or> xs = [source_removal p])) (\<lambda>x xs k. xs = [source_removal p]) (remove_source h p)"
proof -
  have fails: "traces k E A (fail_migration p msg)" "traces k E A (failAfterCutover h p msg)"
    if "\<And>x. x \<noteq> Completed \<Longrightarrow> E x []" for k E and A :: "migration_outcome \<Rightarrow> _" and msg
    by (intro traces_end ending that; assumption)+
  show ?thesis
    unfolding remove_source_def
    by (intro traces_bind silence traces_sub; (unfold sum.case)?)
      (auto simp: is_backup_def intro!: traces_cases traces_bind silence fails traces_return)
qed

lemma traces_create:
  assumes "\<And>e. traces n E B (F (Inl e))" and "\<And>u. traces n (\<lambda>x ys. E x ((a, nd) # ys)) (\<lambda>z ys. B z ((a, nd) # ys)) (F (Inr u))"
  shows "traces n E B (create_step_op p oid a nd \<bind> F)"
proof (rule tracesI)
  fix s r s'
  assume n: "length (mr_freshBackupIDs s) = n" and run: "run_state (create_step_op p oid a nd \<bind> F) s = (r, s')"
  obtain c t where c: "run_state (create_step_op p oid a nd) s = (c, t)" by fastforce
  note op = create_step_op_run [OF c]
  from op n have nt: "length (mr_freshBackupIDs t) = n" by simp
  from run c have f: "run_state (F c) t = (r, s')" by simp
  show "\<exists>xs. mr_dispatched s' = mr_dispatched s @ xs \<and> (case r of Inl x \<Rightarrow> E x xs | Inr y \<Rightarrow> B y xs (length (mr_freshBackupIDs s')))"
  proof (cases c)
    case (Inl e)
    obtain xs where "mr_dispatched s' = mr_dispatched t @ xs"
        "case r of Inl x \<Rightarrow> E x xs | Inr y \<Rightarrow> B y xs (length (mr_freshBackupIDs s'))"
      by (rule tracesD [OF assms(1) nt f [unfolded Inl]])
    with op Inl show ?thesis by auto
  next
    case (Inr u)
    obtain xs where "mr_dispatched s' = mr_dispatched t @ xs"
        "case r of Inl x \<Rightarrow> E x ((a, nd) # xs) | Inr y \<Rightarrow> B y ((a, nd) # xs) (length (mr_freshBackupIDs s'))"
      by (rule tracesD [OF assms(2) nt f [unfolded Inr]])
    with op Inr show ?thesis by (intro exI [of _ "(a, nd) # xs"]) simp
  qed
qed

lemma restore_traces:
  assumes "two_nodes p"
  shows "traces n (early p) (\<lambda>_ xs k. xs = replicate (length ids) (ActionRestoreBackup, mp_targetNodeID p) \<and> k = n) (restore_backups h p ids)"
proof (induction ids)
  case Nil
  show ?case by (auto intro!: traces_return)
next
  case (Cons bid ids)
  let ?R = "(ActionRestoreBackup, mp_targetNodeID p)"
  let ?B = "\<lambda>_ xs k. xs = replicate (length (bid # ids)) ?R \<and> k = n"
  have undo: "traces n (\<lambda>x ys. early p x (?R # ys)) A (rollbackPreCutover h p msg)" for A msg
    by (rule traces_weaken [OF rollback_early [OF assms, where A = A]]) auto
  have rest: "traces n (\<lambda>x ys. early p x (?R # ys)) (\<lambda>z ys. ?B z (?R # ys)) (restore_backups h p ids)"
    by (rule traces_weaken [OF Cons.IH]) auto
  have crash: "traces n (\<lambda>x ys. early p x (?R # ys)) (\<lambda>_ xs k. xs = [] \<and> k = n) (no_panic (call p m))" for m :: "(err + unit) api_io"
    by (intro traces_silent silence unfinished) auto
  define after where "after (d :: draw) bk = (\<lambda>c :: err + unit. case c of
       Inl e \<Rightarrow> rollbackPreCutover h p (''restore create op: '' @ h_error_text h e)
     | Inr _ \<Rightarrow>
         attempt (no_panic (call p (enqueueRestoreTask h (dr_entropy d) (dr_task d) (generateID ''op'' (dr_op d)) (mp_instID p) (mp_targetNodeID p)
             (mp_rawYAML p) (mp_tier p) bk))) (\<lambda>_. do {
           w \<leftarrow> waitForOp p (generateID ''op'' (dr_op d)) (mp_op_polls p);
           case w of
             Inl msg \<Rightarrow> rollbackPreCutover h p (''restore '' @ br_BackupType bk @ '': '' @ msg)
           | Inr _ \<Rightarrow> restore_backups h p ids
         }))" for d bk
  have waited: "traces n (\<lambda>x ys. early p x (?R # ys)) (\<lambda>z ys. ?B z (?R # ys))
      (waitForOp p oid m \<bind> (\<lambda>w. case w of Inl msg \<Rightarrow> rollbackPreCutover h p (f msg) | Inr _ \<Rightarrow> restore_backups h p ids))" for oid m f
    by (intro traces_bind traces_cases silence undo rest)
  have goes: "traces n (\<lambda>x ys. early p x (?R # ys)) (\<lambda>z ys. ?B z (?R # ys)) (after d bk (Inr u))" for d bk u
    unfolding after_def sum.case by (rule traces_attempt [OF crash]) (use waited in simp)
  have one: "traces n (early p) ?B (create_step_op p oid ActionRestoreBackup (mp_targetNodeID p) \<bind> after d bk)" for oid d bk
  proof (rule traces_create)
    show "traces n (early p) ?B (after d bk (Inl e))" for e by (simp only: after_def sum.case rollback_early [OF assms])
  qed (rule goes)
  show ?case
    unfolding restore_backups.simps Let_def
    by (intro one [unfolded after_def] traces_cases traces_bind silence rollback_early [OF assms])
qed

section \<open>The order of a migration\<close>

text \<open>
  A complete migration: the backups of the source, its pause, the new workload on the target, one
  restore for each backup, the resumption of the target, and last the removal of the source.
\<close>

definition complete_trace :: "migration \<Rightarrow> (TaskAction \<times> string) list \<Rightarrow> bool" where
  "complete_trace p xs \<longleftrightarrow> (\<exists>bs. set bs \<subseteq> backup_ops p \<and>
     xs = bs @ [(ActionPauseApp, mp_sourceNodeID p), (ActionProvisionApp, mp_targetNodeID p)]
       @ replicate (length bs) (ActionRestoreBackup, mp_targetNodeID p)
       @ [(ActionResumeApp, mp_targetNodeID p), source_removal p])"

abbreviation orderly :: "migration \<Rightarrow> migration_outcome \<Rightarrow> (TaskAction \<times> string) list \<Rightarrow> bool" where
  "orderly p x xs \<equiv> x \<noteq> Completed \<and> (source_removal p \<in> set xs \<longrightarrow> complete_trace p xs)"

lemma traces_phase:
  assumes m: "traces n (early p) A m" and xs: "source_removal p \<notin> set xs"
    and f: "\<And>y ys k. A y ys k \<Longrightarrow> traces k (\<lambda>x zs. orderly p x ((xs @ ys) @ zs)) (\<lambda>z zs. B z ((xs @ ys) @ zs)) (f y)"
  shows "traces n (\<lambda>x ys. orderly p x (xs @ ys)) (\<lambda>z ys. B z (xs @ ys)) (attempt m f)"
proof (rule traces_attempt)
  show "traces n (\<lambda>x ys. orderly p x (xs @ ys)) A m" by (rule traces_weaken [OF m]) (use xs in auto)
qed (use f in simp)

lemma traces_backups:
  "(\<And>y. length y = n \<Longrightarrow> traces n E A (f y)) \<Longrightarrow> traces n E A (field mr_freshBackupIDs \<bind> f)"
  by (auto simp: traces_def field_def)

lemma migration_traces:
  assumes two: "two_nodes p"
  shows "traces 0 (\<lambda>x xs. orderly p x ([] @ xs)) (\<lambda>_ xs _. complete_trace p ([] @ xs))
    (attempt (prepare_migration h p) (\<lambda>_.
       attempt (pause_source h p) (\<lambda>_.
       attempt (provision_target h p) (\<lambda>_. do {
         backups \<leftarrow> field mr_freshBackupIDs;
         attempt (restore_backups h p backups) (\<lambda>_.
         attempt (resume_target h p) (\<lambda>hostPorts.
         attempt (validate_target h p) (\<lambda>_.
         attempt (cutover h p hostPorts) (\<lambda>_. remove_source h p))))
       }))))"
proof -
  have last: "traces k (\<lambda>x zs. orderly p x (xs @ zs)) (\<lambda>_ zs _. complete_trace p (xs @ zs)) (remove_source h p)"
    if "complete_trace p (xs @ [source_removal p])" "source_removal p \<notin> set xs" for k xs
    by (rule traces_weaken [OF remove_traces]) (use that in auto)
  have free: "source_removal p \<notin> set bs" if "set bs \<subseteq> backup_ops p" for bs
    using that by (auto simp: backup_ops_def)
  show ?thesis
    apply (rule traces_phase [OF prepare_traces], simp)
    apply (rule traces_phase [OF pause_traces [OF two]], simp add: free)
    apply (rule traces_phase [OF provision_traces [OF two]], simp add: free)
    apply (rule traces_backups)
    apply (rule traces_phase [OF restore_traces [OF two]], simp add: free)
    apply (rule traces_phase [OF resume_traces [OF two]], simp add: free)
    apply (rule traces_phase [OF validate_traces [OF two]], simp add: free)
    apply (rule traces_phase [OF cutover_traces [OF two]], simp add: free)
    apply (rule last)
     apply (auto simp: complete_trace_def free)
    done
qed


text \<open>
  A migration that completes: between two calls of the coordinator the nodes finish every open operation and
  backup and report the instance healthy.  The database fails once, when the policy of the source is
  recomputed, which the coordinator survives.
\<close>

definition demo_nodes_work :: "api \<Rightarrow> api" where
  "demo_nodes_work a = a\<lparr>api_db := (api_db a)\<lparr>tables := (tables (api_db a))\<lparr>
     st_operations := map (\<lambda>x. x\<lparr>op_Status := ''succeeded''\<rparr>) (st_operations (tables (api_db a))),
     st_backup_records := map (\<lambda>x. x\<lparr>brr_record := (brr_record x)\<lparr>br_Status := ''succeeded'', br_ChecksumSHA256 := replicate 64 CHR ''a''\<rparr>\<rparr>)
       (st_backup_records (tables (api_db a))),
     st_apps := map (\<lambda>x. x\<lparr>ca_HealthStatus := ''healthy'', ca_LastHealthChecked := Some 1, ca_LastHealthBootID := ''b1''\<rparr>)
       (st_apps (tables (api_db a)))\<rparr>\<rparr>\<rparr>"

definition demo_others :: "nat \<Rightarrow> api \<Rightarrow> api" where
  "demo_others n a = (let b = demo_nodes_work a in if n = 41 then b\<lparr>api_db := (api_db b)\<lparr>faults := [True]\<rparr>\<rparr> else b)"

definition demo_storage :: storage_config_row where
  "demo_storage = \<lparr>scr_config = \<lparr>sc_ID = ''s'', sc_Backend = ''s3'', sc_Enabled = True, sc_Endpoint = '''', sc_Region = '''',
     sc_Bucket = ''b'', sc_Prefix = ''p'', sc_ForcePathStyle = False, sc_AccessKeyEnv = '''', sc_SecretKeyEnv = '''',
     sc_SessionTokenEnv = '''', sc_CreatedAt = '''', sc_UpdatedAt = ''''\<rparr>, scr_created_at = 0, scr_updated_at = 0\<rparr>"

definition demo_two_nodes :: api where
  "demo_two_nodes = \<lparr>api_db = \<lparr>tables = empty_store\<lparr>st_nodes := [demo_worker\<lparr>n_BootID := ''b1'', n_LastHeartbeat := Some 0\<rparr>,
        demo_worker\<lparr>n_ID := ''n2'', n_BootID := ''b1'', n_LastHeartbeat := Some 0\<rparr>],
      st_definitions := [demo_definition], st_apps := [Store_Props.demo_app], st_storage_configs := [demo_storage],
      st_operations := [new_operation ''m1'' (Some ''i1'') ''n1'' '''' ''migrate'' ''running'' ''admin'' None 0]\<rparr>,
      db_clock = 0, app_clock = 0, faults = []\<rparr>, api_queue = Queue_Props.demo_conn [] 0\<rparr>"

definition demo_migration :: migration where
  "demo_migration = \<lparr>mp_opID = ''m1'', mp_instID = ''i1'', mp_customerID = ''c1'', mp_sourceNodeID = ''n1'', mp_targetNodeID = ''n2'',
     mp_rawYAML = ''v1'', mp_tier = Policy_Props.demo_tier, mp_logicalInstanceID = ''i1'', mp_world = demo_others,
     mp_draws = (\<lambda>n. demo_draw\<lparr>dr_op := replicate n 0, dr_task := replicate n 0,
        dr_entropy := demo_entropy\<lparr>ent_uuid := Some (replicate n 0)\<rparr>\<rparr>), mp_op_polls = 1, mp_backup_polls = 1,
     mp_health_polls = 1, mp_singleNode = False\<rparr>"

definition demo_migration_start :: migration_run where
  "demo_migration_start = \<lparr>mr_api = demo_two_nodes, mr_calls = 0, mr_drawn = 0, mr_currentStep = ''starting'', mr_savedRoutes = [],
     mr_freshBackupIDs = [], mr_sourceStopped = False, mr_targetProvisionAttempted = False, mr_targetCapacityReserved = False,
     mr_dispatched = []\<rparr>"

definition demo_migration_handlers :: handlers where
  "demo_migration_handlers = demo_handlers\<lparr>h_codec := demo_crypto\<lparr>sha1 := (\<lambda>s. replicate (8 + length s div 2) 0)\<rparr>,
     h_publisher := NewPublisher (replicate 32 CHR ''k'') '''',
     h_parse_float := demo_parse, h_yaml := (\<lambda>_. Some \<lparr>app_Name = ''wiki'', app_DisplayName = '''',
     app_Description = '''', app_Environment = [], app_Services = [(''web'', zero_service\<lparr>svc_Image := ''nginx'',
       svc_Volume := ''data'', svc_Backup := Some \<lparr>bak_Type = ''volume'', bak_Engine = '''', bak_DatabaseEnv = '''', bak_UsernameEnv = '''',
       bak_PasswordEnv = ''''\<rparr>\<rparr>)],
     app_SharedVolumes = [], app_Secrets = [], app_Tiers = []\<rparr>)\<rparr>"

lemma demo_migration_completes:
  "fst (run_state (runMigration demo_migration_handlers demo_migration) demo_migration_start) = Completed"
  by code_simp


end
