(* ===== verification/Spec2Isabelle.thy ===== *)
theory Spec2Isabelle
  imports Queue_Nodes Validation_Accept Store_Limits Policy_Props Task_Env_Props Secrets_Props Networking_Props Callback_Props
    Scheduler_Props Migration_Props
begin

text \<open>
  A verification library for \<^verbatim>\<open>admirald\<close>, the control plane of a fleet of container hosts.

  \<^bold>\<open>The program.\<close>  Operators and a customer portal call an HTTP interface (\<^verbatim>\<open>src/internal/api\<close>) that keeps nodes,
  application definitions, instances, operations, routes, backups and secrets in a PostgreSQL database
  (\<^verbatim>\<open>src/internal/database\<close>, \<open>the store\<close>) and hands work to the nodes through a second database, a queue of
  signed and encrypted commands (\<^verbatim>\<open>src/internal/queue\<close>).  A node claims a command, runs it, and reports
  the result in a callback that closes the operation and updates the store; public routes are
  reconciled with a Caddy proxy (\<^verbatim>\<open>src/internal/networking\<close>).

  \<^bold>\<open>The model.\<close>  \<open>Prelude\<close> holds what everything shares: Go's errors (\<open>err\<close>, with \<^verbatim>\<open>errors.Is\<close> and panics), a database
  connection (\<open>conn\<close>: the tables, the server's clock, the program's clock, and a schedule of faults that says
  which statements fail), SQL statements as functions on lists of rows, transactions that put the
  tables back, strings, maps as association lists, 64-bit arithmetic, and a contract logic (locales
  \<open>io_contract\<close>, \<open>table_contract\<close>, \<open>unique_key\<close>) in which invariants and frames are proved once for each
  construct of the state monad.  Every operation of the source is a definition of type \<open>('s, err + 'a) state\<close> whose
  branches are the source's conditions and early returns; any statement may fail in any theorem that does
  not exclude it.

  \<^item> \<open>Types\<close>: the structs of \<^verbatim>\<open>src/pkg/admiral\<close> (\<^verbatim>\<open>tasks.go\<close>, \<^verbatim>\<open>api.go\<close>, \<^verbatim>\<open>queue.go\<close>).  \<open>Float64\<close>: Go's \<^verbatim>\<open>float64\<close> as far as
    the sources compute with it.
  \<^item> \<open>Queue\<close>: \<^verbatim>\<open>internal/queue/queue.go\<close>, every method of \<^verbatim>\<open>Publisher\<close>.  \<open>Queue_Inv\<close> (invariant over all reachable
    states), \<open>Queue_Props\<close> (claims, leases, bounded deliveries), \<open>Queue_Flow\<close> (publication, round trip), \<open>Queue_Nodes\<close>
    (isolation of nodes, cancelling, failures, the undecodable command): C1 to C12.
  \<^item> \<open>Validation\<close>: \<^verbatim>\<open>pkg/admiral/validation.go\<close> and \<^verbatim>\<open>image_reference.go\<close>.  \<open>Validation_Props\<close> (the depth-first search for
    dependency cycles against reachability), \<open>Validation_Accept\<close> (acceptance against a declarative
    specification, order independence, image references): C13 to C15.
  \<^item> \<open>Store\<close>, \<open>Store_Nodes\<close>, \<open>Store_Apps\<close>, \<open>Store_Catalog\<close>, \<open>Store_Access\<close>: \<^verbatim>\<open>internal/database\<close>, statement by statement.
    \<open>Store_Inv\<close> and \<open>Store_Reach\<close> (keys and references in every reachable store), \<open>Store_Provision\<close>
    (idempotent provisioning as a refinement of a map, capacity), \<open>Store_Props\<close> (availability, reboots, removal
    of nodes), \<open>Store_Limits\<close> (migrations, rate limits, pages, rotation, definitions): C18 to C28 and C31 except C21.
  \<^item> \<open>Policy\<close>: \<^verbatim>\<open>internal/database/capacity.go\<close> and \<^verbatim>\<open>internal/api/handlers_policy.go\<close>.  \<open>Policy_Props\<close>: the commit limits
    and health of a node equal an integer specification, the choice of a node is optimal and agrees with
    the reservation, binary units cannot be placed: C32 to C35.
  \<^item> \<open>Task_Env\<close>: \<^verbatim>\<open>tier_env.go\<close>, \<^verbatim>\<open>backup_services.go\<close> and the pure part of \<^verbatim>\<open>handlers_tasks.go\<close>.  \<open>Task_Env_Props\<close>: protected
    variables, meaning and termination of the resolution of references: C36, C37.
  \<^item> \<open>Secrets\<close>: \<^verbatim>\<open>internal/secrets/secrets.go\<close> and \<^verbatim>\<open>handlers_secrets_rotation.go\<close>; \<open>Secrets_Props\<close>: C40.
  \<^item> \<open>Caddy\<close> and \<open>Networking\<close>: \<^verbatim>\<open>internal/networking/caddy.go\<close> and \<^verbatim>\<open>manager.go\<close>; \<open>Networking_Props\<close>: what the proxy
    serves follows the store, C17, and a proxy without a configuration makes the reconciliation panic.
  \<^item> \<open>Api\<close>, \<open>Tasks\<close>, \<open>Fleet\<close>, \<open>Fleet_Callback\<close>: the handlers over both databases, \<^verbatim>\<open>handlers_tasks.go\<close> and
    \<^verbatim>\<open>handlers_fleet.go\<close>.  \<open>Fleet_Props\<close>: a claim delivers only current tasks, C38.  \<open>Callback_Props\<close>: a result takes
    effect once, C39.
  \<^item> \<open>Object_Storage\<close>: \<^verbatim>\<open>pkg/admiral/storage/s3.go\<close>, the client of the object storage, with its endpoint policy and
    signatures.  \<open>Scheduler\<close>: \<^verbatim>\<open>internal/api/scheduler.go\<close>, one iteration of the scheduler and of the verifier;
    \<open>Scheduler_Props\<close>: at most one scheduled backup in a period, C30, and the exception at midnight.
  \<^item> \<open>Backups\<close>: \<^verbatim>\<open>admin_backups.go\<close>, \<^verbatim>\<open>customer_backups.go\<close> and \<^verbatim>\<open>admin_storage.go\<close>, whole handlers from the decoded request to
    the status of the response; \<open>Backups_Props\<close>: customers see and change only what is theirs, C29.
  \<^item> \<open>Instance_Secrets\<close>: \<^verbatim>\<open>handlers_secrets.go\<close> and \<^verbatim>\<open>app_secrets.go\<close>: generation of the secrets of an instance, propagation of
    database credentials, and the redaction of literal secrets.  \<open>Instances\<close>: \<^verbatim>\<open>handlers_instances.go\<close> and
    \<^verbatim>\<open>provision_idempotency.go\<close>, the customer's endpoints for provisioning, actions and views.  \<open>Instances_Props\<close>: at most one
    instance for each idempotency key through the endpoint, C21, the answer to a retry, the guards of an
    action, and the agreement of database credentials.
  \<^item> \<open>Migration\<close>: \<^verbatim>\<open>runMigration\<close> of \<^verbatim>\<open>admin_instances.go\<close>, the goroutine that moves an instance to another node, with every
    rollback; what the other processes do to both databases before each of its calls is an arbitrary function.
    \<open>Admin_Instances\<close>: the rest of the file, the administrator's endpoints and the redaction of inspected environments.
    \<open>Migration_Props\<close>: a logic of the operations a run creates, and the source is removed last, C16.

  \<^bold>\<open>Parameters.\<close>  What is not in the repository is an argument: the JSON, YAML and base64 codecs, signatures and
  encryption (\<open>codec\<close>, \<open>secret_codec\<close>), parsing of numbers, times, addresses and URLs, the time zone database, random bytes,
  HTTP to the object storage, the proxy's administration interface, the answers of probed routes, and what other processes do
  between the calls of the migration coordinator.  Where a theorem relies on them it names the law it uses
  (such as that decryption undoes encryption), and its witness instantiates them.

  \<^bold>\<open>Bounds and fuel.\<close>  \<^verbatim>\<open>visit\<close> of the dependency check has fuel, the number of services, which C13 shows to be enough.
  The loop of a claim makes at most 128 rounds, as in the source.  The resolution of references is total with
  a measure.  The theorems on commit limits are for sizes up to \<open>2 ^ 50\<close> bytes, where the products of
  integers and ratios are exact enough; those on the choice of a node exclude sums that
  leave the 64-bit range.  The waits of a migration have their number of rounds until the timeout as an argument (900, 150
  and 120 with the timers of the source); C16 holds for all of them.  Recursion over the rows of a table is structural.

  \<^bold>\<open>Not modelled.\<close>  Log lines and audit events (they are output only); the decoding of requests, cookies, TLS and
  password hashing (\<^verbatim>\<open>middleware.go\<close>, \<^verbatim>\<open>admin_auth.go\<close>, \<^verbatim>\<open>node_auth.go\<close>, \<^verbatim>\<open>security\<close>): the handlers take the
  authenticated identity as an argument; the endpoints that only decode, call modelled operations and
  render (\<^verbatim>\<open>handlers_nodes.go\<close>, \<^verbatim>\<open>handlers_apps.go\<close>, \<^verbatim>\<open>admin_nodes.go\<close>); the tickers that call the scheduler; schema
  migrations; configuration and start of the process; the HTTP requests to Caddy and the certificate report.
\<close>

end
